(* ===== verification/Prelude.thy ===== *)
theory Prelude
  imports Main "HOL-Library.Product_Lexorder" "HOL-Library.List_Lexorder" "HOL-Library.Char_ord"
begin

text \<open>
  Shared vocabulary of the development. The code signals every failure by raising an
  exception; the model returns a value of a sum type, \<open>Inl\<close> for the exception and
  \<open>Inr\<close> for the normal result. \<open>bindR\<close> sequences two fallible steps and \<open>guardR\<close> is
  an \<open>if not b: raise e\<close>. The collection \<open>result_simps\<close> inverts a successful chain, so
  that one \<open>auto simp: f_def result_simps\<close> yields every guard of a handler.
\<close>

named_theorems result_simps \<open>inversion of fallible computations\<close>
named_theorems frame_simps \<open>fields an operation leaves unchanged\<close>

section \<open>Fallible computations\<close>

definition bindR :: "'e + 'a \<Rightarrow> ('a \<Rightarrow> 'e + 'b) \<Rightarrow> 'e + 'b" where
  "bindR m f = (case m of Inl e \<Rightarrow> Inl e | Inr x \<Rightarrow> f x)"

definition guardR :: "bool \<Rightarrow> 'e \<Rightarrow> 'e + unit" where
  "guardR b e = (if b then Inr () else Inl e)"

definition requireR :: "'a option \<Rightarrow> 'e \<Rightarrow> 'e + 'a" where
  "requireR x e = (case x of None \<Rightarrow> Inl e | Some y \<Rightarrow> Inr y)"

declare bindR_def [code_unfold] guardR_def [code_unfold]

lemma bindR_Inl [simp]: "bindR (Inl e) f = Inl e"
  by (simp add: bindR_def)

lemma bindR_Inr [simp]: "bindR (Inr x) f = f x"
  by (simp add: bindR_def)

lemma bindR_eq_Inr [result_simps]: "bindR m f = Inr y \<longleftrightarrow> (\<exists>x. m = Inr x \<and> f x = Inr y)"
  by (cases m) simp_all

lemma bindR_eq_Inl: "bindR m f = Inl e \<longleftrightarrow> m = Inl e \<or> (\<exists>x. m = Inr x \<and> f x = Inl e)"
  by (cases m) simp_all

lemma guardR_eq_Inr [result_simps]: "guardR b e = Inr u \<longleftrightarrow> b"
  by (simp add: guardR_def)

lemma guardR_eq_Inl: "guardR b e = Inl e' \<longleftrightarrow> \<not> b \<and> e' = e"
  by (auto simp: guardR_def)

lemma guardR_True [simp]: "guardR True e = Inr ()"
  by (simp add: guardR_def)

lemma guardR_False [simp]: "guardR False e = Inl e"
  by (simp add: guardR_def)

lemma requireR_eq_Inr [result_simps]: "requireR x e = Inr y \<longleftrightarrow> x = Some y"
  by (simp add: requireR_def split: option.splits)

lemma requireR_simps [simp]:
  "requireR None e = Inl e" "requireR (Some y) e = Inr y"
  by (simp_all add: requireR_def)

text \<open>A loop that may raise: over a list for its effect, collecting results, threading a state.\<close>

fun allR :: "('a \<Rightarrow> 'e + unit) \<Rightarrow> 'a list \<Rightarrow> 'e + unit" where
  "allR f [] = Inr ()"
| "allR f (x # xs) = bindR (f x) (\<lambda>_. allR f xs)"

fun mapR :: "('a \<Rightarrow> 'e + 'b) \<Rightarrow> 'a list \<Rightarrow> 'e + 'b list" where
  "mapR f [] = Inr []"
| "mapR f (x # xs) = bindR (f x) (\<lambda>y. bindR (mapR f xs) (\<lambda>ys. Inr (y # ys)))"

fun foldR :: "('s \<Rightarrow> 'a \<Rightarrow> 'e + 's) \<Rightarrow> 's \<Rightarrow> 'a list \<Rightarrow> 'e + 's" where
  "foldR f s [] = Inr s"
| "foldR f s (x # xs) = bindR (f s x) (\<lambda>s'. foldR f s' xs)"

lemma allR_Inr [result_simps]: "allR f xs = Inr u \<longleftrightarrow> (\<forall>x \<in> set xs. f x = Inr ())"
  by (induction xs) (auto simp: bindR_eq_Inr)

lemma allR_Inl: "allR f xs = Inl e \<Longrightarrow> \<exists>x \<in> set xs. f x = Inl e"
  by (induction xs) (auto simp: bindR_eq_Inl)

lemma mapR_Inr: "mapR f xs = Inr ys \<Longrightarrow> list_all2 (\<lambda>x y. f x = Inr y) xs ys"
  by (induction xs arbitrary: ys) (auto simp: bindR_eq_Inr)

lemma mapR_Inl: "mapR f xs = Inl e \<Longrightarrow> \<exists>x \<in> set xs. f x = Inl e"
  by (induction xs) (auto simp: bindR_eq_Inl)

lemma foldR_invariant:
  "foldR f s xs = Inr s' \<Longrightarrow> P s \<Longrightarrow> (\<And>s x s'. x \<in> set xs \<Longrightarrow> P s \<Longrightarrow> f s x = Inr s' \<Longrightarrow> P s') \<Longrightarrow> P s'"
  by (induction xs arbitrary: s) (auto simp: bindR_eq_Inr)

section \<open>Lists\<close>

text \<open>Python's \<open>next((x for x in xs if p(x)), None)\<close> is the library's \<open>find\<close>.\<close>

lemma find_SomeD: "find p xs = Some x \<Longrightarrow> x \<in> set xs \<and> p x"
  by (induction xs) (auto split: if_splits)

text \<open>
  \<open>sorted(xs, key=f)\<close> is the library's stable \<open>sort_key\<close>. The lemmas say that it only
  permutes.
\<close>

lemma insort_key_snoc: "f x \<le> f y \<Longrightarrow> insort_key f x (zs @ [y]) = insort_key f x zs @ [y]"
  by (induction zs) auto

lemma sort_key_snoc_max:
  "\<forall>x \<in> set xs. f x \<le> f y \<Longrightarrow> sort_key f (xs @ [y]) = sort_key f xs @ [y]"
  by (induction xs) (simp_all add: insort_key_snoc)

lemma filter_tail_cases:
  "filter p xs = drop (length xs - 2) xs \<Longrightarrow> distinct xs \<Longrightarrow> x \<in> set (filter p xs) \<Longrightarrow> x \<noteq> last xs
   \<Longrightarrow> \<exists>y ys. xs = ys @ [x, y]"
proof -
  assume eq: "filter p xs = drop (length xs - 2) xs" and x: "x \<in> set (filter p xs)" "x \<noteq> last xs"
  from x(1) have "x \<in> set (drop (length xs - 2) xs)" by (simp only: eq)
  then show ?thesis
    using x(2) by (cases xs rule: rev_cases; cases "butlast xs" rule: rev_cases) auto
qed

lemma filter_eq_singletonD: "filter p xs = [x] \<Longrightarrow> x \<in> set xs \<and> p x"
  by (metis filter_eq_Cons_iff in_set_conv_decomp)

lemma length_filter_le1_unique:
  assumes "length (filter p xs) \<le> 1" and "x \<in> set xs" and "p x" and "y \<in> set xs" and "p y"
  shows "x = y"
proof (cases "filter p xs")
  case Nil
  with assms show ?thesis by (metis filter_empty_conv)
next
  case (Cons z zs)
  with assms(1) have "filter p xs = [z]" by simp
  moreover have "x \<in> set (filter p xs)" and "y \<in> set (filter p xs)" using assms by simp_all
  ultimately show ?thesis by simp
qed

lemma last_snocD: "xs \<noteq> [] \<Longrightarrow> last xs = x \<Longrightarrow> x \<in> set xs"
  by auto

end
