(* ===== verification/ApiDomain.thy ===== *)
theory ApiDomain
  imports PyText
begin

text \<open>
  The value types of the Context API (\<open>api/domain.py\<close>, \<open>api/errors.py\<close>): actors, grants,
  drafts and their review and approval decisions, published manifests, supersessions, audit
  events, mutation receipts and commands. A class is a record with the source's fields, an enum
  is a datatype, and a pydantic validator is a predicate on the record. A timestamp is an \<open>int\<close>,
  the microseconds of a UTC instant; a revision is a \<open>nat\<close>. The part of a manifest that the
  service never inspects is a type parameter \<open>'b\<close>.
\<close>

section \<open>Errors\<close>

text \<open>
  The exception classes of \<open>api/errors.py\<close> that the modelled operations raise, \<open>ValueError\<close>,
  and \<open>ValidationError\<close>, which a pydantic constructor raises. Messages are not modelled.
\<close>

datatype api_error =
    AuthorizationError | ResourceNotFoundError | DuplicateDraftError | DuplicateVersionError
  | InvalidTransitionError | StaleRevisionError | VersionMismatchError | DigestMismatchError
  | ManifestValidationError | StaleApprovalError | IdempotencyConflictError
  | AmbiguousLookupError | AlreadySupersededError | PersistenceConflictError
  | AuditIntegrityError | StaleEvidenceSnapshotError | OperationalContextReceiptError
  | ValueError | ValidationError

section \<open>Identifiers, digests and versions\<close>

definition id_char :: "char \<Rightarrow> bool" where
  "id_char c \<longleftrightarrow> is_alnum c \<or> c = CHR ''.'' \<or> c = CHR ''_'' \<or> c = CHR ''-''"

text \<open>\<open>_ID_PATTERN\<close>: one letter or digit, then at most 127 identifier characters.\<close>

definition id_ok :: "string \<Rightarrow> bool" where
  "id_ok s \<longleftrightarrow> s \<noteq> [] \<and> is_alnum (hd s) \<and> list_all id_char (tl s) \<and> length (tl s) \<le> 127"

definition ensure_concrete_workload_id :: "string \<Rightarrow> api_error + string" where
  "ensure_concrete_workload_id value =
     (if value = ''*'' then Inl ValueError
      else if \<not> id_ok value then Inl ValueError
      else Inr value)"

lemma id_ok_length: "id_ok s \<Longrightarrow> length s \<le> 128"
  by (cases s) (auto simp: id_ok_def)

lemma id_ok_append: "id_ok s \<Longrightarrow> list_all id_char t \<Longrightarrow> length (s @ t) \<le> 128 \<Longrightarrow> id_ok (s @ t)"
  by (cases s) (auto simp: id_ok_def)

lemma id_char_digits: "list_all is_digit s \<Longrightarrow> list_all id_char s"
  by (auto simp: list_all_iff id_char_def is_alnum_def)

text \<open>
  \<open>_VERSION_PATTERN\<close> admits exactly the texts \<open>major.minor.patch\<close> of three numerals without
  leading zeros, so the model keeps a version as its triple of numbers. (The limit of 4300 digits
  that Python puts on reading a number is not modelled.)
\<close>

datatype version = Version (major: nat) (minor: nat) (patch: nat)

definition version_key :: "version \<Rightarrow> nat \<times> nat \<times> nat" where
  "version_key v = (major v, minor v, patch v)"

lemma version_key_inject [simp]: "version_key v = version_key w \<longleftrightarrow> v = w"
  by (cases v; cases w) (simp add: version_key_def)

instantiation version :: linorder
begin

definition less_eq_version :: "version \<Rightarrow> version \<Rightarrow> bool" where
  "v \<le> w \<longleftrightarrow> version_key v \<le> version_key w"

definition less_version :: "version \<Rightarrow> version \<Rightarrow> bool" where
  "v < w \<longleftrightarrow> version_key v < version_key w"

instance
  by standard (auto simp: less_eq_version_def less_version_def simp flip: version_key_inject)

end

section \<open>Timestamps\<close>

text \<open>
  A clock reading: whether it carries a time zone, and its instant in UTC microseconds.
  \<open>ensure_timestamp\<close> rejects naive readings and readings finer than a millisecond.
\<close>

record clock_reading =
  cr_aware :: bool
  cr_us :: int

definition ensure_timestamp :: "clock_reading \<Rightarrow> api_error + int" where
  "ensure_timestamp value =
     (if \<not> cr_aware value then Inl ValueError
      else if cr_us value mod 1000 \<noteq> 0 then Inl ValueError
      else Inr (cr_us value))"

section \<open>Actors, roles and grants\<close>

datatype actor_kind = Human | Agent | Service

record actor =
  actor_id :: string
  kind :: actor_kind

datatype role =
    Proposer | Reviewer | Approver | Publisher | Reader | Auditor | OperationalContextIssuer

datatype permission =
    CreateDraft | Read | ListPerm | UpdateDraft | Validate | Submit | Review | Approve | Publish
  | Supersede | Audit | IssueOperationalContext

datatype grant_scope = AllWorkloads | Workload string

record role_grant =
  rg_actor_id :: string
  rg_role :: role
  rg_scope :: grant_scope

section \<open>Manifests\<close>

record manifest_audit =
  published_by :: string
  published_at :: int
  approval_status :: string

record profile_decl =
  pd_profile_id :: string
  pd_profile_type :: string

text \<open>
  The manifest as the service sees it: the identity, version, digests, audit block and profile
  declarations it inspects, and the rest of the document as \<open>mf_body\<close>.
\<close>

record 'b manifest =
  mf_manifest_id :: string
  mf_version :: version
  mf_artifact_digest :: string
  mf_semantic_digest :: string
  mf_audit :: manifest_audit
  mf_profiles :: "profile_decl list"
  mf_body :: 'b

section \<open>Drafts and decisions\<close>

datatype draft_state = Draft | Validated | InReview | Approved | Published | Superseded

record validation_record =
  validated_by :: actor
  validated_at :: int
  validated_revision :: nat
  vr_manifest_digest :: string

record review_submission =
  submitted_by :: actor
  submitted_at :: int
  submitted_revision :: nat
  publication_candidate_digest :: string
  rs_reason :: string

record publication_candidate =
  finalized_by :: actor
  finalized_at :: int
  pc_manifest_version :: version
  pc_manifest_digest :: string
  pc_semantic_digest :: string
  pc_approval_status :: string

datatype review_decision_kind = ReviewApproved | ChangesRequested

record review_decision =
  rd_decision_id :: string
  rd_decision :: review_decision_kind
  reviewed_by :: actor
  reviewed_at :: int
  reviewed_revision :: nat
  rd_manifest_version :: version
  rd_manifest_digest :: string
  rd_comments :: string
  rd_rejected_fields :: "string list"
  rd_required_corrections :: "string list"

record approval_decision =
  ad_decision_id :: string
  approved_by :: actor
  approved_at :: int
  approved_revision :: nat
  ad_manifest_version :: version
  ad_manifest_digest :: string
  ad_review_decision_id :: "string option"
  ad_receipt_id :: "string option"
  ad_reason :: string

record 'b draft_record =
  draft_id :: string
  dr_manifest_id :: string
  dr_state :: draft_state
  revision :: nat
  dr_manifest :: "'b manifest"
  dr_manifest_digest :: string
  dr_previous_version :: "version option"
  rollback_source_version :: "version option"
  created_by :: actor
  created_at :: int
  updated_by :: actor
  updated_at :: int
  dr_reason :: string
  validation :: "validation_record option"
  review :: "review_submission option"
  dr_candidate :: "publication_candidate option"
  review_decisions :: "review_decision list"
  approval :: "approval_decision option"

record 'b published_manifest =
  pm_manifest_id :: string
  pm_version :: version
  pm_manifest_digest :: string
  pm_manifest :: "'b manifest"
  source_draft_id :: string
  source_draft_revision :: nat
  pm_previous_version :: "version option"
  pm_approval :: approval_decision
  pm_published_by :: actor
  pm_published_at :: int
  publication_authorized_by :: actor
  publication_authorized_at :: int
  pm_receipt_id :: "string option"
  pm_reason :: string

record supersession =
  ss_manifest_id :: string
  superseded_version :: version
  replacement_version :: version
  superseded_by :: actor
  superseded_at :: int
  ss_reason :: string

section \<open>Audit events and receipts\<close>

datatype audit_action =
    DraftCreated | DraftReplaced | DraftValidated | ReviewSubmitted | ReviewRecorded
  | DraftApproved | VersionPublished | VersionSuperseded | DemoEvaluationApprovalCreated
  | DemoEvaluationApprovalRevoked | CohortDecisionRecorded

record pending_audit_event =
  occurred_at :: int
  ae_actor :: actor
  ae_action :: audit_action
  ae_manifest_id :: string
  ae_draft_id :: "string option"
  ae_revision :: "nat option"
  ae_previous_revision :: "nat option"
  ae_manifest_version :: "version option"
  ae_previous_version :: "version option"
  ae_replacement_version :: "version option"
  ae_publication_actor :: "actor option"
  ae_publication_timestamp :: "int option"
  ae_manifest_digest :: string
  ae_reason :: string

text \<open>\<open>AuditEvent\<close> extends the pending event with its place in the chain.\<close>

record audit_event = pending_audit_event +
  ae_sequence :: nat
  event_id :: string
  previous_event_digest :: "string option"
  event_digest :: string

record mutation_target =
  mt_draft_id :: "string option"
  mt_manifest_id :: "string option"
  mt_manifest_version :: "version option"

record operational_receipt =
  receipt_id :: string
  issued_by :: actor
  issued_at :: int
  or_manifest_id :: string
  or_manifest_version :: version
  or_profile_id :: string
  or_draft_id :: string
  or_draft_revision :: nat
  or_manifest_digest :: string
  or_profile_digest :: string
  or_snapshot_id :: string
  or_collected_at :: int
  or_expires_at :: int
  or_evidence_count :: nat
  or_evidence_inventory_digest :: string
  or_content_digest :: string
  or_binding_digest :: string
  or_receipt_digest :: string

record selector_baseline =
  sb_draft_id :: string
  sb_manifest_id :: string
  sb_manifest_version :: version
  sb_source_manifest_digest :: string
  sb_captured_by :: actor
  sb_captured_at :: int

end
