(* ===== verification/Commands.thy ===== *)
theory Commands
  imports ApiDomain
begin

text \<open>
  The commands a client sends to the Context API, with the pydantic validators of their classes
  as predicates, the responses, and the mutation receipt that makes a mutation idempotent
  (\<open>api/domain.py\<close>, \<open>api/operational_context.py\<close>).
\<close>

section \<open>Field constraints\<close>

definition digest_ok :: "string \<Rightarrow> bool" where
  "digest_ok s \<longleftrightarrow> take 7 s = ''sha256:'' \<and> length s = 71 \<and>
     list_all (\<lambda>c. is_digit c \<or> (97 \<le> code_point c \<and> code_point c \<le> 102)) (drop 7 s)"

lemma digest_ok_code [code]:
  "digest_ok s \<longleftrightarrow> take 7 s = ''sha256:'' \<and> length s = 71
     \<and> list_all (\<lambda>c. c \<in> set ''0123456789abcdef'') (drop 7 s)"
proof -
  have "is_digit c \<or> (97 \<le> code_point c \<and> code_point c \<le> 102) \<longleftrightarrow> c \<in> set ''0123456789abcdef''" for c
    by (cases c) (auto simp: is_digit_def code_point_def of_char_def)
  then show ?thesis by (simp add: digest_ok_def)
qed

definition reason_ok :: "string \<Rightarrow> bool" where
  "reason_ok s \<longleftrightarrow> 3 \<le> length s \<and> length s \<le> 500"

definition workload_id_ok :: "string \<Rightarrow> bool" where
  "workload_id_ok s \<longleftrightarrow> ensure_concrete_workload_id s = Inr s"

section \<open>Commands\<close>

record 'b create_command =
  cc_draft_id :: string
  cc_manifest :: "'b manifest"
  cc_manifest_digest :: string
  cc_previous_version :: "version option"
  cc_rollback_source :: "version option"
  cc_reason :: string

definition create_command_ok :: "'b create_command \<Rightarrow> bool" where
  "create_command_ok c \<longleftrightarrow>
     id_ok (cc_draft_id c) \<and> digest_ok (cc_manifest_digest c) \<and> reason_ok (cc_reason c)
     \<and> workload_id_ok (mf_manifest_id (cc_manifest c))
     \<and> (case cc_rollback_source c of None \<Rightarrow> True
        | Some source \<Rightarrow> cc_previous_version c \<noteq> None \<and> cc_previous_version c \<noteq> Some source)"

record 'b replace_command =
  rc_expected_revision :: nat
  rc_expected_version :: version
  rc_expected_digest :: string
  replacement_manifest :: "'b manifest"
  rc_replacement_digest :: string
  rc_reason :: string

definition replace_command_ok :: "'b replace_command \<Rightarrow> bool" where
  "replace_command_ok c \<longleftrightarrow>
     1 \<le> rc_expected_revision c \<and> digest_ok (rc_expected_digest c)
     \<and> digest_ok (rc_replacement_digest c) \<and> reason_ok (rc_reason c)
     \<and> workload_id_ok (mf_manifest_id (replacement_manifest c))"

record transition_command =
  expected_revision :: nat
  expected_version :: version
  expected_digest :: string
  tc_reason :: string

definition transition_command_ok :: "'z transition_command_scheme \<Rightarrow> bool" where
  "transition_command_ok c \<longleftrightarrow>
     1 \<le> expected_revision c \<and> digest_ok (expected_digest c) \<and> reason_ok (tc_reason c)"

record review_command = transition_command +
  decision :: review_decision_kind
  comments :: string
  rejected_fields :: "string list"
  required_corrections :: "string list"

text \<open>\<open>str.strip\<close> on the white space of ASCII text.\<close>

definition is_space :: "char \<Rightarrow> bool" where
  "is_space c \<longleftrightarrow> code_point c = 32 \<or> (9 \<le> code_point c \<and> code_point c \<le> 13)
     \<or> (28 \<le> code_point c \<and> code_point c \<le> 31)"

definition strip :: "string \<Rightarrow> string" where
  "strip s = rev (dropWhile is_space (rev (dropWhile is_space s)))"

definition review_command_ok :: "review_command \<Rightarrow> bool" where
  "review_command_ok c \<longleftrightarrow>
     transition_command_ok c
     \<and> 3 \<le> length (comments c) \<and> length (comments c) \<le> 2000
     \<and> length (rejected_fields c) \<le> 100 \<and> length (required_corrections c) \<le> 100
     \<and> distinct (rejected_fields c) \<and> distinct (required_corrections c)
     \<and> list_all (\<lambda>f. take 1 f = ''/'' \<and> length f \<le> 512) (rejected_fields c)
     \<and> list_all (\<lambda>t. strip t \<noteq> [] \<and> t = strip t \<and> length t \<le> 500) (required_corrections c)
     \<and> (decision c = ReviewApproved \<longrightarrow> rejected_fields c = [] \<and> required_corrections c = [])
     \<and> (decision c = ChangesRequested \<longrightarrow> required_corrections c \<noteq> [])"

record approve_command = transition_command +
  ac_receipt_id :: string

definition approve_command_ok :: "approve_command \<Rightarrow> bool" where
  "approve_command_ok c \<longleftrightarrow> transition_command_ok c \<and> id_ok (ac_receipt_id c)"

record publish_command = transition_command +
  approval_id :: string
  pub_receipt_id :: string

definition publish_command_ok :: "publish_command \<Rightarrow> bool" where
  "publish_command_ok c \<longleftrightarrow>
     transition_command_ok c \<and> id_ok (approval_id c) \<and> id_ok (pub_receipt_id c)"

record supersede_command =
  sc_expected_revision :: nat
  sc_expected_version :: version
  sc_expected_digest :: string
  sc_replacement_version :: version
  sc_replacement_digest :: string
  sc_reason :: string

definition supersede_command_ok :: "supersede_command \<Rightarrow> bool" where
  "supersede_command_ok c \<longleftrightarrow>
     1 \<le> sc_expected_revision c \<and> digest_ok (sc_expected_digest c)
     \<and> digest_ok (sc_replacement_digest c) \<and> reason_ok (sc_reason c)"

text \<open>An inventory item is the pair of its reference and its digest.\<close>

record issue_command =
  ic_manifest_id :: string
  ic_manifest_version :: version
  ic_profile_id :: string
  ic_draft_id :: string
  ic_draft_revision :: nat
  ic_manifest_digest :: string
  ic_profile_digest :: string
  ic_snapshot_id :: string
  ic_collected_at :: int
  ic_expires_at :: int
  ic_evidence_inventory :: "(string \<times> string) list"
  ic_evidence_inventory_digest :: string
  ic_content_digest :: string
  ic_binding_digest :: string

datatype 'b command =
    CmdCreate "'b create_command"
  | CmdReplace "'b replace_command"
  | CmdTransition transition_command
  | CmdReview review_command
  | CmdApprove approve_command
  | CmdPublish publish_command
  | CmdSupersede supersede_command
  | CmdIssue issue_command

section \<open>Responses and receipts\<close>

datatype 'b response =
    RDraft "'b draft_record"
  | RPublished "'b published_manifest"
  | RSupersession supersession
  | RReceipt operational_receipt

fun response_type :: "'b response \<Rightarrow> string" where
  "response_type (RDraft _) = ''DraftRecord''"
| "response_type (RPublished _) = ''PublishedManifest''"
| "response_type (RSupersession _) = ''Supersession''"
| "response_type (RReceipt _) = ''OperationalContextReceipt''"

text \<open>
  A receipt keeps the response as the JSON text it was written as (\<open>response_json\<close>), with the
  name of the model class that reads it back.
\<close>

record mutation_receipt =
  mr_actor_id :: string
  mr_idempotency_key :: string
  mr_operation :: string
  mr_target :: mutation_target
  mr_request_digest :: string
  mr_response_type :: string
  mr_response_json :: string

definition mutation_target_ok :: "mutation_target \<Rightarrow> bool" where
  "mutation_target_ok t \<longleftrightarrow>
     (mt_draft_id t \<noteq> None \<or> mt_manifest_id t \<noteq> None)
     \<and> (mt_manifest_version t \<noteq> None \<longrightarrow> mt_manifest_id t \<noteq> None)"

lemma workload_id_ok_iff: "workload_id_ok s \<longleftrightarrow> s \<noteq> ''*'' \<and> id_ok s"
  by (simp add: workload_id_ok_def ensure_concrete_workload_id_def)

lemma star_not_id: "\<not> id_ok ''*''"
  by code_simp

end
