(* ===== verification/AuditChain.thy ===== *)
theory AuditChain
  imports Commands
begin

text \<open>
  The audit history (\<open>api/audit.py\<close>, and \<open>append_audit\<close> of \<open>api/memory.py\<close>): every event
  carries its sequence number, an identifier derived from it, the digest of its predecessor and
  its own digest. The digest function (RFC 8785 JSON and SHA-256, from third-party packages) is
  the parameter \<open>H\<close>; no lemma here assumes anything of it.
\<close>

type_synonym audit_hash = "nat \<Rightarrow> string \<Rightarrow> string option \<Rightarrow> pending_audit_event \<Rightarrow> string"

definition audit_event_id :: "nat \<Rightarrow> string" where
  "audit_event_id n = ''audit-'' @ zfill 8 (decimal n)"

definition pending_of :: "audit_event \<Rightarrow> pending_audit_event" where
  "pending_of e = pending_audit_event.truncate e"

definition seal_event ::
    "audit_hash \<Rightarrow> pending_audit_event \<Rightarrow> nat \<Rightarrow> string option \<Rightarrow> audit_event" where
  "seal_event H p n prev =
     pending_audit_event.extend p
       (audit_event.fields n (audit_event_id n) prev (H n (audit_event_id n) prev p))"

fun verify_from :: "audit_hash \<Rightarrow> nat \<Rightarrow> string option \<Rightarrow> audit_event list \<Rightarrow> api_error + unit" where
  "verify_from H n prev [] = Inr ()"
| "verify_from H n prev (e # es) =
     (if ae_sequence e \<noteq> n \<or> event_id e \<noteq> audit_event_id n \<or> previous_event_digest e \<noteq> prev
      then Inl AuditIntegrityError
      else if event_digest e \<noteq> H n (audit_event_id n) prev (pending_of e)
      then Inl AuditIntegrityError
      else verify_from H (n + 1) (Some (event_digest e)) es)"

definition verify_audit_chain :: "audit_hash \<Rightarrow> audit_event list \<Rightarrow> api_error + unit" where
  "verify_audit_chain H es = verify_from H 1 None es"

definition head_digest :: "audit_event list \<Rightarrow> string option" where
  "head_digest es = (if es = [] then None else Some (event_digest (last es)))"

text \<open>
  \<open>append_audit\<close> verifies the whole history, then seals the event. \<open>event_id\<close> must match
  \<open>audit-[0-9]{8}\<close>, so the constructor rejects a sequence number of nine digits.
\<close>

definition append_audit ::
    "audit_hash \<Rightarrow> pending_audit_event \<Rightarrow> audit_event list \<Rightarrow> api_error + audit_event list" where
  "append_audit H p es =
     bindR (verify_audit_chain H es) (\<lambda>_.
     let n = length es + 1
     in if length (zfill 8 (decimal n)) \<noteq> 8 then Inl ValidationError
        else Inr (es @ [seal_event H p n (head_digest es)]))"

section \<open>Sealed events\<close>

lemma seal_event_fields [simp]:
  "ae_sequence (seal_event H p n prev) = n"
  "event_id (seal_event H p n prev) = audit_event_id n"
  "previous_event_digest (seal_event H p n prev) = prev"
  "event_digest (seal_event H p n prev) = H n (audit_event_id n) prev p"
  "pending_of (seal_event H p n prev) = p"
  by (simp_all add: seal_event_def pending_of_def pending_audit_event.defs audit_event.defs)

lemma pending_of_fields [simp]:
  "ae_draft_id (pending_of e) = ae_draft_id e"
  "ae_revision (pending_of e) = ae_revision e"
  "ae_action (pending_of e) = ae_action e"
  "ae_actor (pending_of e) = ae_actor e"
  "ae_manifest_id (pending_of e) = ae_manifest_id e"
  "ae_manifest_digest (pending_of e) = ae_manifest_digest e"
  by (simp_all add: pending_of_def pending_audit_event.defs)

lemma audit_event_eqI:
  "pending_of d = pending_of e \<Longrightarrow> ae_sequence d = ae_sequence e \<Longrightarrow> event_id d = event_id e \<Longrightarrow>
   previous_event_digest d = previous_event_digest e \<Longrightarrow> event_digest d = event_digest e \<Longrightarrow> d = e"
  for d e :: audit_event
  by (cases d; cases e) (simp add: pending_of_def pending_audit_event.defs)

section \<open>Verification along a history\<close>

lemma head_digest_snoc [simp]: "head_digest (es @ [e]) = Some (event_digest e)"
  by (simp add: head_digest_def)

lemma head_digest_Nil [simp]: "head_digest [] = None"
  by (simp add: head_digest_def)

lemma verify_from_append:
  "verify_from H n prev (ds @ es) = bindR (verify_from H n prev ds)
     (\<lambda>_. verify_from H (n + length ds) (if ds = [] then prev else head_digest ds) es)"
proof (induction ds arbitrary: n prev)
  case Nil
  then show ?case by simp
next
  case (Cons d ds)
  then show ?case by (cases "ds = []") (simp_all add: head_digest_def)
qed

lemma verify_chain_snoc [result_simps]:
  "verify_audit_chain H (es @ [e]) = Inr u \<longleftrightarrow>
     verify_audit_chain H es = Inr ()
     \<and> ae_sequence e = length es + 1 \<and> event_id e = audit_event_id (length es + 1)
     \<and> previous_event_digest e = head_digest es
     \<and> event_digest e = H (length es + 1) (audit_event_id (length es + 1)) (head_digest es) (pending_of e)"
  by (auto simp: verify_audit_chain_def verify_from_append result_simps head_digest_def)

lemma verify_chain_Nil [simp]: "verify_audit_chain H [] = Inr ()"
  by (simp add: verify_audit_chain_def)

lemma verify_chain_errors: "verify_audit_chain H es = Inl e \<Longrightarrow> e = AuditIntegrityError"
proof -
  have "verify_from H n prev es = Inl e \<Longrightarrow> e = AuditIntegrityError" for n prev
    by (induction es arbitrary: n prev) (auto split: if_splits)
  then show "verify_audit_chain H es = Inl e \<Longrightarrow> e = AuditIntegrityError"
    by (simp add: verify_audit_chain_def)
qed

lemma verify_chain_nth:
  "verify_audit_chain H es = Inr u \<Longrightarrow> i < length es \<Longrightarrow>
   ae_sequence (es ! i) = i + 1 \<and> event_id (es ! i) = audit_event_id (i + 1)"
proof (induction es arbitrary: u rule: rev_induct)
  case Nil
  then show ?case by simp
next
  case (snoc e es)
  then show ?case
    by (cases "i = length es") (auto simp: result_simps nth_append)
qed

section \<open>Appending\<close>

lemma append_audit_eq_Inr [result_simps]:
  "append_audit H p es = Inr es' \<longleftrightarrow>
     verify_audit_chain H es = Inr () \<and> length (zfill 8 (decimal (length es + 1))) = 8
     \<and> es' = es @ [seal_event H p (length es + 1) (head_digest es)]"
  by (auto simp: append_audit_def result_simps Let_def)

lemma append_audit_verified: "append_audit H p es = Inr es' \<Longrightarrow> verify_audit_chain H es' = Inr ()"
  by (simp add: result_simps)

lemma decimal_length_le: "0 < k \<Longrightarrow> n < 10 ^ k \<Longrightarrow> length (decimal n) \<le> k"
proof (induction n arbitrary: k rule: decimal.induct)
  case (1 n)
  show ?case
  proof (cases "n < 10")
    case True
    with 1 show ?thesis by (subst decimal.simps) simp
  next
    case False
    then obtain j where k: "k = Suc j" "0 < j"
      using "1.prems" by (metis False gr0_implies_Suc neq0_conv power_Suc0_right One_nat_def)
    moreover from k "1.prems" have "n div 10 < 10 ^ j"
      by (simp add: less_mult_imp_div_less mult.commute)
    ultimately show ?thesis using False 1 by (subst decimal.simps) simp
  qed
qed

lemma append_audit_succeeds:
  "verify_audit_chain H es = Inr u \<Longrightarrow> length es < 99999999 \<Longrightarrow> \<exists>es'. append_audit H p es = Inr es'"
  using decimal_length_le[of 8 "length es + 1"] by (simp add: result_simps zfill_def)

section \<open>The head digest commits to the history\<close>

text \<open>
  \<open>sealed_inputs\<close> lists what the digest function was applied to. Two verified histories of one
  length with the same head digest are equal, unless the digest function collides on two of
  these inputs.
\<close>

definition sealed_inputs ::
    "audit_event list \<Rightarrow> (nat \<times> string \<times> string option \<times> pending_audit_event) set" where
  "sealed_inputs es =
     (\<lambda>e. (ae_sequence e, event_id e, previous_event_digest e, pending_of e)) ` set es"

definition collision :: "audit_hash \<Rightarrow> audit_event list \<Rightarrow> audit_event list \<Rightarrow> bool" where
  "collision H ds es \<longleftrightarrow>
     (\<exists>x \<in> sealed_inputs ds. \<exists>y \<in> sealed_inputs es. x \<noteq> y
        \<and> (\<lambda>(n, i, p, e). H n i p e) x = (\<lambda>(n, i, p, e). H n i p e) y)"

lemma collision_snoc: "collision H ds es \<Longrightarrow> collision H (ds @ [d]) (es @ [e])"
proof -
  have "sealed_inputs xs \<subseteq> sealed_inputs (xs @ [x])" for xs x
    by (auto simp: sealed_inputs_def)
  then show "collision H ds es \<Longrightarrow> collision H (ds @ [d]) (es @ [e])"
    unfolding collision_def by (meson subsetD)
qed

lemma head_digest_commits:
  assumes "length ds = length es"
    and "verify_audit_chain H ds = Inr ()" and "verify_audit_chain H es = Inr ()"
    and "head_digest ds = head_digest es"
  shows "ds = es \<or> collision H ds es"
  using assms
proof (induction ds arbitrary: es rule: rev_induct)
  case Nil
  then show ?case by simp
next
  case (snoc d ds)
  then obtain e es' where es: "es = es' @ [e]" and len: "length ds = length es'"
    by (cases es rule: rev_cases) auto
  let ?x = "(ae_sequence d, event_id d, previous_event_digest d, pending_of d)"
  let ?y = "(ae_sequence e, event_id e, previous_event_digest e, pending_of e)"
  have dig: "event_digest d = event_digest e"
    using snoc.prems es by simp
  have ver: "verify_audit_chain H (ds @ [d]) = Inr ()" "verify_audit_chain H (es' @ [e]) = Inr ()"
    using snoc.prems es by simp_all
  show ?case
  proof (cases "?x = ?y")
    case True
    then have "d = e" using dig by (auto intro: audit_event_eqI)
    moreover have "head_digest ds = head_digest es'"
      using True ver by (simp add: result_simps)
    then have "ds = es' \<or> collision H ds es'"
      using snoc.IH len ver by (simp add: result_simps)
    ultimately show ?thesis using es by (auto intro: collision_snoc)
  next
    case False
    have "H (ae_sequence d) (event_id d) (previous_event_digest d) (pending_of d)
        = H (ae_sequence e) (event_id e) (previous_event_digest e) (pending_of e)"
      using ver dig by (simp add: result_simps)
    with False have "collision H (ds @ [d]) es"
      unfolding collision_def sealed_inputs_def es
      by (intro bexI[of _ ?x] bexI[of _ ?y]) auto
    then show ?thesis by simp
  qed
qed

end
