(* ===== verification/Store.thy ===== *)
theory Store
  imports AuditChain "HOL-Library.AList"
begin

text \<open>
  The transactional in-memory store (\<open>InMemoryContextStore\<close> and \<open>_MemoryTransaction\<close> of
  \<open>api/memory.py\<close>). A Python dict is an association list updated in place
  (\<open>AList.update\<close> keeps the position of an existing key and appends a new one, as a dict does).
  A transaction works on a copy of the store's dicts, remembers the generation it started from and
  whether it wrote, and publishes the copy when its block ends without an exception. The lock makes
  transactions sequential, so a transaction is a function of the store. The dicts of the
  demo-evaluation and cohort-decision ports are not modelled.
\<close>

type_synonym ('k, 'v) dict = "('k \<times> 'v) list"

definition dict_get :: "('k, 'v) dict \<Rightarrow> 'k \<Rightarrow> 'v option" where
  "dict_get d k = map_of d k"

definition dict_set :: "'k \<Rightarrow> 'v \<Rightarrow> ('k, 'v) dict \<Rightarrow> ('k, 'v) dict" where
  "dict_set k v d = AList.update k v d"

definition dict_values :: "('k, 'v) dict \<Rightarrow> 'v list" where
  "dict_values d = map snd d"

lemma dict_get_set [simp]: "dict_get (dict_set k v d) = (dict_get d)(k \<mapsto> v)"
  by (simp add: dict_get_def dict_set_def update_conv' fun_eq_iff)

lemma dict_get_Nil [simp]: "dict_get [] = (\<lambda>_. None)"
  by (simp add: dict_get_def fun_eq_iff)

definition dict_ok :: "('v \<Rightarrow> 'k) \<Rightarrow> ('k, 'v) dict \<Rightarrow> bool" where
  "dict_ok key d \<longleftrightarrow> distinct (map fst d) \<and> (\<forall>(k, v) \<in> set d. key v = k)"

lemma dict_ok_Nil [simp]: "dict_ok key []"
  by (simp add: dict_ok_def)

lemma dict_ok_set: "dict_ok key d \<Longrightarrow> dict_ok key (dict_set (key v) v d)"
proof -
  assume ok: "dict_ok key d"
  have sub: "set (AList.update (key v) v xs) \<subseteq> insert (key v, v) (set xs)" for xs
    by (induction xs) auto
  from ok sub[of d] have "\<forall>(k, w) \<in> set (AList.update (key v) v d). key w = k"
    unfolding dict_ok_def by blast
  with ok show ?thesis
    unfolding dict_ok_def dict_set_def by (simp add: distinct_update)
qed

lemma dict_ok_get: "dict_ok key d \<Longrightarrow> dict_get d k = Some v \<Longrightarrow> key v = k"
  unfolding dict_ok_def dict_get_def by (auto dest: map_of_SomeD)

lemma dict_values_iff: "dict_ok key d \<Longrightarrow> v \<in> set (dict_values d) \<longleftrightarrow> dict_get d (key v) = Some v"
  unfolding dict_ok_def dict_get_def dict_values_def
  by (force simp: map_of_eq_Some_iff)

lemma distinct_dict_values: "dict_ok key d \<Longrightarrow> distinct (map key (dict_values d))"
proof -
  assume ok: "dict_ok key d"
  then have "map key (dict_values d) = map fst d"
    by (auto simp: dict_ok_def dict_values_def)
  with ok show ?thesis by (simp add: dict_ok_def)
qed

lemma dict_set_new: "dict_get d k = None \<Longrightarrow> dict_set k v d = d @ [(k, v)]"
  by (induction d) (auto simp: dict_get_def dict_set_def)

lemma dict_values_new: "dict_get d k = None \<Longrightarrow> dict_values (dict_set k v d) = dict_values d @ [v]"
  by (simp add: dict_set_new dict_values_def)

section \<open>The store and its transactions\<close>

record 'b store =
  st_drafts :: "(string, 'b draft_record) dict"
  st_baselines :: "(string, selector_baseline) dict"
  st_published :: "(string \<times> version, 'b published_manifest) dict"
  st_supersessions :: "(string \<times> version, supersession) dict"
  st_audit :: "audit_event list"
  st_receipts :: "(string \<times> string, mutation_receipt) dict"
  st_operational :: "(string, operational_receipt) dict"
  st_generation :: nat

record 'b tx = "'b store" +
  base_generation :: nat
  dirty :: bool

definition empty_store :: "'b store" where
  "empty_store = \<lparr>st_drafts = [], st_baselines = [], st_published = [], st_supersessions = [],
     st_audit = [], st_receipts = [], st_operational = [], st_generation = 0\<rparr>"

definition tx_enter :: "'b store \<Rightarrow> 'b tx" where
  "tx_enter s = store.extend s \<lparr>base_generation = st_generation s, dirty = False\<rparr>"

definition tx_exit :: "'b store \<Rightarrow> 'b tx \<Rightarrow> api_error + 'b store" where
  "tx_exit s t =
     (if st_generation s \<noteq> base_generation t then Inl StaleRevisionError
      else if dirty t then Inr ((store.truncate t)\<lparr>st_generation := st_generation s + 1\<rparr>)
      else Inr s)"

definition with_transaction ::
    "'b store \<Rightarrow> ('b tx \<Rightarrow> api_error + ('a \<times> 'b tx)) \<Rightarrow> (api_error + 'a) \<times> 'b store" where
  "with_transaction s body =
     (case body (tx_enter s) of
        Inl e \<Rightarrow> (Inl e, s)
      | Inr (x, t) \<Rightarrow> (case tx_exit s t of
            Inl e \<Rightarrow> (Inl e, s)
          | Inr s' \<Rightarrow> (Inr x, s')))"

section \<open>Operations of a transaction\<close>

definition get_draft :: "('b, 'z) store_scheme \<Rightarrow> string \<Rightarrow> 'b draft_record option" where
  "get_draft t d = dict_get (st_drafts t) d"

definition list_drafts ::
    "('b, 'z) store_scheme \<Rightarrow> string option \<Rightarrow> draft_state option \<Rightarrow> 'b draft_record list" where
  "list_drafts t mid s = sort_key draft_id (filter (\<lambda>d.
       (mid = None \<or> mid = Some (dr_manifest_id d)) \<and> (s = None \<or> s = Some (dr_state d)))
     (dict_values (st_drafts t)))"

definition put_draft :: "'b draft_record \<Rightarrow> nat option \<Rightarrow> 'b tx \<Rightarrow> api_error + 'b tx" where
  "put_draft d expected t =
     (let current = dict_get (st_drafts t) (draft_id d);
          written = t\<lparr>st_drafts := dict_set (draft_id d) d (st_drafts t), dirty := True\<rparr>
      in case expected of
           None \<Rightarrow> (case current of Some _ \<Rightarrow> Inl DuplicateDraftError | None \<Rightarrow> Inr written)
         | Some r \<Rightarrow> (case current of
               None \<Rightarrow> Inl ResourceNotFoundError
             | Some c \<Rightarrow> if revision c \<noteq> r then Inl StaleRevisionError else Inr written))"

definition get_baseline :: "('b, 'z) store_scheme \<Rightarrow> string \<Rightarrow> selector_baseline option" where
  "get_baseline t d = dict_get (st_baselines t) d"

definition put_baseline :: "selector_baseline \<Rightarrow> 'b tx \<Rightarrow> api_error + 'b tx" where
  "put_baseline b t =
     (if dict_get (st_baselines t) (sb_draft_id b) \<noteq> None then Inl PersistenceConflictError
      else Inr (t\<lparr>st_baselines := dict_set (sb_draft_id b) b (st_baselines t), dirty := True\<rparr>))"

definition get_published ::
    "('b, 'z) store_scheme \<Rightarrow> string \<Rightarrow> version \<Rightarrow> 'b published_manifest option" where
  "get_published t mid v = dict_get (st_published t) (mid, v)"

definition list_published :: "('b, 'z) store_scheme \<Rightarrow> string option \<Rightarrow> 'b published_manifest list" where
  "list_published t mid = sort_key (\<lambda>p. (pm_manifest_id p, version_key (pm_version p)))
     (filter (\<lambda>p. mid = None \<or> mid = Some (pm_manifest_id p)) (dict_values (st_published t)))"

definition published_key :: "'b published_manifest \<Rightarrow> string \<times> version" where
  "published_key p = (pm_manifest_id p, pm_version p)"

definition put_published :: "'b published_manifest \<Rightarrow> 'b tx \<Rightarrow> api_error + 'b tx" where
  "put_published p t =
     (if dict_get (st_published t) (published_key p) \<noteq> None then Inl DuplicateVersionError
      else Inr (t\<lparr>st_published := dict_set (published_key p) p (st_published t), dirty := True\<rparr>))"

definition get_supersession :: "('b, 'z) store_scheme \<Rightarrow> string \<Rightarrow> version \<Rightarrow> supersession option" where
  "get_supersession t mid v = dict_get (st_supersessions t) (mid, v)"

definition supersession_key :: "supersession \<Rightarrow> string \<times> version" where
  "supersession_key x = (ss_manifest_id x, superseded_version x)"

definition put_supersession :: "supersession \<Rightarrow> 'b tx \<Rightarrow> api_error + 'b tx" where
  "put_supersession x t =
     (if dict_get (st_supersessions t) (supersession_key x) \<noteq> None then Inl AlreadySupersededError
      else Inr (t\<lparr>st_supersessions := dict_set (supersession_key x) x (st_supersessions t),
                  dirty := True\<rparr>))"

definition tx_append_audit :: "audit_hash \<Rightarrow> pending_audit_event \<Rightarrow> 'b tx \<Rightarrow> api_error + 'b tx" where
  "tx_append_audit H p t =
     bindR (append_audit H p (st_audit t)) (\<lambda>es. Inr (t\<lparr>st_audit := es, dirty := True\<rparr>))"

definition list_audit :: "('b, 'z) store_scheme \<Rightarrow> string option \<Rightarrow> audit_event list" where
  "list_audit t mid = filter (\<lambda>e. mid = None \<or> mid = Some (ae_manifest_id e)) (st_audit t)"

definition get_receipt :: "('b, 'z) store_scheme \<Rightarrow> string \<Rightarrow> string \<Rightarrow> mutation_receipt option" where
  "get_receipt t a k = dict_get (st_receipts t) (a, k)"

definition receipt_key :: "mutation_receipt \<Rightarrow> string \<times> string" where
  "receipt_key r = (mr_actor_id r, mr_idempotency_key r)"

definition put_receipt :: "mutation_receipt \<Rightarrow> 'b tx \<Rightarrow> api_error + 'b tx" where
  "put_receipt r t =
     (if dict_get (st_receipts t) (receipt_key r) \<noteq> None then Inl IdempotencyConflictError
      else Inr (t\<lparr>st_receipts := dict_set (receipt_key r) r (st_receipts t), dirty := True\<rparr>))"

definition get_operational :: "('b, 'z) store_scheme \<Rightarrow> string \<Rightarrow> operational_receipt option" where
  "get_operational t r = dict_get (st_operational t) r"

definition put_operational :: "operational_receipt \<Rightarrow> 'b tx \<Rightarrow> api_error + 'b tx" where
  "put_operational r t =
     (if dict_get (st_operational t) (receipt_id r) \<noteq> None then Inl PersistenceConflictError
      else Inr (t\<lparr>st_operational := dict_set (receipt_id r) r (st_operational t), dirty := True\<rparr>))"

section \<open>Interface: write-once collections\<close>

text \<open>
  Published manifests, supersessions, selector baselines, mutation receipts and operational
  receipts are write-once: an insertion succeeds exactly when the key is new, and it binds that
  key only. The clients need the consequences below, proved once.
\<close>

locale write_once =
  fixes fetch :: "'s \<Rightarrow> 'k \<Rightarrow> 'v option"
    and insert_new :: "'v \<Rightarrow> 's \<Rightarrow> api_error + 's"
    and key_of :: "'v \<Rightarrow> 'k"
  assumes insert_fresh_iff: "(\<exists>s'. insert_new v s = Inr s') \<longleftrightarrow> fetch s (key_of v) = None"
    and insert_fetch: "insert_new v s = Inr s' \<Longrightarrow> fetch s' = (fetch s)(key_of v \<mapsto> v)"
begin

fun insert_run :: "'v list \<Rightarrow> 's \<Rightarrow> api_error + 's" where
  "insert_run [] s = Inr s"
| "insert_run (v # vs) s = bindR (insert_new v s) (insert_run vs)"

lemma insert_fresh: "insert_new v s = Inr s' \<Longrightarrow> fetch s (key_of v) = None"
  using insert_fresh_iff by blast

lemma insert_keeps: "insert_new v s = Inr s' \<Longrightarrow> fetch s k = Some w \<Longrightarrow> fetch s' k = Some w"
  using insert_fresh insert_fetch by (metis fun_upd_other option.distinct(1))

lemma insert_twice: "insert_new v s = Inr s' \<Longrightarrow> key_of w = key_of v \<Longrightarrow> \<exists>e. insert_new w s' = Inl e"
  using insert_fetch insert_fresh by (metis fun_upd_same option.distinct(1) sum.exhaust)

lemma insert_run_keeps: "insert_run vs s = Inr s' \<Longrightarrow> fetch s k = Some w \<Longrightarrow> fetch s' k = Some w"
proof (induction vs arbitrary: s)
  case Nil
  then show ?case by simp
next
  case (Cons v vs)
  then obtain t where t: "insert_new v s = Inr t" "insert_run vs t = Inr s'"
    by (auto simp: result_simps)
  from Cons.prems(2) t(1) have "fetch t k = Some w" by (blast intro: insert_keeps)
  with t(2) show ?case by (rule Cons.IH)
qed

lemma insert_run_distinct:
  "insert_run vs s = Inr s' \<Longrightarrow>
   distinct (map key_of vs) \<and> (\<forall>v \<in> set vs. fetch s (key_of v) = None \<and> fetch s' (key_of v) = Some v)"
proof (induction vs arbitrary: s)
  case Nil
  then show ?case by simp
next
  case (Cons v vs)
  then obtain t where t: "insert_new v s = Inr t" "insert_run vs t = Inr s'"
    by (auto simp: result_simps)
  have f: "fetch t = (fetch s)(key_of v \<mapsto> v)" "fetch s (key_of v) = None"
    using t(1) insert_fetch insert_fresh by auto
  moreover have "fetch s' (key_of v) = Some v"
    using t(2) f(1) by (auto intro: insert_run_keeps)
  ultimately show ?case
    using Cons.IH[OF t(2)] by (auto split: if_splits simp: fun_upd_apply image_iff)
qed

end

section \<open>Interface: revision-checked collections\<close>

text \<open>
  Drafts are overwritten, but only by a writer that names the revision it read: a write with
  \<open>None\<close> creates, a write with \<open>Some r\<close> needs the stored revision to be \<open>r\<close>.
\<close>

locale revision_checked =
  fixes fetch :: "'s \<Rightarrow> 'k \<Rightarrow> 'v option"
    and store_at :: "'v \<Rightarrow> nat option \<Rightarrow> 's \<Rightarrow> api_error + 's"
    and key_of :: "'v \<Rightarrow> 'k"
    and rev_of :: "'v \<Rightarrow> nat"
  assumes write_accepts:
      "(\<exists>s'. store_at v expected s = Inr s') \<longleftrightarrow> map_option rev_of (fetch s (key_of v)) = expected"
    and write_fetch: "store_at v expected s = Inr s' \<Longrightarrow> fetch s' = (fetch s)(key_of v \<mapsto> v)"
begin

lemma write_expected: "store_at v expected s = Inr s' \<Longrightarrow> map_option rev_of (fetch s (key_of v)) = expected"
  using write_accepts by blast

lemma lost_update_rejected:
  assumes "store_at v (Some r) s = Inr s'" and "rev_of v \<noteq> r" and "key_of w = key_of v"
  shows "\<exists>e. store_at w (Some r) s' = Inl e"
proof (cases "store_at w (Some r) s'")
  case (Inr s'')
  then have "map_option rev_of (fetch s' (key_of w)) = Some r" by (rule write_expected)
  with assms write_fetch[OF assms(1)] show ?thesis by simp
qed simp

end

lemmas tx_ops = put_draft_def put_baseline_def put_published_def put_supersession_def
  tx_append_audit_def put_receipt_def put_operational_def

interpretation published: write_once "\<lambda>t. dict_get (st_published t)" put_published published_key
  by unfold_locales (auto simp: put_published_def split: if_splits)

interpretation supersessions: write_once "\<lambda>t. dict_get (st_supersessions t)" put_supersession supersession_key
  by unfold_locales (auto simp: put_supersession_def split: if_splits)

interpretation baselines: write_once "\<lambda>t. dict_get (st_baselines t)" put_baseline sb_draft_id
  by unfold_locales (auto simp: put_baseline_def split: if_splits)

interpretation receipts: write_once "\<lambda>t. dict_get (st_receipts t)" put_receipt receipt_key
  by unfold_locales (auto simp: put_receipt_def split: if_splits)

interpretation operational: write_once "\<lambda>t. dict_get (st_operational t)" put_operational receipt_id
  by unfold_locales (auto simp: put_operational_def split: if_splits)

interpretation drafts: revision_checked get_draft put_draft draft_id revision
  by unfold_locales (auto simp: put_draft_def get_draft_def Let_def fun_eq_iff
      split: if_splits option.splits)

section \<open>Transactions as wholes\<close>

lemma tx_enter_fields [simp]:
  "st_drafts (tx_enter s) = st_drafts s" "st_baselines (tx_enter s) = st_baselines s"
  "st_published (tx_enter s) = st_published s" "st_supersessions (tx_enter s) = st_supersessions s"
  "st_audit (tx_enter s) = st_audit s" "st_receipts (tx_enter s) = st_receipts s"
  "st_operational (tx_enter s) = st_operational s" "st_generation (tx_enter s) = st_generation s"
  "base_generation (tx_enter s) = st_generation s" "dirty (tx_enter s) = False"
  by (simp_all add: tx_enter_def store.defs)

lemma truncate_fields [simp]:
  "st_drafts (store.truncate t) = st_drafts t" "st_baselines (store.truncate t) = st_baselines t"
  "st_published (store.truncate t) = st_published t"
  "st_supersessions (store.truncate t) = st_supersessions t"
  "st_audit (store.truncate t) = st_audit t" "st_receipts (store.truncate t) = st_receipts t"
  "st_operational (store.truncate t) = st_operational t"
  by (simp_all add: store.defs)

text \<open>A block that raises leaves the store as it was.\<close>

lemma with_transaction_Inl: "with_transaction s body = (Inl e, s') \<Longrightarrow> s' = s"
  by (auto simp: with_transaction_def split: sum.splits prod.splits)

end
