(* ===== verification/Authorization.thy ===== *)
theory Authorization
  imports Commands
begin

text \<open>
  Role-based authorization (\<open>api/authorization.py\<close>): the permission table, the human-only
  permissions, the matching of grants to an actor and a workload, and the in-memory adapter whose
  state is the tuple of grants and a revision counter. Token verification (\<open>EntraJwtAuthenticator\<close>)
  is not modelled: it is a call into the \<open>jwt\<close> package.
\<close>

section \<open>The permission table\<close>

fun role_permissions :: "role \<Rightarrow> permission list" where
  "role_permissions Proposer = [CreateDraft, Read, ListPerm, UpdateDraft, Validate, Submit]"
| "role_permissions Reviewer = [Read, ListPerm, Audit, Review]"
| "role_permissions Approver = [Read, ListPerm, Audit, Approve]"
| "role_permissions Publisher = [Read, ListPerm, Audit, Publish, Supersede]"
| "role_permissions Reader = [Read, ListPerm]"
| "role_permissions Auditor = [Read, ListPerm, Audit]"
| "role_permissions OperationalContextIssuer = [Read, IssueOperationalContext]"

definition human_only :: "permission list" where
  "human_only = [Review, Approve, Publish, Supersede]"

section \<open>The adapter\<close>

record rbac =
  grants :: "role_grant list"
  grant_revision :: nat

definition new_rbac :: "role_grant list \<Rightarrow> rbac" where
  "new_rbac gs = \<lparr>grants = gs, grant_revision = 1\<rparr>"

definition require_actor_kind :: "actor \<Rightarrow> permission \<Rightarrow> api_error + unit" where
  "require_actor_kind a p =
     (if p \<in> set human_only \<and> kind a \<noteq> Human then Inl AuthorizationError else Inr ())"

definition require_concrete_manifest_id :: "string option \<Rightarrow> api_error + unit" where
  "require_concrete_manifest_id mid =
     (case mid of None \<Rightarrow> Inr ()
      | Some m \<Rightarrow> (case ensure_concrete_workload_id m of
            Inl _ \<Rightarrow> Inl AuthorizationError
          | Inr _ \<Rightarrow> Inr ()))"

definition matching_grants ::
    "rbac \<Rightarrow> actor \<Rightarrow> permission \<Rightarrow> string option \<Rightarrow> bool \<Rightarrow> role_grant list" where
  "matching_grants z a p mid explicit_only =
     filter (\<lambda>g. rg_actor_id g = actor_id a
        \<and> p \<in> set (role_permissions (rg_role g))
        \<and> ((\<not> explicit_only \<and> rg_scope g = AllWorkloads)
           \<or> (case mid of None \<Rightarrow> False | Some m \<Rightarrow> rg_scope g = Workload m)))
      (grants z)"

definition require :: "rbac \<Rightarrow> actor \<Rightarrow> permission \<Rightarrow> string option \<Rightarrow> api_error + unit" where
  "require z a p mid =
     bindR (require_actor_kind a p) (\<lambda>_.
     bindR (require_concrete_manifest_id mid) (\<lambda>_.
     guardR (matching_grants z a p mid False \<noteq> []) AuthorizationError))"

definition require_explicit :: "rbac \<Rightarrow> actor \<Rightarrow> permission \<Rightarrow> string \<Rightarrow> api_error + unit" where
  "require_explicit z a p mid =
     bindR (require_actor_kind a p) (\<lambda>_.
     bindR (require_concrete_manifest_id (Some mid)) (\<lambda>_.
     guardR (matching_grants z a p (Some mid) True \<noteq> []) AuthorizationError))"

text \<open>
  \<open>authorize_role_grants\<close> decides over a grant snapshot and returns a token bound to the
  matching grants. Their digest (canonical JSON and SHA-256) is the parameter \<open>digest\<close>.
\<close>

record grant_token =
  gt_actor_id :: string
  gt_permission :: permission
  gt_manifest_id :: string
  gt_grant_revision :: nat
  gt_grant_digest :: string

definition authorize_role_grants ::
    "(string \<Rightarrow> permission \<Rightarrow> string \<Rightarrow> role_grant list \<Rightarrow> string) \<Rightarrow> actor \<Rightarrow> permission \<Rightarrow> string
     \<Rightarrow> role_grant list \<Rightarrow> nat \<Rightarrow> api_error + grant_token" where
  "authorize_role_grants digest a p mid gs r =
     bindR (require_actor_kind a p) (\<lambda>_.
     bindR (require_concrete_manifest_id (Some mid)) (\<lambda>_.
     let matching = filter (\<lambda>g. rg_actor_id g = actor_id a
            \<and> p \<in> set (role_permissions (rg_role g))
            \<and> (rg_scope g = AllWorkloads \<or> rg_scope g = Workload mid)) gs
     in bindR (guardR (matching \<noteq> []) AuthorizationError) (\<lambda>_.
        Inr \<lparr>gt_actor_id = actor_id a, gt_permission = p, gt_manifest_id = mid,
             gt_grant_revision = r, gt_grant_digest = digest (actor_id a) p mid matching\<rparr>)))"

definition authorize ::
    "(string \<Rightarrow> permission \<Rightarrow> string \<Rightarrow> role_grant list \<Rightarrow> string) \<Rightarrow> rbac \<Rightarrow> actor \<Rightarrow> permission
     \<Rightarrow> string \<Rightarrow> api_error + grant_token" where
  "authorize digest z a p mid =
     authorize_role_grants digest a p mid (grants z) (grant_revision z)"

definition remove_grant :: "role_grant \<Rightarrow> rbac \<Rightarrow> rbac" where
  "remove_grant g z =
     (let remaining = filter (\<lambda>c. c \<noteq> g) (grants z)
      in if length remaining = length (grants z) then z
         else z\<lparr>grants := remaining, grant_revision := grant_revision z + 1\<rparr>)"

section \<open>What authorization guarantees\<close>

lemma require_actor_kind_eq_Inr [result_simps]:
  "require_actor_kind a p = Inr u \<longleftrightarrow> (p \<in> set human_only \<longrightarrow> kind a = Human)"
  by (simp add: require_actor_kind_def)

lemma require_concrete_eq_Inr [result_simps]:
  "require_concrete_manifest_id mid = Inr u \<longleftrightarrow> (case mid of None \<Rightarrow> True | Some m \<Rightarrow> workload_id_ok m)"
  by (auto simp: require_concrete_manifest_id_def workload_id_ok_def ensure_concrete_workload_id_def
      split: option.splits)

lemma require_eq_Inr [result_simps]:
  "require z a p mid = Inr u \<longleftrightarrow>
     (p \<in> set human_only \<longrightarrow> kind a = Human)
     \<and> (case mid of None \<Rightarrow> True | Some m \<Rightarrow> workload_id_ok m)
     \<and> matching_grants z a p mid False \<noteq> []"
  by (auto simp: require_def result_simps)

lemma require_human: "require z a p mid = Inr u \<Longrightarrow> p \<in> set human_only \<Longrightarrow> kind a = Human"
  by (simp add: result_simps)

lemma require_explicit_imp_require: "require_explicit z a p m = Inr u \<Longrightarrow> require z a p (Some m) = Inr u"
  by (auto simp: require_explicit_def matching_grants_def filter_empty_conv result_simps)

lemma authorize_iff_require:
  "(\<exists>t. authorize d z a p m = Inr t) \<longleftrightarrow> require z a p (Some m) = Inr ()"
  by (auto simp: authorize_def authorize_role_grants_def matching_grants_def filter_empty_conv
      result_simps Let_def)

lemma matching_grants_mono:
  "set (grants z) \<subseteq> set (grants z') \<Longrightarrow>
   set (matching_grants z a p m e) \<subseteq> set (matching_grants z' a p m e)"
  by (auto simp: matching_grants_def)

lemma grants_remove_grant: "grants (remove_grant g z) = filter (\<lambda>c. c \<noteq> g) (grants z)"
proof (cases "length (filter (\<lambda>c. c \<noteq> g) (grants z)) = length (grants z)")
  case True
  then have "filter (\<lambda>c. c \<noteq> g) (grants z) = grants z"
    by (metis length_filter_less less_irrefl filter_id_conv)
  with True show ?thesis by (simp add: remove_grant_def)
next
  case False
  then show ?thesis by (simp add: remove_grant_def Let_def)
qed

lemma matching_remove_grant:
  "matching_grants (remove_grant g z) a p mid e = filter (\<lambda>c. c \<noteq> g) (matching_grants z a p mid e)"
  by (simp add: matching_grants_def grants_remove_grant conj_commute)

end
