(* ===== verification/Service.thy ===== *)
theory Service
  imports Store Authorization
begin

text \<open>
  \<open>ContextService\<close> of \<open>api/service.py\<close>: the manifest lifecycle. Every mutation authorizes the
  actor, then runs inside one transaction that replays a recorded receipt, or checks and writes
  the draft, appends its audit event and records the receipt. The record \<open>env\<close> collects what
  the handlers call and this development does not define: the digests (third-party JSON
  canonicalisation and SHA-256), the JSON text pydantic writes for a response
  (\<open>model_dump_json(by_alias=True, exclude_none=True)\<close>) and its reading by the model class of a
  given name (\<open>model_validate_json\<close>, None when it raises), the pydantic validation of a manifest
  document, and the profile
  resolution and selector provenance checks of the manifest engine.
\<close>

record 'b env =
  env_hash :: audit_hash
  env_manifest_digest :: "bool \<Rightarrow> string \<Rightarrow> version \<Rightarrow> manifest_audit \<Rightarrow> profile_decl list \<Rightarrow> 'b \<Rightarrow> string"
  env_content_digest :: "string \<Rightarrow> profile_decl list \<Rightarrow> 'b \<Rightarrow> string"
  env_response_json :: "'b response \<Rightarrow> string"
  env_parse_response :: "string \<Rightarrow> string \<Rightarrow> 'b response option"
  env_request_digest :: "string \<Rightarrow> string \<Rightarrow> mutation_target \<Rightarrow> 'b command \<Rightarrow> string"
  env_receipt_id :: "actor \<Rightarrow> issue_command \<Rightarrow> string"
  env_receipt_digest :: "operational_receipt \<Rightarrow> string"
  env_document_ok :: "'b manifest \<Rightarrow> bool"
  env_materialize :: "profile_decl list \<Rightarrow> 'b \<Rightarrow> profile_decl list \<times> 'b"
  env_create_check :: "'b store \<Rightarrow> 'b create_command \<Rightarrow> actor \<Rightarrow> int \<Rightarrow> api_error option"
  env_replace_check :: "'b store \<Rightarrow> 'b draft_record \<Rightarrow> 'b manifest \<Rightarrow> int \<Rightarrow> bool \<Rightarrow> api_error option"
  env_cohort_apply :: "'b store \<Rightarrow> actor \<Rightarrow> 'b draft_record \<Rightarrow> 'b replace_command \<Rightarrow> int \<Rightarrow> string
     \<Rightarrow> api_error + int"
  env_lifecycle_check :: "'b store \<Rightarrow> 'b draft_record \<Rightarrow> 'b manifest \<Rightarrow> int \<Rightarrow> api_error option"
  env_resolve :: "'b store \<Rightarrow> 'b draft_record \<Rightarrow> string \<Rightarrow> int \<Rightarrow> (string \<times> string) option"
  env_publication_actor :: actor

section \<open>Checks shared by the handlers\<close>

definition passes :: "'e option \<Rightarrow> 'e + unit" where
  "passes r = (case r of None \<Rightarrow> Inr () | Some e \<Rightarrow> Inl e)"

definition require_draft :: "('b, 'z) store_scheme \<Rightarrow> string \<Rightarrow> api_error + 'b draft_record" where
  "require_draft t d = requireR (get_draft t d) ResourceNotFoundError"

definition require_published ::
    "('b, 'z) store_scheme \<Rightarrow> string \<Rightarrow> version \<Rightarrow> api_error + 'b published_manifest" where
  "require_published t mid v = requireR (get_published t mid v) ResourceNotFoundError"

definition require_state :: "'b draft_record \<Rightarrow> draft_state \<Rightarrow> api_error + unit" where
  "require_state d required = guardR (dr_state d = required) InvalidTransitionError"

definition ensure_expected ::
    "'b draft_record \<Rightarrow> nat \<Rightarrow> version \<Rightarrow> string \<Rightarrow> api_error + unit" where
  "ensure_expected d r v dig =
     bindR (guardR (revision d = r) StaleRevisionError) (\<lambda>_.
     bindR (guardR (mf_version (dr_manifest d) = v) VersionMismatchError) (\<lambda>_.
     guardR (dr_manifest_digest d = dig) DigestMismatchError))"

definition ensure_expected_command ::
    "'b draft_record \<Rightarrow> 'z transition_command_scheme \<Rightarrow> api_error + unit" where
  "ensure_expected_command d c =
     ensure_expected d (expected_revision c) (expected_version c) (expected_digest c)"

text \<open>
  The digests of a manifest are taken over the document without its two digest fields
  (\<open>_manifest_digest_payload\<close>); the flag selects the semantic digest.
\<close>

definition artifact_digest :: "'b env \<Rightarrow> 'b manifest \<Rightarrow> string" where
  "artifact_digest env m = env_manifest_digest env False (mf_manifest_id m) (mf_version m)
     (mf_audit m) (mf_profiles m) (mf_body m)"

definition semantic_digest :: "'b env \<Rightarrow> 'b manifest \<Rightarrow> string" where
  "semantic_digest env m = env_manifest_digest env True (mf_manifest_id m) (mf_version m)
     (mf_audit m) (mf_profiles m) (mf_body m)"

text \<open>\<open>CanonicalWorkloadManifest.model_validate\<close>: the digest check, then the document.\<close>

definition revalidates :: "'b env \<Rightarrow> 'b manifest \<Rightarrow> bool" where
  "revalidates env m \<longleftrightarrow> mf_artifact_digest m = artifact_digest env m
     \<and> mf_semantic_digest m = semantic_digest env m \<and> env_document_ok env m"

text \<open>
  \<open>canonicalize_manifest_payload\<close>: materialise the defaults and sort the keyed collections (a
  parameter), then set both digests.
\<close>

definition canonicalize_manifest :: "'b env \<Rightarrow> 'b manifest \<Rightarrow> 'b manifest" where
  "canonicalize_manifest env m =
     (let (ps, body) = env_materialize env (mf_profiles m) (mf_body m);
          n = m\<lparr>mf_profiles := ps, mf_body := body\<rparr>
      in n\<lparr>mf_artifact_digest := artifact_digest env n, mf_semantic_digest := semantic_digest env n\<rparr>)"

definition ensure_manifest_digest :: "'b env \<Rightarrow> 'b manifest \<Rightarrow> string \<Rightarrow> api_error + unit" where
  "ensure_manifest_digest env m supplied =
     (let computed = artifact_digest env m
      in if mf_artifact_digest m \<noteq> computed \<or> supplied \<noteq> computed
         then Inl DigestMismatchError else Inr ())"

definition active_versions :: "('b, 'z) store_scheme \<Rightarrow> string \<Rightarrow> 'b published_manifest list" where
  "active_versions t mid =
     filter (\<lambda>p. get_supersession t mid (pm_version p) = None) (list_published t (Some mid))"

definition ensure_lineage ::
    "('b, 'z) store_scheme \<Rightarrow> string \<Rightarrow> version \<Rightarrow> version option \<Rightarrow> api_error + unit" where
  "ensure_lineage t mid new previous =
     (let active = active_versions t mid
      in if 1 < length active then Inl AmbiguousLookupError
         else (case active of
             current # _ \<Rightarrow>
               if previous \<noteq> Some (pm_version current) then Inl VersionMismatchError
               else if version_key new \<le> version_key (pm_version current) then Inl VersionMismatchError
               else Inr ()
           | [] \<Rightarrow> if previous \<noteq> None then Inl VersionMismatchError else Inr ()))"

definition rollback_content_digest :: "'b env \<Rightarrow> 'b manifest \<Rightarrow> string" where
  "rollback_content_digest env m =
     env_content_digest env (mf_manifest_id m) (mf_profiles m) (mf_body m)"

definition validate_lifecycle_manifest ::
    "'b env \<Rightarrow> ('b, 'z) store_scheme \<Rightarrow> 'b draft_record \<Rightarrow> 'b manifest \<Rightarrow> string \<Rightarrow> int
     \<Rightarrow> api_error + unit" where
  "validate_lifecycle_manifest env t current m dig now =
     bindR (guardR (revalidates env m) ManifestValidationError) (\<lambda>_.
     bindR (ensure_manifest_digest env m dig) (\<lambda>_.
     passes (env_lifecycle_check env (store.truncate t) current m now)))"

definition finalize_publication_candidate :: "'b env \<Rightarrow> 'b manifest \<Rightarrow> int \<Rightarrow> api_error + 'b manifest" where
  "finalize_publication_candidate env m now =
     (let n = canonicalize_manifest env (m\<lparr>mf_audit :=
            \<lparr>published_by = actor_id (env_publication_actor env), published_at = now,
             approval_status = ''approved''\<rparr>\<rparr>)
      in bindR (guardR (revalidates env n) ManifestValidationError) (\<lambda>_. Inr n))"

definition require_current_candidate ::
    "'b env \<Rightarrow> 'b draft_record \<Rightarrow> api_error + publication_candidate" where
  "require_current_candidate env d =
     bindR (requireR (dr_candidate d) StaleApprovalError) (\<lambda>c.
     bindR (requireR (review d) StaleApprovalError) (\<lambda>r.
     let m = dr_manifest d; a = mf_audit m
     in if finalized_by c \<noteq> env_publication_actor env
           \<or> pc_manifest_version c \<noteq> mf_version m
           \<or> pc_manifest_digest c \<noteq> dr_manifest_digest d
           \<or> pc_semantic_digest c \<noteq> mf_semantic_digest m
           \<or> pc_approval_status c \<noteq> ''approved''
           \<or> publication_candidate_digest r \<noteq> dr_manifest_digest d
           \<or> published_by a \<noteq> actor_id (env_publication_actor env)
           \<or> published_at a \<noteq> finalized_at c
           \<or> approval_status a \<noteq> pc_approval_status c
        then Inl StaleApprovalError
        else bindR (ensure_manifest_digest env m (dr_manifest_digest d)) (\<lambda>_. Inr c)))"

definition production_profile :: "'b manifest \<Rightarrow> profile_decl option" where
  "production_profile m = find (\<lambda>p. casefold (pd_profile_id p) = ''production''
     \<and> pd_profile_type p = ''production'') (mf_profiles m)"

definition require_operational_receipt ::
    "'b env \<Rightarrow> ('b, 'z) store_scheme \<Rightarrow> 'b draft_record \<Rightarrow> string \<Rightarrow> int
     \<Rightarrow> api_error + operational_receipt" where
  "require_operational_receipt env t current rid now =
     bindR (requireR (get_operational t rid) OperationalContextReceiptError) (\<lambda>r.
     if kind (issued_by r) \<noteq> Service
        \<or> or_manifest_id r \<noteq> dr_manifest_id current
        \<or> or_manifest_version r \<noteq> mf_version (dr_manifest current)
        \<or> or_draft_id r \<noteq> draft_id current
        \<or> or_draft_revision r \<noteq> revision current
        \<or> or_manifest_digest r \<noteq> dr_manifest_digest current
        \<or> issued_at r > now
        \<or> \<not> or_collected_at r \<le> issued_at r
        \<or> now \<ge> or_expires_at r
     then Inl OperationalContextReceiptError
     else (case production_profile (dr_manifest current) of
         None \<Rightarrow> Inl OperationalContextReceiptError
       | Some p \<Rightarrow>
           if or_profile_id r \<noteq> pd_profile_id p then Inl OperationalContextReceiptError
           else (case env_resolve env (store.truncate t) current (or_profile_id r) now of
               None \<Rightarrow> Inl OperationalContextReceiptError
             | Some (_, dig) \<Rightarrow>
                 if dig \<noteq> or_profile_digest r then Inl OperationalContextReceiptError else Inr r)))"

definition lifecycle_event ::
    "int \<Rightarrow> actor \<Rightarrow> audit_action \<Rightarrow> 'b draft_record \<Rightarrow> nat option \<Rightarrow> string \<Rightarrow> version option
     \<Rightarrow> actor option \<Rightarrow> int option \<Rightarrow> pending_audit_event" where
  "lifecycle_event now a act d prev_rev why replacement pub_actor pub_time =
     \<lparr>occurred_at = now, ae_actor = a, ae_action = act, ae_manifest_id = dr_manifest_id d,
      ae_draft_id = Some (draft_id d), ae_revision = Some (revision d),
      ae_previous_revision = prev_rev, ae_manifest_version = Some (mf_version (dr_manifest d)),
      ae_previous_version = dr_previous_version d, ae_replacement_version = replacement,
      ae_publication_actor = pub_actor, ae_publication_timestamp = pub_time,
      ae_manifest_digest = dr_manifest_digest d, ae_reason = why\<rparr>"

text \<open>Every handler ends by writing the draft and appending its event.\<close>

definition write_draft ::
    "'b env \<Rightarrow> 'b draft_record \<Rightarrow> nat option \<Rightarrow> pending_audit_event \<Rightarrow> 'b tx \<Rightarrow> api_error + 'b tx" where
  "write_draft env d expected ev t =
     bindR (put_draft d expected t) (tx_append_audit (env_hash env) ev)"

section \<open>Idempotent mutation\<close>

definition mutate ::
    "'b env \<Rightarrow> 'b store \<Rightarrow> actor \<Rightarrow> string \<Rightarrow> string \<Rightarrow> mutation_target \<Rightarrow> 'b command \<Rightarrow> string
     \<Rightarrow> ('b tx \<Rightarrow> api_error + ('b response \<times> 'b tx)) \<Rightarrow> (api_error + 'b response) \<times> 'b store" where
  "mutate env s a key operation target cmd rtype body =
     (let dig = env_request_digest env operation (actor_id a) target cmd
      in with_transaction s (\<lambda>t. case get_receipt t (actor_id a) key of
          Some r \<Rightarrow>
            if mr_operation r \<noteq> operation \<or> mr_target r \<noteq> target
               \<or> mr_request_digest r \<noteq> dig \<or> mr_response_type r \<noteq> rtype
            then Inl IdempotencyConflictError
            else bindR (requireR (env_parse_response env rtype (mr_response_json r)) ValidationError)
                   (\<lambda>resp. Inr (resp, t))
        | None \<Rightarrow>
            bindR (body t) (\<lambda>(resp, t1).
            if \<not> id_ok key then Inl ValidationError
            else bindR (put_receipt \<lparr>mr_actor_id = actor_id a, mr_idempotency_key = key,
                     mr_operation = operation, mr_target = target, mr_request_digest = dig,
                     mr_response_type = rtype, mr_response_json = env_response_json env resp\<rparr> t1)
                   (\<lambda>t2. Inr (resp, t2)))))"

definition authorize_draft ::
    "rbac \<Rightarrow> 'b store \<Rightarrow> actor \<Rightarrow> string \<Rightarrow> permission \<Rightarrow> api_error + unit" where
  "authorize_draft z s a d p =
     bindR (require_draft s d) (\<lambda>cur. require z a p (Some (dr_manifest_id cur)))"

section \<open>The records the handlers write\<close>

text \<open>
  The part of every \<open>model_copy(update=...)\<close> that all transitions share: the next revision, the
  actor, the time and the reason.
\<close>

definition touch :: "actor \<Rightarrow> int \<Rightarrow> string \<Rightarrow> 'b draft_record \<Rightarrow> 'b draft_record" where
  "touch a now why d =
     d\<lparr>revision := revision d + 1, updated_by := a, updated_at := now, dr_reason := why\<rparr>"

definition new_draft :: "actor \<Rightarrow> int \<Rightarrow> 'b create_command \<Rightarrow> 'b draft_record" where
  "new_draft a now c = \<lparr>draft_id = cc_draft_id c, dr_manifest_id = mf_manifest_id (cc_manifest c),
     dr_state = Draft, revision = 1, dr_manifest = cc_manifest c,
     dr_manifest_digest = cc_manifest_digest c, dr_previous_version = cc_previous_version c,
     rollback_source_version = cc_rollback_source c, created_by = a, created_at = now,
     updated_by = a, updated_at = now, dr_reason = cc_reason c, validation = None, review = None,
     dr_candidate = None, review_decisions = [], approval = None\<rparr>"

definition new_baseline :: "actor \<Rightarrow> int \<Rightarrow> 'b create_command \<Rightarrow> selector_baseline" where
  "new_baseline a now c = \<lparr>sb_draft_id = cc_draft_id c,
     sb_manifest_id = mf_manifest_id (cc_manifest c), sb_manifest_version = mf_version (cc_manifest c),
     sb_source_manifest_digest = cc_manifest_digest c, sb_captured_by = a, sb_captured_at = now\<rparr>"

definition mark_replaced ::
    "actor \<Rightarrow> int \<Rightarrow> string \<Rightarrow> 'b manifest \<Rightarrow> string \<Rightarrow> 'b draft_record \<Rightarrow> 'b draft_record" where
  "mark_replaced a now why m dig d = (touch a now why d)\<lparr>dr_manifest := m,
     dr_manifest_digest := dig, validation := None, review := None, approval := None\<rparr>"

definition mark_validated :: "actor \<Rightarrow> int \<Rightarrow> string \<Rightarrow> 'b draft_record \<Rightarrow> 'b draft_record" where
  "mark_validated a now why d = (touch a now why d)\<lparr>dr_state := Validated,
     validation := Some \<lparr>validated_by = a, validated_at = now, validated_revision = revision d + 1,
       vr_manifest_digest = dr_manifest_digest d\<rparr>\<rparr>"

definition mark_submitted ::
    "actor \<Rightarrow> actor \<Rightarrow> int \<Rightarrow> string \<Rightarrow> 'b manifest \<Rightarrow> 'b draft_record \<Rightarrow> 'b draft_record" where
  "mark_submitted publisher a now why m d = (touch a now why d)\<lparr>dr_state := InReview,
     dr_manifest := m, dr_manifest_digest := mf_artifact_digest m,
     review := Some \<lparr>submitted_by = a, submitted_at = now, submitted_revision = revision d + 1,
       publication_candidate_digest = mf_artifact_digest m, rs_reason = why\<rparr>,
     dr_candidate := Some \<lparr>finalized_by = publisher, finalized_at = now,
       pc_manifest_version = mf_version m, pc_manifest_digest = mf_artifact_digest m,
       pc_semantic_digest = mf_semantic_digest m, pc_approval_status = ''approved''\<rparr>\<rparr>"

definition review_decision_id :: "'b draft_record \<Rightarrow> nat \<Rightarrow> string" where
  "review_decision_id d r = draft_id d @ ''-r'' @ decimal r @ ''-review''"

definition approval_decision_id :: "'b draft_record \<Rightarrow> nat \<Rightarrow> string" where
  "approval_decision_id d r = draft_id d @ ''-r'' @ decimal r @ ''-approval''"

definition make_review :: "actor \<Rightarrow> int \<Rightarrow> review_command \<Rightarrow> 'b draft_record \<Rightarrow> review_decision" where
  "make_review a now c d = \<lparr>rd_decision_id = review_decision_id d (revision d + 1),
     rd_decision = decision c, reviewed_by = a, reviewed_at = now,
     reviewed_revision = revision d + 1, rd_manifest_version = mf_version (dr_manifest d),
     rd_manifest_digest = dr_manifest_digest d, rd_comments = comments c,
     rd_rejected_fields = rejected_fields c, rd_required_corrections = required_corrections c\<rparr>"

definition mark_reviewed :: "actor \<Rightarrow> int \<Rightarrow> review_command \<Rightarrow> 'b draft_record \<Rightarrow> 'b draft_record" where
  "mark_reviewed a now c d =
     (let d' = (touch a now (tc_reason c) d)\<lparr>
            review_decisions := review_decisions d @ [make_review a now c d]\<rparr>
      in if decision c = ChangesRequested
         then d'\<lparr>dr_state := Draft, validation := None, review := None, dr_candidate := None,
                 approval := None\<rparr>
         else d')"

definition make_approval ::
    "actor \<Rightarrow> int \<Rightarrow> approve_command \<Rightarrow> review_decision \<Rightarrow> operational_receipt \<Rightarrow> 'b draft_record
     \<Rightarrow> approval_decision" where
  "make_approval a now c rv receipt d = \<lparr>ad_decision_id = approval_decision_id d (revision d + 1),
     approved_by = a, approved_at = now, approved_revision = revision d + 1,
     ad_manifest_version = mf_version (dr_manifest d), ad_manifest_digest = dr_manifest_digest d,
     ad_review_decision_id = Some (rd_decision_id rv), ad_receipt_id = Some (receipt_id receipt),
     ad_reason = tc_reason c\<rparr>"

definition mark_approved ::
    "actor \<Rightarrow> int \<Rightarrow> approve_command \<Rightarrow> review_decision \<Rightarrow> operational_receipt \<Rightarrow> 'b draft_record
     \<Rightarrow> 'b draft_record" where
  "mark_approved a now c rv receipt d = (touch a now (tc_reason c) d)\<lparr>dr_state := Approved,
     approval := Some (make_approval a now c rv receipt d)\<rparr>"

definition mark_published :: "actor \<Rightarrow> int \<Rightarrow> string \<Rightarrow> 'b draft_record \<Rightarrow> 'b draft_record" where
  "mark_published a now why d = (touch a now why d)\<lparr>dr_state := Published\<rparr>"

definition mark_superseded :: "actor \<Rightarrow> int \<Rightarrow> string \<Rightarrow> 'b draft_record \<Rightarrow> 'b draft_record" where
  "mark_superseded a now why d = (touch a now why d)\<lparr>dr_state := Superseded\<rparr>"

text \<open>The immutable record of a publication.\<close>

definition make_published ::
    "'b env \<Rightarrow> actor \<Rightarrow> int \<Rightarrow> publish_command \<Rightarrow> publication_candidate \<Rightarrow> approval_decision
     \<Rightarrow> operational_receipt \<Rightarrow> 'b draft_record \<Rightarrow> 'b published_manifest" where
  "make_published env a now c candidate ap receipt d =
     \<lparr>pm_manifest_id = dr_manifest_id d, pm_version = mf_version (dr_manifest d),
      pm_manifest_digest = dr_manifest_digest d, pm_manifest = dr_manifest d,
      source_draft_id = draft_id d, source_draft_revision = revision d + 1,
      pm_previous_version = dr_previous_version d, pm_approval = ap,
      pm_published_by = env_publication_actor env, pm_published_at = finalized_at candidate,
      publication_authorized_by = a, publication_authorized_at = now,
      pm_receipt_id = Some (receipt_id receipt), pm_reason = tc_reason c\<rparr>"

section \<open>The handlers\<close>

text \<open>A rollback draft names an older published version and repeats its content.\<close>

definition ensure_rollback ::
    "'b env \<Rightarrow> ('b, 'z) store_scheme \<Rightarrow> 'b create_command \<Rightarrow> api_error + unit" where
  "ensure_rollback env t c = (case cc_rollback_source c of
       None \<Rightarrow> Inr ()
     | Some source \<Rightarrow>
         bindR (requireR (get_published t (mf_manifest_id (cc_manifest c)) source)
                  ResourceNotFoundError) (\<lambda>p.
         case cc_previous_version c of
           None \<Rightarrow> Inl ManifestValidationError
         | Some previous \<Rightarrow>
             if version_key source \<ge> version_key previous
                \<or> rollback_content_digest env (cc_manifest c)
                  \<noteq> rollback_content_digest env (pm_manifest p)
             then Inl ManifestValidationError else Inr ()))"

definition create_draft_tx ::
    "'b env \<Rightarrow> clock_reading \<Rightarrow> actor \<Rightarrow> 'b create_command \<Rightarrow> 'b tx \<Rightarrow> api_error + ('b response \<times> 'b tx)" where
  "create_draft_tx env clk a c t =
     (let m = cc_manifest c; mid = mf_manifest_id m in
      bindR (ensure_manifest_digest env m (cc_manifest_digest c)) (\<lambda>_.
      bindR (ensure_lineage t mid (mf_version m) (cc_previous_version c)) (\<lambda>_.
      bindR (ensure_timestamp clk) (\<lambda>now.
      bindR (ensure_rollback env t c) (\<lambda>_.
      bindR (passes (env_create_check env (store.truncate t) c a now)) (\<lambda>_.
      let d = new_draft a now c; b = new_baseline a now c
      in bindR (put_baseline b t) (\<lambda>t1.
         bindR (write_draft env d None
             (lifecycle_event now a DraftCreated d None (cc_reason c) None None None) t1) (\<lambda>t2.
         Inr (RDraft d, t2)))))))))"

text \<open>
  \<open>replace_draft_in_transaction\<close>: \<open>occurred\<close> is the caller's timestamp, if it passes one,
  \<open>cohort\<close> the cohort decision it applies, and \<open>clk2\<close> the second clock reading of that path.
\<close>

definition replace_draft_in_transaction ::
    "'b env \<Rightarrow> rbac \<Rightarrow> clock_reading \<Rightarrow> clock_reading \<Rightarrow> actor \<Rightarrow> string \<Rightarrow> 'b replace_command
     \<Rightarrow> clock_reading option \<Rightarrow> string option \<Rightarrow> 'b tx \<Rightarrow> api_error + ('b draft_record \<times> 'b tx)" where
  "replace_draft_in_transaction env z clk clk2 a did c occurred cohort t =
     bindR (require_draft t did) (\<lambda>current.
     bindR (require z a UpdateDraft (Some (dr_manifest_id current))) (\<lambda>_.
     bindR (require_state current Draft) (\<lambda>_.
     bindR (ensure_expected current (rc_expected_revision c) (rc_expected_version c)
              (rc_expected_digest c)) (\<lambda>_.
     let m = replacement_manifest c in
     bindR (guardR (mf_manifest_id m = dr_manifest_id current) VersionMismatchError) (\<lambda>_.
     bindR (guardR (mf_version m = mf_version (dr_manifest current)) VersionMismatchError) (\<lambda>_.
     bindR (ensure_manifest_digest env m (rc_replacement_digest c)) (\<lambda>_.
     bindR (ensure_lineage t (dr_manifest_id current) (mf_version m) (dr_previous_version current)) (\<lambda>_.
     bindR (ensure_timestamp (case occurred of None \<Rightarrow> clk | Some o' \<Rightarrow> o')) (\<lambda>now.
     bindR (case cohort of
         None \<Rightarrow> Inr None
       | Some dec \<Rightarrow> bindR (env_cohort_apply env (store.truncate t) a current c now dec) (\<lambda>x. Inr (Some x)))
       (\<lambda>expiry.
     bindR (passes (env_replace_check env (store.truncate t) current m now (cohort \<noteq> None))) (\<lambda>_.
     let d = mark_replaced a now (rc_reason c) m (rc_replacement_digest c) current
     in bindR (case expiry of
            None \<Rightarrow> Inr ()
          | Some x \<Rightarrow> bindR (ensure_timestamp clk2) (\<lambda>final.
              if final < now \<or> final \<ge> x then Inl StaleEvidenceSnapshotError else Inr ())) (\<lambda>_.
        bindR (write_draft env d (Some (revision current))
            (lifecycle_event now a DraftReplaced d (Some (revision current)) (rc_reason c)
               None None None) t) (\<lambda>t1.
        Inr (d, t1))))))))))))))"

definition replace_draft_tx ::
    "'b env \<Rightarrow> rbac \<Rightarrow> clock_reading \<Rightarrow> actor \<Rightarrow> string \<Rightarrow> 'b replace_command \<Rightarrow> 'b tx
     \<Rightarrow> api_error + ('b response \<times> 'b tx)" where
  "replace_draft_tx env z clk a did c t =
     bindR (replace_draft_in_transaction env z clk clk a did c None None t) (\<lambda>(d, t1). Inr (RDraft d, t1))"

definition validate_draft_tx ::
    "'b env \<Rightarrow> rbac \<Rightarrow> clock_reading \<Rightarrow> actor \<Rightarrow> string \<Rightarrow> transition_command \<Rightarrow> 'b tx
     \<Rightarrow> api_error + ('b response \<times> 'b tx)" where
  "validate_draft_tx env z clk a did c t =
     bindR (require_draft t did) (\<lambda>current.
     bindR (require z a Validate (Some (dr_manifest_id current))) (\<lambda>_.
     bindR (require_state current Draft) (\<lambda>_.
     bindR (ensure_expected_command current c) (\<lambda>_.
     bindR (ensure_timestamp clk) (\<lambda>now.
     bindR (validate_lifecycle_manifest env t current (dr_manifest current)
              (dr_manifest_digest current) now) (\<lambda>_.
     let d = mark_validated a now (tc_reason c) current
     in bindR (write_draft env d (Some (revision current))
            (lifecycle_event now a DraftValidated d (Some (revision current)) (tc_reason c)
               None None None) t) (\<lambda>t1.
        Inr (RDraft d, t1))))))))"

definition submit_for_review_tx ::
    "'b env \<Rightarrow> rbac \<Rightarrow> clock_reading \<Rightarrow> actor \<Rightarrow> string \<Rightarrow> transition_command \<Rightarrow> 'b tx
     \<Rightarrow> api_error + ('b response \<times> 'b tx)" where
  "submit_for_review_tx env z clk a did c t =
     bindR (require_draft t did) (\<lambda>current.
     bindR (require z a Submit (Some (dr_manifest_id current))) (\<lambda>_.
     bindR (require_state current Validated) (\<lambda>_.
     bindR (ensure_expected_command current c) (\<lambda>_.
     bindR (ensure_timestamp clk) (\<lambda>now.
     bindR (validate_lifecycle_manifest env t current (dr_manifest current)
              (dr_manifest_digest current) now) (\<lambda>_.
     bindR (finalize_publication_candidate env (dr_manifest current) now) (\<lambda>m.
     bindR (validate_lifecycle_manifest env t current m (mf_artifact_digest m) now) (\<lambda>_.
     let d = mark_submitted (env_publication_actor env) a now (tc_reason c) m current
     in bindR (write_draft env d (Some (revision current))
            (lifecycle_event now a ReviewSubmitted d (Some (revision current)) (tc_reason c)
               None (Some (env_publication_actor env)) (Some now)) t) (\<lambda>t1.
        Inr (RDraft d, t1))))))))))"

definition build_operational_receipt ::
    "'b env \<Rightarrow> actor \<Rightarrow> issue_command \<Rightarrow> int \<Rightarrow> operational_receipt" where
  "build_operational_receipt env issuer c now =
     (let r = \<lparr>receipt_id = env_receipt_id env issuer c, issued_by = issuer, issued_at = now,
            or_manifest_id = ic_manifest_id c, or_manifest_version = ic_manifest_version c,
            or_profile_id = ic_profile_id c, or_draft_id = ic_draft_id c,
            or_draft_revision = ic_draft_revision c, or_manifest_digest = ic_manifest_digest c,
            or_profile_digest = ic_profile_digest c, or_snapshot_id = ic_snapshot_id c,
            or_collected_at = ic_collected_at c, or_expires_at = ic_expires_at c,
            or_evidence_count = length (ic_evidence_inventory c),
            or_evidence_inventory_digest = ic_evidence_inventory_digest c,
            or_content_digest = ic_content_digest c, or_binding_digest = ic_binding_digest c,
            or_receipt_digest = []\<rparr>
      in r\<lparr>or_receipt_digest := env_receipt_digest env r\<rparr>)"

text \<open>The fields an existing receipt must share with a repeated request.\<close>

definition same_receipt_request :: "operational_receipt \<Rightarrow> actor \<Rightarrow> issue_command \<Rightarrow> bool" where
  "same_receipt_request r issuer c \<longleftrightarrow>
     issued_by r = issuer \<and> or_manifest_id r = ic_manifest_id c
     \<and> or_manifest_version r = ic_manifest_version c \<and> or_profile_id r = ic_profile_id c
     \<and> or_draft_id r = ic_draft_id c \<and> or_draft_revision r = ic_draft_revision c
     \<and> or_manifest_digest r = ic_manifest_digest c \<and> or_profile_digest r = ic_profile_digest c
     \<and> or_snapshot_id r = ic_snapshot_id c \<and> or_collected_at r = ic_collected_at c
     \<and> or_expires_at r = ic_expires_at c
     \<and> or_evidence_count r = length (ic_evidence_inventory c)
     \<and> or_evidence_inventory_digest r = ic_evidence_inventory_digest c
     \<and> or_content_digest r = ic_content_digest c \<and> or_binding_digest r = ic_binding_digest c"

definition issue_receipt_tx ::
    "'b env \<Rightarrow> rbac \<Rightarrow> clock_reading \<Rightarrow> actor \<Rightarrow> issue_command \<Rightarrow> 'b tx
     \<Rightarrow> api_error + ('b response \<times> 'b tx)" where
  "issue_receipt_tx env z clk a c t =
     bindR (require_draft t (ic_draft_id c)) (\<lambda>current.
     bindR (require z a IssueOperationalContext (Some (dr_manifest_id current))) (\<lambda>_.
     bindR (guardR (dr_manifest_id current = ic_manifest_id c) OperationalContextReceiptError) (\<lambda>_.
     bindR (ensure_expected current (ic_draft_revision c) (ic_manifest_version c)
              (ic_manifest_digest c)) (\<lambda>_.
     bindR (ensure_timestamp clk) (\<lambda>now.
     if ic_collected_at c > now \<or> now \<ge> ic_expires_at c then Inl StaleEvidenceSnapshotError
     else (case env_resolve env (store.truncate t) current (ic_profile_id c) now of
         None \<Rightarrow> Inl OperationalContextReceiptError
       | Some (pid, dig) \<Rightarrow>
           if pid \<noteq> ic_profile_id c \<or> dig \<noteq> ic_profile_digest c
           then Inl OperationalContextReceiptError
           else let candidate = build_operational_receipt env a c now
                in (case get_operational t (receipt_id candidate) of
                    Some existing \<Rightarrow>
                      if \<not> same_receipt_request existing a c then Inl PersistenceConflictError
                      else Inr (RReceipt existing, t)
                  | None \<Rightarrow> bindR (put_operational candidate t) (\<lambda>t1.
                      Inr (RReceipt candidate, t1)))))))))"

definition review_draft_tx ::
    "'b env \<Rightarrow> rbac \<Rightarrow> clock_reading \<Rightarrow> actor \<Rightarrow> string \<Rightarrow> review_command \<Rightarrow> 'b tx
     \<Rightarrow> api_error + ('b response \<times> 'b tx)" where
  "review_draft_tx env z clk a did c t =
     bindR (require_draft t did) (\<lambda>current.
     bindR (require z a Review (Some (dr_manifest_id current))) (\<lambda>_.
     bindR (require_state current InReview) (\<lambda>_.
     bindR (ensure_expected_command current c) (\<lambda>_.
     bindR (require_current_candidate env current) (\<lambda>_.
     bindR (guardR (length (review_decisions current) < 100) InvalidTransitionError) (\<lambda>_.
     bindR (ensure_timestamp clk) (\<lambda>now.
     bindR (guardR (id_ok (review_decision_id current (revision current + 1))) ValidationError) (\<lambda>_.
     let d = mark_reviewed a now c current
     in bindR (write_draft env d (Some (revision current))
            (lifecycle_event now a ReviewRecorded d (Some (revision current)) (tc_reason c)
               None None None) t) (\<lambda>t1.
        Inr (RDraft d, t1))))))))))"

definition current_approved_review :: "'b draft_record \<Rightarrow> review_decision option" where
  "current_approved_review d =
     (case review_decisions d of
        [] \<Rightarrow> None
      | _ \<Rightarrow> (let rv = last (review_decisions d)
          in if rd_decision rv \<noteq> ReviewApproved \<or> reviewed_revision rv \<noteq> revision d
                \<or> rd_manifest_version rv \<noteq> mf_version (dr_manifest d)
                \<or> rd_manifest_digest rv \<noteq> dr_manifest_digest d
             then None else Some rv))"

definition approve_draft_tx ::
    "'b env \<Rightarrow> rbac \<Rightarrow> clock_reading \<Rightarrow> actor \<Rightarrow> string \<Rightarrow> approve_command \<Rightarrow> 'b tx
     \<Rightarrow> api_error + ('b response \<times> 'b tx)" where
  "approve_draft_tx env z clk a did c t =
     bindR (require_draft t did) (\<lambda>current.
     bindR (require z a Approve (Some (dr_manifest_id current))) (\<lambda>_.
     bindR (require_state current InReview) (\<lambda>_.
     bindR (ensure_expected_command current c) (\<lambda>_.
     bindR (require_current_candidate env current) (\<lambda>_.
     bindR (requireR (current_approved_review current) InvalidTransitionError) (\<lambda>rv.
     bindR (ensure_timestamp clk) (\<lambda>now.
     bindR (require_operational_receipt env t current (ac_receipt_id c) now) (\<lambda>receipt.
     bindR (validate_lifecycle_manifest env t current (dr_manifest current)
              (dr_manifest_digest current) now) (\<lambda>_.
     bindR (guardR (id_ok (approval_decision_id current (revision current + 1))) ValidationError) (\<lambda>_.
     let d = mark_approved a now c rv receipt current
     in bindR (write_draft env d (Some (revision current))
            (lifecycle_event now a DraftApproved d (Some (revision current)) (tc_reason c)
               None None None) t) (\<lambda>t1.
        Inr (RDraft d, t1))))))))))))"

text \<open>The approval of a draft, when it authorizes publishing the draft at its revision.\<close>

definition publishable_approval :: "'b draft_record \<Rightarrow> string \<Rightarrow> approval_decision option" where
  "publishable_approval d aid =
     (case approval d of
        None \<Rightarrow> None
      | Some ap \<Rightarrow>
          (case find (\<lambda>rv. Some (rd_decision_id rv) = ad_review_decision_id ap) (review_decisions d) of
             None \<Rightarrow> None
           | Some rv \<Rightarrow>
               if ad_decision_id ap \<noteq> aid \<or> approved_revision ap \<noteq> revision d
                  \<or> ad_manifest_version ap \<noteq> mf_version (dr_manifest d)
                  \<or> ad_manifest_digest ap \<noteq> dr_manifest_digest d
                  \<or> rd_decision rv \<noteq> ReviewApproved
                  \<or> reviewed_revision rv + 1 \<noteq> approved_revision ap
                  \<or> rd_manifest_digest rv \<noteq> ad_manifest_digest ap
               then None else Some ap))"

definition publish_draft_tx ::
    "'b env \<Rightarrow> rbac \<Rightarrow> clock_reading \<Rightarrow> actor \<Rightarrow> string \<Rightarrow> publish_command \<Rightarrow> 'b tx
     \<Rightarrow> api_error + ('b response \<times> 'b tx)" where
  "publish_draft_tx env z clk a did c t =
     bindR (require_draft t did) (\<lambda>current.
     bindR (require z a Publish (Some (dr_manifest_id current))) (\<lambda>_.
     bindR (require_state current Approved) (\<lambda>_.
     bindR (ensure_expected_command current c) (\<lambda>_.
     bindR (require_current_candidate env current) (\<lambda>candidate.
     bindR (requireR (publishable_approval current (approval_id c)) StaleApprovalError) (\<lambda>ap.
     bindR (ensure_timestamp clk) (\<lambda>now.
     bindR (require_operational_receipt env t current (pub_receipt_id c) now) (\<lambda>receipt.
     bindR (validate_lifecycle_manifest env t current (dr_manifest current)
              (dr_manifest_digest current) now) (\<lambda>_.
     bindR (guardR (get_published t (dr_manifest_id current) (mf_version (dr_manifest current)) = None)
              DuplicateVersionError) (\<lambda>_.
     bindR (ensure_lineage t (dr_manifest_id current) (mf_version (dr_manifest current))
              (dr_previous_version current)) (\<lambda>_.
     let p = make_published env a now c candidate ap receipt current;
         d = mark_published a now (tc_reason c) current
     in bindR (put_published p t) (\<lambda>t1.
        bindR (write_draft env d (Some (revision current))
            (lifecycle_event now a VersionPublished d (Some (revision current)) (tc_reason c)
               None (Some (env_publication_actor env)) (Some (finalized_at candidate))) t1) (\<lambda>t2.
        Inr (RPublished p, t2))))))))))))))"

definition supersede_version_tx ::
    "'b env \<Rightarrow> clock_reading \<Rightarrow> actor \<Rightarrow> string \<Rightarrow> version \<Rightarrow> supersede_command \<Rightarrow> 'b tx
     \<Rightarrow> api_error + ('b response \<times> 'b tx)" where
  "supersede_version_tx env clk a mid v c t =
     bindR (require_published t mid v) (\<lambda>p.
     bindR (require_draft t (source_draft_id p)) (\<lambda>source.
     bindR (require_state source Published) (\<lambda>_.
     bindR (ensure_expected source (sc_expected_revision c) (sc_expected_version c)
              (sc_expected_digest c)) (\<lambda>_.
     bindR (guardR (sc_expected_version c = v) VersionMismatchError) (\<lambda>_.
     bindR (guardR (get_supersession t mid v = None) AlreadySupersededError) (\<lambda>_.
     bindR (require_published t mid (sc_replacement_version c)) (\<lambda>replacement.
     bindR (guardR (pm_manifest_digest replacement = sc_replacement_digest c) DigestMismatchError) (\<lambda>_.
     bindR (guardR (pm_previous_version replacement = Some v) VersionMismatchError) (\<lambda>_.
     bindR (guardR (pm_version replacement \<noteq> v) VersionMismatchError) (\<lambda>_.
     bindR (ensure_timestamp clk) (\<lambda>now.
     let x = \<lparr>ss_manifest_id = mid, superseded_version = v,
              replacement_version = pm_version replacement, superseded_by = a,
              superseded_at = now, ss_reason = sc_reason c\<rparr>;
         d = mark_superseded a now (sc_reason c) source
     in bindR (put_supersession x t) (\<lambda>t1.
        bindR (write_draft env d (Some (revision source))
            (lifecycle_event now a VersionSuperseded d (Some (revision source)) (sc_reason c)
               (Some (pm_version replacement)) None None) t1) (\<lambda>t2.
        Inr (RSupersession x, t2))))))))))))))"

end
