(* ===== verification/Lifecycle.thy ===== *)
theory Lifecycle
  imports Service
begin

text \<open>
  The public methods of \<open>ContextService\<close> over the handlers of theory Service, a uniform call
  type, the worlds that any sequence of calls can reach, and the read methods. A world is the
  grant table and the store; a method call is one step of it.
\<close>

section \<open>Mutating methods\<close>

definition after_auth ::
    "api_error + unit \<Rightarrow> 'b store \<Rightarrow> ('b store \<Rightarrow> (api_error + 'b response) \<times> 'b store)
     \<Rightarrow> (api_error + 'b response) \<times> 'b store" where
  "after_auth auth s k = (case auth of Inl e \<Rightarrow> (Inl e, s) | Inr _ \<Rightarrow> k s)"

definition draft_target :: "string \<Rightarrow> mutation_target" where
  "draft_target did = \<lparr>mt_draft_id = Some did, mt_manifest_id = None, mt_manifest_version = None\<rparr>"

definition create_draft where
  "create_draft env z clk a key c s =
     after_auth (require z a CreateDraft (Some (mf_manifest_id (cc_manifest c)))) s (\<lambda>s.
     mutate env s a key ''create_draft''
       \<lparr>mt_draft_id = Some (cc_draft_id c), mt_manifest_id = Some (mf_manifest_id (cc_manifest c)),
        mt_manifest_version = Some (mf_version (cc_manifest c))\<rparr>
       (CmdCreate c) ''DraftRecord'' (create_draft_tx env clk a c))"

definition replace_draft where
  "replace_draft env z clk a key did c s =
     after_auth (authorize_draft z s a did UpdateDraft) s (\<lambda>s.
     mutate env s a key ''replace_draft'' (draft_target did) (CmdReplace c) ''DraftRecord''
       (replace_draft_tx env z clk a did c))"

definition validate_draft where
  "validate_draft env z clk a key did c s =
     after_auth (authorize_draft z s a did Validate) s (\<lambda>s.
     mutate env s a key ''validate_draft'' (draft_target did) (CmdTransition c) ''DraftRecord''
       (validate_draft_tx env z clk a did c))"

definition issue_operational_context_receipt where
  "issue_operational_context_receipt env z clk a key c s =
     after_auth (bindR (guardR (kind a = Service) AuthorizationError)
         (\<lambda>_. require z a IssueOperationalContext (Some (ic_manifest_id c)))) s (\<lambda>s.
     mutate env s a key ''issue_operational_context_receipt'' (draft_target (ic_draft_id c))
       (CmdIssue c) ''OperationalContextReceipt'' (issue_receipt_tx env z clk a c))"

definition submit_for_review where
  "submit_for_review env z clk a key did c s =
     after_auth (authorize_draft z s a did Submit) s (\<lambda>s.
     mutate env s a key ''submit_for_review'' (draft_target did) (CmdTransition c) ''DraftRecord''
       (submit_for_review_tx env z clk a did c))"

definition review_draft where
  "review_draft env z clk a key did c s =
     after_auth (authorize_draft z s a did Review) s (\<lambda>s.
     mutate env s a key ''review_draft'' (draft_target did) (CmdReview c) ''DraftRecord''
       (review_draft_tx env z clk a did c))"

definition approve_draft where
  "approve_draft env z clk a key did c s =
     after_auth (authorize_draft z s a did Approve) s (\<lambda>s.
     mutate env s a key ''approve_draft'' (draft_target did) (CmdApprove c) ''DraftRecord''
       (approve_draft_tx env z clk a did c))"

definition publish_draft where
  "publish_draft env z clk a key did c s =
     after_auth (authorize_draft z s a did Publish) s (\<lambda>s.
     mutate env s a key ''publish_draft'' (draft_target did) (CmdPublish c) ''PublishedManifest''
       (publish_draft_tx env z clk a did c))"

definition supersede_version where
  "supersede_version env z clk a key mid v c s =
     after_auth (require z a Supersede (Some mid)) s (\<lambda>s.
     mutate env s a key ''supersede_version''
       \<lparr>mt_draft_id = None, mt_manifest_id = Some mid, mt_manifest_version = Some v\<rparr>
       (CmdSupersede c) ''Supersession'' (supersede_version_tx env clk a mid v c))"

section \<open>Calls and reachable worlds\<close>

datatype 'b call =
    CallCreate "'b create_command"
  | CallReplace string "'b replace_command"
  | CallValidate string transition_command
  | CallIssue issue_command
  | CallSubmit string transition_command
  | CallReview string review_command
  | CallApprove string approve_command
  | CallPublish string publish_command
  | CallSupersede string version supersede_command

fun call_ok :: "'b call \<Rightarrow> bool" where
  "call_ok (CallCreate c) = create_command_ok c"
| "call_ok (CallReplace _ c) = replace_command_ok c"
| "call_ok (CallValidate _ c) = transition_command_ok c"
| "call_ok (CallIssue _) = True"
| "call_ok (CallSubmit _ c) = transition_command_ok c"
| "call_ok (CallReview _ c) = review_command_ok c"
| "call_ok (CallApprove _ c) = approve_command_ok c"
| "call_ok (CallPublish _ c) = publish_command_ok c"
| "call_ok (CallSupersede _ _ c) = supersede_command_ok c"

fun service_call ::
    "'b env \<Rightarrow> rbac \<Rightarrow> clock_reading \<Rightarrow> actor \<Rightarrow> string \<Rightarrow> 'b call \<Rightarrow> 'b store
     \<Rightarrow> (api_error + 'b response) \<times> 'b store" where
  "service_call env z clk a key (CallCreate c) s = create_draft env z clk a key c s"
| "service_call env z clk a key (CallReplace d c) s = replace_draft env z clk a key d c s"
| "service_call env z clk a key (CallValidate d c) s = validate_draft env z clk a key d c s"
| "service_call env z clk a key (CallIssue c) s =
     issue_operational_context_receipt env z clk a key c s"
| "service_call env z clk a key (CallSubmit d c) s = submit_for_review env z clk a key d c s"
| "service_call env z clk a key (CallReview d c) s = review_draft env z clk a key d c s"
| "service_call env z clk a key (CallApprove d c) s = approve_draft env z clk a key d c s"
| "service_call env z clk a key (CallPublish d c) s = publish_draft env z clk a key d c s"
| "service_call env z clk a key (CallSupersede m v c) s = supersede_version env z clk a key m v c s"

text \<open>The handler a call runs inside its transaction.\<close>

fun call_body ::
    "'b env \<Rightarrow> rbac \<Rightarrow> clock_reading \<Rightarrow> actor \<Rightarrow> 'b call \<Rightarrow> 'b tx \<Rightarrow> api_error + ('b response \<times> 'b tx)" where
  "call_body env z clk a (CallCreate c) = create_draft_tx env clk a c"
| "call_body env z clk a (CallReplace d c) = replace_draft_tx env z clk a d c"
| "call_body env z clk a (CallValidate d c) = validate_draft_tx env z clk a d c"
| "call_body env z clk a (CallIssue c) = issue_receipt_tx env z clk a c"
| "call_body env z clk a (CallSubmit d c) = submit_for_review_tx env z clk a d c"
| "call_body env z clk a (CallReview d c) = review_draft_tx env z clk a d c"
| "call_body env z clk a (CallApprove d c) = approve_draft_tx env z clk a d c"
| "call_body env z clk a (CallPublish d c) = publish_draft_tx env z clk a d c"
| "call_body env z clk a (CallSupersede m v c) = supersede_version_tx env clk a m v c"

text \<open>What a call requires of the actor before its transaction starts.\<close>

fun call_auth :: "rbac \<Rightarrow> actor \<Rightarrow> 'b call \<Rightarrow> 'b store \<Rightarrow> api_error + unit" where
  "call_auth z a (CallCreate c) s = require z a CreateDraft (Some (mf_manifest_id (cc_manifest c)))"
| "call_auth z a (CallReplace d c) s = authorize_draft z s a d UpdateDraft"
| "call_auth z a (CallValidate d c) s = authorize_draft z s a d Validate"
| "call_auth z a (CallIssue c) s = bindR (guardR (kind a = Service) AuthorizationError)
     (\<lambda>_. require z a IssueOperationalContext (Some (ic_manifest_id c)))"
| "call_auth z a (CallSubmit d c) s = authorize_draft z s a d Submit"
| "call_auth z a (CallReview d c) s = authorize_draft z s a d Review"
| "call_auth z a (CallApprove d c) s = authorize_draft z s a d Approve"
| "call_auth z a (CallPublish d c) s = authorize_draft z s a d Publish"
| "call_auth z a (CallSupersede m v c) s = require z a Supersede (Some m)"

inductive reachable :: "'b env \<Rightarrow> rbac \<Rightarrow> 'b store \<Rightarrow> bool" for env where
  start: "reachable env (new_rbac gs) empty_store"
| call: "reachable env z s \<Longrightarrow> call_ok c \<Longrightarrow> service_call env z clk a key c s = (r, s')
    \<Longrightarrow> reachable env z s'"
| revoke: "reachable env z s \<Longrightarrow> reachable env (remove_grant g z) s"

section \<open>Read methods\<close>

definition read_draft :: "rbac \<Rightarrow> actor \<Rightarrow> string \<Rightarrow> 'b store \<Rightarrow> api_error + 'b draft_record" where
  "read_draft z a did s =
     bindR (require_draft s did) (\<lambda>d.
     bindR (require z a Read (Some (dr_manifest_id d))) (\<lambda>_. Inr d))"

definition read_drafts ::
    "rbac \<Rightarrow> actor \<Rightarrow> string option \<Rightarrow> draft_state option \<Rightarrow> 'b store \<Rightarrow> api_error + 'b draft_record list" where
  "read_drafts z a mid st s =
     bindR (require z a ListPerm mid) (\<lambda>_. Inr (list_drafts s mid st))"

type_synonym 'b published_view = "'b published_manifest \<times> supersession option"

definition view_of :: "'b store \<Rightarrow> 'b published_manifest \<Rightarrow> 'b published_view" where
  "view_of s p = (p, get_supersession s (pm_manifest_id p) (pm_version p))"

definition read_published ::
    "rbac \<Rightarrow> actor \<Rightarrow> version \<Rightarrow> string option \<Rightarrow> 'b store \<Rightarrow> api_error + 'b published_view" where
  "read_published z a v mid s =
     bindR (case mid of
         None \<Rightarrow> bindR (require z a ListPerm None) (\<lambda>_.
           case filter (\<lambda>p. pm_version p = v) (list_published s None) of
             [] \<Rightarrow> Inl ResourceNotFoundError
           | [p] \<Rightarrow> Inr p
           | _ \<Rightarrow> Inl AmbiguousLookupError)
       | Some m \<Rightarrow> require_published s m v) (\<lambda>p.
     bindR (require z a Read (Some (pm_manifest_id p))) (\<lambda>_. Inr (view_of s p)))"

definition read_published_list ::
    "rbac \<Rightarrow> actor \<Rightarrow> string \<Rightarrow> 'b store \<Rightarrow> api_error + 'b published_view list" where
  "read_published_list z a mid s =
     bindR (require z a ListPerm (Some mid)) (\<lambda>_.
     Inr (map (view_of s) (list_published s (Some mid))))"

definition audit_history ::
    "'b env \<Rightarrow> rbac \<Rightarrow> actor \<Rightarrow> string \<Rightarrow> 'b store \<Rightarrow> api_error + audit_event list" where
  "audit_history env z a mid s =
     bindR (require z a Audit (Some mid)) (\<lambda>_.
     let audit = list_audit s None in
     bindR (verify_audit_chain (env_hash env) audit) (\<lambda>_.
     Inr (filter (\<lambda>e. ae_manifest_id e = mid) audit)))"

section \<open>The outcome of a mutation\<close>

text \<open>What a call enters in its receipt: operation, target, command and response type.\<close>

fun call_operation :: "'b call \<Rightarrow> string" where
  "call_operation (CallCreate c) = ''create_draft''"
| "call_operation (CallReplace d c) = ''replace_draft''"
| "call_operation (CallValidate d c) = ''validate_draft''"
| "call_operation (CallIssue c) = ''issue_operational_context_receipt''"
| "call_operation (CallSubmit d c) = ''submit_for_review''"
| "call_operation (CallReview d c) = ''review_draft''"
| "call_operation (CallApprove d c) = ''approve_draft''"
| "call_operation (CallPublish d c) = ''publish_draft''"
| "call_operation (CallSupersede m v c) = ''supersede_version''"

fun call_target :: "'b call \<Rightarrow> mutation_target" where
  "call_target (CallCreate c) =
     \<lparr>mt_draft_id = Some (cc_draft_id c), mt_manifest_id = Some (mf_manifest_id (cc_manifest c)),
      mt_manifest_version = Some (mf_version (cc_manifest c))\<rparr>"
| "call_target (CallReplace d c) = draft_target d"
| "call_target (CallValidate d c) = draft_target d"
| "call_target (CallIssue c) = draft_target (ic_draft_id c)"
| "call_target (CallSubmit d c) = draft_target d"
| "call_target (CallReview d c) = draft_target d"
| "call_target (CallApprove d c) = draft_target d"
| "call_target (CallPublish d c) = draft_target d"
| "call_target (CallSupersede m v c) =
     \<lparr>mt_draft_id = None, mt_manifest_id = Some m, mt_manifest_version = Some v\<rparr>"

fun call_command :: "'b call \<Rightarrow> 'b command" where
  "call_command (CallCreate c) = CmdCreate c"
| "call_command (CallReplace d c) = CmdReplace c"
| "call_command (CallValidate d c) = CmdTransition c"
| "call_command (CallIssue c) = CmdIssue c"
| "call_command (CallSubmit d c) = CmdTransition c"
| "call_command (CallReview d c) = CmdReview c"
| "call_command (CallApprove d c) = CmdApprove c"
| "call_command (CallPublish d c) = CmdPublish c"
| "call_command (CallSupersede m v c) = CmdSupersede c"

fun call_type :: "'b call \<Rightarrow> string" where
  "call_type (CallPublish d c) = ''PublishedManifest''"
| "call_type (CallSupersede m v c) = ''Supersession''"
| "call_type (CallIssue c) = ''OperationalContextReceipt''"
| "call_type c = ''DraftRecord''"

lemma service_call_eq:
  "service_call env z clk a key c s = after_auth (call_auth z a c s) s (\<lambda>s.
     mutate env s a key (call_operation c) (call_target c) (call_command c) (call_type c)
       (call_body env z clk a c))"
  by (cases c) (simp_all add: create_draft_def replace_draft_def validate_draft_def submit_for_review_def
      issue_operational_context_receipt_def review_draft_def approve_draft_def publish_draft_def
      supersede_version_def)

definition receipt_for :: "'b env \<Rightarrow> actor \<Rightarrow> string \<Rightarrow> 'b call \<Rightarrow> 'b response \<Rightarrow> mutation_receipt" where
  "receipt_for env a key c resp =
     \<lparr>mr_actor_id = actor_id a, mr_idempotency_key = key, mr_operation = call_operation c,
      mr_target = call_target c,
      mr_request_digest = env_request_digest env (call_operation c) (actor_id a) (call_target c) (call_command c),
      mr_response_type = call_type c, mr_response_json = env_response_json env resp\<rparr>"

text \<open>
  A successful mutation either replays a receipt and leaves the store alone, or runs its handler
  and commits the result together with a new receipt. A failed one leaves the store alone.
\<close>

lemma mutate_outcome:
  assumes "mutate env s a key op tgt cmd rt body = (r, s')"
  obtains (failed) e where "r = Inl e" and "s' = s"
  | (replayed) rec resp where "get_receipt s (actor_id a) key = Some rec"
      and "env_parse_response env rt (mr_response_json rec) = Some resp" and "r = Inr resp"
      and "s' = s" and "mr_operation rec = op" and "mr_target rec = tgt"
      and "mr_request_digest rec = env_request_digest env op (actor_id a) tgt cmd"
      and "mr_response_type rec = rt"
  | (committed) resp t1 t2 where "get_receipt s (actor_id a) key = None" and "id_ok key"
      and "body (tx_enter s) = Inr (resp, t1)" and "r = Inr resp"
      and "put_receipt \<lparr>mr_actor_id = actor_id a, mr_idempotency_key = key, mr_operation = op,
             mr_target = tgt, mr_request_digest = env_request_digest env op (actor_id a) tgt cmd,
             mr_response_type = rt, mr_response_json = env_response_json env resp\<rparr> t1 = Inr t2"
      and "s' = (store.truncate t2)\<lparr>st_generation := st_generation s + 1\<rparr>"
proof (cases "get_receipt s (actor_id a) key")
  case None
  then have none: "get_receipt (tx_enter s) (actor_id a) key = None" by (simp add: get_receipt_def)
  show thesis
  proof (cases r)
    case (Inl e)
    then show thesis using assms failed
      by (auto simp: mutate_def Let_def dest: with_transaction_Inl)
  next
    case (Inr resp)
    have "tx_exit s t = Inr s'' \<Longrightarrow> dirty t \<Longrightarrow>
        s'' = (store.truncate t)\<lparr>st_generation := st_generation s + 1\<rparr>" for t s''
      by (auto simp: tx_exit_def split: if_splits)
    moreover have "put_receipt x t = Inr t' \<Longrightarrow> dirty t'" for x and t t' :: "'a tx"
      by (auto simp: put_receipt_def split: if_splits)
    ultimately show thesis using assms none None Inr committed
      by (auto simp: mutate_def Let_def with_transaction_def result_simps
          split: sum.splits prod.splits if_splits)
  qed
next
  case (Some rec)
  then have "get_receipt (tx_enter s) (actor_id a) key = Some rec" by (simp add: get_receipt_def)
  then show thesis using assms failed replayed Some
    by (cases "env_parse_response env rt (mr_response_json rec)")
      (auto simp: mutate_def Let_def with_transaction_def tx_exit_def split: if_splits)
qed

text \<open>A recorded receipt answers a call when it was written for the same request.\<close>

definition answers :: "'b env \<Rightarrow> actor \<Rightarrow> 'b call \<Rightarrow> mutation_receipt \<Rightarrow> bool" where
  "answers env a c rec \<longleftrightarrow> mr_operation rec = call_operation c \<and> mr_target rec = call_target c
     \<and> mr_request_digest rec
        = env_request_digest env (call_operation c) (actor_id a) (call_target c) (call_command c)
     \<and> mr_response_type rec = call_type c"

lemma answers_receipt_for [simp]: "answers env a c (receipt_for env a key c resp)"
  by (simp add: answers_def receipt_for_def)

lemma service_call_outcome:
  assumes "service_call env z clk a key c s = (r, s')"
  obtains (failed) e where "r = Inl e" and "s' = s"
  | (replayed) rec resp where "call_auth z a c s = Inr ()" and "get_receipt s (actor_id a) key = Some rec"
      and "answers env a c rec"
      and "env_parse_response env (call_type c) (mr_response_json rec) = Some resp" and "r = Inr resp"
      and "s' = s"
  | (committed) resp t1 t2 where "get_receipt s (actor_id a) key = None" and "id_ok key"
      and "call_auth z a c s = Inr ()"
      and "call_body env z clk a c (tx_enter s) = Inr (resp, t1)" and "r = Inr resp"
      and "put_receipt (receipt_for env a key c resp) t1 = Inr t2"
      and "s' = (store.truncate t2)\<lparr>st_generation := st_generation s + 1\<rparr>"
proof (cases "call_auth z a c s")
  case (Inl e)
  then show thesis using assms that(1)[of e] by (simp add: service_call_eq after_auth_def)
next
  case (Inr x)
  with assms have "mutate env s a key (call_operation c) (call_target c) (call_command c) (call_type c)
      (call_body env z clk a c) = (r, s')"
    by (simp add: service_call_eq after_auth_def)
  then show thesis
  proof (cases rule: mutate_outcome)
    case failed
    then show thesis by (rule that(1))
  next
    case (replayed rec resp)
    then show thesis using Inr that(2) by (simp add: answers_def)
  next
    case committed
    then show thesis using Inr that(3) by (simp add: receipt_for_def)
  qed
qed

text \<open>
  A later call that finds a receipt for its request reads the recorded response back, or fails; the
  store stays as it is.
\<close>

lemma service_call_recorded:
  assumes "get_receipt s (actor_id a) key = Some rec" and "call_auth z a c s = Inr ()"
  shows "service_call env z clk a key c s =
    (if answers env a c rec then requireR (env_parse_response env (call_type c) (mr_response_json rec))
       ValidationError else Inl IdempotencyConflictError, s)"
proof -
  have "get_receipt (tx_enter s) (actor_id a) key = Some rec"
    using assms(1) by (simp add: get_receipt_def)
  then show ?thesis
    by (cases "env_parse_response env (call_type c) (mr_response_json rec)")
      (simp_all add: service_call_eq after_auth_def assms(2) mutate_def Let_def with_transaction_def
        tx_exit_def answers_def)
qed

text \<open>Any sequence of calls and revocations, from one world to another.\<close>

inductive runs :: "'b env \<Rightarrow> rbac \<Rightarrow> 'b store \<Rightarrow> rbac \<Rightarrow> 'b store \<Rightarrow> bool" for env z s where
  stay: "runs env z s z s"
| call: "runs env z s z' s' \<Longrightarrow> call_ok c \<Longrightarrow> service_call env z' clk a key c s' = (r, s'')
    \<Longrightarrow> runs env z s z' s''"
| revoke: "runs env z s z' s' \<Longrightarrow> runs env z s (remove_grant g z') s'"

lemma runs_reachable: "runs env z s z' s' \<Longrightarrow> reachable env z s \<Longrightarrow> reachable env z' s'"
  by (induction rule: runs.induct) (auto intro: reachable.intros)

end
