(* ===== verification/DraftMachine.thy ===== *)
theory DraftMachine
  imports Lifecycle
begin

text \<open>
  The abstract draft machine and the refinement of the handlers to it. \<open>draft_step env a d d'\<close>
  says that actor \<open>a\<close> may move draft \<open>d\<close> to \<open>d'\<close>: one rule for each edge of the lifecycle,
  without store, transaction, clock or grants. Each handler that succeeds performs exactly one
  such step on the draft it names. \<open>draft_wf\<close> is the well-formedness that every step keeps: it
  ties the state of a draft to its validation, candidate, reviews and approval.
\<close>

section \<open>The machine\<close>

inductive draft_step :: "'b env \<Rightarrow> actor \<Rightarrow> 'b draft_record \<Rightarrow> 'b draft_record \<Rightarrow> bool" for env a where
  replaced: "dr_state d = Draft \<Longrightarrow> mf_manifest_id m = dr_manifest_id d
     \<Longrightarrow> mf_version m = mf_version (dr_manifest d) \<Longrightarrow> ensure_manifest_digest env m dig = Inr ()
     \<Longrightarrow> draft_step env a d (mark_replaced a now why m dig d)"
| validated: "dr_state d = Draft \<Longrightarrow> revalidates env (dr_manifest d)
     \<Longrightarrow> draft_step env a d (mark_validated a now why d)"
| submitted: "dr_state d = Validated \<Longrightarrow> finalize_publication_candidate env (dr_manifest d) now = Inr m
     \<Longrightarrow> draft_step env a d (mark_submitted (env_publication_actor env) a now why m d)"
| reviewed: "dr_state d = InReview \<Longrightarrow> kind a = Human \<Longrightarrow> length (review_decisions d) < 100
     \<Longrightarrow> id_ok (review_decision_id d (revision d + 1))
     \<Longrightarrow> draft_step env a d (mark_reviewed a now c d)"
| approved: "dr_state d = InReview \<Longrightarrow> kind a = Human \<Longrightarrow> current_approved_review d = Some rv
     \<Longrightarrow> id_ok (approval_decision_id d (revision d + 1))
     \<Longrightarrow> draft_step env a d (mark_approved a now ac rv receipt d)"
| published: "dr_state d = Approved \<Longrightarrow> kind a = Human \<Longrightarrow> publishable_approval d aid = Some ap
     \<Longrightarrow> draft_step env a d (mark_published a now why d)"
| superseded: "dr_state d = Published \<Longrightarrow> kind a = Human
     \<Longrightarrow> draft_step env a d (mark_superseded a now why d)"

lemmas mark_defs = mark_replaced_def mark_validated_def mark_submitted_def mark_reviewed_def
  mark_approved_def mark_published_def mark_superseded_def touch_def

text \<open>The edges of the lifecycle.\<close>

fun edge :: "draft_state \<Rightarrow> draft_state \<Rightarrow> bool" where
  "edge Draft s = (s = Draft \<or> s = Validated)"
| "edge Validated s = (s = InReview)"
| "edge InReview s = (s = InReview \<or> s = Draft \<or> s = Approved)"
| "edge Approved s = (s = Published)"
| "edge Published s = (s = Superseded)"
| "edge Superseded s = False"

lemma draft_step_edge: "draft_step env a d d' \<Longrightarrow> edge (dr_state d) (dr_state d')"
  by (induction rule: draft_step.induct) (auto simp: mark_defs Let_def)

lemma finalize_fields:
  assumes "finalize_publication_candidate env m now = Inr n"
  shows "mf_manifest_id n = mf_manifest_id m" and "mf_version n = mf_version m"
    and "mf_artifact_digest n = artifact_digest env n" and "mf_semantic_digest n = semantic_digest env n"
    and "published_by (mf_audit n) = actor_id (env_publication_actor env)"
    and "published_at (mf_audit n) = now" and "approval_status (mf_audit n) = ''approved''"
  using assms
  by (auto simp: finalize_publication_candidate_def canonicalize_manifest_def revalidates_def
      result_simps Let_def split: prod.splits)

lemma draft_step_frame:
  assumes "draft_step env a d d'"
  shows "draft_id d' = draft_id d" and "dr_manifest_id d' = dr_manifest_id d"
    and "revision d' = revision d + 1" and "dr_previous_version d' = dr_previous_version d"
    and "mf_version (dr_manifest d') = mf_version (dr_manifest d)"
    and "rollback_source_version d' = rollback_source_version d"
    and "created_by d' = created_by d" and "created_at d' = created_at d" and "updated_by d' = a"
  using assms
  by (induction rule: draft_step.induct) (auto simp: mark_defs Let_def dest: finalize_fields)

section \<open>Well-formed drafts\<close>

definition reviews_wf :: "'b draft_record \<Rightarrow> bool" where
  "reviews_wf d \<longleftrightarrow>
     list_all (\<lambda>rv. kind (reviewed_by rv) = Human \<and> reviewed_revision rv \<le> revision d
       \<and> rd_decision_id rv = review_decision_id d (reviewed_revision rv)) (review_decisions d)
     \<and> sorted_wrt (<) (map reviewed_revision (review_decisions d))
     \<and> length (review_decisions d) \<le> 100"

text \<open>
  The approval of \<open>d\<close>, given at revision \<open>r\<close> by a human for the digest the draft still has, and
  backed by an approving human review of that same digest in the revision before.
\<close>

definition human_approved :: "'b draft_record \<Rightarrow> nat \<Rightarrow> bool" where
  "human_approved d r \<longleftrightarrow> (case approval d of
       None \<Rightarrow> False
     | Some ap \<Rightarrow> kind (approved_by ap) = Human \<and> approved_revision ap = r
         \<and> ad_manifest_version ap = mf_version (dr_manifest d)
         \<and> ad_manifest_digest ap = dr_manifest_digest d
         \<and> (\<exists>rv \<in> set (review_decisions d). ad_review_decision_id ap = Some (rd_decision_id rv)
              \<and> rd_decision rv = ReviewApproved \<and> kind (reviewed_by rv) = Human
              \<and> reviewed_revision rv + 1 = r \<and> rd_manifest_digest rv = dr_manifest_digest d))"

definition state_wf :: "'b env \<Rightarrow> 'b draft_record \<Rightarrow> bool" where
  "state_wf env d \<longleftrightarrow> (case dr_state d of
       Draft \<Rightarrow> validation d = None \<and> review d = None \<and> dr_candidate d = None \<and> approval d = None
     | Validated \<Rightarrow> (case validation d of None \<Rightarrow> False | Some v \<Rightarrow>
           validated_revision v = revision d \<and> vr_manifest_digest v = dr_manifest_digest d)
         \<and> review d = None \<and> dr_candidate d = None \<and> approval d = None
     | InReview \<Rightarrow> \<not> isl (require_current_candidate env d) \<and> approval d = None
     | Approved \<Rightarrow> \<not> isl (require_current_candidate env d) \<and> human_approved d (revision d)
     | Published \<Rightarrow> \<not> isl (require_current_candidate env d) \<and> human_approved d (revision d - 1)
     | Superseded \<Rightarrow> \<not> isl (require_current_candidate env d) \<and> human_approved d (revision d - 2))"

definition draft_wf :: "'b env \<Rightarrow> 'b draft_record \<Rightarrow> bool" where
  "draft_wf env d \<longleftrightarrow> 1 \<le> revision d \<and> mf_manifest_id (dr_manifest d) = dr_manifest_id d
     \<and> ensure_manifest_digest env (dr_manifest d) (dr_manifest_digest d) = Inr ()
     \<and> reviews_wf d \<and> state_wf env d"

lemma ensure_digest_eq_Inr [result_simps]:
  "ensure_manifest_digest env m dig = Inr u \<longleftrightarrow>
     mf_artifact_digest m = artifact_digest env m \<and> dig = artifact_digest env m"
  by (auto simp: ensure_manifest_digest_def Let_def)

lemma candidate_eq_Inr:
  "require_current_candidate env d = Inr c \<longleftrightarrow>
     dr_candidate d = Some c \<and> (\<exists>r. review d = Some r
       \<and> publication_candidate_digest r = dr_manifest_digest d)
     \<and> finalized_by c = env_publication_actor env
     \<and> pc_manifest_version c = mf_version (dr_manifest d)
     \<and> pc_manifest_digest c = dr_manifest_digest d
     \<and> pc_semantic_digest c = mf_semantic_digest (dr_manifest d)
     \<and> pc_approval_status c = ''approved''
     \<and> published_by (mf_audit (dr_manifest d)) = actor_id (env_publication_actor env)
     \<and> published_at (mf_audit (dr_manifest d)) = finalized_at c
     \<and> approval_status (mf_audit (dr_manifest d)) = ''approved''
     \<and> ensure_manifest_digest env (dr_manifest d) (dr_manifest_digest d) = Inr ()"
  by (auto simp: require_current_candidate_def bindR_eq_Inr requireR_eq_Inr Let_def)

lemma not_isl_iff: "\<not> isl x \<longleftrightarrow> (\<exists>y. x = Inr y)"
  by (cases x) auto

lemma draft_step_reviews_wf:
  assumes "draft_step env a d d'" and "reviews_wf d"
  shows "reviews_wf d'"
  using assms
  by (induction rule: draft_step.induct)
    (auto simp: reviews_wf_def mark_defs Let_def list_all_iff sorted_wrt_append
      make_review_def review_decision_id_def)

lemma current_review_SomeD:
  "current_approved_review d = Some rv \<Longrightarrow> rv \<in> set (review_decisions d)
     \<and> rd_decision rv = ReviewApproved \<and> reviewed_revision rv = revision d
     \<and> rd_manifest_digest rv = dr_manifest_digest d"
  by (auto simp: current_approved_review_def Let_def split: list.splits if_splits)

lemma draft_step_state_wf:
  assumes "draft_step env a d d'" and "state_wf env d" and "reviews_wf d"
  shows "state_wf env d'"
  using assms
proof (induction rule: draft_step.induct)
  case (submitted d now m why)
  then show ?case
    by (auto simp: state_wf_def mark_defs not_isl_iff candidate_eq_Inr ensure_digest_eq_Inr
        finalize_fields)
next
  case (approved d rv now ac receipt)
  from current_review_SomeD[OF approved.hyps(3)] approved show ?case
    by (auto simp: state_wf_def mark_defs not_isl_iff candidate_eq_Inr human_approved_def
        make_approval_def reviews_wf_def list_all_iff intro!: bexI[of _ rv])
qed (auto simp: state_wf_def mark_defs Let_def not_isl_iff candidate_eq_Inr human_approved_def
    split: option.splits)

theorem draft_step_wf: "draft_step env a d d' \<Longrightarrow> draft_wf env d \<Longrightarrow> draft_wf env d'"
proof -
  assume step: "draft_step env a d d'" and wf: "draft_wf env d"
  have "mf_manifest_id (dr_manifest d') = dr_manifest_id d'
      \<and> ensure_manifest_digest env (dr_manifest d') (dr_manifest_digest d') = Inr ()"
    using step wf
    by (induction rule: draft_step.induct)
      (auto simp: draft_wf_def mark_defs Let_def finalize_fields ensure_digest_eq_Inr)
  with step wf show ?thesis
    by (simp add: draft_wf_def draft_step_frame draft_step_reviews_wf draft_step_state_wf)
qed

section \<open>Refinement of the handlers\<close>

text \<open>
  A committed move: the handler found the draft, moved it along one step of the machine, and
  wrote it with an event that describes the new revision.
\<close>

definition moves ::
    "'b env \<Rightarrow> actor \<Rightarrow> string \<Rightarrow> audit_action \<Rightarrow> 'b draft_record \<Rightarrow> 'b draft_record \<Rightarrow> 'b tx \<Rightarrow> 'b tx \<Rightarrow> bool" where
  "moves env a did act d d' t t' \<longleftrightarrow>
     get_draft t did = Some d \<and> draft_step env a d d'
     \<and> (\<exists>now why repl pa pt. write_draft env d' (Some (revision d))
          (lifecycle_event now a act d' (Some (revision d)) why repl pa pt) t = Inr t')"

lemma movesI:
  "get_draft t did = Some d \<Longrightarrow> draft_step env a d d' \<Longrightarrow>
   write_draft env d' (Some (revision d)) (lifecycle_event now a act d' (Some (revision d)) why repl pa pt) t
     = Inr t' \<Longrightarrow> moves env a did act d d' t t'"
  unfolding moves_def by blast

lemma require_draft_eq_Inr [result_simps]: "require_draft t did = Inr d \<longleftrightarrow> get_draft t did = Some d"
  by (simp add: require_draft_def result_simps)

lemma require_published_eq_Inr [result_simps]:
  "require_published t mid v = Inr p \<longleftrightarrow> get_published t mid v = Some p"
  by (simp add: require_published_def result_simps)

lemma require_state_eq_Inr [result_simps]: "require_state d st = Inr u \<longleftrightarrow> dr_state d = st"
  by (simp add: require_state_def result_simps)

lemma lifecycle_manifest_revalidates:
  "validate_lifecycle_manifest env t d m dig now = Inr u \<Longrightarrow> revalidates env m"
  by (auto simp: validate_lifecycle_manifest_def result_simps)

lemmas found = bindR_eq_Inr guardR_eq_Inr requireR_eq_Inr require_draft_eq_Inr
  require_published_eq_Inr require_state_eq_Inr

lemma require_human_at:
  "require z a p mid = Inr u \<Longrightarrow> p \<in> {Review, Approve, Publish, Supersede} \<Longrightarrow> kind a = Human"
  by (auto simp: require_eq_Inr human_only_def)

text \<open>The states from which a draft can still be edited or decided on.\<close>

fun early :: "draft_state \<Rightarrow> bool" where
  "early Draft = True" | "early Validated = True" | "early InReview = True" | "early _ = False"

lemma replace_moves:
  assumes "replace_draft_in_transaction env z clk clk2 a did c occurred cohort t = Inr (d', t')"
  shows "\<exists>d. early (dr_state d) \<and> moves env a did DraftReplaced d d' t t'"
  using assms
  by (auto simp: replace_draft_in_transaction_def found Let_def)
    (metis (lifting) movesI early.simps draft_step.replaced)

lemma validate_moves:
  assumes "validate_draft_tx env z clk a did c t = Inr (resp, t')"
  shows "\<exists>d d'. resp = RDraft d' \<and> early (dr_state d)
    \<and> moves env a did DraftValidated d d' t t'"
  using assms
  by (auto simp: validate_draft_tx_def found Let_def)
    (metis (lifting) movesI early.simps draft_step.validated lifecycle_manifest_revalidates)

lemma submit_moves:
  assumes "submit_for_review_tx env z clk a did c t = Inr (resp, t')"
  shows "\<exists>d d'. resp = RDraft d' \<and> early (dr_state d)
    \<and> moves env a did ReviewSubmitted d d' t t'"
  using assms
  by (auto simp: submit_for_review_tx_def found Let_def)
    (metis (lifting) movesI early.simps draft_step.submitted)

lemma review_moves:
  assumes "review_draft_tx env z clk a did c t = Inr (resp, t')"
  shows "\<exists>d d'. resp = RDraft d' \<and> early (dr_state d)
    \<and> moves env a did ReviewRecorded d d' t t'"
  using assms
  by (auto simp: review_draft_tx_def found Let_def simp del: add_Suc_right add_Suc_shift One_nat_def)
    (metis (lifting) movesI early.simps draft_step.reviewed require_human_at insertCI)

lemma approve_moves:
  assumes "approve_draft_tx env z clk a did c t = Inr (resp, t')"
  shows "\<exists>d d'. resp = RDraft d' \<and> early (dr_state d)
    \<and> moves env a did DraftApproved d d' t t'"
  using assms
  by (auto simp: approve_draft_tx_def found Let_def simp del: One_nat_def)
    (metis (lifting) movesI early.simps draft_step.approved require_human_at insertCI)

text \<open>Publishing and superseding first insert the immutable record, then move the draft.\<close>

lemma publish_moves:
  assumes "publish_draft_tx env z clk a did c t = Inr (resp, t')"
  shows "\<exists>d d' now ap cand receipt t1. get_draft t did = Some d
     \<and> require_current_candidate env d = Inr cand
     \<and> publishable_approval d (approval_id c) = Some ap
     \<and> require_operational_receipt env t d (pub_receipt_id c) now = Inr receipt
     \<and> ensure_lineage t (dr_manifest_id d) (mf_version (dr_manifest d)) (dr_previous_version d) = Inr ()
     \<and> kind a = Human
     \<and> resp = RPublished (make_published env a now c cand ap receipt d)
     \<and> put_published (make_published env a now c cand ap receipt d) t = Inr t1
     \<and> d' = mark_published a now (tc_reason c) d
     \<and> moves env a did VersionPublished d d' t1 t'"
proof -
  from assms obtain d now ap cand receipt t1 where f: "get_draft t did = Some d"
      "dr_state d = Approved" "require_current_candidate env d = Inr cand"
      "publishable_approval d (approval_id c) = Some ap"
      "require_operational_receipt env t d (pub_receipt_id c) now = Inr receipt"
      "ensure_lineage t (dr_manifest_id d) (mf_version (dr_manifest d)) (dr_previous_version d) = Inr ()"
      "require z a Publish (Some (dr_manifest_id d)) = Inr ()"
      "resp = RPublished (make_published env a now c cand ap receipt d)"
      "put_published (make_published env a now c cand ap receipt d) t = Inr t1"
    and w: "write_draft env (mark_published a now (tc_reason c) d) (Some (revision d))
        (lifecycle_event now a VersionPublished (mark_published a now (tc_reason c) d)
           (Some (revision d)) (tc_reason c) None (Some (env_publication_actor env))
           (Some (finalized_at cand))) t1 = Inr t'"
    by (auto simp: publish_draft_tx_def found Let_def)
  from f(7) have human: "kind a = Human" by (rule require_human_at) simp
  have "get_draft t1 did = Some d"
    using f(1,9) by (auto simp: put_published_def get_draft_def split: if_splits)
  from movesI[OF this draft_step.published[OF f(2) human f(4)] w] f human show ?thesis by blast
qed

lemma supersede_moves:
  assumes "supersede_version_tx env clk a mid v c t = Inr (resp, t')" and "kind a = Human"
  shows "\<exists>p q now t1 d d' x. get_published t mid v = Some p
     \<and> get_published t mid (sc_replacement_version c) = Some q
     \<and> pm_previous_version q = Some v \<and> pm_version q \<noteq> v
     \<and> x = \<lparr>ss_manifest_id = mid, superseded_version = v, replacement_version = pm_version q,
            superseded_by = a, superseded_at = now, ss_reason = sc_reason c\<rparr>
     \<and> resp = RSupersession x \<and> put_supersession x t = Inr t1
     \<and> d' = mark_superseded a now (sc_reason c) d
     \<and> moves env a (source_draft_id p) VersionSuperseded d d' t1 t'"
proof -
  define x where "x now q = \<lparr>ss_manifest_id = mid, superseded_version = v,
     replacement_version = pm_version q, superseded_by = a, superseded_at = now,
     ss_reason = sc_reason c\<rparr>" for now and q :: "'a published_manifest"
  from assms(1) obtain p q now t1 d where f: "get_published t mid v = Some p"
      "get_published t mid (sc_replacement_version c) = Some q"
      "pm_previous_version q = Some v" "pm_version q \<noteq> v" "resp = RSupersession (x now q)"
      "put_supersession (x now q) t = Inr t1"
      "get_draft t (source_draft_id p) = Some d" "dr_state d = Published"
    and w: "write_draft env (mark_superseded a now (sc_reason c) d) (Some (revision d))
        (lifecycle_event now a VersionSuperseded (mark_superseded a now (sc_reason c) d)
           (Some (revision d)) (sc_reason c) (Some (pm_version q)) None None) t1 = Inr t'"
    unfolding x_def by (auto simp: supersede_version_tx_def found Let_def)
  have "get_draft t1 (source_draft_id p) = Some d"
    using f(6,7) by (auto simp: put_supersession_def get_draft_def split: if_splits)
  from movesI[OF this draft_step.superseded[OF f(8) assms(2)] w] f show ?thesis
    unfolding x_def by blast
qed

end
