(* ===== verification/StoreMachine.thy ===== *)
theory StoreMachine
  imports DraftMachine
begin

text \<open>
  The abstract store machine: what one committed call may change. \<open>store_step env a s s'\<close> has one
  rule for each kind of change (a draft is created, moved, published or superseded, or an
  operational receipt is issued). \<open>service_call_refines\<close> shows that every call of the service
  either leaves the store as it is or performs one of these steps; the invariants of theory
  Invariants are proved of the steps.
\<close>

section \<open>The machine\<close>

text \<open>The draft is saved under its identifier, with one event of the given action.\<close>

definition saves ::
    "'b env \<Rightarrow> actor \<Rightarrow> audit_action \<Rightarrow> 'b draft_record \<Rightarrow> nat option \<Rightarrow> 'b store \<Rightarrow> 'b store \<Rightarrow> bool" where
  "saves env a act d prev s s' \<longleftrightarrow>
     st_drafts s' = dict_set (draft_id d) d (st_drafts s)
     \<and> (\<exists>now why repl pa pt. append_audit (env_hash env)
          (lifecycle_event now a act d prev why repl pa pt) (st_audit s) = Inr (st_audit s'))"

definition initial_draft :: "'b env \<Rightarrow> actor \<Rightarrow> 'b draft_record \<Rightarrow> bool" where
  "initial_draft env a d \<longleftrightarrow> dr_state d = Draft \<and> revision d = 1
     \<and> mf_manifest_id (dr_manifest d) = dr_manifest_id d
     \<and> ensure_manifest_digest env (dr_manifest d) (dr_manifest_digest d) = Inr ()
     \<and> validation d = None \<and> review d = None \<and> dr_candidate d = None
     \<and> review_decisions d = [] \<and> approval d = None \<and> created_by d = a \<and> updated_by d = a"

definition rolls_back :: "'b env \<Rightarrow> 'b store \<Rightarrow> 'b draft_record \<Rightarrow> bool" where
  "rolls_back env s d \<longleftrightarrow> (case rollback_source_version d of None \<Rightarrow> True
     | Some src \<Rightarrow> (case (get_published s (dr_manifest_id d) src, dr_previous_version d) of
         (Some p, Some previous) \<Rightarrow> src < previous
           \<and> rollback_content_digest env (dr_manifest d) = rollback_content_digest env (pm_manifest p)
       | _ \<Rightarrow> False))"

inductive store_step :: "'b env \<Rightarrow> actor \<Rightarrow> 'b store \<Rightarrow> 'b store \<Rightarrow> bool" for env a where
  created: "get_draft s (draft_id d) = None \<Longrightarrow> get_baseline s (draft_id d) = None
     \<Longrightarrow> initial_draft env a d
     \<Longrightarrow> ensure_lineage s (dr_manifest_id d) (mf_version (dr_manifest d)) (dr_previous_version d) = Inr ()
     \<Longrightarrow> rolls_back env s d
     \<Longrightarrow> saves env a DraftCreated d None s s'
     \<Longrightarrow> st_baselines s' = dict_set (sb_draft_id b) b (st_baselines s) \<Longrightarrow> sb_draft_id b = draft_id d
     \<Longrightarrow> st_published s' = st_published s \<Longrightarrow> st_supersessions s' = st_supersessions s
     \<Longrightarrow> store_step env a s s'"
| moved: "get_draft s did = Some d \<Longrightarrow> early (dr_state d) \<Longrightarrow> draft_step env a d d'
     \<Longrightarrow> act \<in> {DraftReplaced, DraftValidated, ReviewSubmitted, ReviewRecorded, DraftApproved}
     \<Longrightarrow> saves env a act d' (Some (revision d)) s s'
     \<Longrightarrow> st_baselines s' = st_baselines s
     \<Longrightarrow> st_published s' = st_published s \<Longrightarrow> st_supersessions s' = st_supersessions s
     \<Longrightarrow> store_step env a s s'"
| issued: "st_drafts s' = st_drafts s \<Longrightarrow> st_audit s' = st_audit s \<Longrightarrow> st_baselines s' = st_baselines s
     \<Longrightarrow> st_published s' = st_published s \<Longrightarrow> st_supersessions s' = st_supersessions s
     \<Longrightarrow> kind a = Service \<Longrightarrow> store_step env a s s'"
| published: "get_draft s did = Some d \<Longrightarrow> kind a = Human
     \<Longrightarrow> require_current_candidate env d = Inr cand
     \<Longrightarrow> publishable_approval d aid = Some ap \<Longrightarrow> dr_state d = Approved
     \<Longrightarrow> ensure_lineage s (dr_manifest_id d) (mf_version (dr_manifest d)) (dr_previous_version d) = Inr ()
     \<Longrightarrow> p = make_published env a now c cand ap receipt d
     \<Longrightarrow> dict_get (st_published s) (published_key p) = None
     \<Longrightarrow> st_published s' = dict_set (published_key p) p (st_published s)
     \<Longrightarrow> saves env a VersionPublished (mark_published a now why d) (Some (revision d)) s s'
     \<Longrightarrow> st_baselines s' = st_baselines s \<Longrightarrow> st_supersessions s' = st_supersessions s
     \<Longrightarrow> store_step env a s s'"
| superseded: "get_published s mid v = Some p \<Longrightarrow> get_published s mid w = Some q
     \<Longrightarrow> pm_previous_version q = Some v \<Longrightarrow> pm_version q \<noteq> v \<Longrightarrow> kind a = Human
     \<Longrightarrow> get_draft s (source_draft_id p) = Some d \<Longrightarrow> dr_state d = Published
     \<Longrightarrow> ss_manifest_id x = mid \<Longrightarrow> superseded_version x = v \<Longrightarrow> replacement_version x = pm_version q
     \<Longrightarrow> superseded_by x = a \<Longrightarrow> get_supersession s mid v = None
     \<Longrightarrow> st_supersessions s' = dict_set (mid, v) x (st_supersessions s)
     \<Longrightarrow> saves env a VersionSuperseded (mark_superseded a now why d) (Some (revision d)) s s'
     \<Longrightarrow> st_baselines s' = st_baselines s \<Longrightarrow> st_published s' = st_published s
     \<Longrightarrow> store_step env a s s'"

inductive_cases store_stepE: "store_step env a s s'"

section \<open>The service refines the machine\<close>

lemma write_draft_eq_Inr:
  "write_draft env d expected ev t = Inr t' \<longleftrightarrow>
     map_option revision (get_draft t (draft_id d)) = expected
     \<and> (\<exists>es. append_audit (env_hash env) ev (st_audit t) = Inr es
          \<and> t' = t\<lparr>st_drafts := dict_set (draft_id d) d (st_drafts t), st_audit := es, dirty := True\<rparr>)"
  by (auto simp: write_draft_def tx_append_audit_def put_draft_def get_draft_def bindR_eq_Inr Let_def
      split: option.splits if_splits)

lemma write_draft_saves:
  assumes "write_draft env d prev (lifecycle_event now a act d prev why repl pa pt) t = Inr t'"
    and "st_drafts t = st_drafts s" and "st_audit t = st_audit s"
    and "st_drafts s' = st_drafts t'" and "st_audit s' = st_audit t'"
  shows "saves env a act d prev s s'"
proof -
  from assms(1) obtain es where "append_audit (env_hash env)
      (lifecycle_event now a act d prev why repl pa pt) (st_audit t) = Inr es"
    and "t' = t\<lparr>st_drafts := dict_set (draft_id d) d (st_drafts t), st_audit := es, dirty := True\<rparr>"
    unfolding write_draft_eq_Inr by blast
  with assms(2-5) show ?thesis unfolding saves_def by simp blast
qed

lemma write_draft_frame:
  assumes "write_draft env d prev ev t = Inr t'"
  shows "st_published t' = st_published t" "st_supersessions t' = st_supersessions t"
    "st_baselines t' = st_baselines t" "st_receipts t' = st_receipts t"
    "st_operational t' = st_operational t" "st_generation t' = st_generation t"
  using assms by (auto simp: write_draft_eq_Inr)

lemma ensure_lineage_cong:
  "st_published t = st_published s \<Longrightarrow> st_supersessions t = st_supersessions s
   \<Longrightarrow> ensure_lineage t mid v prev = ensure_lineage s mid v prev"
  by (simp add: ensure_lineage_def active_versions_def list_published_def get_supersession_def cong: if_cong)

lemma create_saves:
  assumes "create_draft_tx env clk a c t = Inr (resp, t')"
  shows "\<exists>now t1. resp = RDraft (new_draft a now c)
    \<and> ensure_manifest_digest env (cc_manifest c) (cc_manifest_digest c) = Inr ()
    \<and> ensure_lineage t (mf_manifest_id (cc_manifest c)) (mf_version (cc_manifest c))
        (cc_previous_version c) = Inr ()
    \<and> ensure_rollback env t c = Inr ()
    \<and> put_baseline (new_baseline a now c) t = Inr t1
    \<and> write_draft env (new_draft a now c) None
        (lifecycle_event now a DraftCreated (new_draft a now c) None (cc_reason c) None None None) t1
      = Inr t'"
  using assms by (auto simp: create_draft_tx_def Let_def bindR_eq_Inr)

lemma new_draft_fields [simp]:
  "draft_id (new_draft a now c) = cc_draft_id c"
  "dr_manifest_id (new_draft a now c) = mf_manifest_id (cc_manifest c)"
  "dr_manifest (new_draft a now c) = cc_manifest c"
  "dr_previous_version (new_draft a now c) = cc_previous_version c"
  "rollback_source_version (new_draft a now c) = cc_rollback_source c"
  "sb_draft_id (new_baseline a now c) = cc_draft_id c"
  by (simp_all add: new_draft_def new_baseline_def)

lemma initial_new_draft:
  "ensure_manifest_digest env (cc_manifest c) (cc_manifest_digest c) = Inr u
   \<Longrightarrow> initial_draft env a (new_draft a now c)"
  by (simp add: initial_draft_def new_draft_def)

lemma ensure_rollback_eq_Inr:
  "ensure_rollback env t c = Inr u \<longleftrightarrow> (case cc_rollback_source c of None \<Rightarrow> True
     | Some src \<Rightarrow> (\<exists>p previous. get_published t (mf_manifest_id (cc_manifest c)) src = Some p
         \<and> cc_previous_version c = Some previous \<and> src < previous
         \<and> rollback_content_digest env (cc_manifest c) = rollback_content_digest env (pm_manifest p)))"
  by (auto simp: ensure_rollback_def less_version_def bindR_eq_Inr requireR_eq_Inr
      split: option.splits)

text \<open>
  \<open>agrees t s\<close>: the collections of the lifecycle are the same in both; a transaction agrees with
  the store it started from, and the committed store with the transaction.
\<close>

definition agrees :: "('b, 'y) store_scheme \<Rightarrow> ('b, 'z) store_scheme \<Rightarrow> bool" where
  "agrees t s \<longleftrightarrow> st_drafts t = st_drafts s \<and> st_audit t = st_audit s
     \<and> st_baselines t = st_baselines s \<and> st_published t = st_published s
     \<and> st_supersessions t = st_supersessions s"

lemma agrees_enter: "agrees (tx_enter s) s"
  by (simp add: agrees_def)

lemma agrees_commit:
  "put_receipt rec t1 = Inr t2 \<Longrightarrow> agrees ((store.truncate t2)\<lparr>st_generation := n\<rparr>) t1"
  by (auto simp: agrees_def put_receipt_def split: if_splits)

lemma agrees_get:
  assumes "agrees t s"
  shows "get_draft t did = get_draft s did" "get_published t m v = get_published s m v"
    "get_supersession t m v = get_supersession s m v" "get_baseline t did = get_baseline s did"
    "ensure_lineage t m v prev = ensure_lineage s m v prev"
  using assms
  by (auto simp: agrees_def get_draft_def get_published_def get_supersession_def get_baseline_def
      intro!: ensure_lineage_cong)

lemma created_step:
  assumes body: "create_draft_tx env clk a c t = Inr (resp, t')" and "agrees t s" and "agrees s' t'"
  shows "store_step env a s s'"
proof -
  from create_saves[OF body] obtain now t1 where
      dig: "ensure_manifest_digest env (cc_manifest c) (cc_manifest_digest c) = Inr ()"
    and lin: "ensure_lineage t (mf_manifest_id (cc_manifest c)) (mf_version (cc_manifest c))
        (cc_previous_version c) = Inr ()"
    and rb: "ensure_rollback env t c = Inr ()"
    and base: "put_baseline (new_baseline a now c) t = Inr t1"
    and w: "write_draft env (new_draft a now c) None (lifecycle_event now a DraftCreated
        (new_draft a now c) None (cc_reason c) None None None) t1 = Inr t'" by blast
  have t1: "t1 = t\<lparr>st_baselines := dict_set (cc_draft_id c) (new_baseline a now c) (st_baselines t),
      dirty := True\<rparr>" and fresh: "get_baseline t (cc_draft_id c) = None"
    using base by (auto simp: put_baseline_def get_baseline_def split: if_splits)
  have none: "get_draft t (cc_draft_id c) = None"
    using w t1 by (simp add: write_draft_eq_Inr get_draft_def)
  note frame = write_draft_frame[OF w]
  show ?thesis
  proof (rule store_step.created[where d = "new_draft a now c" and b = "new_baseline a now c"])
    show "saves env a DraftCreated (new_draft a now c) None s s'"
      using assms(2,3) t1 by (intro write_draft_saves[OF w]) (auto simp: agrees_def)
    show "rolls_back env s (new_draft a now c)"
      using rb by (auto simp: rolls_back_def ensure_rollback_eq_Inr agrees_get[OF assms(2)]
          split: option.splits)
  qed (use assms(2,3) t1 none fresh lin dig frame in
      \<open>auto simp: agrees_def agrees_get[OF assms(2)] initial_new_draft\<close>)
qed

lemma moved_step:
  assumes "moves env a did act d d' t t'" and "early (dr_state d)"
    and "act \<in> {DraftReplaced, DraftValidated, ReviewSubmitted, ReviewRecorded, DraftApproved}"
    and "agrees t s" and "agrees s' t'"
  shows "store_step env a s s'"
proof -
  from assms(1) obtain now why repl pa pt where d: "get_draft t did = Some d" "draft_step env a d d'"
    and w: "write_draft env d' (Some (revision d))
      (lifecycle_event now a act d' (Some (revision d)) why repl pa pt) t = Inr t'"
    unfolding moves_def by blast
  have "saves env a act d' (Some (revision d)) s s'"
    using assms(4,5) by (intro write_draft_saves[OF w]) (auto simp: agrees_def)
  then show ?thesis
    using assms d write_draft_frame[OF w] agrees_get[OF assms(4)]
    by (auto simp: agrees_def intro!: store_step.moved[where s = s and did = did and d = d and d' = d' and act = act])
qed

lemma published_step:
  assumes body: "publish_draft_tx env z clk a did c t = Inr (resp, t')"
    and "agrees t s" and "agrees s' t'"
  shows "store_step env a s s'"
proof -
  from publish_moves[OF body] obtain d now ap cand receipt t1 where d: "get_draft t did = Some d"
      "require_current_candidate env d = Inr cand"
      "publishable_approval d (approval_id c) = Some ap" "kind a = Human"
    and lin: "ensure_lineage t (dr_manifest_id d) (mf_version (dr_manifest d)) (dr_previous_version d) = Inr ()"
    and put: "put_published (make_published env a now c cand ap receipt d) t = Inr t1"
    and m: "moves env a did VersionPublished d (mark_published a now (tc_reason c) d) t1 t'" by blast
  from m obtain now' why repl pa pt where
    w: "write_draft env (mark_published a now (tc_reason c) d) (Some (revision d)) (lifecycle_event now' a
        VersionPublished (mark_published a now (tc_reason c) d) (Some (revision d)) why repl pa pt) t1 = Inr t'"
    unfolding moves_def by blast
  let ?p = "make_published env a now c cand ap receipt d"
  have t1: "t1 = t\<lparr>st_published := dict_set (published_key ?p) ?p (st_published t), dirty := True\<rparr>"
    and none: "dict_get (st_published t) (published_key ?p) = None"
    using put by (auto simp: put_published_def split: if_splits)
  have "dr_state d = Approved"
  proof -
    from body d(1) show ?thesis by (auto simp: publish_draft_tx_def found Let_def)
  qed
  moreover have "saves env a VersionPublished (mark_published a now (tc_reason c) d) (Some (revision d)) s s'"
    using assms(2,3) t1 by (intro write_draft_saves[OF w]) (auto simp: agrees_def)
  ultimately show ?thesis
    using d lin none t1 assms(2,3) write_draft_frame[OF w] agrees_get[OF assms(2)]
    by (auto simp: agrees_def intro!: store_step.published[where s = s and did = did and d = d and p = ?p and cand = cand and aid = "approval_id c" and ap = ap])
qed

lemma superseded_step:
  assumes body: "supersede_version_tx env clk a mid v c t = Inr (resp, t')" and human: "kind a = Human"
    and "agrees t s" and "agrees s' t'"
  shows "store_step env a s s'"
proof -
  from supersede_moves[OF body human] obtain p q now t1 d x where pq:
      "get_published t mid v = Some p" "get_published t mid (sc_replacement_version c) = Some q"
      "pm_previous_version q = Some v" "pm_version q \<noteq> v"
    and x: "x = \<lparr>ss_manifest_id = mid, superseded_version = v, replacement_version = pm_version q,
            superseded_by = a, superseded_at = now, ss_reason = sc_reason c\<rparr>"
    and put: "put_supersession x t = Inr t1"
    and m: "moves env a (source_draft_id p) VersionSuperseded d (mark_superseded a now (sc_reason c) d) t1 t'"
    by blast
  from m obtain now' why repl pa pt where
    w: "write_draft env (mark_superseded a now (sc_reason c) d) (Some (revision d)) (lifecycle_event now' a
        VersionSuperseded (mark_superseded a now (sc_reason c) d) (Some (revision d)) why repl pa pt) t1 = Inr t'"
    and d: "get_draft t1 (source_draft_id p) = Some d"
    unfolding moves_def by blast
  have key: "supersession_key x = (mid, v)" by (simp add: x supersession_key_def)
  have t1: "t1 = t\<lparr>st_supersessions := dict_set (mid, v) x (st_supersessions t), dirty := True\<rparr>"
    and none: "get_supersession t mid v = None"
    using put key by (auto simp: put_supersession_def get_supersession_def split: if_splits)
  from d t1 have d: "get_draft t (source_draft_id p) = Some d" by (simp add: get_draft_def)
  have st: "dr_state d = Published"
    using body d pq(1) by (auto simp: supersede_version_tx_def found Let_def)
  have sv: "saves env a VersionSuperseded (mark_superseded a now (sc_reason c) d) (Some (revision d)) s s'"
    using assms(3,4) t1 by (intro write_draft_saves[OF w]) (auto simp: agrees_def)
  show ?thesis
    by (rule store_step.superseded[OF _ _ pq(3,4) human _ st _ _ _ _ _ _ sv, where x = x])
      (use pq d none t1 x assms(3,4) write_draft_frame[OF w] agrees_get[OF assms(3)] in
        \<open>auto simp: agrees_def\<close>)
qed

lemma issued_step:
  assumes body: "issue_receipt_tx env z clk a c t = Inr (resp, t')" and "kind a = Service"
    and "agrees t s" and "agrees s' t'"
  shows "store_step env a s s'"
proof -
  have "agrees t' t"
    using body by (auto simp: issue_receipt_tx_def found Let_def put_operational_def agrees_def
        split: if_splits option.splits)
  with assms show ?thesis by (intro store_step.issued) (simp_all add: agrees_def)
qed

text \<open>Every call leaves the store alone or performs one step of the machine.\<close>

lemma call_body_step:
  assumes "call_body env z clk a c t = Inr (resp, t')" and "call_auth z a c s0 = Inr ()"
    and "agrees t s" and "agrees s' t'"
  shows "store_step env a s s'"
proof (cases c)
  case (CallReplace did rc)
  with assms(1) obtain d' where "replace_draft_in_transaction env z clk clk a did rc None None t = Inr (d', t')"
    by (auto simp: replace_draft_tx_def bindR_eq_Inr)
  from replace_moves[OF this] assms(3,4) show ?thesis by (auto intro: moved_step)
next
  case (CallValidate did vc)
  with assms(1) have "validate_draft_tx env z clk a did vc t = Inr (resp, t')" by simp
  from validate_moves[OF this] assms(3,4) show ?thesis by (auto intro: moved_step)
next
  case (CallSubmit did sc)
  with assms(1) have "submit_for_review_tx env z clk a did sc t = Inr (resp, t')" by simp
  from submit_moves[OF this] assms(3,4) show ?thesis by (auto intro: moved_step)
next
  case (CallReview did rc)
  with assms(1) have "review_draft_tx env z clk a did rc t = Inr (resp, t')" by simp
  from review_moves[OF this] assms(3,4) show ?thesis by (auto intro: moved_step)
next
  case (CallApprove did ac)
  with assms(1) have "approve_draft_tx env z clk a did ac t = Inr (resp, t')" by simp
  from approve_moves[OF this] assms(3,4) show ?thesis by (auto intro: moved_step)
next
  case (CallSupersede m v sc)
  with assms(2) have "kind a = Human" by (simp add: require_eq_Inr human_only_def)
  with CallSupersede assms show ?thesis by (auto intro: superseded_step)
next
  case (CallIssue ic)
  with assms(2) have "kind a = Service" by (simp add: bindR_eq_Inr guardR_eq_Inr)
  with CallIssue assms show ?thesis by (auto intro: issued_step)
qed (use assms in \<open>auto intro: created_step published_step\<close>)

lemma service_call_step:
  assumes "service_call env z clk a key c s = (r, s')"
  shows "s' = s \<or> store_step env a s s'"
  using assms
proof (cases rule: service_call_outcome)
  case (committed resp t1 t2)
  then show ?thesis
    using call_body_step[OF committed(4,3) agrees_enter] agrees_commit[OF committed(6)] by simp
qed simp_all

text \<open>An invariant of the machine holds in every reachable store.\<close>

lemma store_invariant:
  assumes "P empty_store"
    and "\<And>a s s'. P s \<Longrightarrow> store_step env a s s' \<Longrightarrow> P s'"
    and "reachable env z s"
  shows "P s"
  using assms(3)
proof (induction rule: reachable.induct)
  case (call z s c clk a key r s')
  from service_call_step[OF call.hyps(3)] show ?case using call.IH assms(2) by blast
qed (use assms(1) in simp_all)

end
