(* ===== verification/Invariants.thy ===== *)
theory Invariants
  imports StoreMachine
begin

text \<open>
  The invariants of the reachable stores, each by induction over the steps of the store machine:
  the dicts are keyed by their records, every draft is well-formed, the audit history verifies and
  lists every revision of every draft exactly once, and the published manifests, the supersessions
  and the states of their source drafts agree.
\<close>

section \<open>Keys\<close>

definition keyed :: "'b store \<Rightarrow> bool" where
  "keyed s \<longleftrightarrow> dict_ok draft_id (st_drafts s) \<and> dict_ok published_key (st_published s)
     \<and> dict_ok supersession_key (st_supersessions s) \<and> dict_ok sb_draft_id (st_baselines s)"

lemma keyed_step:
  assumes "keyed s" and "store_step env a s s'"
  shows "keyed s'"
  using assms(2,1)
proof (induction rule: store_step.induct)
  case (created s d s' b)
  then show ?case
    using dict_ok_set[of sb_draft_id "st_baselines s" b] by (simp add: keyed_def saves_def dict_ok_set)
next
  case (superseded s mid v p w q d x s' now why)
  then have "supersession_key x = (mid, v)" by (simp add: supersession_key_def)
  then have "dict_ok supersession_key (st_supersessions s')"
    using superseded dict_ok_set[of supersession_key "st_supersessions s" x] by (simp add: keyed_def)
  with superseded show ?case by (simp add: keyed_def saves_def dict_ok_set)
qed (auto simp: keyed_def saves_def dict_ok_set)

lemma reachable_keyed: "reachable env z s \<Longrightarrow> keyed s"
  by (rule store_invariant[where P = keyed, OF _ keyed_step])
    (simp_all add: keyed_def empty_store_def)

lemma keyed_draft: "keyed s \<Longrightarrow> get_draft s did = Some d \<Longrightarrow> draft_id d = did"
  by (auto simp: keyed_def get_draft_def dest: dict_ok_get)

lemma keyed_published:
  "keyed s \<Longrightarrow> get_published s mid v = Some p \<Longrightarrow> pm_manifest_id p = mid \<and> pm_version p = v"
  by (auto simp: keyed_def get_published_def published_key_def dest: dict_ok_get)

lemma saves_get: "saves env a act d prev s s' \<Longrightarrow> get_draft s' = (get_draft s)(draft_id d \<mapsto> d)"
  by (simp add: saves_def get_draft_def fun_eq_iff)

section \<open>Drafts\<close>

text \<open>What a step does to the drafts and to the history.\<close>

lemma store_step_drafts:
  assumes "store_step env a s s'"
  obtains (none) "st_drafts s' = st_drafts s" and "st_audit s' = st_audit s"
  | (new) d where "get_draft s (draft_id d) = None" and "get_baseline s (draft_id d) = None"
      and "initial_draft env a d" and "saves env a DraftCreated d None s s'"
  | (step) did d d' act where "get_draft s did = Some d" and "draft_step env a d d'"
      and "saves env a act d' (Some (revision d)) s s'" and "act \<noteq> DraftCreated"
  using assms
proof (cases rule: store_step.cases)
  case (published did d cand aid ap p now c receipt why)
  then show thesis by (intro step[OF published(1) draft_step.published]) auto
next
  case (superseded mid v p w q d x now why)
  then show thesis by (intro step[OF superseded(6) draft_step.superseded]) auto
qed (use none new step in auto)

definition drafts_wf :: "'b env \<Rightarrow> 'b store \<Rightarrow> bool" where
  "drafts_wf env s \<longleftrightarrow> (\<forall>did d. get_draft s did = Some d \<longrightarrow> draft_wf env d)"

lemma initial_draft_wf: "initial_draft env a d \<Longrightarrow> draft_wf env d"
  by (simp add: initial_draft_def draft_wf_def reviews_wf_def state_wf_def)

lemma drafts_wf_step:
  assumes "drafts_wf env s" and "store_step env a s s'"
  shows "drafts_wf env s'"
  using assms(2)
proof (cases rule: store_step_drafts)
  case none
  with assms(1) show ?thesis by (simp add: drafts_wf_def get_draft_def)
next
  case (new d)
  with assms(1) show ?thesis by (simp add: drafts_wf_def saves_get initial_draft_wf)
next
  case (step did d d' act)
  from step(1,2) assms(1) have "draft_wf env d'" by (auto simp: drafts_wf_def intro: draft_step_wf)
  with step assms(1) show ?thesis by (simp add: drafts_wf_def saves_get)
qed

lemma reachable_drafts_wf: "reachable env z s \<Longrightarrow> drafts_wf env s"
  by (rule store_invariant[where P = "drafts_wf env", OF _ drafts_wf_step])
    (simp_all add: drafts_wf_def empty_store_def get_draft_def)

definition baselines_ok :: "'b store \<Rightarrow> bool" where
  "baselines_ok s \<longleftrightarrow> keyed s \<and> (\<forall>did. get_baseline s did = None \<longleftrightarrow> get_draft s did = None)"

lemma baselines_kept:
  assumes "baselines_ok s" and "keyed s'" and "st_baselines s' = st_baselines s"
    and "saves env a act d' prev s s'" and "get_draft s (draft_id d') \<noteq> None"
  shows "baselines_ok s'"
proof -
  from assms(4) have "get_draft s' did = None \<longleftrightarrow> get_draft s did = None" for did
    using assms(5) by (simp add: saves_get)
  moreover from assms(3) have "get_baseline s' = get_baseline s"
    by (simp add: get_baseline_def fun_eq_iff)
  ultimately show ?thesis using assms(1,2) by (simp add: baselines_ok_def)
qed

lemma baselines_step:
  assumes ok: "baselines_ok s" and st: "store_step env a s s'"
  shows "baselines_ok s'"
proof -
  from ok st have k: "keyed s" "keyed s'" by (auto simp: baselines_ok_def intro: keyed_step)
  from st show ?thesis
  proof (cases rule: store_step.cases)
    case (created d b)
    then have "get_baseline s' = (get_baseline s)(draft_id d \<mapsto> b)"
      by (simp add: get_baseline_def fun_eq_iff)
    with created k ok show ?thesis by (simp add: baselines_ok_def saves_get)
  next
    case (moved did d d' act)
    have "draft_id d' = did" using draft_step_frame(1)[OF moved(3)] keyed_draft[OF k(1) moved(1)] by simp
    with moved show ?thesis by (intro baselines_kept[OF ok k(2) moved(6) moved(5)]) simp
  next
    case issued
    with ok k show ?thesis by (simp add: baselines_ok_def get_baseline_def get_draft_def)
  next
    case (published did d cand aid ap p now c receipt why)
    have "draft_id d = did" using keyed_draft[OF k(1) published(1)] .
    with published show ?thesis
      by (intro baselines_kept[OF ok k(2) published(11) published(10)]) (simp add: mark_defs)
  next
    case (superseded mid v p w q d x now why)
    have "draft_id d = source_draft_id p" using keyed_draft[OF k(1) superseded(6)] .
    with superseded show ?thesis
      by (intro baselines_kept[OF ok k(2) superseded(15) superseded(14)]) (simp add: mark_defs)
  qed
qed

text \<open>Every draft has its selector baseline, and nothing else has one.\<close>

lemma reachable_baselines: "reachable env z s \<Longrightarrow> baselines_ok s"
  by (rule store_invariant[where P = baselines_ok, OF _ baselines_step])
    (simp_all add: baselines_ok_def keyed_def empty_store_def get_draft_def get_baseline_def)

section \<open>The audit history\<close>

definition events_of :: "('b, 'z) store_scheme \<Rightarrow> string \<Rightarrow> audit_event list" where
  "events_of s did = filter (\<lambda>e. ae_draft_id e = Some did) (st_audit s)"

text \<open>
  The history verifies, and the events of a draft are one for each of its revisions, in order, the
  last of them with the digest and the actor the draft has now.
\<close>

fun records :: "audit_event list \<Rightarrow> 'b draft_record option \<Rightarrow> bool" where
  "records es None = (es = [])"
| "records es (Some d) = (map ae_revision es = map Some [1..<Suc (revision d)] \<and> es \<noteq> []
     \<and> ae_manifest_digest (last es) = dr_manifest_digest d \<and> ae_actor (last es) = updated_by d)"

definition history_wf :: "'b env \<Rightarrow> 'b store \<Rightarrow> bool" where
  "history_wf env s \<longleftrightarrow> keyed s \<and> verify_audit_chain (env_hash env) (st_audit s) = Inr ()
     \<and> (\<forall>did. records (events_of s did) (get_draft s did))"

lemma lifecycle_event_fields [simp]:
  "ae_draft_id (lifecycle_event now a act d prev why repl pa pt) = Some (draft_id d)"
  "ae_revision (lifecycle_event now a act d prev why repl pa pt) = Some (revision d)"
  "ae_manifest_digest (lifecycle_event now a act d prev why repl pa pt) = dr_manifest_digest d"
  "ae_actor (lifecycle_event now a act d prev why repl pa pt) = a"
  "ae_action (lifecycle_event now a act d prev why repl pa pt) = act"
  "ae_manifest_id (lifecycle_event now a act d prev why repl pa pt) = dr_manifest_id d"
  by (simp_all add: lifecycle_event_def)

lemma seal_pending_fields [simp]:
  "ae_draft_id (seal_event H p n h) = ae_draft_id p"
  "ae_revision (seal_event H p n h) = ae_revision p"
  "ae_manifest_digest (seal_event H p n h) = ae_manifest_digest p"
  "ae_actor (seal_event H p n h) = ae_actor p"
  "ae_action (seal_event H p n h) = ae_action p"
  "ae_manifest_id (seal_event H p n h) = ae_manifest_id p"
  by (simp_all add: seal_event_def pending_audit_event.defs audit_event.defs)

lemma saves_audit:
  assumes "saves env a act d prev s s'"
  obtains e where "st_audit s' = st_audit s @ [e]" and "ae_draft_id e = Some (draft_id d)"
    and "ae_revision e = Some (revision d)" and "ae_manifest_digest e = dr_manifest_digest d"
    and "ae_actor e = a" and "ae_action e = act" and "ae_manifest_id e = dr_manifest_id d"
    and "verify_audit_chain (env_hash env) (st_audit s') = Inr ()"
  using assms append_audit_verified unfolding saves_def append_audit_eq_Inr
  by (metis lifecycle_event_fields seal_pending_fields append_audit_eq_Inr)

lemma history_saved:
  assumes "history_wf env s" and "keyed s'" and "saves env a act d prev s s'" and "updated_by d = a"
    and "map ae_revision (events_of s (draft_id d)) = map Some [1..<revision d]" and "1 \<le> revision d"
  shows "history_wf env s'"
proof -
  obtain e where e: "st_audit s' = st_audit s @ [e]" "ae_draft_id e = Some (draft_id d)"
      "ae_revision e = Some (revision d)" "ae_manifest_digest e = dr_manifest_digest d"
      "ae_actor e = a" "verify_audit_chain (env_hash env) (st_audit s') = Inr ()"
    using assms(3) by (rule saves_audit)
  have ev: "events_of s' did = (if did = draft_id d then events_of s did @ [e] else events_of s did)" for did
    using e by (simp add: events_of_def)
  have "records (events_of s' did) (get_draft s' did)" for did
    using assms(1,3-6) e by (simp add: saves_get ev history_wf_def)
  with assms(2) e(6) show ?thesis unfolding history_wf_def by blast
qed

lemma history_wf_step:
  assumes wf: "history_wf env s" and st: "store_step env a s s'"
  shows "history_wf env s'"
  using st
proof (cases rule: store_step_drafts)
  case none
  then have "events_of s' = events_of s" and "get_draft s' = get_draft s"
    by (simp_all add: events_of_def get_draft_def fun_eq_iff)
  with none wf show ?thesis using keyed_step[OF _ st] by (simp add: history_wf_def)
next
  case (new d)
  have "events_of s (draft_id d) = []"
    using wf new(1) unfolding history_wf_def by (metis records.simps(1))
  with new wf show ?thesis
    by (intro history_saved[OF wf keyed_step[OF _ st] new(4)])
      (auto simp: history_wf_def initial_draft_def)
next
  case (step did d d' act)
  note frame = draft_step_frame[OF step(2)]
  have "draft_id d = did" using wf step(1) by (auto simp: history_wf_def intro: keyed_draft)
  moreover have "map ae_revision (events_of s did) = map Some [1..<Suc (revision d)]"
    using wf step(1) unfolding history_wf_def by (metis records.simps(2))
  ultimately show ?thesis
    using wf frame by (intro history_saved[OF wf keyed_step[OF _ st] step(3)]) (auto simp: history_wf_def)
qed

lemma reachable_history: "reachable env z s \<Longrightarrow> history_wf env s"
  by (rule store_invariant[where P = "history_wf env", OF _ history_wf_step])
    (simp_all add: history_wf_def keyed_def empty_store_def get_draft_def events_of_def)

end
