(* ===== verification/Publication.thy ===== *)
theory Publication
  imports Invariants
begin

text \<open>
  The published manifests of a reachable store: each of them is the manifest of its source draft,
  approved and reviewed by humans, and it never changes; the versions of a workload form one
  chain, in which all but the last one or two are superseded.
\<close>

section \<open>Published manifests and their source drafts\<close>

definition from_draft :: "'b store \<Rightarrow> 'b published_manifest \<Rightarrow> 'b draft_record \<Rightarrow> bool" where
  "from_draft s p d \<longleftrightarrow>
     dr_manifest_id d = pm_manifest_id p \<and> mf_version (dr_manifest d) = pm_version p
     \<and> dr_manifest d = pm_manifest p \<and> dr_manifest_digest d = pm_manifest_digest p
     \<and> dr_previous_version d = pm_previous_version p \<and> approval d = Some (pm_approval p)
     \<and> kind (publication_authorized_by p) = Human
     \<and> (if get_supersession s (pm_manifest_id p) (pm_version p) = None
        then dr_state d = Published \<and> source_draft_revision p = revision d
        else dr_state d = Superseded \<and> source_draft_revision p + 1 = revision d)"

definition published_wf :: "'b env \<Rightarrow> 'b store \<Rightarrow> bool" where
  "published_wf env s \<longleftrightarrow> keyed s
     \<and> (\<forall>mid v p. get_published s mid v = Some p \<longrightarrow>
          (\<exists>d. get_draft s (source_draft_id p) = Some d \<and> from_draft s p d))
     \<and> (\<forall>did d. get_draft s did = Some d \<and> dr_state d \<in> {Published, Superseded} \<longrightarrow>
          (\<exists>p. get_published s (dr_manifest_id d) (mf_version (dr_manifest d)) = Some p
            \<and> source_draft_id p = did))
     \<and> (\<forall>mid v. get_supersession s mid v \<noteq> None \<longrightarrow> get_published s mid v \<noteq> None)"

lemma published_source:
  assumes "published_wf env s" and "get_published s mid v = Some p"
  obtains d where "get_draft s (source_draft_id p) = Some d" and "from_draft s p d"
  using assms unfolding published_wf_def by blast

lemma published_back:
  assumes "published_wf env s" and "get_draft s did = Some d" and "dr_state d \<in> {Published, Superseded}"
  obtains p where "get_published s (dr_manifest_id d) (mf_version (dr_manifest d)) = Some p"
    and "source_draft_id p = did"
  using assms unfolding published_wf_def by blast

text \<open>Saving a draft that is neither published nor superseded, before and after, keeps it.\<close>

lemma published_wf_saved:
  assumes wf: "published_wf env s" and k: "keyed s'"
    and saved: "get_draft s' = (get_draft s)(did \<mapsto> d')"
    and same: "st_published s' = st_published s" "st_supersessions s' = st_supersessions s"
    and before: "\<And>d. get_draft s did = Some d \<Longrightarrow> dr_state d \<notin> {Published, Superseded}"
    and after: "dr_state d' \<notin> {Published, Superseded}"
  shows "published_wf env s'"
proof -
  have eq: "get_published s' = get_published s" "from_draft s' = from_draft s"
    using same by (simp_all add: get_published_def from_draft_def get_supersession_def fun_eq_iff)
  have sup: "get_supersession s' = get_supersession s"
    using same by (simp add: get_supersession_def fun_eq_iff)
  have "\<exists>d. get_draft s' (source_draft_id p) = Some d \<and> from_draft s' p d"
    if p: "get_published s' mid v = Some p" for mid v p
  proof -
    from p wf eq obtain d where d: "get_draft s (source_draft_id p) = Some d" "from_draft s p d"
      unfolding published_wf_def by metis
    then have "dr_state d \<in> {Published, Superseded}" by (auto simp: from_draft_def split: if_splits)
    with d before have "source_draft_id p \<noteq> did" by blast
    with d saved eq show ?thesis by simp
  qed
  moreover have "\<exists>p. get_published s' (dr_manifest_id d) (mf_version (dr_manifest d)) = Some p
      \<and> source_draft_id p = i"
    if "get_draft s' i = Some d" "dr_state d \<in> {Published, Superseded}" for i d
    using that wf saved after eq unfolding published_wf_def by (cases "i = did") auto
  moreover have "get_supersession s' m v \<noteq> None \<longrightarrow> get_published s' m v \<noteq> None" for m v
    using wf eq sup by (simp add: published_wf_def)
  ultimately show ?thesis using k unfolding published_wf_def by blast
qed

lemma published_wf_step:
  assumes wf: "published_wf env s" and st: "store_step env a s s'"
  shows "published_wf env s'"
proof -
  from wf st have k: "keyed s" "keyed s'" by (auto simp: published_wf_def intro: keyed_step)
  from st show ?thesis
  proof (cases rule: store_step.cases)
    case (created d b)
    then show ?thesis
      by (intro published_wf_saved[OF wf k(2) saves_get[OF created(6)]]) (auto simp: initial_draft_def)
  next
    case (moved did d d' act)
    have id: "draft_id d' = did" using draft_step_frame(1)[OF moved(3)] keyed_draft[OF k(1) moved(1)] by simp
    have "edge (dr_state d) (dr_state d')" using moved(3) by (rule draft_step_edge)
    with moved(2) have "dr_state d \<notin> {Published, Superseded}" "dr_state d' \<notin> {Published, Superseded}"
      by (cases "dr_state d"; auto)+
    with moved id show ?thesis
      by (intro published_wf_saved[OF wf k(2) saves_get[OF moved(5)]]) auto
  next
    case issued
    then have "get_draft s' = get_draft s" "get_published s' = get_published s" "from_draft s' = from_draft s"
      "get_supersession s' = get_supersession s"
      by (simp_all add: get_draft_def get_published_def from_draft_def get_supersession_def fun_eq_iff)
    with wf k show ?thesis unfolding published_wf_def by simp
  next
    case (published did d cand aid ap p now c receipt why)
    have id: "draft_id d = did" using keyed_draft[OF k(1) published(1)] .
    have new: "get_published s (pm_manifest_id p) (pm_version p) = None"
      using published(8) by (simp add: get_published_def published_key_def)
    have gp: "get_published s' = (\<lambda>m v. if (m, v) = published_key p then Some p else get_published s m v)"
      using published(9) by (auto simp: get_published_def fun_eq_iff)
    have gd: "get_draft s' = (get_draft s)(did \<mapsto> mark_published a now why d)"
      using saves_get[OF published(10)] id by (simp add: mark_defs)
    have fd: "from_draft s' = from_draft s"
      using published(12) by (simp add: from_draft_def get_supersession_def fun_eq_iff)
    have sup: "get_supersession s' = get_supersession s"
      using published(12) by (simp add: get_supersession_def fun_eq_iff)
    have nosup: "get_supersession s (pm_manifest_id p) (pm_version p) = None"
      using wf new unfolding published_wf_def by blast
    have ap: "approval d = Some ap"
      using published(4) by (auto simp: publishable_approval_def Let_def split: option.splits if_splits)
    have this_p: "from_draft s' p (mark_published a now why d)" "source_draft_id p = did"
      using nosup ap id published(2,7) fd by (simp_all add: from_draft_def make_published_def mark_defs)
    have "\<exists>d'. get_draft s' (source_draft_id p') = Some d' \<and> from_draft s' p' d'"
      if p': "get_published s' m v = Some p'" for m v p'
    proof (cases "(m, v) = published_key p")
      case True
      with p' gp gd this_p show ?thesis by simp
    next
      case False
      with p' gp have "get_published s m v = Some p'" by simp
      with wf obtain d0 where d0: "get_draft s (source_draft_id p') = Some d0" "from_draft s p' d0"
        by (rule published_source)
      with published(1,5) have "source_draft_id p' \<noteq> did" by (auto simp: from_draft_def split: if_splits)
      with d0 gd fd show ?thesis by simp
    qed
    moreover have "\<exists>p. get_published s' (dr_manifest_id e) (mf_version (dr_manifest e)) = Some p
        \<and> source_draft_id p = i"
      if e: "get_draft s' i = Some e" "dr_state e \<in> {Published, Superseded}" for i e
    proof (cases "i = did")
      case True
      with e gd gp this_p published(7) show ?thesis
        by (auto simp: published_key_def make_published_def mark_defs)
    next
      case False
      with e gd have "get_draft s i = Some e" by simp
      from published_back[OF wf this e(2)] obtain q where
        q: "get_published s (dr_manifest_id e) (mf_version (dr_manifest e)) = Some q" "source_draft_id q = i" .
      with new gp show ?thesis by (auto simp: published_key_def)
    qed
    moreover have "get_supersession s' m v \<noteq> None \<longrightarrow> get_published s' m v \<noteq> None" for m v
      using wf gp sup by (simp add: published_wf_def)
    ultimately show ?thesis using k unfolding published_wf_def by blast
  next
    case (superseded mid v p w q d x now why)
    have id: "draft_id d = source_draft_id p" using keyed_draft[OF k(1) superseded(6)] .
    have key: "pm_manifest_id p = mid" "pm_version p = v"
      using keyed_published[OF k(1) superseded(1)] by simp_all
    have gs: "get_supersession s' = (\<lambda>m w. if (m, w) = (mid, v) then Some x else get_supersession s m w)"
      using superseded(13) by (auto simp: get_supersession_def fun_eq_iff)
    have gp: "get_published s' = get_published s"
      using superseded(16) by (simp add: get_published_def fun_eq_iff)
    have gd: "get_draft s' = (get_draft s)(source_draft_id p \<mapsto> mark_superseded a now why d)"
      using saves_get[OF superseded(14)] id by (simp add: mark_defs)
    have old: "from_draft s p d"
      using wf superseded(1,6) unfolding published_wf_def by fastforce
    have "\<exists>d'. get_draft s' (source_draft_id p') = Some d' \<and> from_draft s' p' d'"
      if p': "get_published s' m u = Some p'" for m u p'
    proof (cases "(m, u) = (mid, v)")
      case True
      with p' gp superseded(1) have "p' = p" by simp
      moreover have "from_draft s' p (mark_superseded a now why d)"
        using old superseded(7,12) gs key by (auto simp: from_draft_def mark_defs)
      ultimately show ?thesis using gd by simp
    next
      case False
      from p' gp wf obtain d0 where d0: "get_draft s (source_draft_id p') = Some d0" "from_draft s p' d0"
        unfolding published_wf_def by metis
      have pk: "pm_manifest_id p' = m" "pm_version p' = u"
        using keyed_published[OF k(1)] p' gp by auto
      have "source_draft_id p' \<noteq> source_draft_id p"
      proof
        assume "source_draft_id p' = source_draft_id p"
        with d0 superseded(6) have "d0 = d" by simp
        with d0(2) old have "pm_manifest_id p' = pm_manifest_id p" "pm_version p' = pm_version p"
          unfolding from_draft_def by metis+
        with pk key False show False by simp
      qed
      with d0 gd False gs pk show ?thesis by (auto simp: from_draft_def)
    qed
    moreover have "\<exists>p. get_published s' (dr_manifest_id e) (mf_version (dr_manifest e)) = Some p
        \<and> source_draft_id p = i"
      if e: "get_draft s' i = Some e" "dr_state e \<in> {Published, Superseded}" for i e
    proof (cases "i = source_draft_id p")
      case True
      with e gd gp old superseded(1) key show ?thesis by (auto simp: from_draft_def mark_defs)
    next
      case False
      with e gd have "get_draft s i = Some e" by simp
      from published_back[OF wf this e(2)] gp show ?thesis by metis
    qed
    moreover have "get_supersession s' m u \<noteq> None \<longrightarrow> get_published s' m u \<noteq> None" for m u
      using wf gp gs superseded(1) by (simp add: published_wf_def)
    ultimately show ?thesis using k unfolding published_wf_def by blast
  qed
qed

lemma reachable_published_wf: "reachable env z s \<Longrightarrow> published_wf env s"
  by (rule store_invariant[where P = "published_wf env", OF _ published_wf_step])
    (simp_all add: published_wf_def keyed_def empty_store_def get_draft_def get_published_def
      get_supersession_def)

section \<open>The chain of versions\<close>

text \<open>
  \<open>linked prev ps\<close>: each manifest names the version before it as its previous version, and the
  versions increase. \<open>chained s mid\<close>: the published manifests of a workload, in version order,
  are linked from the start, and the versions not superseded are the last or the last two.
\<close>

fun linked :: "version option \<Rightarrow> 'b published_manifest list \<Rightarrow> bool" where
  "linked prev [] = True"
| "linked prev (p # ps) = (pm_previous_version p = prev
     \<and> (case prev of None \<Rightarrow> True | Some v \<Rightarrow> v < pm_version p) \<and> linked (Some (pm_version p)) ps)"

definition chained :: "'b store \<Rightarrow> string \<Rightarrow> bool" where
  "chained s mid \<longleftrightarrow> (let ps = list_published s (Some mid); n = length ps
     in linked None ps \<and> active_versions s mid \<in> {drop (n - 1) ps, drop (n - 2) ps})"

lemma linked_append:
  "linked prev (ps @ [q]) \<longleftrightarrow> linked prev ps
     \<and> pm_previous_version q = (if ps = [] then prev else Some (pm_version (last ps)))
     \<and> (case pm_previous_version q of None \<Rightarrow> True | Some v \<Rightarrow> v < pm_version q)"
  by (induction ps arbitrary: prev) auto

lemma linked_sorted: "linked prev ps \<Longrightarrow> sorted_wrt (<) (map pm_version ps)
     \<and> (\<forall>v p. prev = Some v \<longrightarrow> p \<in> set ps \<longrightarrow> v < pm_version p)"
proof (induction ps arbitrary: prev)
  case (Cons p ps)
  then have "linked (Some (pm_version p)) ps" by simp
  from Cons.IH[OF this] Cons.prems show ?case by (fastforce split: option.splits)
qed simp

lemma linked_previous:
  "linked prev ps \<Longrightarrow> q \<in> set ps \<Longrightarrow> pm_previous_version q = Some v \<Longrightarrow> prev \<noteq> Some v
   \<Longrightarrow> \<exists>p \<in> set ps. pm_version p = v \<and> v < pm_version q"
proof (induction ps arbitrary: prev)
  case (Cons p ps)
  then have lk: "linked (Some (pm_version p)) ps" and q: "q \<in> set ps"
    by (auto split: option.splits)
  show ?case
  proof (cases "pm_version p = v")
    case True
    with linked_sorted[OF lk] q show ?thesis by auto
  next
    case False
    with Cons.IH[OF lk q Cons.prems(3)] show ?thesis by auto
  qed
qed simp

lemma list_published_iff:
  assumes "keyed s"
  shows "p \<in> set (list_published s (Some mid)) \<longleftrightarrow> get_published s mid (pm_version p) = Some p"
proof -
  have "dict_ok published_key (st_published s)" using assms by (simp add: keyed_def)
  from dict_values_iff[OF this, of p] keyed_published[OF assms]
  have "p \<in> set (dict_values (st_published s)) \<and> pm_manifest_id p = mid
     \<longleftrightarrow> get_published s mid (pm_version p) = Some p"
    by (auto simp: get_published_def published_key_def)
  then show ?thesis by (auto simp: list_published_def)
qed

text \<open>A version that exceeds those of its workload goes to the end of the list.\<close>

lemma list_published_insert:
  assumes "keyed s" and "st_published s' = dict_set (published_key p) p (st_published s)"
    and "dict_get (st_published s) (published_key p) = None"
    and "\<forall>q \<in> set (list_published s (Some (pm_manifest_id p))). pm_version q \<le> pm_version p"
  shows "list_published s' (Some mid) =
    list_published s (Some mid) @ (if mid = pm_manifest_id p then [p] else [])"
proof -
  have vals: "dict_values (st_published s') = dict_values (st_published s) @ [p]"
    using assms(2,3) by (simp add: dict_values_new)
  have "\<forall>q \<in> set (filter (\<lambda>q. pm_manifest_id p = pm_manifest_id q) (dict_values (st_published s))).
      (pm_manifest_id q, version_key (pm_version q)) \<le> (pm_manifest_id p, version_key (pm_version p))"
    using assms(4) by (auto simp: list_published_def less_eq_version_def)
  from sort_key_snoc_max[OF this] show ?thesis
    by (simp add: list_published_def vals)
qed

lemma chained_same:
  "st_published s' = st_published s \<Longrightarrow> st_supersessions s' = st_supersessions s
   \<Longrightarrow> chained s' mid = chained s mid"
  by (simp add: chained_def list_published_def active_versions_def get_supersession_def)

lemma ensure_lineage_chained:
  assumes "chained s mid" and "ensure_lineage s mid v prev = Inr u"
  defines "ps \<equiv> list_published s (Some mid)"
  shows "active_versions s mid = drop (length ps - 1) ps"
    and "prev = (if ps = [] then None else Some (pm_version (last ps)))"
    and "ps \<noteq> [] \<Longrightarrow> pm_version (last ps) < v"
proof -
  have len: "length (active_versions s mid) \<le> 1"
    using assms(2) by (auto simp: ensure_lineage_def Let_def split: if_splits)
  have "active_versions s mid \<in> {drop (length ps - 1) ps, drop (length ps - 2) ps}"
    using assms(1) unfolding chained_def ps_def Let_def by blast
  with len show act: "active_versions s mid = drop (length ps - 1) ps"
    by (cases ps rule: rev_cases; cases "butlast ps" rule: rev_cases) auto
  show "prev = (if ps = [] then None else Some (pm_version (last ps)))"
    and "ps \<noteq> [] \<Longrightarrow> pm_version (last ps) < v"
    using assms(2) act
    by (cases ps rule: rev_cases;
        auto simp: ensure_lineage_def Let_def less_version_def split: if_splits)+
qed

lemma chained_published:
  assumes k: "keyed s" and ch: "chained s (pm_manifest_id p)" "chained s mid"
    and lin: "ensure_lineage s (pm_manifest_id p) (pm_version p) (pm_previous_version p) = Inr u"
    and pub: "st_published s' = dict_set (published_key p) p (st_published s)"
      "dict_get (st_published s) (published_key p) = None"
    and sup: "st_supersessions s' = st_supersessions s"
      "get_supersession s (pm_manifest_id p) (pm_version p) = None"
  shows "chained s' mid"
proof -
  let ?ps = "list_published s (Some (pm_manifest_id p))"
  note l = ensure_lineage_chained[OF ch(1) lin]
  have lk: "linked None ?ps" using ch(1) by (simp add: chained_def Let_def)
  have "pm_version q \<le> pm_version p" if "q \<in> set ?ps" for q
  proof -
    from that have ne: "?ps \<noteq> []" by auto
    have "sorted_wrt (<) (map pm_version ?ps)" using linked_sorted[OF lk] by simp
    with that have "pm_version q \<le> pm_version (last ?ps)"
      by (cases ?ps rule: rev_cases) (auto simp: sorted_wrt_append)
    with l(3)[OF ne] show ?thesis by simp
  qed
  then have lp: "list_published s' (Some m) = list_published s (Some m)
      @ (if m = pm_manifest_id p then [p] else [])" for m
    using list_published_insert[OF k pub] by blast
  have gs: "get_supersession s' = get_supersession s"
    using sup by (simp add: get_supersession_def fun_eq_iff)
  show ?thesis
  proof (cases "mid = pm_manifest_id p")
    case True
    have "linked None (?ps @ [p])"
      using lk l(2,3) by (simp add: linked_append split: option.splits)
    moreover have "active_versions s' mid = active_versions s mid @ [p]"
      using True sup lp by (simp add: active_versions_def gs)
    moreover have "drop (length ?ps - 1) ?ps @ [p] = drop (length (?ps @ [p]) - 2) (?ps @ [p])"
      by (cases ?ps rule: rev_cases) auto
    ultimately show ?thesis using True lp l(1) by (simp add: chained_def Let_def)
  next
    case False
    with ch(2) lp show ?thesis by (simp add: chained_def Let_def active_versions_def gs)
  qed
qed

lemma chained_superseded:
  assumes k: "keyed s" and ch: "chained s mid'"
    and p: "get_published s mid v = Some p" and q: "get_published s mid w = Some q"
      "pm_previous_version q = Some v" "get_supersession s mid v = None"
    and sup: "st_supersessions s' = dict_set (mid, v) x (st_supersessions s)"
    and pub: "st_published s' = st_published s"
  shows "chained s' mid'"
proof -
  have lp: "list_published s' = list_published s"
    using pub by (simp add: list_published_def fun_eq_iff)
  have gs: "get_supersession s' m u = (if (m, u) = (mid, v) then Some x else get_supersession s m u)" for m u
    using sup by (simp add: get_supersession_def)
  show ?thesis
  proof (cases "mid' = mid")
    case False
    with ch lp gs show ?thesis by (simp add: chained_def active_versions_def Let_def)
  next
    case True
    let ?ps = "list_published s (Some mid)"
    have key: "pm_version p = v" "pm_version q = w"
      using keyed_published[OF k] p q(1) by auto
    have mem: "p \<in> set ?ps" "q \<in> set ?ps" using list_published_iff[OF k] p q(1) key by auto
    have lk: "linked None ?ps" using ch True by (simp add: chained_def Let_def)
    then have so: "sorted_wrt (<) (map pm_version ?ps)" by (rule linked_sorted[THEN conjunct1])
    then have dist: "distinct ?ps" by (metis distinct_map strict_sorted_iff)
    have less: "v < w" using linked_previous[OF lk mem(2) q(2)] key by auto
    have p_act: "p \<in> set (active_versions s mid)"
      using mem(1) q(3) key by (simp add: active_versions_def)
    have p_last: "p \<noteq> last ?ps"
    proof
      assume eq: "p = last ?ps"
      have "pm_version q \<le> pm_version (last ?ps)"
        using so mem(2) by (cases ?ps rule: rev_cases) (auto simp: sorted_wrt_append)
      with eq key less show False by simp
    qed
    have act: "active_versions s mid \<in> {drop (length ?ps - 1) ?ps, drop (length ?ps - 2) ?ps}"
      using ch True by (simp add: chained_def Let_def)
    moreover have "p \<notin> set (drop (length ?ps - 1) ?ps)"
      using p_last by (cases ?ps rule: rev_cases) auto
    ultimately have act2: "active_versions s mid = drop (length ?ps - 2) ?ps" using p_act by auto
    then obtain ys y where ps: "?ps = ys @ [p, y]"
      using filter_tail_cases[OF _ dist, of "\<lambda>p. get_supersession s mid (pm_version p) = None" p]
        p_act p_last unfolding active_versions_def by metis
    have "active_versions s' mid = filter (\<lambda>r. pm_version r \<noteq> v) (active_versions s mid)"
      by (auto simp: active_versions_def lp gs intro: filter_cong)
    also have "\<dots> = [y]" using act2 ps so key by (auto simp: sorted_wrt_append)
    finally have "active_versions s' mid = drop (length ?ps - 1) ?ps" using ps by simp
    then show ?thesis using lk True by (simp add: chained_def Let_def lp)
  qed
qed

definition lineage_wf :: "'b env \<Rightarrow> 'b store \<Rightarrow> bool" where
  "lineage_wf env s \<longleftrightarrow> published_wf env s \<and> (\<forall>mid. chained s mid)"

lemma lineage_wf_step:
  assumes wf: "lineage_wf env s" and st: "store_step env a s s'"
  shows "lineage_wf env s'"
proof -
  from wf have w: "published_wf env s" "keyed s" "\<And>mid. chained s mid"
    by (simp_all add: lineage_wf_def published_wf_def)
  have "chained s' mid" for mid
    using st
  proof (cases rule: store_step.cases)
    case (published did d cand aid ap p now c receipt why)
    have none: "get_published s (pm_manifest_id p) (pm_version p) = None"
      using published(8) by (simp add: get_published_def published_key_def)
    then have "get_supersession s (pm_manifest_id p) (pm_version p) = None"
      using w(1) unfolding published_wf_def by blast
    with published show ?thesis
      by (intro chained_published[OF w(2) w(3) w(3) _ published(9,8,12)]) (simp_all add: make_published_def)
  next
    case (superseded mid0 v p w0 q d x now why)
    show ?thesis
      by (rule chained_superseded[OF w(2) w(3) superseded(1,2,3,12,13,16)])
  qed (use w(3) chained_same in auto)
  with published_wf_step[OF w(1) st] show ?thesis by (simp add: lineage_wf_def)
qed

lemma reachable_lineage: "reachable env z s \<Longrightarrow> lineage_wf env s"
  by (rule store_invariant[where P = "lineage_wf env", OF _ lineage_wf_step])
    (simp_all add: lineage_wf_def published_wf_def keyed_def chained_def active_versions_def
      list_published_def dict_values_def empty_store_def get_draft_def get_published_def
      get_supersession_def)

end
