(* ===== verification/Example.thy ===== *)
theory Example
  imports Publication
begin

text \<open>
  A worked lifecycle on a small concrete environment: a workload gets version 1.0.0 through every
  step from creation to publication, then version 1.1.0, which supersedes it. The run is computed by
  the model's own definitions; the properties of the other theories are applied to it.
\<close>

definition demo_digest :: "bool \<Rightarrow> string \<Rightarrow> version \<Rightarrow> manifest_audit \<Rightarrow> profile_decl list \<Rightarrow> unit \<Rightarrow> string" where
  "demo_digest sem mid v au ps b = ''sha256:0000000000000000000000000000000000000000000000000000000000000''
     @ [if sem then CHR ''1'' else CHR ''2'', if minor v = 0 then CHR ''3'' else CHR ''4'',
        if published_at au = 0 then CHR ''5'' else CHR ''6'']"

text \<open>
  A response is written as a short text, and read back for the draft that the first call of the
  lifecycle creates.
\<close>

definition demo_json :: "unit response \<Rightarrow> string" where
  "demo_json r = (case r of
       RDraft d \<Rightarrow> CHR ''{'' # draft_id d @ CHR '':'' # decimal (revision d) @ ''}''
     | RPublished p \<Rightarrow> CHR ''{'' # source_draft_id p @ ''}''
     | RSupersession x \<Rightarrow> CHR ''{'' # ss_manifest_id x @ ''}''
     | RReceipt x \<Rightarrow> CHR ''{'' # receipt_id x @ ''}'')"

definition demo_manifest :: "nat \<Rightarrow> int \<Rightarrow> unit manifest" where
  "demo_manifest n at = (let v = Version 1 n 0;
       au = \<lparr>published_by = ''publisher'', published_at = at,
             approval_status = (if at = 0 then ''draft'' else ''approved'')\<rparr>
     in \<lparr>mf_manifest_id = ''shop'', mf_version = v, mf_artifact_digest = demo_digest False [] v au [] (),
         mf_semantic_digest = demo_digest True [] v au [] (), mf_audit = au,
         mf_profiles = [\<lparr>pd_profile_id = ''production'', pd_profile_type = ''production''\<rparr>],
         mf_body = ()\<rparr>)"

definition human :: "string \<Rightarrow> actor" where "human i = \<lparr>actor_id = i, kind = Human\<rparr>"

definition first_command :: "nat \<Rightarrow> version option \<Rightarrow> unit create_command" where
  "first_command n prev = \<lparr>cc_draft_id = ''draft-'' @ decimal n, cc_manifest = demo_manifest n 0,
     cc_manifest_digest = mf_artifact_digest (demo_manifest n 0), cc_previous_version = prev,
     cc_rollback_source = None, cc_reason = ''because''\<rparr>"

definition first_draft :: "unit draft_record" where
  "first_draft = new_draft (human ''ann'') 1000 (first_command 0 None)"

definition demo_parse :: "string \<Rightarrow> string \<Rightarrow> unit response option" where
  "demo_parse rtype json = (if rtype = ''DraftRecord'' \<and> json = demo_json (RDraft first_draft)
     then Some (RDraft first_draft) else None)"

definition demo_env :: "unit env" where
  "demo_env = \<lparr>env_hash = (\<lambda>n i prev p. ''digest-of-'' @ i), env_manifest_digest = demo_digest,
     env_content_digest = (\<lambda>mid ps b. ''content''),
     env_response_json = demo_json, env_parse_response = demo_parse,
     env_request_digest = (\<lambda>op a tgt cmd. op @ a),
     env_receipt_id = (\<lambda>a c. ''receipt-'' @ ic_snapshot_id c),
     env_receipt_digest = (\<lambda>r. ''receipt-digest''),
     env_document_ok = (\<lambda>m. True), env_materialize = (\<lambda>ps b. (ps, b)),
     env_create_check = (\<lambda>s c a now. None), env_replace_check = (\<lambda>s d m now b. None),
     env_cohort_apply = (\<lambda>s a d c now dec. Inl ValidationError),
     env_lifecycle_check = (\<lambda>s d m now. None),
     env_resolve = (\<lambda>s d pid now. Some (pid, ''profile-digest'')),
     env_publication_actor = \<lparr>actor_id = ''publisher'', kind = Service\<rparr>\<rparr>"

definition issuer :: actor where "issuer = \<lparr>actor_id = ''context'', kind = Service\<rparr>"

definition demo_rbac :: rbac where
  "demo_rbac = new_rbac [\<lparr>rg_actor_id = ''ann'', rg_role = Proposer, rg_scope = Workload ''shop''\<rparr>,
     \<lparr>rg_actor_id = ''bob'', rg_role = Reviewer, rg_scope = Workload ''shop''\<rparr>,
     \<lparr>rg_actor_id = ''cat'', rg_role = Approver, rg_scope = Workload ''shop''\<rparr>,
     \<lparr>rg_actor_id = ''dan'', rg_role = Publisher, rg_scope = Workload ''shop''\<rparr>,
     \<lparr>rg_actor_id = ''dan'', rg_role = Auditor, rg_scope = AllWorkloads\<rparr>,
     \<lparr>rg_actor_id = ''context'', rg_role = OperationalContextIssuer, rg_scope = Workload ''shop''\<rparr>]"

definition at :: "int \<Rightarrow> clock_reading" where "at n = \<lparr>cr_aware = True, cr_us = 1000 * n\<rparr>"

definition step_command :: "nat \<Rightarrow> nat \<Rightarrow> int \<Rightarrow> transition_command" where
  "step_command n r t = \<lparr>expected_revision = r, expected_version = Version 1 n 0,
     expected_digest = mf_artifact_digest (demo_manifest n t), tc_reason = ''because''\<rparr>"

type_synonym 'b timed_call = "clock_reading \<times> actor \<times> string \<times> 'b call"

text \<open>The calls that take version \<open>1.n.0\<close> from its creation to its publication.\<close>

definition release :: "nat \<Rightarrow> version option \<Rightarrow> unit timed_call list" where
  "release n prev = (let did = ''draft-'' @ decimal n; key = (\<lambda>i. ''key-'' @ decimal n @ decimal i);
       m = demo_manifest n 3000
     in [(at 1, human ''ann'', key 1, CallCreate (first_command n prev)),
         (at 2, human ''ann'', key 2, CallValidate did (step_command n 1 0)),
         (at 3, human ''ann'', key 3, CallSubmit did (step_command n 2 0)),
         (at 4, human ''bob'', key 4, CallReview did (transition_command.extend (step_command n 3 3000)
           (review_command.fields ReviewApproved ''looks fine'' [] []))),
         (at 5, issuer, key 5, CallIssue \<lparr>ic_manifest_id = ''shop'', ic_manifest_version = Version 1 n 0,
           ic_profile_id = ''production'', ic_draft_id = did, ic_draft_revision = 4,
           ic_manifest_digest = mf_artifact_digest m, ic_profile_digest = ''profile-digest'',
           ic_snapshot_id = decimal n, ic_collected_at = 1000, ic_expires_at = 90000,
           ic_evidence_inventory = [], ic_evidence_inventory_digest = [], ic_content_digest = [],
           ic_binding_digest = []\<rparr>),
         (at 6, human ''cat'', key 6, CallApprove did (transition_command.extend (step_command n 4 3000)
           (approve_command.fields (''receipt-'' @ decimal n)))),
         (at 7, issuer, key 7, CallIssue \<lparr>ic_manifest_id = ''shop'', ic_manifest_version = Version 1 n 0,
           ic_profile_id = ''production'', ic_draft_id = did, ic_draft_revision = 5,
           ic_manifest_digest = mf_artifact_digest m, ic_profile_digest = ''profile-digest'',
           ic_snapshot_id = decimal n @ ''b'', ic_collected_at = 1000, ic_expires_at = 90000,
           ic_evidence_inventory = [], ic_evidence_inventory_digest = [], ic_content_digest = [],
           ic_binding_digest = []\<rparr>),
         (at 8, human ''dan'', key 8, CallPublish did (transition_command.extend (step_command n 5 3000)
           (publish_command.fields (did @ ''-r5-approval'') (''receipt-'' @ decimal n @ ''b''))))])"

definition retirement :: "unit timed_call list" where
  "retirement = [(at 9, human ''dan'', ''key-retire'', CallSupersede ''shop'' (Version 1 0 0)
     \<lparr>sc_expected_revision = 6, sc_expected_version = Version 1 0 0,
      sc_expected_digest = mf_artifact_digest (demo_manifest 0 3000),
      sc_replacement_version = Version 1 1 0,
      sc_replacement_digest = mf_artifact_digest (demo_manifest 1 3000), sc_reason = ''replaced''\<rparr>)]"

fun run_calls :: "'b env \<Rightarrow> rbac \<Rightarrow> 'b store \<Rightarrow> 'b timed_call list \<Rightarrow> 'b store" where
  "run_calls env z s [] = s"
| "run_calls env z s ((clk, a, key, c) # cs) =
     run_calls env z (if call_ok c then snd (service_call env z clk a key c s) else s) cs"

lemma run_calls_runs: "runs env z s0 z s \<Longrightarrow> runs env z s0 z (run_calls env z s cs)"
proof (induction env z s cs rule: run_calls.induct)
  case (2 env z s clk a key c cs)
  have "runs env z s0 z (if call_ok c then snd (service_call env z clk a key c s) else s)"
    using 2(2) runs.call[OF 2(2), of c clk a key] by (metis prod.collapse)
  from 2(1)[OF this] show ?case by simp
qed simp

lemma run_calls_reachable: "reachable env z s \<Longrightarrow> reachable env z (run_calls env z s cs)"
  using run_calls_runs[OF runs.stay] runs_reachable by blast

text \<open>\<open>demo_store0\<close> is the store just before the publication of version 1.0.0.\<close>

definition demo_store0 :: "unit store" where
  "demo_store0 = run_calls demo_env demo_rbac empty_store (take 7 (release 0 None))"

definition demo_store1 :: "unit store" where
  "demo_store1 = run_calls demo_env demo_rbac demo_store0 (drop 7 (release 0 None))"

definition demo_store2 :: "unit store" where
  "demo_store2 = run_calls demo_env demo_rbac demo_store1 (release 1 (Some (Version 1 0 0)))"

definition demo_store3 :: "unit store" where
  "demo_store3 = run_calls demo_env demo_rbac demo_store2 retirement"

lemma demo_reachable:
  "reachable demo_env demo_rbac demo_store0"
  "reachable demo_env demo_rbac demo_store1" "reachable demo_env demo_rbac demo_store2"
  "reachable demo_env demo_rbac demo_store3"
  unfolding demo_store3_def demo_store2_def demo_store1_def demo_store0_def demo_rbac_def
  by (blast intro: run_calls_reachable reachable.start)+

section \<open>Facts about the worked lifecycle\<close>

definition demo_publish :: publish_command where
  "demo_publish = transition_command.extend (step_command 0 5 3000)
     (publish_command.fields ''draft-0-r5-approval'' ''receipt-0b'')"

definition demo_facts0 :: "unit store \<Rightarrow> bool" where
  "demo_facts0 s \<longleftrightarrow> (case get_draft s ''draft-0'' of None \<Rightarrow> False
     | Some d \<Rightarrow> require demo_rbac (human ''dan'') Publish (Some (dr_manifest_id d)) = Inr ()
         \<and> dr_state d = Approved \<and> ensure_expected_command d demo_publish = Inr ()
         \<and> \<not> isl (require_current_candidate demo_env d)
         \<and> publishable_approval d (approval_id demo_publish) \<noteq> None
         \<and> \<not> isl (require_operational_receipt demo_env (tx_enter s) d (pub_receipt_id demo_publish) 8000)
         \<and> validate_lifecycle_manifest demo_env (tx_enter s) d (dr_manifest d) (dr_manifest_digest d) 8000
           = Inr ()
         \<and> get_published s (dr_manifest_id d) (mf_version (dr_manifest d)) = None
         \<and> ensure_lineage s (dr_manifest_id d) (mf_version (dr_manifest d)) (dr_previous_version d) = Inr ()
         \<and> get_receipt s ''dan'' ''p'' = None \<and> length (st_audit s) = 5)"

lemma demo_facts0: "demo_facts0 demo_store0"
  by code_simp

definition demo_facts1 :: "unit store \<Rightarrow> bool" where
  "demo_facts1 s \<longleftrightarrow> map dr_state (dict_values (st_drafts s)) = [Published]
     \<and> map pm_version (list_published s (Some ''shop'')) = [Version 1 0 0]
     \<and> length (st_audit s) = 6 \<and> length (st_receipts s) = 8
     \<and> get_published s ''shop'' (Version 1 0 0) \<noteq> None \<and> get_draft s ''draft-0'' \<noteq> None
     \<and> get_receipt s ''ann'' ''late'' = None
     \<and> map_option source_draft_id (get_published s ''shop'' (Version 1 0 0)) = Some ''draft-0''
     \<and> map_option revision (get_draft s ''draft-0'') = Some 6"

lemma demo_facts1: "demo_facts1 demo_store1"
  by code_simp

definition demo_rollback :: "unit create_command" where
  "demo_rollback = \<lparr>cc_draft_id = ''draft-2'', cc_manifest = demo_manifest 2 0,
     cc_manifest_digest = mf_artifact_digest (demo_manifest 2 0),
     cc_previous_version = Some (Version 1 1 0), cc_rollback_source = Some (Version 1 0 0),
     cc_reason = ''roll back''\<rparr>"

definition demo_rolled_back :: "unit store" where
  "demo_rolled_back = snd (service_call demo_env demo_rbac (at 20) (human ''ann'') ''rb''
     (CallCreate demo_rollback) demo_store3)"

definition demo_facts3 :: "unit store \<Rightarrow> bool" where
  "demo_facts3 s \<longleftrightarrow> map pm_version (list_published s (Some ''shop'')) = [Version 1 0 0, Version 1 1 0]
     \<and> map pm_version (active_versions s ''shop'') = [Version 1 1 0]
     \<and> length (st_audit s) = 13 \<and> get_draft s ''draft-2'' = None
     \<and> (case get_draft (snd (service_call demo_env demo_rbac (at 20) (human ''ann'') ''rb''
           (CallCreate demo_rollback) s)) ''draft-2'' of None \<Rightarrow> False
         | Some d \<Rightarrow> rollback_source_version d = Some (Version 1 0 0) \<and> dr_manifest_id d = ''shop'')
     \<and> map dr_state (dict_values (st_drafts s)) = [Superseded, Published]"

lemma demo_facts3: "demo_facts3 demo_store3"
  by code_simp

end
