(* ===== verification/Growth.thy ===== *)
theory Growth
  imports Publication
begin

text \<open>
  What no sequence of calls ever takes back: audit events, baselines, published manifests,
  supersessions, and the receipts that make a mutation idempotent.
\<close>

text \<open>What a step of the store machine never takes away.\<close>

definition extends :: "'b store \<Rightarrow> 'b store \<Rightarrow> bool" where
  "extends s s' \<longleftrightarrow> (\<exists>es. st_audit s' = st_audit s @ es)
     \<and> get_baseline s \<subseteq>\<^sub>m get_baseline s'
     \<and> (\<forall>m. get_published s m \<subseteq>\<^sub>m get_published s' m)
     \<and> (\<forall>m. get_supersession s m \<subseteq>\<^sub>m get_supersession s' m)
     \<and> dom (get_draft s) \<subseteq> dom (get_draft s')"

lemma extends_refl: "extends s s"
  by (simp add: extends_def)

lemma extends_trans: "extends s t \<Longrightarrow> extends t u \<Longrightarrow> extends s u"
  unfolding extends_def by (meson append.assoc map_le_trans order_trans) (metis append.assoc map_le_trans order_trans)

lemma store_step_extends: "store_step env a s s' \<Longrightarrow> extends s s'"
proof (induction rule: store_step.induct)
  case (created s d s' b)
  then show ?case
    by (auto simp: extends_def saves_get get_baseline_def get_published_def get_supersession_def
        map_le_def elim!: saves_audit)
next
  case (moved s did d d' act s')
  then show ?case
    by (auto simp: extends_def saves_get get_baseline_def get_published_def get_supersession_def
        map_le_def elim!: saves_audit)
next
  case (issued s' s)
  then show ?case
    by (auto simp: extends_def map_le_def get_baseline_def get_published_def get_supersession_def
        get_draft_def)
next
  case (published s did d cand aid ap p now c receipt s' why)
  then show ?case
    by (auto simp: extends_def saves_get get_baseline_def get_published_def get_supersession_def
        published_key_def map_le_def elim!: saves_audit)
next
  case (superseded s mid v p w q d x s' now why)
  then show ?case
    by (auto simp: extends_def saves_get get_baseline_def get_published_def get_supersession_def
        map_le_def elim!: saves_audit)
qed

lemma service_call_extends: "service_call env z clk a key c s = (r, s') \<Longrightarrow> extends s s'"
  using service_call_step store_step_extends extends_refl by metis

lemma runs_extends: "runs env z s z' s' \<Longrightarrow> extends s s'"
  by (induction rule: runs.induct) (auto intro: extends_refl extends_trans service_call_extends)

text \<open>The lifecycle handlers never touch the receipts; only the end of a mutation adds one.\<close>

lemma call_body_receipts:
  assumes "call_body env z clk a c t = Inr (resp, t')"
  shows "st_receipts t' = st_receipts t"
  using assms
  by (cases c) (auto simp: found Let_def write_draft_eq_Inr create_draft_tx_def replace_draft_tx_def
      replace_draft_in_transaction_def validate_draft_tx_def submit_for_review_tx_def review_draft_tx_def
      approve_draft_tx_def publish_draft_tx_def supersede_version_tx_def issue_receipt_tx_def
      put_baseline_def put_published_def put_supersession_def put_operational_def
      split: if_splits option.splits)

lemma committed_receipts:
  assumes "call_body env z clk a c (tx_enter s) = Inr (resp, t1)" and "put_receipt rec t1 = Inr t2"
  shows "get_receipt ((store.truncate t2)\<lparr>st_generation := n\<rparr>) i k
    = (if (i, k) = receipt_key rec then Some rec else get_receipt s i k)"
    and "get_receipt s (mr_actor_id rec) (mr_idempotency_key rec) = None"
  using call_body_receipts[OF assms(1)] assms(2)
  by (auto simp: get_receipt_def put_receipt_def receipt_key_def split: if_splits)

lemma service_call_receipts:
  assumes "service_call env z clk a key c s = (r, s')" and "get_receipt s i k = Some rec"
  shows "get_receipt s' i k = Some rec"
  using assms(1)
proof (cases rule: service_call_outcome)
  case (committed resp t1 t2)
  note c = committed_receipts[OF committed(4,6)]
  from c(2) assms(2) have "(i, k) \<noteq> receipt_key (receipt_for env a key c resp)"
    by (auto simp: receipt_key_def)
  with assms(2) show ?thesis using committed(7) c(1) by simp
qed (use assms(2) in simp_all)

lemma runs_receipts: "runs env z s z' s' \<Longrightarrow> get_receipt s i k = Some rec \<Longrightarrow> get_receipt s' i k = Some rec"
  by (induction rule: runs.induct) (auto dest: service_call_receipts)

text \<open>
  A call that returns normally leaves a receipt that answers it: one that holds the JSON text of its
  response when the key was fresh, and one whose text was read as its response when it was a replay.
\<close>

lemma service_call_receipt:
  assumes "service_call env z clk a key c s = (Inr resp, s')"
  obtains rec where "get_receipt s' (actor_id a) key = Some rec" and "answers env a c rec"
    and "if get_receipt s (actor_id a) key = None then mr_response_json rec = env_response_json env resp
      else env_parse_response env (call_type c) (mr_response_json rec) = Some resp"
  using assms
proof (cases rule: service_call_outcome)
  case (replayed rec resp')
  then show thesis using that by simp
next
  case (committed resp' t1 t2)
  have key: "receipt_key (receipt_for env a key c resp') = (actor_id a, key)"
    by (simp add: receipt_key_def receipt_for_def)
  have "get_receipt s' (actor_id a) key = Some (receipt_for env a key c resp')"
    using committed_receipts(1)[OF committed(4,6)] committed(7) key by simp
  moreover have "mr_response_json (receipt_for env a key c resp') = env_response_json env resp"
    using committed(5) by (simp add: receipt_for_def)
  ultimately show thesis using that[OF _ answers_receipt_for] committed(1) by simp
qed simp

end
