(* ===== verification/ApiProperties.thy ===== *)
theory ApiProperties
  imports Example Growth
begin

text \<open>
  The properties of the manifest lifecycle, over the public methods of the service and the stores
  they can reach. Each rests on the invariants of theories Invariants and Publication; the
  witnesses apply it to the worked lifecycle of theory Example.
\<close>

section \<open>Human approval\<close>

text \<open>C1. A manifest is published only with the decisions of humans: in every store the service
  can reach, the source draft of a published manifest holds an approving review by a human, the
  approval of a human that names this review, and the publisher is human; review, approval and
  publication happened in that order, and all of them for the digest of the published document,
  which is the digest computed from it.\<close>

theorem published_needs_humans:
  assumes "reachable env z s" and "get_published s mid v = Some p"
  shows "\<exists>d rv. get_draft s (source_draft_id p) = Some d \<and> rv \<in> set (review_decisions d)
    \<and> rd_decision rv = ReviewApproved \<and> kind (reviewed_by rv) = Human
    \<and> ad_review_decision_id (pm_approval p) = Some (rd_decision_id rv)
    \<and> kind (approved_by (pm_approval p)) = Human \<and> kind (publication_authorized_by p) = Human
    \<and> reviewed_revision rv < approved_revision (pm_approval p)
    \<and> approved_revision (pm_approval p) < source_draft_revision p
    \<and> rd_manifest_digest rv = pm_manifest_digest p
    \<and> ad_manifest_digest (pm_approval p) = pm_manifest_digest p
    \<and> pm_manifest_digest p = artifact_digest env (pm_manifest p)
    \<and> pm_manifest_id p = mid \<and> pm_version p = v
    \<and> mf_manifest_id (pm_manifest p) = mid \<and> mf_version (pm_manifest p) = v"
proof -
  have wf: "published_wf env s" "keyed s" "drafts_wf env s"
    using assms(1) reachable_published_wf reachable_keyed reachable_drafts_wf by blast+
  obtain d where d: "get_draft s (source_draft_id p) = Some d" "from_draft s p d"
    using wf(1) assms(2) by (rule published_source)
  note key = keyed_published[OF wf(2) assms(2)]
  have dw: "draft_wf env d" using wf(3) d(1) by (simp add: drafts_wf_def)
  from d(2) dw obtain rv where rv: "rv \<in> set (review_decisions d)"
      "ad_review_decision_id (pm_approval p) = Some (rd_decision_id rv)"
      "rd_decision rv = ReviewApproved" "kind (reviewed_by rv) = Human"
      "reviewed_revision rv + 1 = approved_revision (pm_approval p)"
      "rd_manifest_digest rv = dr_manifest_digest d"
    and ap: "kind (approved_by (pm_approval p)) = Human"
      "ad_manifest_digest (pm_approval p) = dr_manifest_digest d"
      "approved_revision (pm_approval p) + 1 = source_draft_revision p"
    by (auto simp: from_draft_def draft_wf_def state_wf_def human_approved_def split: if_splits)
  with d key dw show ?thesis
    by (intro exI[of _ d] exI[of _ rv]) (auto simp: from_draft_def draft_wf_def ensure_digest_eq_Inr)
qed

theorem published_needs_humans_witness:
  "\<exists>d rv. get_draft demo_store1 (source_draft_id
       (the (get_published demo_store1 ''shop'' (Version 1 0 0)))) = Some d
     \<and> rv \<in> set (review_decisions d) \<and> kind (reviewed_by rv) = Human"
proof -
  obtain p where p: "get_published demo_store1 ''shop'' (Version 1 0 0) = Some p"
    using demo_facts1 by (auto simp: demo_facts1_def)
  from published_needs_humans[OF demo_reachable(2) p] show ?thesis using p by auto
qed

section \<open>Versions\<close>

text \<open>C2. The published versions of a workload form one chain: listed in version order, every
  manifest names the one before it as its previous version and the first names none, the versions
  strictly increase, and the versions not superseded are the last one, or the last two between a
  publication and the supersession of the version before it.\<close>

theorem published_versions_chain:
  assumes "reachable env z s"
  shows "let ps = list_published s (Some mid) in
    linked None ps \<and> sorted_wrt (<) (map pm_version ps)
    \<and> active_versions s mid \<in> {drop (length ps - 1) ps, drop (length ps - 2) ps}"
proof -
  from assms have "chained s mid"
    using reachable_lineage by (auto simp: lineage_wf_def)
  then show ?thesis using linked_sorted unfolding chained_def Let_def by blast
qed

theorem published_versions_chain_witness:
  "linked None (list_published demo_store3 (Some ''shop''))
    \<and> length (list_published demo_store3 (Some ''shop'')) = 2
    \<and> length (active_versions demo_store3 ''shop'') = 1"
proof -
  have "map pm_version (list_published demo_store3 (Some ''shop'')) = [Version 1 0 0, Version 1 1 0]"
    and "map pm_version (active_versions demo_store3 ''shop'') = [Version 1 1 0]"
    using demo_facts3 by (simp_all only: demo_facts3_def)
  then have "length (list_published demo_store3 (Some ''shop'')) = 2"
    and "length (active_versions demo_store3 ''shop'') = 1" by auto
  with published_versions_chain[OF demo_reachable(4), of "''shop''"] show ?thesis by (simp add: Let_def)
qed

section \<open>Histories\<close>



text \<open>C4. Published history is immutable: along any sequence of calls and grant revocations, the
  audit events recorded so far stay as a prefix, and every published manifest, supersession and
  selector baseline keeps its value; no draft disappears.\<close>

theorem history_is_immutable:
  assumes "runs env z s z' s'"
  shows "(\<exists>es. st_audit s' = st_audit s @ es)
    \<and> (\<forall>m v p. get_published s m v = Some p \<longrightarrow> get_published s' m v = Some p)
    \<and> (\<forall>m v x. get_supersession s m v = Some x \<longrightarrow> get_supersession s' m v = Some x)
    \<and> (\<forall>did b. get_baseline s did = Some b \<longrightarrow> get_baseline s' did = Some b)
    \<and> (\<forall>did. get_draft s did \<noteq> None \<longrightarrow> get_draft s' did \<noteq> None)"
  using runs_extends[OF assms] unfolding extends_def by (auto simp: map_le_def dom_def)

theorem history_is_immutable_witness:
  "(\<exists>es. st_audit demo_store3 = st_audit demo_store1 @ es)
    \<and> get_published demo_store3 ''shop'' (Version 1 0 0)
      = get_published demo_store1 ''shop'' (Version 1 0 0)"
proof -
  have "runs demo_env demo_rbac demo_store1 demo_rbac demo_store3"
    unfolding demo_store3_def demo_store2_def by (intro run_calls_runs runs.stay)
  from history_is_immutable[OF this] demo_facts1 show ?thesis by (auto simp: demo_facts1_def)
qed

section \<open>Idempotency and atomicity\<close>

text \<open>C5. A mutation is idempotent: once a call has returned a response, the same actor repeating
  the same call under the same idempotency key, at any later point and with any clock, changes
  nothing and never runs the handler again. If it is no longer authorized it gets that error.
  Otherwise it gets, when the first call ran under a fresh key, exactly what reading back the JSON
  text of that response yields (the response itself whenever pydantic reads its own text back as the
  value it wrote, and \<open>ValidationError\<close> when the text does not validate), and, when the first call
  was already a replay, exactly the response of that call: replays never differ.\<close>

theorem replay_returns_first_response:
  assumes "service_call env z clk a key c s = (Inr resp, s1)" and "runs env z s1 z' s'"
  shows "service_call env z' clk' a key c s' =
    (case call_auth z' a c s' of
       Inl e \<Rightarrow> Inl e
     | Inr _ \<Rightarrow>
         if get_receipt s (actor_id a) key \<noteq> None then Inr resp
         else (case env_parse_response env (call_type c) (env_response_json env resp) of
             None \<Rightarrow> Inl ValidationError
           | Some again \<Rightarrow> Inr again), s')"
proof -
  obtain rec where "get_receipt s1 (actor_id a) key = Some rec" and ans: "answers env a c rec"
      and json: "if get_receipt s (actor_id a) key = None then mr_response_json rec = env_response_json env resp
        else env_parse_response env (call_type c) (mr_response_json rec) = Some resp"
    using assms(1) by (rule service_call_receipt)
  with assms(2) have "get_receipt s' (actor_id a) key = Some rec" by (auto intro: runs_receipts)
  from service_call_recorded[OF this, of z' c env clk'] ans json show ?thesis
    by (cases "call_auth z' a c s'")
      (simp_all add: service_call_eq after_auth_def requireR_def split: if_splits)
qed

definition demo_create :: "unit call" where
  "demo_create = (case hd (release 0 None) of (clk, a, key, c) \<Rightarrow> c)"

definition demo_stale :: "unit call" where
  "demo_stale = CallValidate ''draft-0'' (step_command 0 1 0)"

definition demo_created :: "unit store" where
  "demo_created = snd (service_call demo_env demo_rbac (at 1) (human ''ann'') ''k'' demo_create empty_store)"

lemma demo_created_facts:
  "fst (service_call demo_env demo_rbac (at 1) (human ''ann'') ''k'' demo_create empty_store)
    = Inr (RDraft first_draft)"
  "length (st_audit demo_created) = 1" "map dr_state (dict_values (st_drafts demo_created)) = [Draft]"
  "map revision (dict_values (st_drafts demo_created)) = [1]"
  "call_auth demo_rbac (human ''ann'') demo_create demo_created = Inr ()"
  "call_auth demo_rbac (human ''ann'') demo_stale demo_created = Inr ()"
  "call_operation demo_stale \<noteq> call_operation demo_create"
  "call_ok demo_create"
  by code_simp+

lemma demo_created_eq:
  "service_call demo_env demo_rbac (at 1) (human ''ann'') ''k'' demo_create empty_store
     = (Inr (RDraft first_draft), demo_created)"
  using demo_created_facts(1) unfolding demo_created_def
  by (metis prod.collapse)

theorem replay_returns_first_response_witness:
  "service_call demo_env demo_rbac (at 50) (human ''ann'') ''k'' demo_create demo_created
     = (Inr (RDraft first_draft), demo_created)"
proof -
  have "call_type demo_create = ''DraftRecord''"
    by (simp add: demo_create_def release_def Let_def)
  then have "env_parse_response demo_env (call_type demo_create) (env_response_json demo_env (RDraft first_draft))
      = Some (RDraft first_draft)"
    by (simp add: demo_env_def demo_parse_def)
  moreover have "get_receipt empty_store (actor_id (human ''ann'')) ''k'' = None"
    by (simp add: empty_store_def get_receipt_def)
  ultimately show ?thesis
    using replay_returns_first_response[OF demo_created_eq runs.stay, of "at 50"] demo_created_facts(5)
    by simp
qed

text \<open>C6. An idempotency key names one request: a later call of the same actor under a key that was
  used for another operation, another target or a request with another digest fails with the
  conflict error (when it passes authorization), and the store does not change.\<close>

theorem reused_key_conflicts:
  assumes "service_call env z clk a key c s = (Inr resp, s1)" and "runs env z s1 z' s'"
    and "call_auth z' a c' s' = Inr ()"
    and "call_operation c' \<noteq> call_operation c \<or> call_target c' \<noteq> call_target c
      \<or> env_request_digest env (call_operation c') (actor_id a) (call_target c') (call_command c')
        \<noteq> env_request_digest env (call_operation c) (actor_id a) (call_target c) (call_command c)"
  shows "service_call env z' clk' a key c' s' = (Inl IdempotencyConflictError, s')"
proof -
  obtain rec where "get_receipt s1 (actor_id a) key = Some rec" and ans: "answers env a c rec"
    using assms(1) by (rule service_call_receipt)
  with assms(2) have "get_receipt s' (actor_id a) key = Some rec" by (auto intro: runs_receipts)
  moreover have "\<not> answers env a c' rec" using ans assms(4) by (auto simp: answers_def)
  ultimately show ?thesis using service_call_recorded[OF _ assms(3)] by simp
qed

theorem reused_key_conflicts_witness:
  "service_call demo_env demo_rbac (at 2) (human ''ann'') ''k'' demo_stale demo_created
     = (Inl IdempotencyConflictError, demo_created)"
proof -
  obtain resp where r: "service_call demo_env demo_rbac (at 1) (human ''ann'') ''k'' demo_create empty_store
      = (Inr resp, demo_created)" using demo_created_eq by blast
  show ?thesis
    using reused_key_conflicts[OF r runs.stay demo_created_facts(6), of "at 2"] demo_created_facts(7) by simp
qed

text \<open>C7. Mutations are atomic: a call that raises leaves the store exactly as it was, and a call
  that returns normally under a fresh key advances the store's generation by one and records
  exactly one receipt, for its own actor and key.\<close>

theorem calls_are_atomic:
  assumes "service_call env z clk a key c s = (r, s')"
  shows "(isl r \<longrightarrow> s' = s)
    \<and> (\<not> isl r \<and> get_receipt s (actor_id a) key = None \<longrightarrow>
        st_generation s' = st_generation s + 1
        \<and> (\<forall>i k. (i, k) \<noteq> (actor_id a, key) \<longrightarrow> get_receipt s' i k = get_receipt s i k)
        \<and> get_receipt s' (actor_id a) key \<noteq> None)"
  using assms
proof (cases rule: service_call_outcome)
  case (committed resp t1 t2)
  have "receipt_key (receipt_for env a key c resp) = (actor_id a, key)"
    by (simp add: receipt_key_def receipt_for_def)
  with committed_receipts(1)[OF committed(4,6)] committed(1,5,7) show ?thesis by simp
qed simp_all

theorem calls_are_atomic_witness:
  "st_generation demo_created = 1
   \<and> snd (service_call demo_env demo_rbac (at 2) (human ''bob'') ''k2'' demo_stale demo_created) = demo_created"
proof -
  obtain resp where r: "service_call demo_env demo_rbac (at 1) (human ''ann'') ''k'' demo_create empty_store
      = (Inr resp, demo_created)" using demo_created_eq by blast
  have "get_receipt (empty_store :: unit store) (actor_id (human ''ann'')) ''k'' = None"
    by (simp add: empty_store_def get_receipt_def)
  with calls_are_atomic[OF r] have "st_generation demo_created = 1" by (simp add: empty_store_def)
  moreover have "isl (fst (service_call demo_env demo_rbac (at 2) (human ''bob'') ''k2'' demo_stale demo_created))"
    by code_simp
  ultimately show ?thesis
    using calls_are_atomic[OF prod.collapse[symmetric]] by blast
qed

section \<open>Drafts\<close>

text \<open>C8. A draft moves only along the edges of the lifecycle: a call changes at most one draft of
  a reachable store, and a changed draft made one step of the draft machine by the caller: an edge
  Draft-Draft, Draft-Validated, Validated-InReview, InReview-InReview, InReview-Draft,
  InReview-Approved, Approved-Published or Published-Superseded, with the next revision and the
  same identifier, workload, version, previous version and creator.\<close>

theorem drafts_follow_lifecycle:
  assumes "reachable env z s" and "service_call env z clk a key c s = (r, s')"
    and "get_draft s did = Some d"
  shows "\<exists>d'. get_draft s' did = Some d'
    \<and> (d' = d \<or> (draft_step env a d d' \<and> edge (dr_state d) (dr_state d')
        \<and> revision d' = revision d + 1 \<and> draft_id d' = did \<and> dr_manifest_id d' = dr_manifest_id d
        \<and> mf_version (dr_manifest d') = mf_version (dr_manifest d)
        \<and> dr_previous_version d' = dr_previous_version d \<and> created_by d' = created_by d
        \<and> updated_by d' = a
        \<and> (\<forall>i. i \<noteq> did \<longrightarrow> get_draft s' i = get_draft s i)))"
proof -
  have k: "keyed s" using assms(1) by (rule reachable_keyed)
  from service_call_step[OF assms(2)] show ?thesis
  proof
    assume "s' = s" then show ?thesis using assms(3) by simp
  next
    assume "store_step env a s s'"
    then show ?thesis
    proof (cases rule: store_step_drafts)
      case none
      then show ?thesis using assms(3) by (simp add: get_draft_def)
    next
      case (new e)
      then show ?thesis using assms(3) by (auto simp: saves_get)
    next
      case (step i e e' act)
      have "draft_id e' = i" using keyed_draft[OF k step(1)] draft_step_frame(1)[OF step(2)] by simp
      then show ?thesis
        using assms(3) step draft_step_frame[OF step(2)] draft_step_edge[OF step(2)]
        by (cases "i = did") (auto simp: saves_get)
    qed
  qed
qed

lemma demo_validated_call:
  "map dr_state (dict_values (st_drafts (snd (service_call demo_env demo_rbac (at 2) (human ''ann'')
     ''v'' demo_stale demo_created)))) = [Validated]"
  by code_simp

lemma single_draft: "map f (dict_values (st_drafts s)) = [x] \<Longrightarrow> \<exists>i d. get_draft s i = Some d \<and> f d = x"
  by (cases "st_drafts s") (auto simp: dict_values_def get_draft_def dict_get_def intro: exI)

lemma demo_created_reachable: "reachable demo_env demo_rbac demo_created"
proof -
  obtain resp where "service_call demo_env demo_rbac (at 1) (human ''ann'') ''k'' demo_create empty_store
      = (Inr resp, demo_created)" using demo_created_eq by blast
  from reachable.call[OF _ demo_created_facts(8) this] show ?thesis
    unfolding demo_rbac_def by (blast intro: reachable.start)
qed

theorem drafts_follow_lifecycle_witness:
  "\<exists>did d d'. get_draft demo_created did = Some d
     \<and> get_draft (snd (service_call demo_env demo_rbac (at 2) (human ''ann'') ''v'' demo_stale demo_created)) did
       = Some d' \<and> (d' = d \<or> edge (dr_state d) (dr_state d'))"
proof -
  obtain did d where d: "get_draft demo_created did = Some d"
    using single_draft[OF demo_created_facts(3)] by blast
  from drafts_follow_lifecycle[OF demo_created_reachable prod.collapse[symmetric] d] d show ?thesis by blast
qed

text \<open>C9. In every reachable store every draft is well-formed: its stored digest is the digest of its
  document; its reviews are by humans, at strictly increasing revisions not above its own, at most a
  hundred; and its state agrees with its parts: a Draft carries no validation, review or approval,
  a validation belongs to the current revision and digest, from InReview on the publication
  candidate is current, and from Approved on a human approval backed by a human review of the
  revision before stands for the current digest.\<close>

theorem reachable_drafts_well_formed:
  assumes "reachable env z s" and "get_draft s did = Some d"
  shows "draft_wf env d \<and> draft_id d = did"
  using assms reachable_drafts_wf reachable_keyed keyed_draft unfolding drafts_wf_def by blast

theorem reachable_drafts_well_formed_witness:
  "draft_wf demo_env (the (get_draft demo_store1 ''draft-0''))"
proof -
  obtain d where d: "get_draft demo_store1 ''draft-0'' = Some d"
    using demo_facts1 by (auto simp: demo_facts1_def)
  from reachable_drafts_well_formed[OF demo_reachable(2) d] d show ?thesis by simp
qed

text \<open>
  The draft, revision, version and digest a call says it has seen. A supersession says it of the
  source draft of the version it retires; only the creation of a draft names none.
\<close>

fun expectation :: "'b store \<Rightarrow> 'b call \<Rightarrow> (string \<times> nat \<times> version \<times> string) option" where
  "expectation s (CallCreate c) = None"
| "expectation s (CallReplace d c) =
     Some (d, rc_expected_revision c, rc_expected_version c, rc_expected_digest c)"
| "expectation s (CallValidate d c) = Some (d, expected_revision c, expected_version c, expected_digest c)"
| "expectation s (CallSubmit d c) = Some (d, expected_revision c, expected_version c, expected_digest c)"
| "expectation s (CallReview d c) = Some (d, expected_revision c, expected_version c, expected_digest c)"
| "expectation s (CallApprove d c) = Some (d, expected_revision c, expected_version c, expected_digest c)"
| "expectation s (CallPublish d c) = Some (d, expected_revision c, expected_version c, expected_digest c)"
| "expectation s (CallIssue c) =
     Some (ic_draft_id c, ic_draft_revision c, ic_manifest_version c, ic_manifest_digest c)"
| "expectation s (CallSupersede m v c) = map_option (\<lambda>p. (source_draft_id p, sc_expected_revision c,
     sc_expected_version c, sc_expected_digest c)) (get_published s m v)"

lemma ensure_expected_eq_Inr:
  "ensure_expected d r v dig = Inr u \<longleftrightarrow>
     (r, v, dig) = (revision d, mf_version (dr_manifest d), dr_manifest_digest d)"
  by (auto simp: ensure_expected_def bindR_eq_Inr guardR_eq_Inr)

lemma body_meets_expectation:
  assumes "call_body env z clk a c (tx_enter s) = Inr (resp, t')"
    and "expectation s c = Some (did, r, v, dig)"
  shows "\<exists>d. get_draft s did = Some d
    \<and> (r, v, dig) = (revision d, mf_version (dr_manifest d), dr_manifest_digest d)"
  using assms
  by (cases c) (auto simp: found Let_def ensure_expected_command_def ensure_expected_eq_Inr
      get_draft_def get_published_def
      replace_draft_tx_def replace_draft_in_transaction_def validate_draft_tx_def
      submit_for_review_tx_def review_draft_tx_def approve_draft_tx_def publish_draft_tx_def
      supersede_version_tx_def issue_receipt_tx_def)

text \<open>C10. No lost update: a call that names an expected revision, version or digest other than that
  of the stored draft fails and changes nothing, unless it replays a recorded response. Every call
  but the creation of a draft names them, a supersession for the source draft of the published
  version it retires.\<close>

theorem stale_calls_fail:
  assumes "expectation s c = Some (did, r, v, dig)" and "get_draft s did = Some d"
    and "(r, v, dig) \<noteq> (revision d, mf_version (dr_manifest d), dr_manifest_digest d)"
    and "get_receipt s (actor_id a) key = None"
  shows "\<exists>e. service_call env z clk a key c s = (Inl e, s)"
proof (cases "service_call env z clk a key c s")
  case (Pair res s')
  then show ?thesis
  proof (cases rule: service_call_outcome)
    case (committed resp t1 t2)
    from body_meets_expectation[OF committed(4) assms(1)] assms(2,3) show ?thesis by simp
  qed (use assms(4) Pair in simp_all)
qed

definition demo_retire :: "unit call" where
  "demo_retire = CallSupersede ''shop'' (Version 1 0 0)
     \<lparr>sc_expected_revision = 5, sc_expected_version = Version 1 0 0,
      sc_expected_digest = mf_artifact_digest (demo_manifest 0 3000),
      sc_replacement_version = Version 1 1 0,
      sc_replacement_digest = mf_artifact_digest (demo_manifest 1 3000), sc_reason = ''replaced''\<rparr>"

theorem stale_calls_fail_witness:
  "(\<exists>e. service_call demo_env demo_rbac (at 9) (human ''ann'') ''late'' demo_stale demo_store1
     = (Inl e, demo_store1))
   \<and> (\<exists>e. service_call demo_env demo_rbac (at 9) (human ''ann'') ''late'' demo_retire demo_store1
     = (Inl e, demo_store1))"
proof -
  have r: "get_receipt demo_store1 (actor_id (human ''ann'')) ''late'' = None"
    and rev: "map_option revision (get_draft demo_store1 ''draft-0'') = Some 6"
    and src: "map_option source_draft_id (get_published demo_store1 ''shop'' (Version 1 0 0)) = Some ''draft-0''"
    using demo_facts1 by (simp_all add: demo_facts1_def human_def)
  from rev obtain d where d: "get_draft demo_store1 ''draft-0'' = Some d" "revision d = 6" by auto
  have "expectation demo_store1 demo_stale
      = Some (''draft-0'', 1, Version 1 0 0, mf_artifact_digest (demo_manifest 0 0))"
    by (simp add: demo_stale_def step_command_def)
  from stale_calls_fail[OF this d(1) _ r, of demo_env demo_rbac "at 9"] d(2) have
    "\<exists>e. service_call demo_env demo_rbac (at 9) (human ''ann'') ''late'' demo_stale demo_store1
      = (Inl e, demo_store1)" by simp
  moreover from src obtain p where "get_published demo_store1 ''shop'' (Version 1 0 0) = Some p"
      "source_draft_id p = ''draft-0''" by auto
  then have "expectation demo_store1 demo_retire
      = Some (''draft-0'', 5, Version 1 0 0, mf_artifact_digest (demo_manifest 0 3000))"
    by (simp add: demo_retire_def)
  from stale_calls_fail[OF this d(1) _ r, of demo_env demo_rbac "at 9"] d(2) have
    "\<exists>e. service_call demo_env demo_rbac (at 9) (human ''ann'') ''late'' demo_retire demo_store1
      = (Inl e, demo_store1)" by simp
  ultimately show ?thesis by blast
qed

section \<open>Authority\<close>

fun call_permission :: "'b call \<Rightarrow> permission" where
  "call_permission (CallCreate c) = CreateDraft"
| "call_permission (CallReplace d c) = UpdateDraft"
| "call_permission (CallValidate d c) = Validate"
| "call_permission (CallIssue c) = IssueOperationalContext"
| "call_permission (CallSubmit d c) = Submit"
| "call_permission (CallReview d c) = Review"
| "call_permission (CallApprove d c) = Approve"
| "call_permission (CallPublish d c) = Publish"
| "call_permission (CallSupersede m v c) = Supersede"

fun call_workload :: "'b call \<Rightarrow> 'b store \<Rightarrow> string option" where
  "call_workload (CallCreate c) s = Some (mf_manifest_id (cc_manifest c))"
| "call_workload (CallIssue c) s = Some (ic_manifest_id c)"
| "call_workload (CallSupersede m v c) s = Some m"
| "call_workload (CallReplace d c) s = map_option dr_manifest_id (get_draft s d)"
| "call_workload (CallValidate d c) s = map_option dr_manifest_id (get_draft s d)"
| "call_workload (CallSubmit d c) s = map_option dr_manifest_id (get_draft s d)"
| "call_workload (CallReview d c) s = map_option dr_manifest_id (get_draft s d)"
| "call_workload (CallApprove d c) s = map_option dr_manifest_id (get_draft s d)"
| "call_workload (CallPublish d c) s = map_option dr_manifest_id (get_draft s d)"

lemma call_auth_workload:
  "call_auth z a c s = Inr () \<Longrightarrow> \<exists>m. call_workload c s = Some m
     \<and> require z a (call_permission c) (Some m) = Inr () \<and> (\<exists>x. c = CallIssue x \<longrightarrow> kind a = Service)"
  by (cases c) (auto simp: authorize_draft_def found)

lemma require_grant:
  assumes "require z a p (Some m) = Inr u"
  obtains g where "g \<in> set (grants z)" and "rg_actor_id g = actor_id a"
    and "p \<in> set (role_permissions (rg_role g))" and "rg_scope g \<in> {AllWorkloads, Workload m}"
    and "p \<in> set human_only \<longrightarrow> kind a = Human" and "m \<noteq> ''*''"
proof -
  from assms have "matching_grants z a p (Some m) False \<noteq> []" and m: "workload_id_ok m"
    and h: "p \<in> set human_only \<longrightarrow> kind a = Human"
    by (simp_all add: require_eq_Inr)
  then obtain g where "g \<in> set (matching_grants z a p (Some m) False)"
    by (meson list.set_sel(1))
  with m h show thesis using that[of g] by (auto simp: matching_grants_def workload_id_ok_iff)
qed

text \<open>C11. Nothing happens without authority: a call that returns normally (a replay included) was made
  by an actor who at that moment holds a grant whose role carries the permission of the operation
  and whose scope is all workloads or the workload of the call; to review, approve, publish or
  supersede the actor is human; and no call succeeds for the workload \<open>*\<close>.\<close>

theorem successful_calls_are_authorized:
  assumes "service_call env z clk a key c s = (Inr resp, s')"
  shows "\<exists>m g. call_workload c s = Some m \<and> m \<noteq> ''*'' \<and> g \<in> set (grants z)
    \<and> rg_actor_id g = actor_id a \<and> call_permission c \<in> set (role_permissions (rg_role g))
    \<and> rg_scope g \<in> {AllWorkloads, Workload m}
    \<and> (call_permission c \<in> {Review, Approve, Publish, Supersede} \<longrightarrow> kind a = Human)"
proof -
  have "call_auth z a c s = Inr ()"
    using assms by (cases rule: service_call_outcome) simp_all
  then obtain m where m: "call_workload c s = Some m" "require z a (call_permission c) (Some m) = Inr ()"
    using call_auth_workload by blast
  from m(2) show ?thesis
    by (rule require_grant) (use m(1) in \<open>auto simp: human_only_def\<close>)
qed

theorem successful_calls_are_authorized_witness:
  "\<exists>g. g \<in> set (grants demo_rbac) \<and> rg_actor_id g = ''ann''
     \<and> CreateDraft \<in> set (role_permissions (rg_role g))"
proof -
  obtain resp where "service_call demo_env demo_rbac (at 1) (human ''ann'') ''k'' demo_create empty_store
      = (Inr resp, demo_created)" using demo_created_eq by blast
  from successful_calls_are_authorized[OF this] show ?thesis
    by (auto simp: demo_create_def release_def human_def Let_def)
qed

text \<open>Revoking a grant takes effect at once and never widens authority: after the revocation the
  grant is gone and every other grant stays; whatever is allowed afterwards was allowed before; and
  an actor whose only matching grant it was is refused.\<close>

theorem revocation_narrows:
  "set (grants (remove_grant g z)) = set (grants z) - {g}
   \<and> (require (remove_grant g z) a p mid = Inr () \<longrightarrow> require z a p mid = Inr ())
   \<and> (set (matching_grants z a p mid False) \<subseteq> {g} \<longrightarrow>
        require (remove_grant g z) a p mid = Inl AuthorizationError)"
proof -
  note sub = matching_remove_grant[of g z a p mid False]
  from sub have "require (remove_grant g z) a p mid = Inr () \<longrightarrow> require z a p mid = Inr ()"
    by (auto simp: require_eq_Inr)
  moreover have "require (remove_grant g z) a p mid = Inl AuthorizationError"
    if only: "set (matching_grants z a p mid False) \<subseteq> {g}"
  proof -
    have "matching_grants (remove_grant g z) a p mid False = []"
      unfolding sub using only by (auto simp: filter_empty_conv)
    then show ?thesis
      by (auto simp: require_def bindR_def require_actor_kind_def require_concrete_manifest_id_def
          guardR_def split: option.splits sum.splits)
  qed
  ultimately show ?thesis by (auto simp: grants_remove_grant)
qed

theorem revocation_narrows_witness:
  "require demo_rbac (human ''bob'') Review (Some ''shop'') = Inr ()
   \<and> require (remove_grant \<lparr>rg_actor_id = ''bob'', rg_role = Reviewer, rg_scope = Workload ''shop''\<rparr> demo_rbac)
       (human ''bob'') Review (Some ''shop'') = Inl AuthorizationError"
proof -
  have "set (matching_grants demo_rbac (human ''bob'') Review (Some ''shop'') False)
      \<subseteq> {\<lparr>rg_actor_id = ''bob'', rg_role = Reviewer, rg_scope = Workload ''shop''\<rparr>}"
    by (simp add: matching_grants_def demo_rbac_def new_rbac_def human_def)
  with revocation_narrows[of _ demo_rbac "human ''bob''" Review "Some ''shop''"] show ?thesis
    by (simp, code_simp)
qed

text \<open>The three ways to ask for authority agree: \<open>authorize\<close> issues a token exactly when
  \<open>require\<close> passes, the token names the actor, permission, workload and grant revision it was asked
  for, and whatever \<open>require_explicit\<close> allows \<open>require\<close> allows too, but never by a grant for all
  workloads alone.\<close>

theorem authorization_entry_points_agree:
  "((\<exists>t. authorize digest z a p m = Inr t) \<longleftrightarrow> require z a p (Some m) = Inr ())
   \<and> (\<forall>t. authorize digest z a p m = Inr t \<longrightarrow> gt_actor_id t = actor_id a \<and> gt_permission t = p
        \<and> gt_manifest_id t = m \<and> gt_grant_revision t = grant_revision z)
   \<and> (require_explicit z a p m = Inr () \<longrightarrow> require z a p (Some m) = Inr ()
        \<and> (\<exists>g \<in> set (grants z). rg_scope g = Workload m))"
proof -
  have "\<exists>g \<in> set (grants z). rg_scope g = Workload m" if "require_explicit z a p m = Inr ()"
    using that by (auto simp: require_explicit_def bindR_eq_Inr guardR_eq_Inr matching_grants_def
        filter_empty_conv)
  moreover have "gt_actor_id t = actor_id a \<and> gt_permission t = p \<and> gt_manifest_id t = m
      \<and> gt_grant_revision t = grant_revision z" if "authorize digest z a p m = Inr t" for t
    using that by (auto simp: authorize_def authorize_role_grants_def Let_def bindR_eq_Inr)
  ultimately show ?thesis
    using authorize_iff_require[of digest z a p m] require_explicit_imp_require[of z a p m] by blast
qed

theorem authorization_entry_points_agree_witness:
  "require demo_rbac (human ''ann'') Submit (Some ''shop'') = Inr ()"
proof -
  have "require_explicit demo_rbac (human ''ann'') Submit ''shop'' = Inr ()" by code_simp
  with authorization_entry_points_agree[of "\<lambda>_ _ _ _. []" demo_rbac "human ''ann''" Submit "''shop''"]
  show ?thesis by blast
qed

section \<open>Creation, review and publication in detail\<close>

lemma require_error: "require z a p mid = Inl e \<Longrightarrow> e = AuthorizationError"
  by (auto simp: require_def bindR_eq_Inl guardR_eq_Inl require_actor_kind_def
      require_concrete_manifest_id_def split: if_splits option.splits sum.splits)

lemma ensure_lineage_error: "ensure_lineage t m v prev = Inl e \<Longrightarrow> e \<in> {AmbiguousLookupError, VersionMismatchError}"
  by (auto simp: ensure_lineage_def Let_def split: if_splits list.splits)

lemma create_existing_error:
  assumes "get_baseline t (cc_draft_id c) \<noteq> None"
    and "\<forall>now. env_create_check env (store.truncate t) c a now \<noteq> Some DuplicateDraftError"
  shows "\<exists>e. create_draft_tx env clk a c t = Inl e \<and> e \<noteq> DuplicateDraftError"
proof (cases "create_draft_tx env clk a c t")
  case (Inl e)
  moreover have "put_baseline (new_baseline a now c) t = Inl PersistenceConflictError" for now
    using assms(1) by (simp add: put_baseline_def get_baseline_def)
  ultimately have "e \<noteq> DuplicateDraftError"
    using assms(2)
    by (auto simp: create_draft_tx_def Let_def bindR_eq_Inl ensure_manifest_digest_def
        ensure_timestamp_def ensure_rollback_def requireR_def passes_def
        dest!: ensure_lineage_error split: if_splits option.splits)
  with Inl show ?thesis by blast
next
  case (Inr x)
  then obtain resp t' where "create_draft_tx env clk a c t = Inr (resp, t')" by (cases x) auto
  from create_saves[OF this] assms(1) show ?thesis
    by (auto simp: put_baseline_def get_baseline_def split: if_splits)
qed

text \<open>Creating a draft under an identifier already in use always fails, and never with
  DuplicateDraftError, the error meant for this case: the selector baseline of the existing draft
  is found first and raises PersistenceConflictError. The hypothesis on the profile and selector
  checks says that they do not raise DuplicateDraftError themselves.\<close>

theorem duplicate_draft_error_unreachable:
  assumes "reachable env z s" and "get_draft s (cc_draft_id c) \<noteq> None"
    and "get_receipt s (actor_id a) key = None"
    and "\<forall>now. env_create_check env (store.truncate (tx_enter s)) c a now \<noteq> Some DuplicateDraftError"
  shows "\<exists>e. service_call env z clk a key (CallCreate c) s = (Inl e, s) \<and> e \<noteq> DuplicateDraftError"
proof -
  have "get_baseline (tx_enter s) (cc_draft_id c) \<noteq> None"
    using reachable_baselines[OF assms(1)] assms(2) by (simp add: baselines_ok_def get_baseline_def)
  from create_existing_error[OF this assms(4)] obtain e where
    e: "create_draft_tx env clk a c (tx_enter s) = Inl e" "e \<noteq> DuplicateDraftError" by blast
  have "get_receipt (tx_enter s) (actor_id a) key = None" using assms(3) by (simp add: get_receipt_def)
  with e show ?thesis
    by (cases "call_auth z a (CallCreate c) s")
      (auto simp: service_call_eq after_auth_def mutate_def with_transaction_def Let_def dest: require_error)
qed

theorem duplicate_draft_error_unreachable_witness:
  "\<exists>e. service_call demo_env demo_rbac (at 9) (human ''ann'') ''late'' demo_create demo_store1
     = (Inl e, demo_store1) \<and> e \<noteq> DuplicateDraftError"
proof -
  have "case demo_create of CallCreate c \<Rightarrow> cc_draft_id c = ''draft-0'' | _ \<Rightarrow> False"
    by code_simp
  then obtain c where c: "demo_create = CallCreate c" "cc_draft_id c = ''draft-0''"
    by (auto split: call.splits)
  show ?thesis
    unfolding c(1)
    by (rule duplicate_draft_error_unreachable[OF demo_reachable(2)])
      (use demo_facts1 c(2) in \<open>simp_all add: demo_facts1_def human_def demo_env_def\<close>)
qed

text \<open>C12. A rollback draft only repeats the past: when a call creates a draft with a rollback source, the
  source is a published version of the same workload, older than the previous version, and the
  draft's content digest equals the one of the published document.\<close>

theorem rollback_repeats_published_content:
  assumes "service_call env z clk a key (CallCreate c) s = (r, s')"
    and "get_draft s (cc_draft_id c) = None" and "get_draft s' (cc_draft_id c) = Some d"
    and "rollback_source_version d = Some src"
  shows "\<exists>p prev. get_published s (dr_manifest_id d) src = Some p \<and> dr_previous_version d = Some prev
    \<and> src < prev
    \<and> rollback_content_digest env (dr_manifest d) = rollback_content_digest env (pm_manifest p)
    \<and> dr_state d = Draft \<and> revision d = 1 \<and> created_by d = a"
  using assms(1)
proof (cases rule: service_call_outcome)
  case (committed resp t1 t2)
  then have "create_draft_tx env clk a c (tx_enter s) = Inr (resp, t1)" by simp
  from create_saves[OF this] obtain now t where
      rb: "ensure_rollback env (tx_enter s) c = Inr ()"
    and base: "put_baseline (new_baseline a now c) (tx_enter s) = Inr t"
    and w: "write_draft env (new_draft a now c) None (lifecycle_event now a DraftCreated
        (new_draft a now c) None (cc_reason c) None None None) t = Inr t1" by blast
  have "st_drafts s' = st_drafts t1"
    using agrees_commit[OF committed(6)] committed(7) by (simp add: agrees_def)
  then have "get_draft s' (cc_draft_id c) = Some (new_draft a now c)"
    using w by (auto simp: write_draft_eq_Inr get_draft_def)
  with assms(3) have d: "d = new_draft a now c" by simp
  with rb assms(4) show ?thesis
    by (auto simp: ensure_rollback_eq_Inr get_published_def new_draft_def split: option.splits)
qed (use assms(2,3) in simp_all)

theorem rollback_repeats_published_content_witness:
  "\<exists>d p. get_draft demo_rolled_back ''draft-2'' = Some d
     \<and> get_published demo_store3 ''shop'' (Version 1 0 0) = Some p
     \<and> rollback_content_digest demo_env (dr_manifest d) = rollback_content_digest demo_env (pm_manifest p)"
proof -
  have id: "cc_draft_id demo_rollback = ''draft-2''" by (simp add: demo_rollback_def)
  have none: "get_draft demo_store3 (cc_draft_id demo_rollback) = None"
    and "case get_draft demo_rolled_back ''draft-2'' of None \<Rightarrow> False
      | Some d \<Rightarrow> rollback_source_version d = Some (Version 1 0 0) \<and> dr_manifest_id d = ''shop''"
    using demo_facts3 unfolding id by (simp_all only: demo_facts3_def demo_rolled_back_def)
  then obtain d where d: "get_draft demo_rolled_back ''draft-2'' = Some d" "dr_manifest_id d = ''shop''"
      "rollback_source_version d = Some (Version 1 0 0)"
    by (auto split: option.splits)
  from rollback_repeats_published_content[OF _ none, of demo_env demo_rbac "at 20" "human ''ann''" "''rb''" _
      demo_rolled_back d "Version 1 0 0"] d id
  show ?thesis by (metis demo_rolled_back_def prod.collapse)
qed

text \<open>
  What a publication needs, spelled out: the publication candidate is the one finalized for the
  current document, the named approval and the review it names are for the current revision and
  digest, and the named operational receipt was issued for this draft as it stands and is in force.
\<close>

definition candidate_current :: "'b env \<Rightarrow> 'b draft_record \<Rightarrow> publication_candidate \<Rightarrow> bool" where
  "candidate_current env d cand \<longleftrightarrow> (let m = dr_manifest d; dig = artifact_digest env m in
     dr_candidate d = Some cand
     \<and> (\<exists>r. review d = Some r \<and> publication_candidate_digest r = dig)
     \<and> dr_manifest_digest d = dig \<and> mf_artifact_digest m = dig
     \<and> cand = \<lparr>finalized_by = env_publication_actor env, finalized_at = published_at (mf_audit m),
          pc_manifest_version = mf_version m, pc_manifest_digest = dig,
          pc_semantic_digest = mf_semantic_digest m, pc_approval_status = ''approved''\<rparr>
     \<and> published_by (mf_audit m) = actor_id (env_publication_actor env)
     \<and> approval_status (mf_audit m) = ''approved'')"

definition approval_current :: "'b draft_record \<Rightarrow> string \<Rightarrow> approval_decision \<Rightarrow> bool" where
  "approval_current d aid ap \<longleftrightarrow> approval d = Some ap \<and> ad_decision_id ap = aid
     \<and> approved_revision ap = revision d \<and> ad_manifest_version ap = mf_version (dr_manifest d)
     \<and> ad_manifest_digest ap = dr_manifest_digest d
     \<and> (\<exists>rv. find (\<lambda>rv. Some (rd_decision_id rv) = ad_review_decision_id ap) (review_decisions d) = Some rv
          \<and> rd_decision rv = ReviewApproved \<and> reviewed_revision rv + 1 = revision d
          \<and> rd_manifest_digest rv = dr_manifest_digest d)"

definition receipt_current ::
    "'b env \<Rightarrow> 'b store \<Rightarrow> 'b draft_record \<Rightarrow> string \<Rightarrow> int \<Rightarrow> operational_receipt \<Rightarrow> bool" where
  "receipt_current env s d rid now r \<longleftrightarrow> get_operational s rid = Some r
     \<and> kind (issued_by r) = Service
     \<and> or_manifest_id r = dr_manifest_id d \<and> or_manifest_version r = mf_version (dr_manifest d)
     \<and> or_draft_id r = draft_id d \<and> or_draft_revision r = revision d
     \<and> or_manifest_digest r = dr_manifest_digest d
     \<and> or_collected_at r \<le> issued_at r \<and> issued_at r \<le> now \<and> now < or_expires_at r
     \<and> (\<exists>p i. production_profile (dr_manifest d) = Some p \<and> or_profile_id r = pd_profile_id p
          \<and> env_resolve env s d (pd_profile_id p) now = Some (i, or_profile_digest r))"

definition publication_ready ::
    "'b env \<Rightarrow> rbac \<Rightarrow> clock_reading \<Rightarrow> actor \<Rightarrow> 'b store \<Rightarrow> publish_command \<Rightarrow> 'b draft_record
     \<Rightarrow> publication_candidate \<Rightarrow> approval_decision \<Rightarrow> operational_receipt \<Rightarrow> bool" where
  "publication_ready env z clk a s c d cand ap receipt \<longleftrightarrow>
     (let m = dr_manifest d; mid = dr_manifest_id d; now = cr_us clk in
     kind a = Human \<and> workload_id_ok mid
     \<and> (\<exists>g \<in> set (grants z). rg_actor_id g = actor_id a \<and> Publish \<in> set (role_permissions (rg_role g))
          \<and> rg_scope g \<in> {AllWorkloads, Workload mid})
     \<and> dr_state d = Approved \<and> expected_revision c = revision d
     \<and> expected_version c = mf_version m \<and> expected_digest c = dr_manifest_digest d
     \<and> candidate_current env d cand \<and> approval_current d (approval_id c) ap
     \<and> cr_aware clk \<and> 1000 dvd now
     \<and> receipt_current env s d (pub_receipt_id c) now receipt
     \<and> mf_semantic_digest m = semantic_digest env m \<and> env_document_ok env m
     \<and> env_lifecycle_check env s d m now = None
     \<and> get_published s mid (mf_version m) = None
     \<and> (case active_versions s mid of
          [] \<Rightarrow> dr_previous_version d = None
        | [p] \<Rightarrow> dr_previous_version d = Some (pm_version p) \<and> pm_version p < mf_version m
        | _ \<Rightarrow> False))"

lemma truncate_enter [simp]: "store.truncate (tx_enter s) = s"
  by (simp add: tx_enter_def store.defs)

lemma candidate_current_iff: "candidate_current env d cand \<longleftrightarrow> require_current_candidate env d = Inr cand"
  by (cases cand) (auto simp: candidate_current_def candidate_eq_Inr ensure_digest_eq_Inr Let_def)

lemma approval_current_iff: "approval_current d aid ap \<longleftrightarrow> publishable_approval d aid = Some ap"
proof (cases "approval d")
  case None
  then show ?thesis by (simp add: approval_current_def publishable_approval_def)
next
  case (Some x)
  then show ?thesis
    by (cases "find (\<lambda>rv. Some (rd_decision_id rv) = ad_review_decision_id x) (review_decisions d)")
      (auto simp: approval_current_def publishable_approval_def split: if_splits)
qed

lemma receipt_current_iff:
  "receipt_current env s d rid now r \<longleftrightarrow> require_operational_receipt env (tx_enter s) d rid now = Inr r"
proof (cases "get_operational s rid")
  case None
  then show ?thesis by (simp add: receipt_current_def require_operational_receipt_def get_operational_def)
next
  case (Some x)
  moreover from this have "get_operational (tx_enter s) rid = Some x" by (simp add: get_operational_def)
  ultimately show ?thesis
    by (cases "production_profile (dr_manifest d)"; cases "env_resolve env s d (or_profile_id x) now")
      (auto simp: receipt_current_def require_operational_receipt_def split: if_splits)
qed

lemma lineage_iff:
  "ensure_lineage s mid v prev = Inr u \<longleftrightarrow> (case active_versions s mid of
       [] \<Rightarrow> prev = None | [p] \<Rightarrow> prev = Some (pm_version p) \<and> pm_version p < v | _ \<Rightarrow> False)"
  by (auto simp: ensure_lineage_def Let_def less_version_def split: list.splits)

text \<open>The predicate is what the checks of the handler accept, taken together.\<close>

lemma publication_ready_iff:
  "publication_ready env z clk a s c d cand ap receipt \<longleftrightarrow>
     require z a Publish (Some (dr_manifest_id d)) = Inr () \<and> dr_state d = Approved
     \<and> ensure_expected_command d c = Inr () \<and> require_current_candidate env d = Inr cand
     \<and> publishable_approval d (approval_id c) = Some ap \<and> ensure_timestamp clk = Inr (cr_us clk)
     \<and> require_operational_receipt env (tx_enter s) d (pub_receipt_id c) (cr_us clk) = Inr receipt
     \<and> validate_lifecycle_manifest env (tx_enter s) d (dr_manifest d) (dr_manifest_digest d) (cr_us clk)
         = Inr ()
     \<and> get_published s (dr_manifest_id d) (mf_version (dr_manifest d)) = None
     \<and> ensure_lineage s (dr_manifest_id d) (mf_version (dr_manifest d)) (dr_previous_version d) = Inr ()"
proof -
  have auth: "require z a Publish (Some mid) = Inr () \<longleftrightarrow> kind a = Human \<and> workload_id_ok mid
      \<and> (\<exists>g \<in> set (grants z). rg_actor_id g = actor_id a \<and> Publish \<in> set (role_permissions (rg_role g))
          \<and> rg_scope g \<in> {AllWorkloads, Workload mid})" for mid
    by (auto simp: require_eq_Inr human_only_def matching_grants_def filter_empty_conv)
  have exp: "ensure_expected_command d c = Inr () \<longleftrightarrow> expected_revision c = revision d
      \<and> expected_version c = mf_version (dr_manifest d) \<and> expected_digest c = dr_manifest_digest d"
    by (auto simp: ensure_expected_command_def ensure_expected_eq_Inr)
  have clock: "ensure_timestamp clk = Inr (cr_us clk) \<longleftrightarrow> cr_aware clk \<and> 1000 dvd cr_us clk"
    by (auto simp: ensure_timestamp_def dvd_eq_mod_eq_0)
  have doc: "validate_lifecycle_manifest env (tx_enter s) d m dig now = Inr () \<longleftrightarrow>
      mf_artifact_digest m = artifact_digest env m \<and> dig = artifact_digest env m
      \<and> mf_semantic_digest m = semantic_digest env m \<and> env_document_ok env m
      \<and> env_lifecycle_check env s d m now = None" for m dig now
    by (auto simp: validate_lifecycle_manifest_def found revalidates_def ensure_digest_eq_Inr passes_def
        split: option.splits)
  show ?thesis
    unfolding publication_ready_def Let_def auth exp clock doc lineage_iff candidate_current_iff
      approval_current_iff receipt_current_iff
    by (auto simp: candidate_eq_Inr ensure_digest_eq_Inr)
qed

text \<open>A publication whose checks pass goes through.\<close>

lemma publish_succeeds:
  assumes "reachable env z s" and "get_draft s did = Some d"
    and "require z a Publish (Some (dr_manifest_id d)) = Inr ()"
    and "dr_state d = Approved" and "ensure_expected_command d c = Inr ()"
    and "require_current_candidate env d = Inr cand"
    and "publishable_approval d (approval_id c) = Some ap"
    and "ensure_timestamp clk = Inr now"
    and "require_operational_receipt env (tx_enter s) d (pub_receipt_id c) now = Inr receipt"
    and "validate_lifecycle_manifest env (tx_enter s) d (dr_manifest d) (dr_manifest_digest d) now = Inr ()"
    and "get_published s (dr_manifest_id d) (mf_version (dr_manifest d)) = None"
    and "ensure_lineage s (dr_manifest_id d) (mf_version (dr_manifest d)) (dr_previous_version d) = Inr ()"
    and "get_receipt s (actor_id a) key = None" and "id_ok key" and "length (st_audit s) < 99999999"
  shows "\<exists>p s'. service_call env z clk a key (CallPublish did c) s = (Inr (RPublished p), s')
    \<and> p = make_published env a now c cand ap receipt d
    \<and> get_published s' (dr_manifest_id d) (mf_version (dr_manifest d)) = Some p
    \<and> get_draft s' did = Some (mark_published a now (tc_reason c) d)"
proof -
  let ?t = "tx_enter s" and ?p = "make_published env a now c cand ap receipt d"
  let ?d = "mark_published a now (tc_reason c) d"
  let ?t1 = "?t\<lparr>st_published := dict_set (published_key ?p) ?p (st_published s), dirty := True\<rparr>"
  have did: "draft_id d = did" using assms(1,2) reachable_keyed keyed_draft by blast
  have "verify_audit_chain (env_hash env) (st_audit s) = Inr ()"
    using reachable_history[OF assms(1)] by (simp add: history_wf_def)
  then obtain es where es: "append_audit (env_hash env) (lifecycle_event now a VersionPublished ?d
      (Some (revision d)) (tc_reason c) None (Some (env_publication_actor env))
      (Some (finalized_at cand))) (st_audit s) = Inr es"
    using append_audit_succeeds[OF _ assms(15)] by blast
  have key: "published_key ?p = (dr_manifest_id d, mf_version (dr_manifest d))"
    by (simp add: published_key_def make_published_def)
  have put: "put_published ?p ?t = Inr ?t1"
    using assms(11) key by (simp add: put_published_def get_published_def)
  have w: "write_draft env ?d (Some (revision d)) (lifecycle_event now a VersionPublished ?d
      (Some (revision d)) (tc_reason c) None (Some (env_publication_actor env))
      (Some (finalized_at cand))) ?t1
      = Inr (?t1\<lparr>st_drafts := dict_set did ?d (st_drafts s), st_audit := es, dirty := True\<rparr>)" (is "_ = Inr ?t2")
    using es did assms(2) by (simp add: write_draft_eq_Inr get_draft_def mark_defs)
  have lin: "ensure_lineage ?t m v pr = ensure_lineage s m v pr" for m v pr
    using agrees_get(5)[OF agrees_enter] .
  have body: "publish_draft_tx env z clk a did c ?t = Inr (RPublished ?p, ?t2)"
    using assms(2-12) put w
    by (simp add: publish_draft_tx_def found Let_def lin get_draft_def get_published_def)
  have auth: "call_auth z a (CallPublish did c) s = Inr ()"
    using assms(2,3) by (simp add: authorize_draft_def found)
  have rec: "get_receipt ?t (actor_id a) key = None" "st_receipts ?t2 = st_receipts s"
    using assms(13) by (simp_all add: get_receipt_def)
  let ?s' = "snd (service_call env z clk a key (CallPublish did c) s)"
  have "service_call env z clk a key (CallPublish did c) s = (Inr (RPublished ?p), ?s')
    \<and> st_published ?s' = st_published ?t2 \<and> st_drafts ?s' = st_drafts ?t2"
    using body auth rec assms(13,14)
    by (simp add: service_call_eq after_auth_def mutate_def with_transaction_def Let_def
        put_receipt_def receipt_key_def get_receipt_def tx_exit_def)
  then show ?thesis using key by (intro exI[of _ ?p] exI[of _ ?s']) (simp add: get_published_def get_draft_def)
qed

lemma publish_body_ready:
  assumes "publish_draft_tx env z clk a did c (tx_enter s) = Inr (resp, t)"
  shows "\<exists>d cand ap receipt. get_draft s did = Some d
    \<and> publication_ready env z clk a s c d cand ap receipt"
proof -
  have "ensure_lineage (tx_enter s) m v pr = ensure_lineage s m v pr" for m v pr
    using agrees_get(5)[OF agrees_enter] .
  moreover have "ensure_timestamp clk = Inr now \<Longrightarrow> now = cr_us clk" for now
    by (auto simp: ensure_timestamp_def split: if_splits)
  ultimately show ?thesis
    using assms unfolding publication_ready_iff
    by (auto simp: publish_draft_tx_def found Let_def get_draft_def get_published_def)
qed

text \<open>C13. Publication goes through exactly when nothing is stale. In a reachable store, for an
  identifier key not used before and while the audit history has fewer than 99999999 events (the
  last eight-digit sequence number), publishing a draft either fails, changes nothing, and the
  draft was not ready, or it succeeds, and the draft was ready. Ready means: the actor is a human
  with a publish grant for the workload; the draft is Approved and at the revision, version and
  digest the command names; its publication candidate, the named approval and the review that the
  approval names are for its current document and revision; the clock reading is an aware one in
  whole milliseconds; the named operational receipt was issued by a service for this draft, revision
  and digest and for the resolved production profile as it is now, and has not expired; the document
  still validates; its version is not published; and its previous version is the one active version,
  an older one, or none when there is none. After a success the store holds the manifest published
  under the version, with the draft's document, approval and receipt, and the draft is Published.\<close>

theorem publication_exactly_when_ready:
  assumes "reachable env z s" and "get_receipt s (actor_id a) key = None" and "id_ok key"
    and "length (st_audit s) < 99999999"
  shows "case service_call env z clk a key (CallPublish did c) s of
      (Inl e, s') \<Rightarrow> s' = s \<and> (\<nexists>d cand ap receipt. get_draft s did = Some d
          \<and> publication_ready env z clk a s c d cand ap receipt)
    | (Inr resp, s') \<Rightarrow> \<exists>d cand ap receipt. get_draft s did = Some d
          \<and> publication_ready env z clk a s c d cand ap receipt
          \<and> resp = RPublished (make_published env a (cr_us clk) c cand ap receipt d)
          \<and> get_published s' (dr_manifest_id d) (mf_version (dr_manifest d))
              = Some (make_published env a (cr_us clk) c cand ap receipt d)
          \<and> get_draft s' did = Some (mark_published a (cr_us clk) (tc_reason c) d)"
proof -
  let ?r = "service_call env z clk a key (CallPublish did c) s"
  have ok: "\<exists>p s'. ?r = (Inr (RPublished p), s') \<and> p = make_published env a (cr_us clk) c cand ap receipt d
      \<and> get_published s' (dr_manifest_id d) (mf_version (dr_manifest d)) = Some p
      \<and> get_draft s' did = Some (mark_published a (cr_us clk) (tc_reason c) d)"
    if "get_draft s did = Some d" "publication_ready env z clk a s c d cand ap receipt" for d cand ap receipt
    using that(2) assms(2-4) unfolding publication_ready_iff
    by (intro publish_succeeds[OF assms(1) that(1)]) blast+
  obtain r s' where r: "?r = (r, s')" by (cases ?r)
  then show ?thesis
  proof (cases rule: service_call_outcome)
    case (failed e)
    with r ok show ?thesis by fastforce
  next
    case (replayed rec resp)
    with assms(2) show ?thesis by simp
  next
    case (committed resp t1 t2)
    then obtain d cand ap receipt where
      "get_draft s did = Some d" "publication_ready env z clk a s c d cand ap receipt"
      using publish_body_ready by fastforce
    with r ok[OF this] show ?thesis by fastforce
  qed
qed

theorem publication_exactly_when_ready_witness:
  "\<exists>p s'. service_call demo_env demo_rbac (at 8) (human ''dan'') ''p'' (CallPublish ''draft-0'' demo_publish)
       demo_store0 = (Inr (RPublished p), s')
     \<and> get_published s' (pm_manifest_id p) (pm_version p) = Some p"
proof -
  obtain d cand ap receipt where d: "get_draft demo_store0 ''draft-0'' = Some d"
      "require demo_rbac (human ''dan'') Publish (Some (dr_manifest_id d)) = Inr ()"
      "dr_state d = Approved" "ensure_expected_command d demo_publish = Inr ()"
      "require_current_candidate demo_env d = Inr cand"
      "publishable_approval d (approval_id demo_publish) = Some ap"
      "require_operational_receipt demo_env (tx_enter demo_store0) d (pub_receipt_id demo_publish) 8000 = Inr receipt"
      "validate_lifecycle_manifest demo_env (tx_enter demo_store0) d (dr_manifest d) (dr_manifest_digest d) 8000
        = Inr ()"
      "get_published demo_store0 (dr_manifest_id d) (mf_version (dr_manifest d)) = None"
      "ensure_lineage demo_store0 (dr_manifest_id d) (mf_version (dr_manifest d)) (dr_previous_version d) = Inr ()"
      "get_receipt demo_store0 ''dan'' ''p'' = None" "length (st_audit demo_store0) = 5"
    using demo_facts0 unfolding demo_facts0_def by (auto simp: not_isl_iff split: option.splits)
  have "cr_us (at 8) = 8000" "ensure_timestamp (at 8) = Inr 8000"
    by (simp_all add: ensure_timestamp_def at_def)
  with d have ready: "publication_ready demo_env demo_rbac (at 8) (human ''dan'') demo_store0 demo_publish
      d cand ap receipt" unfolding publication_ready_iff by simp
  have ok: "id_ok ''p''" by code_simp
  have fresh: "get_receipt demo_store0 (actor_id (human ''dan'')) ''p'' = None"
    using d(11) by (simp add: human_def)
  have few: "length (st_audit demo_store0) < 99999999" using d(12) by simp
  obtain r s' where r: "service_call demo_env demo_rbac (at 8) (human ''dan'') ''p''
      (CallPublish ''draft-0'' demo_publish) demo_store0 = (r, s')" by (rule prod.exhaust)
  from publication_exactly_when_ready[OF demo_reachable(1) fresh ok few,
      where clk = "at 8" and did = "''draft-0''" and c = demo_publish]
    d(1) ready r show ?thesis
    by (cases r) (auto simp: make_published_def)
qed

text \<open>A draft whose identifier is longer than 118 characters can be created, validated and submitted
  but never reviewed: the identifier built for the decision would exceed the 128 characters that the
  decision record accepts, so every review of it fails (unless it replays a response) and the draft
  stays in review for ever.\<close>

theorem long_draft_ids_block_review:
  assumes "118 < length (draft_id d)" and "get_draft s did = Some d"
    and "get_receipt s (actor_id a) key = None"
  shows "\<exists>e. service_call env z clk a key (CallReview did c) s = (Inl e, s)"
proof -
  have "\<not> id_ok (review_decision_id d r)" for r
  proof
    assume "id_ok (review_decision_id d r)"
    then have "length (review_decision_id d r) \<le> 128" by (rule id_ok_length)
    moreover have "1 \<le> length (decimal r)"
      by (subst decimal.simps) simp
    ultimately show False using assms(1) by (simp add: review_decision_id_def)
  qed
  then have no: "review_draft_tx env z clk a did c (tx_enter s) \<noteq> Inr x" for x
    using assms(2) by (auto simp: review_draft_tx_def found Let_def get_draft_def)
  show ?thesis
  proof (cases "service_call env z clk a key (CallReview did c) s")
    case (Pair r s')
    then show ?thesis
    proof (cases rule: service_call_outcome)
      case (committed resp t1 t2)
      with no show ?thesis by simp
    qed (use assms(3) Pair in simp_all)
  qed
qed

definition demo_long_id :: string where "demo_long_id = replicate 119 (CHR ''a'')"

definition demo_review :: review_command where
  "demo_review = transition_command.extend (step_command 2 1 0)
     (review_command.fields ReviewApproved ''looks fine'' [] [])"

definition demo_long :: "unit store" where
  "demo_long = snd (service_call demo_env demo_rbac (at 1) (human ''ann'') ''k''
     (CallCreate (demo_rollback\<lparr>cc_draft_id := demo_long_id, cc_previous_version := None,
        cc_rollback_source := None\<rparr>)) empty_store)"

theorem long_draft_ids_block_review_witness:
  "\<exists>e. service_call demo_env demo_rbac (at 9) (human ''bob'') ''r'' (CallReview demo_long_id demo_review) demo_long
     = (Inl e, demo_long)"
proof -
  have "case get_draft demo_long demo_long_id of None \<Rightarrow> False | Some d \<Rightarrow> 118 < length (draft_id d)"
    and "get_receipt demo_long ''bob'' ''r'' = None"
    by code_simp+
  then obtain d where "118 < length (draft_id d)" "get_draft demo_long demo_long_id = Some d"
      "get_receipt demo_long (actor_id (human ''bob'')) ''r'' = None"
    by (auto simp: human_def split: option.splits)
  then show ?thesis by (rule long_draft_ids_block_review)
qed

section \<open>Reading\<close>

text \<open>The audit history of a reachable store can always be read: an actor with the audit permission
  for a workload gets exactly the events of that workload, in order, and never an integrity error;
  without the permission the call fails with the authorization error.\<close>

theorem audit_history_never_corrupt:
  assumes "reachable env z s"
  shows "audit_history env z a mid s = (if require z a Audit (Some mid) = Inr ()
     then Inr (filter (\<lambda>e. ae_manifest_id e = mid) (st_audit s)) else Inl AuthorizationError)"
proof -
  have "list_audit s None = st_audit s" by (simp add: list_audit_def)
  moreover have "verify_audit_chain (env_hash env) (st_audit s) = Inr ()"
    using reachable_history[OF assms] by (simp add: history_wf_def)
  ultimately show ?thesis
    by (cases "require z a Audit (Some mid)") (auto simp: audit_history_def dest: require_error)
qed

theorem audit_history_never_corrupt_witness:
  "audit_history demo_env demo_rbac (human ''dan'') ''shop'' demo_store1
     = Inr (filter (\<lambda>e. ae_manifest_id e = ''shop'') (st_audit demo_store1))"
proof -
  have "require demo_rbac (human ''dan'') Audit (Some ''shop'') = Inr ()" by code_simp
  with audit_history_never_corrupt[OF demo_reachable(2)] show ?thesis by simp
qed

lemma versions_with:
  fixes v :: version
  assumes "keyed s" and xs_def: "xs = filter (\<lambda>p. pm_version p = v) (list_published s None)"
  shows "q \<in> set xs \<longleftrightarrow> get_published s (pm_manifest_id q) v = Some q"
    and "distinct xs" and "inj_on pm_manifest_id (set xs)"
proof -
  have ok: "dict_ok published_key (st_published s)" using assms(1) by (simp add: keyed_def)
  then have d: "distinct (dict_values (st_published s))"
      "inj_on published_key (set (dict_values (st_published s)))"
    using distinct_dict_values by (auto simp: distinct_map)
  from dict_values_iff[OF ok, of q] keyed_published[OF assms(1)]
  show "q \<in> set xs \<longleftrightarrow> get_published s (pm_manifest_id q) v = Some q"
    by (auto simp: xs_def list_published_def get_published_def published_key_def)
  from d(1) show "distinct xs" by (simp add: xs_def list_published_def)
  from d(2) show "inj_on pm_manifest_id (set xs)"
    by (auto simp: xs_def list_published_def inj_on_def published_key_def)
qed

text \<open>C14. Looking a published version up is exact. With a workload, the call returns a manifest exactly
  when it is the one published for that workload and version and the actor may read the workload.
  Without a workload, it returns a manifest exactly when that is the only one of this version in the
  store and the actor may list, and read its workload; and it fails with the ambiguity error exactly
  when the actor may list and two workloads have the version. The supersession returned with the
  manifest is that of its workload and version, or none.\<close>

theorem published_lookup_exact:
  assumes "reachable env z s"
  shows "(read_published z a v (Some mid) s = Inr (p, x) \<longleftrightarrow>
      get_published s mid v = Some p \<and> x = get_supersession s mid v
      \<and> require z a Read (Some mid) = Inr ())
    \<and> (read_published z a v None s = Inr (p, x) \<longleftrightarrow>
      (\<forall>m q. get_published s m v = Some q \<longleftrightarrow> m = pm_manifest_id p \<and> q = p)
      \<and> x = get_supersession s (pm_manifest_id p) v
      \<and> require z a ListPerm None = Inr () \<and> require z a Read (Some (pm_manifest_id p)) = Inr ())
    \<and> (read_published z a v None s = Inl AmbiguousLookupError \<longleftrightarrow>
      require z a ListPerm None = Inr ()
      \<and> (\<exists>m n. m \<noteq> n \<and> get_published s m v \<noteq> None \<and> get_published s n v \<noteq> None))"
proof -
  have k: "keyed s" using assms by (rule reachable_keyed)
  define xs where "xs = filter (\<lambda>p. pm_version p = v) (list_published s None)"
  note mem = versions_with(1)[OF k xs_def] and dist = versions_with(2,3)[OF k xs_def]
  have at: "get_published s m v = Some q \<longleftrightarrow> q \<in> set xs \<and> pm_manifest_id q = m" for m q
    using mem[of q] keyed_published[OF k, of m v q] by auto
  have c1: "read_published z a v (Some mid) s = Inr (p, x) \<longleftrightarrow>
      get_published s mid v = Some p \<and> x = get_supersession s mid v
      \<and> require z a Read (Some mid) = Inr ()"
    using keyed_published[OF k] by (auto simp: read_published_def found view_of_def)
  have one: "xs = [p] \<longleftrightarrow> (\<forall>m q. get_published s m v = Some q \<longleftrightarrow> m = pm_manifest_id p \<and> q = p)"
  proof
    assume "xs = [p]"
    then show "\<forall>m q. get_published s m v = Some q \<longleftrightarrow> m = pm_manifest_id p \<and> q = p"
      by (auto simp: at)
  next
    assume "\<forall>m q. get_published s m v = Some q \<longleftrightarrow> m = pm_manifest_id p \<and> q = p"
    then have "set xs = {p}" by (auto simp: at)
    with dist(1) show "xs = [p]"
      by (cases xs; cases "tl xs") auto
  qed
  have "read_published z a v None s = Inr (p, x) \<longleftrightarrow> xs = [p] \<and> x = get_supersession s (pm_manifest_id p) (pm_version p)
      \<and> require z a ListPerm None = Inr () \<and> require z a Read (Some (pm_manifest_id p)) = Inr ()"
    unfolding read_published_def xs_def[symmetric]
    by (auto simp: found view_of_def split: list.splits)
  moreover have "pm_version p = v" if "xs = [p]"
  proof -
    have "p \<in> set xs" by (simp add: that)
    then show ?thesis unfolding xs_def by simp
  qed
  ultimately have c2: "read_published z a v None s = Inr (p, x) \<longleftrightarrow>
      (\<forall>m q. get_published s m v = Some q \<longleftrightarrow> m = pm_manifest_id p \<and> q = p)
      \<and> x = get_supersession s (pm_manifest_id p) v
      \<and> require z a ListPerm None = Inr () \<and> require z a Read (Some (pm_manifest_id p)) = Inr ()"
    unfolding one[symmetric] by auto
  have two: "(\<exists>p q qs. xs = p # q # qs) \<longleftrightarrow>
      (\<exists>m n. m \<noteq> n \<and> get_published s m v \<noteq> None \<and> get_published s n v \<noteq> None)"
  proof
    assume "\<exists>p q qs. xs = p # q # qs"
    then obtain p q qs where xs: "xs = p # q # qs" by blast
    with dist have "pm_manifest_id p \<noteq> pm_manifest_id q" by (auto simp: inj_on_def)
    moreover have "get_published s (pm_manifest_id p) v = Some p" "get_published s (pm_manifest_id q) v = Some q"
      using xs by (simp_all add: at)
    ultimately show "\<exists>m n. m \<noteq> n \<and> get_published s m v \<noteq> None \<and> get_published s n v \<noteq> None"
      by (intro exI[of _ "pm_manifest_id p"] exI[of _ "pm_manifest_id q"]) simp
  next
    assume "\<exists>m n. m \<noteq> n \<and> get_published s m v \<noteq> None \<and> get_published s n v \<noteq> None"
    then obtain m n p q where "m \<noteq> n" "get_published s m v = Some p" "get_published s n v = Some q"
      by blast
    then have "p \<in> set xs" "q \<in> set xs" "p \<noteq> q" by (auto simp: at)
    then show "\<exists>p q qs. xs = p # q # qs" by (cases xs; cases "tl xs") auto
  qed
  have "read_published z a v None s = Inl AmbiguousLookupError \<longleftrightarrow>
      require z a ListPerm None = Inr () \<and> (\<exists>p q qs. xs = p # q # qs)"
    unfolding read_published_def xs_def[symmetric]
    by (auto simp: bindR_eq_Inl dest: require_error split: list.splits)
  then show ?thesis unfolding two using c1 c2 by blast
qed

theorem published_lookup_exact_witness:
  "\<exists>p. read_published demo_rbac (human ''dan'') (Version 1 0 0) (Some ''shop'') demo_store1
     = Inr (p, get_supersession demo_store1 ''shop'' (Version 1 0 0))"
proof -
  obtain p where p: "get_published demo_store1 ''shop'' (Version 1 0 0) = Some p"
    using demo_facts1 by (auto simp: demo_facts1_def)
  have "require demo_rbac (human ''dan'') Read (Some ''shop'') = Inr ()" by code_simp
  with published_lookup_exact[OF demo_reachable(2), where a = "human ''dan''"
      and v = "Version 1 0 0" and mid = "''shop''" and p = p] p
  show ?thesis by auto
qed

section \<open>Digests\<close>

text \<open>C15. The head digest commits to the whole history: two audit histories of the same length that
  verify and end in the same digest are equal, unless the digest function collides on two different
  inputs that occur in them.\<close>

theorem head_digest_commits_to_history:
  assumes "verify_audit_chain H ds = Inr ()" and "verify_audit_chain H es = Inr ()"
    and "length ds = length es" and "head_digest ds = head_digest es"
  shows "ds = es \<or> collision H ds es"
  using assms by (intro head_digest_commits)

definition demo_event :: "string \<Rightarrow> audit_event" where
  "demo_event why = seal_event (\<lambda>n i prev p. i) (lifecycle_event 0 (human ''ann'') DraftCreated
     (new_draft (human ''ann'') 0 demo_rollback) None why None None None) 1 None"

theorem head_digest_commits_to_history_witness:
  "collision (\<lambda>n i prev p. i) [demo_event ''one''] [demo_event ''two'']"
proof -
  have "verify_audit_chain (\<lambda>n i prev p. i) [demo_event why] = Inr ()" for why
    by (simp add: verify_audit_chain_def demo_event_def)
  moreover have "head_digest [demo_event ''one''] = head_digest [demo_event ''two'']"
    by (simp add: head_digest_def demo_event_def)
  moreover have "demo_event ''one'' \<noteq> demo_event ''two''"
    by (simp add: demo_event_def seal_event_def lifecycle_event_def pending_audit_event.defs audit_event.defs)
  ultimately show ?thesis
    using head_digest_commits_to_history[of "\<lambda>n i prev p. i" "[demo_event ''one'']" "[demo_event ''two'']"]
    by simp
qed

lemma decimal_length_ge: "10 ^ k \<le> n \<Longrightarrow> k < length (decimal n)"
proof (induction n arbitrary: k rule: decimal.induct)
  case (1 n)
  show ?case
  proof (cases k)
    case 0
    then show ?thesis by (subst decimal.simps) simp
  next
    case (Suc j)
    with "1.prems" have "10 \<le> n" by (metis le_trans one_le_numeral one_le_power mult_le_mono2 mult.right_neutral power_Suc)
    moreover from Suc "1.prems" have "10 ^ j \<le> n div 10"
      by (metis div_le_mono nonzero_mult_div_cancel_left power_Suc zero_neq_numeral)
    ultimately show ?thesis using "1.IH" Suc by (subst decimal.simps) simp
  qed
qed

lemma eight_digits: "length (zfill 8 (decimal n)) = 8 \<longleftrightarrow> n < 100000000"
  using decimal_length_ge[of 8 n] decimal_length_le[of 8 n] by (cases "n < 100000000") (auto simp: zfill_def)

text \<open>Appending to a verified history keeps it verified, adds exactly one event that carries the
  given record, the next sequence number and the digest of its predecessor, and succeeds as long as
  the history has fewer than 99999999 events; beyond that it fails with the validation error, because the event
  identifier has eight digits; over a history that does not verify it fails with the integrity error.\<close>

theorem append_audit_spec:
  "append_audit H p es =
    (if verify_audit_chain H es \<noteq> Inr () then Inl AuditIntegrityError
     else if 99999999 \<le> length es then Inl ValidationError
     else Inr (es @ [seal_event H p (length es + 1) (head_digest es)]))
   \<and> (\<forall>es'. append_audit H p es = Inr es' \<longrightarrow> verify_audit_chain H es' = Inr ())"
proof (cases "verify_audit_chain H es")
  case (Inl e)
  with verify_chain_errors[OF Inl] show ?thesis by (simp add: append_audit_def)
next
  case (Inr u)
  have "length (zfill 8 (decimal (length es + 1))) = 8 \<longleftrightarrow> \<not> 99999999 \<le> length es"
    unfolding eight_digits by auto
  with Inr show ?thesis by (simp add: append_audit_def Let_def verify_chain_snoc)
qed

theorem append_audit_spec_witness:
  "\<exists>es. append_audit (\<lambda>n i prev p. i) (pending_of (demo_event ''two'')) [demo_event ''one''] = Inr es
     \<and> length es = 2 \<and> verify_audit_chain (\<lambda>n i prev p. i) es = Inr ()"
proof -
  let ?H = "\<lambda>n i prev p. i"
  have "verify_audit_chain ?H [demo_event ''one''] = Inr ()"
    by (simp add: verify_audit_chain_def demo_event_def)
  with append_audit_spec[of ?H "pending_of (demo_event ''two'')" "[demo_event ''one'']"]
  show ?thesis by simp
qed

end
