(* ===== verification/ResourceId.thy ===== *)
theory ResourceId
  imports PyText
begin

text \<open>
  Identifiers of the manifest contracts (\<open>contracts/manifest.py\<close>, \<open>contracts/common.py\<close>) and
  Azure resource identifiers (\<open>binding/normalization.py\<close>, the path helpers of
  \<open>binding/selectors.py\<close>). Identifiers are compared after NFC and case folding, over ASCII text
  here, so NFC is the identity and no text holds a surrogate.
\<close>

section \<open>Errors and normalized identifiers\<close>

text \<open>
  \<open>ModelValidationError\<close> is what a pydantic constructor raises; the last two are Python's own,
  raised by a missing dictionary key and an exhausted \<open>next\<close>.
\<close>

datatype athena_error = AthenaValidationError | ModelValidationError | PyKeyError | PyStopIteration

definition normalized_id :: "string \<Rightarrow> string" where
  "normalized_id s = casefold s"

lemma normalized_id_idem [simp]: "normalized_id (normalized_id s) = normalized_id s"
  by (simp add: normalized_id_def)

lemma normalized_id_append: "normalized_id (s @ t) = normalized_id s @ normalized_id t"
  by (simp add: normalized_id_def casefold_append)

fun require_unique_from :: "string list \<Rightarrow> string list \<Rightarrow> athena_error + unit" where
  "require_unique_from seen [] = Inr ()"
| "require_unique_from seen (k # ks) =
     (if normalized_id k \<in> set seen then Inl AthenaValidationError
      else require_unique_from (normalized_id k # seen) ks)"

definition require_unique :: "('a \<Rightarrow> string) \<Rightarrow> 'a list \<Rightarrow> athena_error + unit" where
  "require_unique key items = require_unique_from [] (map key items)"

definition require_unique_text :: "string list \<Rightarrow> athena_error + unit" where
  "require_unique_text values =
     guardR (length (map normalized_id values) = card (set (map normalized_id values))) AthenaValidationError"

text \<open>A dict comprehension: of several entries with one key the last wins.\<close>

definition dict_of :: "('k \<times> 'v) list \<Rightarrow> 'k \<Rightarrow> 'v option" where
  "dict_of kvs = map_of (rev kvs)"

lemma require_unique_from_iff:
  "require_unique_from seen ks = Inr u \<longleftrightarrow>
     distinct (map normalized_id ks) \<and> set (map normalized_id ks) \<inter> set seen = {}"
  by (induction seen ks rule: require_unique_from.induct) auto

lemma require_unique_iff [result_simps]:
  "require_unique key items = Inr u \<longleftrightarrow> distinct (map (normalized_id \<circ> key) items)"
  by (simp add: require_unique_def require_unique_from_iff)

lemma require_unique_error: "require_unique key items = Inl e \<Longrightarrow> e = AthenaValidationError"
proof -
  have "require_unique_from seen ks = Inl e \<Longrightarrow> e = AthenaValidationError" for seen ks
    by (induction seen ks rule: require_unique_from.induct) (auto split: if_splits)
  then show "require_unique key items = Inl e \<Longrightarrow> e = AthenaValidationError"
    by (simp add: require_unique_def)
qed

lemma require_unique_text_iff [result_simps]:
  "require_unique_text values = Inr u \<longleftrightarrow> distinct (map normalized_id values)"
  by (simp only: require_unique_text_def guardR_eq_Inr) (metis card_distinct distinct_card)

lemma dict_of_distinct: "distinct (map fst kvs) \<Longrightarrow> (k, v) \<in> set kvs \<Longrightarrow> dict_of kvs k = Some v"
  by (simp add: dict_of_def rev_map[symmetric])

lemma dict_ofD: "dict_of kvs k = Some v \<Longrightarrow> (k, v) \<in> set kvs"
  by (auto simp: dict_of_def dest: map_of_SomeD)

lemma dict_of_None: "dict_of kvs k = None \<longleftrightarrow> k \<notin> fst ` set kvs"
  by (simp add: dict_of_def map_of_eq_None_iff)

lemma dict_of_ex: "k \<in> fst ` set kvs \<Longrightarrow> \<exists>v. dict_of kvs k = Some v"
  by (cases "dict_of kvs k") (auto simp: dict_of_None)

section \<open>Splitting and stripping text\<close>

text \<open>\<open>s.split(c)\<close>: never empty.\<close>

fun split_on :: "char \<Rightarrow> string \<Rightarrow> string list" where
  "split_on c [] = [[]]"
| "split_on c (x # xs) = (case split_on c xs of
       [] \<Rightarrow> []
     | p # ps \<Rightarrow> if x = c then [] # p # ps else (x # p) # ps)"

fun join_with :: "char \<Rightarrow> string list \<Rightarrow> string" where
  "join_with c [] = []"
| "join_with c [p] = p"
| "join_with c (p # q # ps) = p @ c # join_with c (q # ps)"

text \<open>The ASCII characters that \<open>str.strip\<close> removes.\<close>

definition is_space :: "char \<Rightarrow> bool" where
  "is_space c \<longleftrightarrow> code_point c \<in> {9..13} \<union> {28..32}"

lemma is_space_code [code]:
  "is_space c \<longleftrightarrow> c \<in> {CHR 0x09, CHR 0x0A, CHR 0x0B, CHR 0x0C, CHR 0x0D,
     CHR 0x1C, CHR 0x1D, CHR 0x1E, CHR 0x1F, CHR '' ''}"
  by (cases c) (auto simp: is_space_def code_point_def of_char_def)

definition strip :: "string \<Rightarrow> string" where
  "strip s = rev (dropWhile is_space (rev (dropWhile is_space s)))"

lemma split_on_not_Nil [simp]: "split_on c s \<noteq> []"
  by (induction s) (auto split: list.split)

lemma split_on_Cons:
  "split_on c (x # xs) =
     (if x = c then [] # split_on c xs else (x # hd (split_on c xs)) # tl (split_on c xs))"
  by (cases "split_on c xs") auto

declare split_on.simps(2) [simp del] split_on_Cons [simp]

lemma join_split [simp]: "join_with c (split_on c s) = s"
proof (induction s)
  case (Cons x s)
  then show ?case by (cases "split_on c s"; cases "tl (split_on c s)") auto
qed simp

lemma split_on_no_sep: "p \<in> set (split_on c s) \<Longrightarrow> c \<notin> set p"
proof (induction s arbitrary: p)
  case (Cons x s)
  have "hd (split_on c s) \<in> set (split_on c s)" by simp
  with Cons show ?case
    by (auto split: if_splits dest: list.set_sel(2)[OF split_on_not_Nil])
qed simp

lemma lower_char_eq: "\<not> is_upper c \<Longrightarrow> \<not> is_lower c \<Longrightarrow> lower_char x = c \<longleftrightarrow> x = c"
  by (auto simp: lower_char_def is_upper_def is_lower_def code_point_char_of split: if_splits)

lemma in_set_casefold: "\<not> is_upper c \<Longrightarrow> \<not> is_lower c \<Longrightarrow> c \<in> set (casefold s) \<longleftrightarrow> c \<in> set s"
  by (auto simp: casefold_def lower_char_eq image_iff) (metis lower_char_eq)+

lemma split_on_casefold:
  "\<not> is_upper c \<Longrightarrow> \<not> is_lower c \<Longrightarrow> split_on c (casefold s) = map casefold (split_on c s)"
  by (induction s) (simp_all add: lower_char_eq casefold_def hd_map map_tl)

lemma lower_char_space [simp]: "is_space (lower_char c) = is_space c"
  by (auto simp: lower_char_def is_upper_def is_space_def code_point_char_of)

lemma dropWhile_map_comp: "(\<And>x. P (f x) = P x) \<Longrightarrow> dropWhile P (map f xs) = map f (dropWhile P xs)"
  by (induction xs) auto

lemma strip_casefold: "strip (casefold s) = casefold (strip s)"
  by (simp add: strip_def casefold_def rev_map dropWhile_map_comp)

lemma strip_length_eq: "length (strip s) = length s \<Longrightarrow> strip s = s"
  unfolding strip_def
  by (metis append_Nil append_eq_append_conv length_append length_rev rev_rev_ident takeWhile_dropWhile_id
      le_add1 length_dropWhile_le dual_order.antisym rev_swap)

section \<open>Resource identifiers\<close>

definition hex_char :: "char \<Rightarrow> bool" where
  "hex_char c \<longleftrightarrow> c \<in> set ''0123456789abcdefABCDEF''"

text \<open>\<open>_GUID_RE\<close> and \<open>_COMPONENT_RE\<close>, both matched in full.\<close>

definition guid_ok :: "string \<Rightarrow> bool" where
  "guid_ok s \<longleftrightarrow> map length (split_on (CHR ''-'') s) = [8, 4, 4, 4, 12]
     \<and> list_all (list_all hex_char) (split_on (CHR ''-'') s)"

definition component_char :: "char \<Rightarrow> bool" where
  "component_char c \<longleftrightarrow> is_alnum c \<or> c \<in> set ''._()-''"

definition component_ok :: "string \<Rightarrow> bool" where
  "component_ok s \<longleftrightarrow> s \<noteq> [] \<and> list_all component_char s"

text \<open>
  The inner loop: pairs of a type and a name, up to the next \<open>providers\<close> segment; the result is
  the number of components and the segments that are left. An index into \<open>parts\<close> is the list of the
  segments from it on.
\<close>

fun type_pairs :: "nat \<Rightarrow> string list \<Rightarrow> athena_error + (nat \<times> string list)" where
  "type_pairs count [] = Inr (count, [])"
| "type_pairs count [p] =
     (if casefold p = ''providers'' then Inr (count, [p]) else Inl AthenaValidationError)"
| "type_pairs count (p # q # ps) =
     (if casefold p = ''providers'' then Inr (count, p # q # ps)
      else if \<not> component_ok p \<or> \<not> component_ok q then Inl AthenaValidationError
      else type_pairs (count + 2) ps)"

lemma type_pairs_length: "type_pairs n ps = Inr (m, rest) \<Longrightarrow> length rest \<le> length ps"
  by (induction n ps rule: type_pairs.induct) (auto split: if_splits)

text \<open>The outer loop over provider paths.\<close>

function provider_paths :: "string list \<Rightarrow> athena_error + unit" where
  "provider_paths ps =
     (if ps = [] then Inr ()
      else if casefold (hd ps) \<noteq> ''providers'' \<or> length ps \<le> 3 then Inl AthenaValidationError
      else if \<not> component_ok (ps ! 1) then Inl AthenaValidationError
      else (case type_pairs 0 (drop 2 ps) of
          Inl e \<Rightarrow> Inl e
        | Inr (count, rest) \<Rightarrow>
            if count = 0 then Inl AthenaValidationError else provider_paths rest))"
  by pat_completeness auto
termination
proof (relation "measure length", goal_cases)
  case (2 ps x count rest)
  then have "length rest \<le> length (drop 2 ps)" by (metis prod.inject type_pairs_length)
  with 2 show ?case by (cases ps) auto
qed simp_all

declare provider_paths.simps [simp del]

definition resource_group_segment :: "string list \<Rightarrow> athena_error + string list" where
  "resource_group_segment ps =
     (if ps \<noteq> [] \<and> casefold (hd ps) = ''resourcegroups'' then
        (if length ps \<le> 1 \<or> \<not> component_ok (ps ! 1) then Inl AthenaValidationError else Inr (drop 2 ps))
      else Inr ps)"

definition normalize_resource_id :: "string \<Rightarrow> athena_error + string" where
  "normalize_resource_id s =
     (let raw = split_on (CHR ''/'') s; parts = tl raw
      in if s \<noteq> strip s \<or> CHR 0x5C \<in> set s \<or> CHR ''*'' \<in> set s \<or> CHR ''?'' \<in> set s
         then Inl AthenaValidationError
         else if length raw < 5 \<or> hd raw \<noteq> [] \<or> [] \<in> set parts then Inl AthenaValidationError
         else if casefold (parts ! 0) \<noteq> ''subscriptions'' \<or> \<not> guid_ok (parts ! 1)
         then Inl AthenaValidationError
         else bindR (resource_group_segment (drop 2 parts)) (\<lambda>rest.
           if rest = [] \<or> casefold (hd rest) \<noteq> ''providers'' then Inl AthenaValidationError
           else bindR (provider_paths rest) (\<lambda>_. Inr (casefold s))))"

section \<open>Parts of an identifier\<close>

definition resource_name :: "string \<Rightarrow> string" where
  "resource_name rid = last (split_on (CHR ''/'') rid)"

fun find_resource_group :: "string list \<Rightarrow> string option" where
  "find_resource_group [] = None"
| "find_resource_group [p] = None"
| "find_resource_group (p # q # ps) =
     (if casefold p = ''resourcegroups'' then Some q else find_resource_group (q # ps))"

definition resource_group :: "string \<Rightarrow> string option" where
  "resource_group rid = find_resource_group (split_on (CHR ''/'') rid)"

text \<open>
  The first index whose segments read
  \<open>providers/microsoft.compute/virtualmachinescalesets/<set>/virtualmachines/<instance>\<close>.
\<close>

fun find_scale_set :: "string list \<Rightarrow> string list \<Rightarrow> (string \<times> string) option" where
  "find_scale_set before (p # q # r # name # s # inst # ps) =
     (if casefold p = ''providers'' \<and> casefold q = ''microsoft.compute''
         \<and> casefold r = ''virtualmachinescalesets'' \<and> casefold s = ''virtualmachines''
      then Some (join_with (CHR ''/'') (before @ [p, q, r, name]), inst)
      else find_scale_set (before @ [p]) (q # r # name # s # inst # ps))"
| "find_scale_set before _ = None"

definition vmss_membership :: "string \<Rightarrow> athena_error + (string \<times> string) option" where
  "vmss_membership rid = (case find_scale_set [] (split_on (CHR ''/'') rid) of
       None \<Rightarrow> Inr None
     | Some (scale_set, inst) \<Rightarrow>
         bindR (normalize_resource_id scale_set) (\<lambda>n. Inr (Some (n, normalized_id inst))))"

section \<open>Normalization is idempotent\<close>

lemma lower_char_hex [simp]: "hex_char (lower_char c) = hex_char c"
  by (cases c) (auto simp: hex_char_def lower_char_code is_upper_code)

lemma lower_char_component [simp]: "component_char (lower_char c) = component_char c"
proof (cases "is_upper c")
  case True
  then have "is_lower (lower_char c)"
    by (auto simp: lower_char_def is_upper_def is_lower_def code_point_char_of)
  with True show ?thesis by (simp add: component_char_def is_alnum_def)
qed (simp add: lower_char_def)

lemma casefold_keywords [simp]:
  "casefold ''providers'' = ''providers''" "casefold ''resourcegroups'' = ''resourcegroups''"
  "casefold ''subscriptions'' = ''subscriptions''"
  by code_simp+

lemma component_ok_casefold [simp]: "component_ok (casefold s) = component_ok s"
  by (simp add: component_ok_def casefold_def list_all_iff)

lemma guid_ok_casefold [simp]: "guid_ok (casefold s) = guid_ok s"
  by (simp add: guid_ok_def split_on_casefold is_upper_code is_lower_code comp_def)
    (simp add: casefold_def list_all_iff)

lemma type_pairs_casefold:
  "type_pairs n (map casefold ps) = map_sum id (map_prod id (map casefold)) (type_pairs n ps)"
  by (induction n ps rule: type_pairs.induct) auto

lemma provider_paths_casefold: "provider_paths (map casefold ps) = provider_paths ps"
proof (induction ps rule: provider_paths.induct)
  case (1 ps)
  show ?case
  proof (cases "ps = [] \<or> casefold (hd ps) \<noteq> ''providers'' \<or> length ps \<le> 3 \<or> \<not> component_ok (ps ! 1)")
    case True
    then show ?thesis by (subst (1 2) provider_paths.simps) (auto simp: hd_map)
  next
    case False
    then show ?thesis
      using 1
      by (subst (1 2) provider_paths.simps)
        (auto simp: hd_map drop_map type_pairs_casefold split: sum.split)
  qed
qed

lemma resource_group_segment_casefold:
  "resource_group_segment (map casefold ps) = map_sum id (map casefold) (resource_group_segment ps)"
  by (auto simp: resource_group_segment_def hd_map drop_map)

lemma normalize_resource_id_casefold: "normalize_resource_id (casefold s) = normalize_resource_id s"
proof -
  let ?raw = "split_on (CHR ''/'') s"
  have raw: "split_on (CHR ''/'') (casefold s) = map casefold ?raw"
    by (rule split_on_casefold) (simp_all add: is_upper_code is_lower_code)
  have strip: "casefold s \<noteq> strip (casefold s) \<longleftrightarrow> s \<noteq> strip s"
    by (metis length_casefold strip_casefold strip_length_eq)
  have special: "c \<in> set (casefold s) \<longleftrightarrow> c \<in> set s" if "c \<in> {CHR 0x5C, CHR ''*'', CHR ''?''}" for c
    using that by (auto simp: in_set_casefold is_upper_code is_lower_code)
  have empty: "[] \<in> set (map casefold ps) \<longleftrightarrow> [] \<in> set ps" for ps
    by (auto simp: casefold_def)
  have rest: "bindR (resource_group_segment (map casefold ps)) (\<lambda>rest.
         if rest = [] \<or> casefold (hd rest) \<noteq> ''providers'' then Inl AthenaValidationError
         else bindR (provider_paths rest) (\<lambda>_. Inr (casefold s)))
     = bindR (resource_group_segment ps) (\<lambda>rest.
         if rest = [] \<or> casefold (hd rest) \<noteq> ''providers'' then Inl AthenaValidationError
         else bindR (provider_paths rest) (\<lambda>_. Inr (casefold s)))" for ps
    by (cases "resource_group_segment ps")
      (auto simp: resource_group_segment_casefold provider_paths_casefold hd_map)
  show ?thesis
  proof (cases "length ?raw < 5")
    case False
    then have "hd (map casefold ?raw) = [] \<longleftrightarrow> hd ?raw = []"
      and "map casefold (tl ?raw) ! 0 = casefold (tl ?raw ! 0)"
      and "map casefold (tl ?raw) ! 1 = casefold (tl ?raw ! 1)"
      by (simp_all add: hd_map casefold_def)
    with False show ?thesis
      unfolding normalize_resource_id_def Let_def raw strip map_tl[symmetric] length_map drop_map rest
      by (simp only: rest special empty guid_ok_casefold casefold_idem insert_iff simp_thms cong: if_cong)
  qed (simp add: normalize_resource_id_def Let_def raw)
qed

lemma type_pairs_error: "type_pairs n ps = Inl e \<Longrightarrow> e = AthenaValidationError"
  by (induction n ps rule: type_pairs.induct) (auto split: if_splits)

lemma provider_paths_error: "provider_paths ps = Inl e \<Longrightarrow> e = AthenaValidationError"
proof (induction ps rule: provider_paths.induct)
  case (1 ps)
  then show ?case
    by (subst (asm) (2) provider_paths.simps)
      (auto split: if_splits sum.splits dest: type_pairs_error)
qed

lemma normalize_resource_id_error: "normalize_resource_id s = Inl e \<Longrightarrow> e = AthenaValidationError"
  by (auto simp: normalize_resource_id_def resource_group_segment_def Let_def bindR_eq_Inl
      split: if_splits dest: provider_paths_error)

lemma normalize_resource_id_eq: "normalize_resource_id s = Inr n \<Longrightarrow> n = casefold s"
  by (auto simp: normalize_resource_id_def Let_def bindR_eq_Inr split: if_splits)

lemma normalize_resource_id_idem: "normalize_resource_id s = Inr n \<Longrightarrow> normalize_resource_id n = Inr n"
  by (metis normalize_resource_id_casefold normalize_resource_id_eq)

end
