(* ===== verification/Selectors.thy ===== *)
theory Selectors
  imports ResourceId "HOL-Library.Sublist"
begin

text \<open>
  Resource selectors (\<open>contracts/manifest.py\<close>) and their evaluation over a resource inventory
  (\<open>binding/selectors.py\<close>). A composite holds atomic selectors only. An atomic selector is its
  identifier, its match bound and its criteria; the criteria's constructor is the source's
  \<open>selectorType\<close>. A Python set of identifiers is a HOL set.
\<close>

section \<open>Selectors and resources\<close>

datatype criteria =
    ResourceIdList "string list"
  | TagPredicate "(string \<times> string) list"
  | NamePredicate "string option" "string option"
  | ResourceType string "string list" "string list"
  | VmScaleSet string "string list"
  | LoadBalancerBackend string string
  | Subnet string
  | Image string string string "string option"
  | Provenance string string string

datatype atomic_selector = Atomic (atomic_id: string) (atomic_max: nat) (atomic_criteria: criteria)

datatype selector =
    Single atomic_selector
  | CompositeAll string nat "atomic_selector list"
  | CompositeAny string nat "atomic_selector list"

fun selector_id :: "selector \<Rightarrow> string" where
  "selector_id (Single a) = atomic_id a"
| "selector_id (CompositeAll i _ _) = i"
| "selector_id (CompositeAny i _ _) = i"

fun max_matches :: "selector \<Rightarrow> nat" where
  "max_matches (Single a) = atomic_max a"
| "max_matches (CompositeAll _ m _) = m"
| "max_matches (CompositeAny _ m _) = m"

fun selector_children :: "selector \<Rightarrow> atomic_selector list" where
  "selector_children (Single _) = []"
| "selector_children (CompositeAll _ _ cs) = cs"
| "selector_children (CompositeAny _ _ cs) = cs"

fun criteria_type :: "criteria \<Rightarrow> string" where
  "criteria_type (ResourceIdList _) = ''resourceIdList''"
| "criteria_type (TagPredicate _) = ''tagPredicate''"
| "criteria_type (NamePredicate _ _) = ''namePredicate''"
| "criteria_type (ResourceType _ _ _) = ''resourceType''"
| "criteria_type (VmScaleSet _ _) = ''vmScaleSet''"
| "criteria_type (LoadBalancerBackend _ _) = ''loadBalancerBackend''"
| "criteria_type (Subnet _) = ''subnet''"
| "criteria_type (Image _ _ _ _) = ''image''"
| "criteria_type (Provenance _ _ _) = ''provenance''"

record resource =
  rs_resource_id :: string
  rs_resource_type :: string
  rs_location :: string
  rs_tags :: "(string \<times> string) list"
  rs_tool_name :: string
  rs_tool_version :: string
  rs_identity_ref :: string

text \<open>The model validators of the selector classes.\<close>

definition no_wildcards :: "string option \<Rightarrow> bool" where
  "no_wildcards t \<longleftrightarrow> (case t of None \<Rightarrow> True | Some s \<Rightarrow> set s \<inter> set ''*?[]()'' = {})"

fun criteria_ok :: "criteria \<Rightarrow> bool" where
  "criteria_ok (ResourceIdList ids) = (ids \<noteq> [] \<and> distinct (map normalized_id ids))"
| "criteria_ok (TagPredicate ps) = (ps \<noteq> [] \<and> distinct (map (normalized_id \<circ> fst) ps))"
| "criteria_ok (NamePredicate p s) = ((p \<noteq> None \<or> s \<noteq> None) \<and> no_wildcards p \<and> no_wildcards s)"
| "criteria_ok (ResourceType _ ls gs) = (distinct (map normalized_id ls) \<and> distinct (map normalized_id gs))"
| "criteria_ok (VmScaleSet _ is) = distinct (map normalized_id is)"
| "criteria_ok _ = True"

definition selector_ok :: "selector \<Rightarrow> bool" where
  "selector_ok s \<longleftrightarrow> (case s of
       Single a \<Rightarrow> criteria_ok (atomic_criteria a)
     | CompositeAll _ _ cs \<Rightarrow> cs \<noteq> [] \<and> distinct (map (normalized_id \<circ> atomic_id) cs)
         \<and> list_all (criteria_ok \<circ> atomic_criteria) cs
     | CompositeAny _ _ cs \<Rightarrow> cs \<noteq> [] \<and> distinct (map (normalized_id \<circ> atomic_id) cs)
         \<and> list_all (criteria_ok \<circ> atomic_criteria) cs)"

section \<open>Evaluation over an inventory\<close>

definition optional_prefix :: "string option \<Rightarrow> string \<Rightarrow> bool" where
  "optional_prefix p s \<longleftrightarrow> (case p of None \<Rightarrow> True | Some q \<Rightarrow> prefix (normalized_id q) s)"

definition optional_suffix :: "string option \<Rightarrow> string \<Rightarrow> bool" where
  "optional_suffix p s \<longleftrightarrow> (case p of None \<Rightarrow> True | Some q \<Rightarrow> suffix (normalized_id q) s)"

definition tag_matches :: "(string \<times> string) list \<Rightarrow> resource \<Rightarrow> bool" where
  "tag_matches predicates r =
     (let tags = dict_of (map (\<lambda>(k, v). (normalized_id k, normalized_id v)) (rs_tags r))
      in list_all (\<lambda>(k, v). tags (normalized_id k) = Some (normalized_id v)) predicates)"

definition type_matches :: "string \<Rightarrow> string list \<Rightarrow> string list \<Rightarrow> resource \<Rightarrow> bool" where
  "type_matches t ls gs r =
     (let locations = set (map normalized_id ls); groups = set (map normalized_id gs)
      in normalized_id (rs_resource_type r) = normalized_id t
         \<and> (locations = {} \<or> normalized_id (rs_location r) \<in> locations)
         \<and> (groups = {} \<or> (case resource_group (rs_resource_id r) of
              None \<Rightarrow> False | Some g \<Rightarrow> normalized_id g \<in> groups)))"

definition scale_set_matches :: "string \<Rightarrow> string list \<Rightarrow> string \<Rightarrow> bool" where
  "scale_set_matches expected insts rid =
     (case vmss_membership rid of
        Inr (Some (scale_set, inst)) \<Rightarrow>
          scale_set = expected \<and> (insts = [] \<or> inst \<in> set (map normalized_id insts))
      | _ \<Rightarrow> False)"

definition provenance_matches :: "string \<Rightarrow> string \<Rightarrow> string \<Rightarrow> resource \<Rightarrow> bool" where
  "provenance_matches tool ver ref r \<longleftrightarrow>
     normalized_id (rs_tool_name r) = normalized_id tool
     \<and> normalized_id (rs_tool_version r) = normalized_id ver
     \<and> normalized_id (rs_identity_ref r) = normalized_id ref"

text \<open>
  An inventory is the dict from normalized identifiers to records, in insertion order. Splitting a
  scale-set path out of an identifier can raise (the path is normalized again); the error then
  leaves the whole evaluation.
\<close>

definition atomic_matches ::
    "criteria \<Rightarrow> (string \<times> resource) list \<Rightarrow> athena_error + string set" where
  "atomic_matches c resources = (case c of
       ResourceIdList ids \<Rightarrow> Inr (set (map fst resources) \<inter> set (map normalized_id ids))
     | TagPredicate ps \<Rightarrow> Inr (set (map fst (filter (\<lambda>(i, r). tag_matches ps r) resources)))
     | NamePredicate p s \<Rightarrow> Inr (set (map fst (filter (\<lambda>(i, r).
           optional_prefix p (normalized_id (resource_name i))
           \<and> optional_suffix s (normalized_id (resource_name i))) resources)))
     | ResourceType t ls gs \<Rightarrow> Inr (set (map fst (filter (\<lambda>(i, r). type_matches t ls gs r) resources)))
     | VmScaleSet scale_set insts \<Rightarrow> (case normalize_resource_id scale_set of
           Inl _ \<Rightarrow> Inr {}
         | Inr expected \<Rightarrow>
             if list_ex (\<lambda>(i, r). isl (vmss_membership i)) resources then Inl AthenaValidationError
             else Inr (set (map fst (filter (\<lambda>(i, r). scale_set_matches expected insts i) resources))))
     | Provenance tool ver ref \<Rightarrow>
         Inr (set (map fst (filter (\<lambda>(i, r). provenance_matches tool ver ref r) resources)))
     | _ \<Rightarrow> Inr {})"

text \<open>The inner function \<open>evaluate\<close>: the matches and the identifiers of the exceeded bounds.\<close>

definition evaluate_atomic ::
    "(string \<times> resource) list \<Rightarrow> atomic_selector \<Rightarrow> athena_error + (string set \<times> string list)" where
  "evaluate_atomic resources a =
     bindR (atomic_matches (atomic_criteria a) resources) (\<lambda>matches.
     Inr (matches, if atomic_max a < card matches then [atomic_id a] else []))"

definition evaluate_selection ::
    "(string \<times> resource) list \<Rightarrow> selector \<Rightarrow> athena_error + (string set \<times> string list)" where
  "evaluate_selection resources s = (case s of
       Single a \<Rightarrow> evaluate_atomic resources a
     | CompositeAll i m cs \<Rightarrow> bindR (mapR (evaluate_atomic resources) cs) (\<lambda>results.
         let matches = (if results = [] then {} else \<Inter> (set (map fst results)))
         in Inr (matches, concat (map snd results) @ (if m < card matches then [i] else [])))
     | CompositeAny i m cs \<Rightarrow> bindR (mapR (evaluate_atomic resources) cs) (\<lambda>results.
         let matches = \<Union> (set (map fst results))
         in Inr (matches, concat (map snd results) @ (if m < card matches then [i] else []))))"

datatype selection_status = Matched | NoMatches | OverMaxMatches

record selector_evaluation =
  se_selector :: selector
  se_status :: selection_status
  se_matched :: "string list"
  se_rejected :: "string list"
  se_max :: nat
  se_violations :: "string list"
  se_digest :: string

fun index_resources ::
    "(string \<times> resource) list \<Rightarrow> resource list \<Rightarrow> athena_error + (string \<times> resource) list" where
  "index_resources acc [] = Inr acc"
| "index_resources acc (r # rs) =
     bindR (normalize_resource_id (rs_resource_id r)) (\<lambda>n.
     if n \<in> set (map fst acc) then Inl AthenaValidationError
     else index_resources (acc @ [(n, r)]) rs)"

text \<open>
  The digest of the result is a parameter. Violations that differ in case only are listed in the
  order they arose. The result class holds at most 30000 identifiers.
\<close>

definition evaluate_selector ::
    "(selector \<Rightarrow> string list \<Rightarrow> string list \<Rightarrow> string) \<Rightarrow> selector \<Rightarrow> resource list
     \<Rightarrow> athena_error + selector_evaluation" where
  "evaluate_selector digest s resources =
     bindR (index_resources [] resources) (\<lambda>by_id.
     bindR (evaluate_selection by_id s) (\<lambda>(matched, max_violations).
     let matched_ids = sorted_list_of_set matched;
         rejected_ids = sorted_list_of_set (set (map fst by_id) - matched);
         violations = sort_key casefold (remdups max_violations)
     in if 30000 < length matched_ids \<or> 30000 < length rejected_ids \<or> 100 < length violations
        then Inl ModelValidationError
        else Inr \<lparr>se_selector = s,
           se_status = (if violations \<noteq> [] then OverMaxMatches
              else if matched_ids \<noteq> [] then Matched else NoMatches),
           se_matched = matched_ids, se_rejected = rejected_ids, se_max = max_matches s,
           se_violations = violations, se_digest = digest s matched_ids violations\<rparr>))"

section \<open>Narrowing\<close>

definition filter_is_narrower :: "string list \<Rightarrow> string list \<Rightarrow> bool" where
  "filter_is_narrower previous current =
     (let ps = set (map normalized_id previous); cs = set (map normalized_id current)
      in ps = {} \<or> cs \<noteq> {} \<and> cs \<subseteq> ps)"

definition criteria_is_narrower :: "criteria \<Rightarrow> criteria \<Rightarrow> bool" where
  "criteria_is_narrower earlier later = (case earlier of
       ResourceIdList ps \<Rightarrow> (case later of
          ResourceIdList cs \<Rightarrow> (set (map normalized_id cs) \<subseteq> set (map normalized_id ps))
        | _ \<Rightarrow> False)
     | TagPredicate ps \<Rightarrow> (case later of
          TagPredicate cs \<Rightarrow> (let previous = dict_of (map (\<lambda>(k, v). (normalized_id k, v)) ps);
            current = dict_of (map (\<lambda>(k, v). (normalized_id k, v)) cs)
            in list_all (\<lambda>(k, v). current (normalized_id k) = previous (normalized_id k)) ps)
        | _ \<Rightarrow> False)
     | NamePredicate pp psuf \<Rightarrow> (case later of
          NamePredicate cp csuf \<Rightarrow> ((case pp of None \<Rightarrow> True | Some p \<Rightarrow> (case cp of None \<Rightarrow> False | Some c \<Rightarrow> prefix p c))
            \<and> (case psuf of None \<Rightarrow> True | Some p \<Rightarrow> (case csuf of None \<Rightarrow> False | Some c \<Rightarrow> suffix p c)))
        | _ \<Rightarrow> False)
     | ResourceType pt pl pg \<Rightarrow> (case later of
          ResourceType ct cl cg \<Rightarrow> (normalized_id pt = normalized_id ct \<and> filter_is_narrower pl cl \<and> filter_is_narrower pg cg)
        | _ \<Rightarrow> False)
     | VmScaleSet ps pinst \<Rightarrow> (case later of
          VmScaleSet cs cinst \<Rightarrow> (normalized_id ps = normalized_id cs \<and> filter_is_narrower pinst cinst)
        | _ \<Rightarrow> False)
     | LoadBalancerBackend pl pb \<Rightarrow> (case later of
          LoadBalancerBackend cl cb \<Rightarrow> (normalized_id pl = normalized_id cl \<and> normalized_id pb = normalized_id cb)
        | _ \<Rightarrow> False)
     | Subnet p \<Rightarrow> (case later of
          Subnet c \<Rightarrow> (normalized_id p = normalized_id c)
        | _ \<Rightarrow> False)
     | Image pp po ps pv \<Rightarrow> (case later of
          Image cp co cs cv \<Rightarrow> (normalized_id pp = normalized_id cp \<and> normalized_id po = normalized_id co
            \<and> normalized_id ps = normalized_id cs
            \<and> (case pv of None \<Rightarrow> True
            | Some v \<Rightarrow> (case cv of None \<Rightarrow> False | Some w \<Rightarrow> normalized_id v = normalized_id w)))
        | _ \<Rightarrow> False)
     | Provenance pt pv pr \<Rightarrow> (case later of
          Provenance ct cv cr \<Rightarrow> (normalized_id pt = normalized_id ct \<and> pv = cv \<and> normalized_id pr = normalized_id cr)
        | _ \<Rightarrow> False))"

definition atomic_is_narrower :: "atomic_selector \<Rightarrow> atomic_selector \<Rightarrow> bool" where
  "atomic_is_narrower previous current \<longleftrightarrow>
     atomic_max current \<le> atomic_max previous
     \<and> criteria_is_narrower (atomic_criteria previous) (atomic_criteria current)"

text \<open>The branch for two composites of one type: the same children identifiers, each narrower.\<close>

definition children_are_narrower :: "atomic_selector list \<Rightarrow> atomic_selector list \<Rightarrow> bool" where
  "children_are_narrower ps cs =
     (let key = (\<lambda>c. (normalized_id (atomic_id c), c));
          previous = dict_of (map key ps); current = dict_of (map key cs)
      in set (map (fst \<circ> key) ps) = set (map (fst \<circ> key) cs)
         \<and> list_all (\<lambda>i. case (previous i, current i) of
              (Some p, Some c) \<Rightarrow> atomic_is_narrower p c | _ \<Rightarrow> False) (map (fst \<circ> key) ps))"

definition selector_override_is_narrower :: "selector \<Rightarrow> selector \<Rightarrow> bool" where
  "selector_override_is_narrower previous current \<longleftrightarrow>
     max_matches current \<le> max_matches previous
     \<and> (case current of
          CompositeAll _ _ cs \<Rightarrow> (case previous of
              CompositeAll _ _ ps \<Rightarrow> list_all (\<lambda>p. list_ex (\<lambda>c. atomic_is_narrower p c) cs) ps
            | CompositeAny _ _ ps \<Rightarrow> list_ex (\<lambda>p. list_ex (\<lambda>c. atomic_is_narrower p c) cs) ps
            | Single p \<Rightarrow> list_ex (\<lambda>c. atomic_is_narrower p c) cs)
        | CompositeAny _ _ cs \<Rightarrow> (case previous of
              CompositeAny _ _ ps \<Rightarrow> children_are_narrower ps cs | _ \<Rightarrow> False)
        | Single c \<Rightarrow> (case previous of
              Single p \<Rightarrow> criteria_is_narrower (atomic_criteria p) (atomic_criteria c) | _ \<Rightarrow> False))"

definition is_guarded_selector_replacement_narrower :: "selector list \<Rightarrow> selector list \<Rightarrow> bool" where
  "is_guarded_selector_replacement_narrower previous current \<longleftrightarrow>
     previous \<noteq> [] \<and> current \<noteq> []
     \<and> list_all (\<lambda>s. case s of CompositeAll _ _ _ \<Rightarrow> True | _ \<Rightarrow> False) current
     \<and> sum_list (map max_matches current) \<le> sum_list (map max_matches previous)
     \<and> list_all (\<lambda>c. list_ex (\<lambda>p. selector_override_is_narrower p c) previous) current"

section \<open>Overlap\<close>

definition filters_overlap :: "string list \<Rightarrow> string list \<Rightarrow> bool" where
  "filters_overlap left right \<longleftrightarrow> left = [] \<or> right = []
     \<or> set (map normalized_id left) \<inter> set (map normalized_id right) \<noteq> {}"

definition resource_ids_may_match_name :: "string list \<Rightarrow> string option \<Rightarrow> string option \<Rightarrow> bool" where
  "resource_ids_may_match_name ids p s =
     list_ex (\<lambda>i. optional_prefix p (normalized_id (resource_name i))
        \<and> optional_suffix s (normalized_id (resource_name i))) ids"

definition affixes_overlap :: "(string \<Rightarrow> string \<Rightarrow> bool) \<Rightarrow> string option \<Rightarrow> string option \<Rightarrow> bool" where
  "affixes_overlap affix left right = (case (left, right) of
       (Some l, Some r) \<Rightarrow> affix (normalized_id r) (normalized_id l) \<or> affix (normalized_id l) (normalized_id r)
     | _ \<Rightarrow> True)"

definition criteria_may_overlap :: "criteria \<Rightarrow> criteria \<Rightarrow> bool" where
  "criteria_may_overlap left right = (case left of
       ResourceIdList ls \<Rightarrow> (case right of
          ResourceIdList rs \<Rightarrow> (set (map normalized_id ls) \<inter> set (map normalized_id rs) \<noteq> {})
        | NamePredicate p s \<Rightarrow> resource_ids_may_match_name ls p s
        | _ \<Rightarrow> criteria_type left \<noteq> criteria_type right)
     | NamePredicate p s \<Rightarrow> (case right of
          ResourceIdList ids \<Rightarrow> resource_ids_may_match_name ids p s
        | NamePredicate rp rs \<Rightarrow> (affixes_overlap prefix p rp \<and> affixes_overlap suffix s rs)
        | _ \<Rightarrow> criteria_type left \<noteq> criteria_type right)
     | TagPredicate ls \<Rightarrow> (case right of
          TagPredicate rs \<Rightarrow> (let left = dict_of (map (\<lambda>(k, v). (normalized_id k, normalized_id v)) ls);
            right = dict_of (map (\<lambda>(k, v). (normalized_id k, normalized_id v)) rs)
            in \<not> list_ex (\<lambda>(k, v). right (normalized_id k) \<noteq> None
            \<and> right (normalized_id k) \<noteq> left (normalized_id k)) ls)
        | _ \<Rightarrow> criteria_type left \<noteq> criteria_type right)
     | ResourceType lt ll lg \<Rightarrow> (case right of
          ResourceType rt rl rg \<Rightarrow> (normalized_id lt = normalized_id rt \<and> filters_overlap ll rl \<and> filters_overlap lg rg)
        | _ \<Rightarrow> criteria_type left \<noteq> criteria_type right)
     | VmScaleSet l li \<Rightarrow> (case right of
          VmScaleSet r ri \<Rightarrow> (normalized_id l = normalized_id r \<and> filters_overlap li ri)
        | _ \<Rightarrow> criteria_type left \<noteq> criteria_type right)
     | LoadBalancerBackend l lb \<Rightarrow> (case right of
          LoadBalancerBackend r rb \<Rightarrow> (normalized_id l = normalized_id r \<and> normalized_id lb = normalized_id rb)
        | _ \<Rightarrow> criteria_type left \<noteq> criteria_type right)
     | Subnet l \<Rightarrow> (case right of
          Subnet r \<Rightarrow> (normalized_id l = normalized_id r)
        | _ \<Rightarrow> criteria_type left \<noteq> criteria_type right)
     | Image lp lo lsku lv \<Rightarrow> (case right of
          Image rp ro rsku rv \<Rightarrow> (normalized_id lp = normalized_id rp \<and> normalized_id lo = normalized_id ro
            \<and> normalized_id lsku = normalized_id rsku
            \<and> (case (lv, rv) of (Some l, Some r) \<Rightarrow> normalized_id l = normalized_id r | _ \<Rightarrow> True))
        | _ \<Rightarrow> criteria_type left \<noteq> criteria_type right)
     | Provenance lt lv lr \<Rightarrow> (case right of
          Provenance rt rv rr \<Rightarrow> (normalized_id lt = normalized_id rt \<and> normalized_id lv = normalized_id rv
            \<and> normalized_id lr = normalized_id rr)
        | _ \<Rightarrow> criteria_type left \<noteq> criteria_type right))"

fun selector_depth :: "selector \<Rightarrow> nat" where
  "selector_depth (Single _) = 0"
| "selector_depth _ = 1"

function selectors_may_overlap :: "selector \<Rightarrow> selector \<Rightarrow> bool" where
  "selectors_may_overlap left right = (case (left, right) of
       (CompositeAny _ _ cs, _) \<Rightarrow> list_ex (\<lambda>c. selectors_may_overlap (Single c) right) cs
     | (_, CompositeAny _ _ cs) \<Rightarrow> list_ex (\<lambda>c. selectors_may_overlap left (Single c)) cs
     | (CompositeAll _ _ cs, _) \<Rightarrow> list_all (\<lambda>c. selectors_may_overlap (Single c) right) cs
     | (_, CompositeAll _ _ cs) \<Rightarrow> list_all (\<lambda>c. selectors_may_overlap left (Single c)) cs
     | (Single l, Single r) \<Rightarrow> criteria_may_overlap (atomic_criteria l) (atomic_criteria r))"
  by pat_completeness auto
termination by (relation "measure (\<lambda>(l, r). selector_depth l + selector_depth r)") auto

declare selectors_may_overlap.simps [simp del]

section \<open>Validation of a profile's selectors\<close>

definition selector_tree :: "selector \<Rightarrow> string list" where
  "selector_tree s = selector_id s # map atomic_id (selector_children s)"

text \<open>
  The payload a fingerprint digests: identifiers and bounds removed, the id-like lists and the
  predicates sorted, the children sorted by their own digest.
\<close>

fun criteria_payload :: "criteria \<Rightarrow> criteria" where
  "criteria_payload (ResourceIdList ids) = ResourceIdList (sort_key normalized_id ids)"
| "criteria_payload (TagPredicate ps) = TagPredicate (sort_key (normalized_id \<circ> fst) ps)"
| "criteria_payload (ResourceType t ls gs) =
     ResourceType t (sort_key normalized_id ls) (sort_key normalized_id gs)"
| "criteria_payload (VmScaleSet s is) = VmScaleSet s (sort_key normalized_id is)"
| "criteria_payload c = c"

datatype payload = AtomicPayload criteria | AllPayload "criteria list" | AnyPayload "criteria list"

definition selector_payload :: "(payload \<Rightarrow> string) \<Rightarrow> selector \<Rightarrow> payload" where
  "selector_payload digest s =
     (let children = sort_key (digest \<circ> AtomicPayload)
            (map (criteria_payload \<circ> atomic_criteria) (selector_children s))
      in case s of
           Single a \<Rightarrow> AtomicPayload (criteria_payload (atomic_criteria a))
         | CompositeAll _ _ _ \<Rightarrow> AllPayload children
         | CompositeAny _ _ _ \<Rightarrow> AnyPayload children)"

definition selector_fingerprint :: "(payload \<Rightarrow> string) \<Rightarrow> selector \<Rightarrow> string" where
  "selector_fingerprint digest s = digest (selector_payload digest s)"

fun claim_ids :: "string list \<Rightarrow> string list \<Rightarrow> athena_error + string list" where
  "claim_ids seen [] = Inr seen"
| "claim_ids seen (i # is) =
     (if normalized_id i \<in> set seen then Inl AthenaValidationError
      else claim_ids (normalized_id i # seen) is)"

fun resolve_selectors ::
    "(payload \<Rightarrow> string) \<Rightarrow> string list \<Rightarrow> string list \<Rightarrow> (string \<times> selector) list
     \<Rightarrow> (string \<times> selector) list \<Rightarrow> athena_error + unit" where
  "resolve_selectors digest ids fingerprints placed [] = Inr ()"
| "resolve_selectors digest ids fingerprints placed ((role, s) # rest) =
     bindR (claim_ids ids (selector_tree s)) (\<lambda>ids'.
     if selector_fingerprint digest s \<in> set fingerprints then Inl AthenaValidationError
     else if list_ex (\<lambda>(previous_role, previous).
         normalized_id previous_role \<noteq> normalized_id role \<and> selectors_may_overlap previous s) placed
     then Inl AthenaValidationError
     else resolve_selectors digest ids' (selector_fingerprint digest s # fingerprints)
            (placed @ [(role, s)]) rest)"

definition validate_resolved_selectors ::
    "(payload \<Rightarrow> string) \<Rightarrow> (string \<times> selector list) list \<Rightarrow> athena_error + unit" where
  "validate_resolved_selectors digest roles =
     resolve_selectors digest [] [] [] (concat (map (\<lambda>(role, ss). map (Pair role) ss) roles))"

end
