(* ===== verification/PolicyModel.thy ===== *)
theory PolicyModel
  imports ApiDomain Selectors Complex_Main
begin

text \<open>
  The data of the policy engine: resolved manifest profiles with their constraints, proofs,
  relationships and risk acceptances, and the evidence context they are evaluated against
  (\<open>contracts/manifest.py\<close>). Evidence references are a type parameter \<open>'r\<close>; the engine reads
  nothing of them but their canonical JSON text, which the functions take as the parameter \<open>cj\<close>
  (RFC 8785, a third-party package). Identifiers are compared after NFC and case folding, over
  ASCII text here. Instants are microseconds, a Python float is a rational, an infinity or NaN.
\<close>

section \<open>Verdicts and proof vocabulary\<close>

datatype verdict =
    Pass | Violation | ExpectedConstraint | AcceptedResidualRisk | Observation | Unknown | Conflicting

datatype finding_kind =
    ArchitectureConstraint | TechnologyConstraint | ActualSpof | ControlHealthFinding
  | RiskAcceptanceFinding | ObjectiveFinding | RelationshipConflict | EvidenceGapFinding
  | OperationalState

datatype constraint_type =
    CtCardinality | CtZoneColocation | CtZoneDistribution | CtRoleOperationalState
  | CtDependencyRequired | CtDependencyProhibited | CtSupportedSingleton | CtObjectiveRequired
  | CtEvidenceFreshness | CtControlRequired

datatype evidence_state = Complete | Missing | Gap | Stale | StateConflicting

datatype proof_source = Observed | Inferred

datatype zone = Zone1 | Zone2 | Zone3 | ZoneUnknown

datatype resource_state = Running | Stopped | Deallocated | StateUnknown

datatype control_health = Effective | Degraded | HealthMissing | HealthUnknown | HealthExpired

datatype cardinality = ExactlyOne | OneOrMore | ZeroOrMore | BoundedRange nat nat

datatype pyfloat = Finite rat | PosInf | NegInf | NaN

fun is_finite :: "pyfloat \<Rightarrow> bool" where
  "is_finite (Finite _) = True"
| "is_finite _ = False"

text \<open>The IEEE order: NaN compares false with everything.\<close>

fun pf_less :: "pyfloat \<Rightarrow> pyfloat \<Rightarrow> bool" where
  "pf_less (Finite x) (Finite y) = (x < y)"
| "pf_less NegInf (Finite _) = True"
| "pf_less NegInf PosInf = True"
| "pf_less (Finite _) PosInf = True"
| "pf_less _ _ = False"

fun pf_eq :: "pyfloat \<Rightarrow> pyfloat \<Rightarrow> bool" where
  "pf_eq (Finite x) (Finite y) = (x = y)"
| "pf_eq PosInf PosInf = True"
| "pf_eq NegInf NegInf = True"
| "pf_eq _ _ = False"

datatype comparison = Lt | Lte | Gt | Gte | Eq

datatype proof_requirement =
    CardinalityProof string cardinality
  | ZoneColocationProof string string
  | ZoneDistributionProof string nat
  | RoleOperationalStateProof string "resource_state list" "resource_state list" nat
  | RelationshipPresenceProof string
  | EvidenceFreshnessProof int
  | ControlHealthProof string control_health
  | ObjectiveThresholdProof string comparison pyfloat

section \<open>Resolved profiles\<close>

record clause_scope =
  cs_manifest_id :: string
  cs_profile_id :: string
  cs_clause_path :: string
  cs_owner_ref :: string

record policy_constraint =
  constraint_id :: string
  pc_type :: constraint_type
  pc_finding_kind :: finding_kind
  pc_scope :: clause_scope
  pc_owner_ref :: string
  pc_profiles :: "string list"
  pc_proof :: proof_requirement
  failure_verdict :: verdict
  success_verdict :: verdict
  pc_acceptance_ref :: "string option"
  pc_acceptance_clause_ref :: "string option"
  pc_protected :: bool

datatype endpoint = RoleEndpoint string | ExternalEndpoint string

record declared_relationship =
  dl_relationship_id :: string
  dl_kind :: string
  dl_source :: endpoint
  dl_target :: endpoint
  dl_owner_ref :: string
  dl_profiles :: "string list"
  dl_source_clause :: string

definition dl_prohibited :: "'a declared_relationship_scheme \<Rightarrow> bool" where
  "dl_prohibited d \<longleftrightarrow> dl_kind d = ''prohibited''"

record exception_relationship =
  ex_exception_id :: string
  ex_relationship_ref :: "string option"
  ex_clause_ref :: "string option"
  ex_acceptance_ref :: string
  ex_scope :: clause_scope
  ex_owner_ref :: string
  ex_rationale :: string
  ex_expires_at :: int

datatype relationship = Declared declared_relationship | Excepted exception_relationship

datatype acceptance_status = AcceptanceApproved | AcceptanceExpired | AcceptanceRevoked | AcceptanceSuperseded

record risk_acceptance =
  risk_acceptance_id :: string
  ra_scope :: clause_scope
  ra_kind :: string
  ra_rating :: string
  ra_statement :: string
  ra_rationale :: string
  ra_accepted_by :: string
  ra_owned_by :: string
  ra_accepted_at :: int
  ra_expires_at :: int
  ra_control_refs :: "string list"
  ra_bindings :: "(string \<times> string) list"
  ra_profiles :: "string list"
  ra_status :: acceptance_status

record profile_role =
  ro_role_id :: string
  ro_kind :: string
  ro_cardinality :: cardinality
  ro_selectors :: "selector list"
  ro_owner_ref :: string
  ro_deprecated :: bool

datatype control_state =
    ControlEffective | ControlDegraded | ControlMissing | ControlUnknown | ControlExpired
  | ControlNotApplicable

text \<open>The subclasses of \<open>_ControlBase\<close>, their own fields in the order of the source.\<close>

datatype control_details =
    BackupControl string int "string list"
  | RestoreTestControl int string nat "string list"
  | ManualFailoverRunbookControl string int
  | MonitoringAlertControl string string "int option" "string list"
  | CapacityReviewControl string int int
  | AccessReviewControl string int string
  | ChangeApprovalControl string "string list"
  | VendorSupportControl string string int

record profile_control =
  ct_control_id :: string
  ct_scope :: clause_scope
  ct_owner_ref :: string
  ct_profiles :: "string list"
  ct_health :: control_state
  ct_details :: control_details

record profile_objective =
  ob_objective_id :: string
  ob_type :: string
  ob_owner_ref :: string
  ob_target :: pyfloat

record profile_owner =
  ow_owner_ref :: string
  ow_role :: string
  ow_authority_ref :: string

text \<open>The compatibility block; the flag says whether the artifact kind is \<open>resolvedProfile\<close>.\<close>

record compatibility =
  cm_resolved_profile :: bool
  cm_schema_version :: version
  cm_semantic_contract :: version
  cm_policy_contract :: version
  cm_minimum_reader :: version
  cm_capabilities :: "string list"
  cm_artifact_digest :: string
  cm_semantic_digest :: string

section \<open>Evidence scopes\<close>

datatype evidence_scope =
    SubscriptionScope string string
  | ResourceGroupScope string string string
  | ResourceIdScope string
  | WorkspaceScope string string string string
  | HealthRegionScope string string

record resolved_profile =
  rp_manifest_id :: string
  rp_manifest_version :: version
  rp_profile_id :: string
  rp_profile_type :: string
  rp_allowed_scopes :: "evidence_scope list"
  rp_compatibility :: compatibility
  rp_inheritance_chain :: "string list"
  zone_loss_continuity_required :: bool
  rp_roles :: "profile_role list"
  rp_relationships :: "relationship list"
  rp_constraints :: "policy_constraint list"
  rp_controls :: "profile_control list"
  rp_acceptances :: "risk_acceptance list"
  rp_objectives :: "profile_objective list"
  rp_owners :: "profile_owner list"
  rp_digest :: string

section \<open>Evidence\<close>

record 'r resource_fact =
  rf_resource_id :: string
  rf_role_ref :: string
  rf_zone :: zone
  rf_operational :: resource_state
  rf_state :: evidence_state
  rf_source :: proof_source
  rf_ref :: 'r

record 'r relationship_fact =
  lf_relationship_ref :: string
  lf_state :: evidence_state
  lf_source :: proof_source
  lf_present :: bool
  lf_ref :: 'r

record 'r control_fact =
  cf_control_ref :: string
  cf_state :: evidence_state
  cf_health :: control_health
  cf_ref :: 'r

record 'r objective_fact =
  jf_objective_ref :: string
  jf_state :: evidence_state
  jf_value :: pyfloat
  jf_ref :: 'r

record role_binding =
  rb_role_ref :: string
  rb_selected :: "string list"
  rb_state :: evidence_state

record 'r evidence =
  ev_manifest_id :: string
  ev_profile_id :: string
  ev_profile_digest :: string
  ev_collected_at :: int
  ev_expires_at :: int
  ev_scopes :: "evidence_scope list"
  ev_resources :: "'r resource_fact list"
  ev_relationships :: "'r relationship_fact list"
  ev_controls :: "'r control_fact list"
  ev_objectives :: "'r objective_fact list"
  ev_bindings :: "role_binding list"

text \<open>\<open>ManifestRiskAcceptance.is_active\<close>\<close>

definition is_active :: "risk_acceptance \<Rightarrow> int \<Rightarrow> string \<Rightarrow> string \<Rightarrow> string \<Rightarrow> string \<Rightarrow> bool" where
  "is_active ra as_of mid pid path owner \<longleftrightarrow>
     ra_status ra = AcceptanceApproved
     \<and> ra_accepted_at ra \<le> as_of \<and> as_of < ra_expires_at ra
     \<and> cs_manifest_id (ra_scope ra) = mid
     \<and> normalized_id (cs_profile_id (ra_scope ra)) = normalized_id pid
     \<and> cs_clause_path (ra_scope ra) = path
     \<and> cs_owner_ref (ra_scope ra) = owner
     \<and> ra_owned_by ra = owner
     \<and> normalized_id pid \<in> set (map normalized_id (ra_profiles ra))"

section \<open>What the model classes validate\<close>

definition cardinality_ok :: "cardinality \<Rightarrow> bool" where
  "cardinality_ok c \<longleftrightarrow> (case c of BoundedRange lo hi \<Rightarrow> lo \<le> hi \<and> hi \<le> 10000 | _ \<Rightarrow> True)"

fun proof_matches :: "constraint_type \<Rightarrow> proof_requirement \<Rightarrow> bool" where
  "proof_matches CtCardinality (CardinalityProof _ _) = True"
| "proof_matches CtSupportedSingleton (CardinalityProof _ _) = True"
| "proof_matches CtZoneColocation (ZoneColocationProof _ _) = True"
| "proof_matches CtZoneDistribution (ZoneDistributionProof _ _) = True"
| "proof_matches CtRoleOperationalState (RoleOperationalStateProof _ _ _ _) = True"
| "proof_matches CtDependencyRequired (RelationshipPresenceProof _) = True"
| "proof_matches CtDependencyProhibited (RelationshipPresenceProof _) = True"
| "proof_matches CtObjectiveRequired (ObjectiveThresholdProof _ _ _) = True"
| "proof_matches CtEvidenceFreshness (EvidenceFreshnessProof _) = True"
| "proof_matches CtControlRequired (ControlHealthProof _ _) = True"
| "proof_matches _ _ = False"

definition constraint_ok :: "policy_constraint \<Rightarrow> bool" where
  "constraint_ok c \<longleftrightarrow>
     proof_matches (pc_type c) (pc_proof c)
     \<and> (pc_type c = CtDependencyProhibited \<longrightarrow> failure_verdict c = Violation)
     \<and> (pc_acceptance_clause_ref c \<noteq> None \<longrightarrow> pc_finding_kind c = RiskAcceptanceFinding)
     \<and> failure_verdict c \<in> {Violation, Unknown, Conflicting}
     \<and> success_verdict c \<in> {Pass, ExpectedConstraint, Observation}"

definition operational_states_ok :: "resource_state list \<Rightarrow> resource_state list \<Rightarrow> bool" where
  "operational_states_ok healthy failing \<longleftrightarrow>
     distinct healthy \<and> distinct failing
     \<and> StateUnknown \<notin> set healthy \<and> StateUnknown \<notin> set failing
     \<and> set healthy \<inter> set failing = {}"

text \<open>No two facts of one kind, and no two bindings, share a normalized identifier.\<close>

definition evidence_ok :: "'r evidence \<Rightarrow> bool" where
  "evidence_ok ev \<longleftrightarrow>
     ev_collected_at ev < ev_expires_at ev
     \<and> distinct (map (normalized_id \<circ> rf_resource_id) (ev_resources ev))
     \<and> distinct (map (normalized_id \<circ> lf_relationship_ref) (ev_relationships ev))
     \<and> distinct (map (normalized_id \<circ> cf_control_ref) (ev_controls ev))
     \<and> distinct (map (normalized_id \<circ> jf_objective_ref) (ev_objectives ev))
     \<and> distinct (map (normalized_id \<circ> rb_role_ref) (ev_bindings ev))"

end
