(* ===== verification/PolicyEval.thy ===== *)
theory PolicyEval
  imports PolicyModel "HOL-Library.AList"
begin

text \<open>
  The constraint evaluator (\<open>policy/domain.py\<close>): the gates that make every verdict fail closed,
  the evaluation of each proof kind, the matching of risk acceptances, and the bounded, ordered
  list of evidence references.
\<close>

record 'r decision =
  de_verdict :: verdict
  de_refs :: "'r list"
  de_acceptance :: "string option"

definition decide :: "verdict \<Rightarrow> 'r list \<Rightarrow> 'r decision" where
  "decide v refs = \<lparr>de_verdict = v, de_refs = refs, de_acceptance = None\<rparr>"

section \<open>Gates\<close>

definition merge_gates :: "verdict option list \<Rightarrow> verdict option" where
  "merge_gates gs = (if Some Conflicting \<in> set gs then Some Conflicting
     else if Some Unknown \<in> set gs then Some Unknown else None)"

definition resource_gate :: "'r resource_fact list \<Rightarrow> verdict option" where
  "resource_gate rs =
     (if rs = [] then Some Unknown
      else if list_ex (\<lambda>r. rf_state r = StateConflicting) rs then Some Conflicting
      else if list_ex (\<lambda>r. rf_state r \<noteq> Complete) rs then Some Unknown
      else if list_ex (\<lambda>r. rf_source r = Inferred) rs then Some Unknown
      else None)"

record 'r bound_resources =
  br_resources :: "'r resource_fact list"
  br_gate :: "verdict option"

definition bound_role_resources :: "'r evidence \<Rightarrow> string \<Rightarrow> 'r bound_resources" where
  "bound_role_resources ev role =
     (let resources = sort_key (\<lambda>r. normalized_id (rf_resource_id r))
            (filter (\<lambda>r. normalized_id (rf_role_ref r) = normalized_id role) (ev_resources ev));
          bindings = filter (\<lambda>b. normalized_id (rb_role_ref b) = normalized_id role) (ev_bindings ev)
      in \<lparr>br_resources = resources, br_gate =
          (case bindings of
             [b] \<Rightarrow> if rb_state b = StateConflicting then Some Conflicting
                else if rb_state b \<noteq> Complete then Some Unknown
                else if set (map normalized_id (rb_selected b))
                     \<noteq> set (map (\<lambda>r. normalized_id (rf_resource_id r)) resources) then Some Unknown
                else None
           | _ \<Rightarrow> Some Unknown)\<rparr>)"

definition cardinality_bounds :: "cardinality \<Rightarrow> nat \<times> nat" where
  "cardinality_bounds c = (case c of ExactlyOne \<Rightarrow> (1, 1) | OneOrMore \<Rightarrow> (1, 10000)
     | ZeroOrMore \<Rightarrow> (0, 10000) | BoundedRange lo hi \<Rightarrow> (lo, hi))"

definition references_for :: "'r resource_fact list list \<Rightarrow> 'r list" where
  "references_for groups = concat (map (map rf_ref) groups)"

section \<open>The proofs about roles\<close>

definition evaluate_cardinality ::
    "resolved_profile \<Rightarrow> 'r evidence \<Rightarrow> policy_constraint \<Rightarrow> string \<Rightarrow> cardinality \<Rightarrow> 'r decision" where
  "evaluate_cardinality p ev c role expected =
     (let bound = bound_role_resources ev role;
          rs = br_resources bound;
          refs = references_for [rs];
          gate = merge_gates [br_gate bound, resource_gate rs];
          risk = pc_finding_kind c \<in> {ActualSpof, RiskAcceptanceFinding};
          requires_zone = (pc_type c = CtSupportedSingleton \<or> risk);
          (lo, hi) = cardinality_bounds expected;
          matches = length rs
      in case gate of
           Some g \<Rightarrow> decide g refs
         | None \<Rightarrow>
             if requires_zone \<and> list_ex (\<lambda>r. rf_zone r = ZoneUnknown) rs then decide Unknown refs
             else if risk then
               (if \<not> (matches = 1 \<and> length (remdups (map rf_zone rs)) = 1)
                then decide (failure_verdict c) refs
                else if \<not> zone_loss_continuity_required p then decide Observation refs
                else decide Violation refs)
             else decide (if lo \<le> matches \<and> matches \<le> hi then success_verdict c else failure_verdict c) refs)"

definition evaluate_zone_colocation ::
    "'r evidence \<Rightarrow> policy_constraint \<Rightarrow> string \<Rightarrow> string \<Rightarrow> 'r decision" where
  "evaluate_zone_colocation ev c subject anchor =
     (let sb = bound_role_resources ev subject; an = bound_role_resources ev anchor;
          subjects = br_resources sb; anchors = br_resources an;
          refs = references_for [subjects, anchors];
          gate = merge_gates [br_gate sb, br_gate an, resource_gate subjects, resource_gate anchors]
      in case gate of
           Some g \<Rightarrow> decide g refs
         | None \<Rightarrow>
             if list_ex (\<lambda>r. rf_zone r = ZoneUnknown) (subjects @ anchors) then decide Unknown refs
             else decide (if length (remdups (map rf_zone anchors)) = 1
                             \<and> set (map rf_zone subjects) = set (map rf_zone anchors)
                          then success_verdict c else failure_verdict c) refs)"

definition evaluate_zone_distribution ::
    "'r evidence \<Rightarrow> policy_constraint \<Rightarrow> string \<Rightarrow> nat \<Rightarrow> 'r decision" where
  "evaluate_zone_distribution ev c role minimum =
     (let bound = bound_role_resources ev role; rs = br_resources bound;
          refs = references_for [rs];
          gate = merge_gates [br_gate bound, resource_gate rs]
      in case gate of
           Some g \<Rightarrow> decide g refs
         | None \<Rightarrow>
             if list_ex (\<lambda>r. rf_zone r = ZoneUnknown) rs then decide Unknown refs
             else decide (if minimum \<le> length (remdups (map rf_zone rs))
                          then success_verdict c else failure_verdict c) refs)"

definition evaluate_role_operational_state ::
    "'r evidence \<Rightarrow> policy_constraint \<Rightarrow> string \<Rightarrow> resource_state list \<Rightarrow> resource_state list \<Rightarrow> nat
     \<Rightarrow> 'r decision" where
  "evaluate_role_operational_state ev c role healthy failing minimum =
     (let bound = bound_role_resources ev role; rs = br_resources bound;
          refs = references_for [rs];
          gate = merge_gates [br_gate bound, resource_gate rs];
          states = map rf_operational rs
      in case gate of
           Some g \<Rightarrow> decide g refs
         | None \<Rightarrow>
             if list_ex (\<lambda>s. s = StateUnknown \<or> s \<notin> set healthy \<union> set failing) states
             then decide Unknown refs
             else if length (filter (\<lambda>s. s \<in> set healthy) states) < minimum
             then decide (failure_verdict c) refs
             else if list_ex (\<lambda>s. s \<in> set failing) states then decide Observation refs
             else decide (success_verdict c) refs)"

section \<open>Relationships\<close>

fun declared_of :: "relationship list \<Rightarrow> declared_relationship list" where
  "declared_of [] = []"
| "declared_of (Declared d # rs) = d # declared_of rs"
| "declared_of (Excepted _ # rs) = declared_of rs"

definition find_declared :: "resolved_profile \<Rightarrow> string \<Rightarrow> athena_error + declared_relationship" where
  "find_declared p ref =
     (case filter (\<lambda>d. normalized_id (dl_relationship_id d) = normalized_id ref)
             (declared_of (rp_relationships p)) of
        [d] \<Rightarrow> Inr d
      | _ \<Rightarrow> Inl AthenaValidationError)"

fun endpoint_roles :: "endpoint list \<Rightarrow> string list" where
  "endpoint_roles [] = []"
| "endpoint_roles (RoleEndpoint r # es) = r # endpoint_roles es"
| "endpoint_roles (ExternalEndpoint _ # es) = endpoint_roles es"

text \<open>The roles of a relationship, one for each normalized identifier (the last spelling wins).\<close>

definition relationship_roles :: "declared_relationship \<Rightarrow> string list" where
  "relationship_roles d = sort_key normalized_id
     (map snd (fold (\<lambda>r. AList.update (normalized_id r) r) (endpoint_roles [dl_source d, dl_target d]) []))"

definition relationship_role_bindings ::
    "resolved_profile \<Rightarrow> 'r evidence \<Rightarrow> string \<Rightarrow> athena_error + (verdict option \<times> 'r list)" where
  "relationship_role_bindings p ev ref =
     bindR (find_declared p ref) (\<lambda>d.
     let bounds = map (bound_role_resources ev) (relationship_roles d)
     in Inr (merge_gates (concat (map (\<lambda>b. [br_gate b, resource_gate (br_resources b)]) bounds)),
             concat (map (\<lambda>b. references_for [br_resources b]) bounds)))"

definition evaluate_relationship ::
    "('r \<Rightarrow> string) \<Rightarrow> resolved_profile \<Rightarrow> 'r evidence \<Rightarrow> policy_constraint \<Rightarrow> string
     \<Rightarrow> athena_error + 'r decision" where
  "evaluate_relationship cj p ev c ref =
     (let facts = sort_key (\<lambda>f. cj (lf_ref f))
            (filter (\<lambda>f. normalized_id (lf_relationship_ref f) = normalized_id ref) (ev_relationships ev))
      in bindR (relationship_role_bindings p ev ref) (\<lambda>(gate, binding_refs).
         let refs = map lf_ref facts @ binding_refs
         in Inr (if list_ex (\<lambda>f. lf_state f = StateConflicting) facts then decide Conflicting refs
                 else case gate of
                   Some g \<Rightarrow> decide g refs
                 | None \<Rightarrow> (case facts of
                     [f] \<Rightarrow>
                       if lf_state f \<noteq> Complete \<or> lf_source f = Inferred then decide Unknown refs
                       else if pc_type c = CtDependencyProhibited
                       then decide (if lf_present f then failure_verdict c else success_verdict c) refs
                       else decide (if lf_present f then success_verdict c else failure_verdict c) refs
                   | _ \<Rightarrow> decide Unknown refs))))"

section \<open>Controls, freshness and objectives\<close>

definition evaluate_control ::
    "'r evidence \<Rightarrow> policy_constraint \<Rightarrow> string \<Rightarrow> control_health \<Rightarrow> 'r decision" where
  "evaluate_control ev c ref required =
     (let facts = filter (\<lambda>f. normalized_id (cf_control_ref f) = normalized_id ref) (ev_controls ev);
          refs = map cf_ref facts
      in if list_ex (\<lambda>f. cf_state f = StateConflicting) facts then decide Conflicting refs
         else case facts of
           [f] \<Rightarrow> if cf_state f \<noteq> Complete then decide Unknown refs
             else decide (if cf_health f = required then success_verdict c else failure_verdict c) refs
         | _ \<Rightarrow> decide Unknown refs)"

definition all_references :: "'r evidence \<Rightarrow> 'r list" where
  "all_references ev = map rf_ref (ev_resources ev) @ map lf_ref (ev_relationships ev)
     @ map cf_ref (ev_controls ev) @ map jf_ref (ev_objectives ev)"

definition all_states :: "'r evidence \<Rightarrow> evidence_state list" where
  "all_states ev = map rf_state (ev_resources ev) @ map lf_state (ev_relationships ev)
     @ map cf_state (ev_controls ev) @ map jf_state (ev_objectives ev)"

text \<open>\<open>total_seconds() <= maximum\<close> on microseconds: exact, since both sides are far below 2^53.\<close>

definition evaluate_freshness :: "'r evidence \<Rightarrow> policy_constraint \<Rightarrow> int \<Rightarrow> int \<Rightarrow> 'r decision" where
  "evaluate_freshness ev c maximum as_of =
     (let refs = all_references ev; states = all_states ev;
          gate = merge_gates (map (\<lambda>b. br_gate (bound_role_resources ev (rb_role_ref b))) (ev_bindings ev));
          inferred = list_ex (\<lambda>r. rf_source r = Inferred) (ev_resources ev)
            \<or> list_ex (\<lambda>l. lf_source l = Inferred) (ev_relationships ev)
      in if StateConflicting \<in> set states \<or> gate = Some Conflicting then decide Conflicting refs
         else if states = [] \<or> list_ex (\<lambda>s. s \<noteq> Complete) states \<or> inferred \<or> gate = Some Unknown
         then decide Unknown refs
         else decide (if as_of - ev_collected_at ev \<le> maximum * 1000000
                      then success_verdict c else failure_verdict c) refs)"

fun comparison_matches :: "pyfloat \<Rightarrow> comparison \<Rightarrow> pyfloat \<Rightarrow> bool" where
  "comparison_matches x Lt y = pf_less x y"
| "comparison_matches x Lte y = (pf_less x y \<or> pf_eq x y)"
| "comparison_matches x Gt y = pf_less y x"
| "comparison_matches x Gte y = (pf_less y x \<or> pf_eq x y)"
| "comparison_matches x Eq y = pf_eq x y"

definition evaluate_objective ::
    "'r evidence \<Rightarrow> policy_constraint \<Rightarrow> string \<Rightarrow> comparison \<Rightarrow> pyfloat \<Rightarrow> 'r decision" where
  "evaluate_objective ev c ref cmp threshold =
     (let facts = filter (\<lambda>f. normalized_id (jf_objective_ref f) = normalized_id ref) (ev_objectives ev);
          refs = map jf_ref facts
      in if list_ex (\<lambda>f. jf_state f = StateConflicting) facts then decide Conflicting refs
         else case facts of
           [f] \<Rightarrow> if jf_state f \<noteq> Complete then decide Unknown refs
             else if \<not> is_finite (jf_value f) \<or> \<not> is_finite threshold then decide Unknown refs
             else decide (if comparison_matches (jf_value f) cmp threshold
                          then success_verdict c else failure_verdict c) refs
         | _ \<Rightarrow> decide Unknown refs)"

section \<open>Risk acceptance\<close>

definition proof_role_refs :: "resolved_profile \<Rightarrow> policy_constraint \<Rightarrow> athena_error + string list" where
  "proof_role_refs p c = (case pc_proof c of
       CardinalityProof r _ \<Rightarrow> Inr [r]
     | ZoneDistributionProof r _ \<Rightarrow> Inr [r]
     | RoleOperationalStateProof r _ _ _ \<Rightarrow> Inr [r]
     | ZoneColocationProof sub anc \<Rightarrow> Inr [sub, anc]
     | RelationshipPresenceProof ref \<Rightarrow>
         bindR (find_declared p ref) (\<lambda>d. Inr (endpoint_roles [dl_source d, dl_target d]))
     | _ \<Rightarrow> Inr [])"

text \<open>The loop of \<open>_required_resource_bindings\<close>; the frozenset is a list compared as a set.\<close>

fun collect_bindings :: "'r evidence \<Rightarrow> string list \<Rightarrow> (string \<times> string) list \<Rightarrow> (string \<times> string) list option" where
  "collect_bindings ev [] acc = Some acc"
| "collect_bindings ev (role # roles) acc =
     (let bound = bound_role_resources ev role; rs = br_resources bound
      in if merge_gates [br_gate bound, resource_gate rs] \<noteq> None \<or> rs = [] then None
         else collect_bindings ev roles
           (acc @ map (\<lambda>r. (normalized_id role, normalized_id (rf_resource_id r))) rs))"

definition required_bindings ::
    "resolved_profile \<Rightarrow> 'r evidence \<Rightarrow> policy_constraint \<Rightarrow> athena_error + (string \<times> string) list option" where
  "required_bindings p ev c =
     bindR (proof_role_refs p c) (\<lambda>roles.
     Inr (if roles = [] then None else collect_bindings ev roles []))"

text \<open>The loop over the exception relationships; \<open>target\<close> is the relationship of the proof.\<close>

fun exception_refs ::
    "resolved_profile \<Rightarrow> policy_constraint \<Rightarrow> int \<Rightarrow> declared_relationship option \<Rightarrow> relationship list
     \<Rightarrow> string list \<Rightarrow> athena_error + string list" where
  "exception_refs p c as_of target [] acc = Inr acc"
| "exception_refs p c as_of target (Declared _ # rs) acc = exception_refs p c as_of target rs acc"
| "exception_refs p c as_of target (Excepted x # rs) acc =
     (let to_clause = (case ex_clause_ref x of None \<Rightarrow> False
            | Some r \<Rightarrow> normalized_id r = normalized_id (constraint_id c));
          to_relationship = (case (target, ex_relationship_ref x) of
              (Some d, Some r) \<Rightarrow> normalized_id r = normalized_id (dl_relationship_id d)
                 \<and> cs_clause_path (pc_scope c) = dl_source_clause d
            | _ \<Rightarrow> False)
      in if \<not> to_clause \<and> \<not> to_relationship then exception_refs p c as_of target rs acc
         else if ex_expires_at x \<le> as_of then exception_refs p c as_of target rs acc
         else if ex_owner_ref x \<noteq> pc_owner_ref c
            \<or> cs_manifest_id (ex_scope x) \<noteq> rp_manifest_id p
            \<or> normalized_id (cs_profile_id (ex_scope x)) \<noteq> normalized_id (rp_profile_id p)
            \<or> cs_clause_path (ex_scope x) \<noteq> cs_clause_path (pc_scope c)
            \<or> cs_owner_ref (ex_scope x) \<noteq> pc_owner_ref c
         then Inl AthenaValidationError
         else exception_refs p c as_of target rs (acc @ [normalized_id (ex_acceptance_ref x)]))"

definition validated_exception_refs ::
    "resolved_profile \<Rightarrow> policy_constraint \<Rightarrow> int \<Rightarrow> athena_error + string list" where
  "validated_exception_refs p c as_of =
     bindR (case pc_proof c of
         RelationshipPresenceProof ref \<Rightarrow> bindR (find_declared p ref) (\<lambda>d. Inr (Some d))
       | _ \<Rightarrow> Inr None) (\<lambda>target.
     exception_refs p c as_of target (rp_relationships p) [])"

definition acceptance_clause :: "policy_constraint \<Rightarrow> string" where
  "acceptance_clause c = (case pc_acceptance_clause_ref c of
       Some r \<Rightarrow> if pc_finding_kind c = RiskAcceptanceFinding then r else constraint_id c
     | None \<Rightarrow> constraint_id c)"

definition accepted_by ::
    "resolved_profile \<Rightarrow> policy_constraint \<Rightarrow> int \<Rightarrow> string list \<Rightarrow> (string \<times> string) list \<Rightarrow> risk_acceptance \<Rightarrow> bool" where
  "accepted_by p c as_of refs required ra \<longleftrightarrow>
     normalized_id (risk_acceptance_id ra) \<in> set refs
     \<and> is_active ra as_of (rp_manifest_id p) (rp_profile_id p)
         (''/constraints/'' @ acceptance_clause c) (pc_owner_ref c)
     \<and> set (map (\<lambda>(role, res). (normalized_id role, normalized_id res)) (ra_bindings ra)) = set required"

definition matching_acceptance ::
    "resolved_profile \<Rightarrow> 'r evidence \<Rightarrow> policy_constraint \<Rightarrow> int \<Rightarrow> athena_error + risk_acceptance option" where
  "matching_acceptance p ev c as_of =
     bindR (validated_exception_refs p c as_of) (\<lambda>exc.
     let refs = exc @ (case pc_acceptance_ref c of None \<Rightarrow> [] | Some r \<Rightarrow> [normalized_id r])
     in if refs = [] then Inr None
        else bindR (required_bindings p ev c) (\<lambda>required.
          case required of
            None \<Rightarrow> Inr None
          | Some bs \<Rightarrow> (case filter (accepted_by p c as_of refs bs) (rp_acceptances p) of
                [] \<Rightarrow> Inr None
              | [ra] \<Rightarrow> Inr (Some ra)
              | _ \<Rightarrow> Inl AthenaValidationError)))"

section \<open>The references of a finding\<close>

text \<open>
  The dict keyed by canonical text keeps the last reference of each text; the result lists them by
  text and keeps the first thousand.
\<close>

definition ordered_references :: "('r \<Rightarrow> string) \<Rightarrow> 'r list \<Rightarrow> 'r list" where
  "ordered_references cj refs =
     (let by_text = fold (\<lambda>r. AList.update (cj r) r) refs []
      in map snd (sort_key fst by_text))"

definition ordered_bounded_references :: "('r \<Rightarrow> string) \<Rightarrow> 'r list \<Rightarrow> 'r list \<times> bool" where
  "ordered_bounded_references cj refs =
     (let ordered = ordered_references cj refs in (take 1000 ordered, 1000 < length ordered))"

section \<open>One constraint\<close>

definition evaluate_proof ::
    "('r \<Rightarrow> string) \<Rightarrow> resolved_profile \<Rightarrow> 'r evidence \<Rightarrow> policy_constraint \<Rightarrow> int \<Rightarrow> athena_error + 'r decision" where
  "evaluate_proof cj p ev c as_of = (case pc_proof c of
       CardinalityProof role expected \<Rightarrow> Inr (evaluate_cardinality p ev c role expected)
     | ZoneColocationProof sub anc \<Rightarrow> Inr (evaluate_zone_colocation ev c sub anc)
     | ZoneDistributionProof role n \<Rightarrow> Inr (evaluate_zone_distribution ev c role n)
     | RoleOperationalStateProof role healthy failing n \<Rightarrow>
         Inr (evaluate_role_operational_state ev c role healthy failing n)
     | RelationshipPresenceProof ref \<Rightarrow> evaluate_relationship cj p ev c ref
     | ControlHealthProof ref health \<Rightarrow> Inr (evaluate_control ev c ref health)
     | EvidenceFreshnessProof maximum \<Rightarrow> Inr (evaluate_freshness ev c maximum as_of)
     | ObjectiveThresholdProof ref cmp threshold \<Rightarrow> Inr (evaluate_objective ev c ref cmp threshold))"

definition acceptance_semantics :: "finding_kind \<Rightarrow> constraint_type \<Rightarrow> bool" where
  "acceptance_semantics k t \<longleftrightarrow>
     (k \<in> {ActualSpof, RiskAcceptanceFinding} \<and> t = CtSupportedSingleton)
     \<or> (k = ArchitectureConstraint \<and> t \<in> {CtCardinality, CtZoneColocation, CtZoneDistribution,
          CtDependencyRequired, CtDependencyProhibited})
     \<or> (k = RelationshipConflict \<and> t \<in> {CtDependencyRequired, CtDependencyProhibited})"

definition is_freshness :: "proof_requirement \<Rightarrow> bool" where
  "is_freshness pr \<longleftrightarrow> (case pr of EvidenceFreshnessProof _ \<Rightarrow> True | _ \<Rightarrow> False)"

definition evaluate_constraint ::
    "('r \<Rightarrow> string) \<Rightarrow> resolved_profile \<Rightarrow> 'r evidence \<Rightarrow> policy_constraint \<Rightarrow> int \<Rightarrow> athena_error + 'r decision" where
  "evaluate_constraint cj p ev c as_of =
     bindR (evaluate_proof cj p ev c as_of) (\<lambda>d.
     let (refs, over_broad) = ordered_bounded_references cj (de_refs d);
         v = (if over_broad \<and> de_verdict d \<noteq> Conflicting then Unknown else de_verdict d);
         eligible = (v = Violation
            \<and> normalized_id (constraint_id c) \<noteq> ''db-singleton-supported''
            \<and> acceptance_semantics (pc_finding_kind c) (pc_type c)
            \<and> \<not> is_freshness (pc_proof c))
     in bindR (if eligible then matching_acceptance p ev c as_of else Inr None) (\<lambda>acceptance.
        Inr \<lparr>de_verdict = (case acceptance of None \<Rightarrow> v | Some _ \<Rightarrow> AcceptedResidualRisk),
             de_refs = refs, de_acceptance = map_option risk_acceptance_id acceptance\<rparr>))"

end
