(* ===== verification/SelectorFacts.thy ===== *)
theory SelectorFacts
  imports Selectors "HOL-Library.Multiset"
begin

text \<open>
  What selector evaluation computes: each selector denotes a predicate on the entries of an
  inventory. Over that meaning the two static checks of the contracts are sound: a narrower
  selector selects fewer entries, and two selectors that select a common entry overlap. The locale
  \<open>selection\<close> is the contract the manifest code relies on.
\<close>

section \<open>The meaning of a selector\<close>

fun criteria_selects :: "criteria \<Rightarrow> string \<times> resource \<Rightarrow> bool" where
  "criteria_selects (ResourceIdList ids) (i, r) = (i \<in> set (map normalized_id ids))"
| "criteria_selects (TagPredicate ps) (i, r) = tag_matches ps r"
| "criteria_selects (NamePredicate p s) (i, r) =
     (optional_prefix p (normalized_id (resource_name i)) \<and> optional_suffix s (normalized_id (resource_name i)))"
| "criteria_selects (ResourceType t ls gs) (i, r) = type_matches t ls gs r"
| "criteria_selects (VmScaleSet s insts) (i, r) =
     (case normalize_resource_id s of Inl _ \<Rightarrow> False | Inr n \<Rightarrow> scale_set_matches n insts i)"
| "criteria_selects (Provenance tool ver ref) (i, r) = provenance_matches tool ver ref r"
| "criteria_selects _ (i, r) = False"

definition atomic_selects :: "atomic_selector \<Rightarrow> string \<times> resource \<Rightarrow> bool" where
  "atomic_selects a x = criteria_selects (atomic_criteria a) x"

fun selector_selects :: "selector \<Rightarrow> string \<times> resource \<Rightarrow> bool" where
  "selector_selects (Single a) x = atomic_selects a x"
| "selector_selects (CompositeAll _ _ cs) x = (cs \<noteq> [] \<and> (\<forall>c \<in> set cs. atomic_selects c x))"
| "selector_selects (CompositeAny _ _ cs) x = (\<exists>c \<in> set cs. atomic_selects c x)"

definition selected_ids :: "(string \<times> resource) list \<Rightarrow> selector \<Rightarrow> string set" where
  "selected_ids by_id s = fst ` {x \<in> set by_id. selector_selects s x}"

lemma atomic_matches_selects:
  "atomic_matches c by_id = Inr M \<Longrightarrow> M = fst ` {x \<in> set by_id. criteria_selects c x}"
  by (cases c) (force simp: atomic_matches_def split: sum.splits if_splits)+

lemma atomic_matches_error: "atomic_matches c by_id = Inl e \<Longrightarrow> e = AthenaValidationError"
  by (auto simp: atomic_matches_def split: criteria.splits sum.splits if_splits)

lemma evaluate_atomic_selects:
  "evaluate_atomic by_id a = Inr (M, vs) \<Longrightarrow> M = fst ` {x \<in> set by_id. atomic_selects a x}"
  by (auto simp: evaluate_atomic_def bindR_eq_Inr atomic_selects_def dest!: atomic_matches_selects)

lemma inter_fst_image:
  assumes "inj_on fst A" and "cs \<noteq> []"
  shows "\<Inter> ((\<lambda>c. fst ` {x \<in> A. P c x}) ` set cs) = fst ` {x \<in> A. \<forall>c \<in> set cs. P c x}"
proof (intro equalityI subsetI)
  fix i assume i: "i \<in> \<Inter> ((\<lambda>c. fst ` {x \<in> A. P c x}) ` set cs)"
  from assms(2) obtain c0 where "c0 \<in> set cs" by (cases cs) auto
  with i obtain x where x: "x \<in> A" "i = fst x" by blast
  have "P c x" if "c \<in> set cs" for c
  proof -
    from i that obtain y where "y \<in> A" "P c y" "i = fst y" by blast
    with x assms(1) show ?thesis by (metis inj_onD)
  qed
  with x show "i \<in> fst ` {x \<in> A. \<forall>c \<in> set cs. P c x}" by blast
qed blast

lemma evaluate_atomics:
  assumes "mapR (evaluate_atomic by_id) cs = Inr results"
  shows "set (map fst results) = (\<lambda>c. fst ` {x \<in> set by_id. atomic_selects c x}) ` set cs"
    and "results = [] \<longleftrightarrow> cs = []"
proof -
  have "list_all2 (\<lambda>c y. evaluate_atomic by_id c = Inr y) cs results" by (rule mapR_Inr[OF assms])
  then have "list_all2 (\<lambda>c y. fst y = fst ` {x \<in> set by_id. atomic_selects c x}) cs results"
    by (rule list_all2_mono) (metis evaluate_atomic_selects prod.collapse)
  then show "set (map fst results) = (\<lambda>c. fst ` {x \<in> set by_id. atomic_selects c x}) ` set cs"
    and "results = [] \<longleftrightarrow> cs = []"
    by (induction rule: list_all2_induct) auto
qed

lemma evaluate_selection_selects:
  assumes "evaluate_selection by_id s = Inr (M, vs)" and "distinct (map fst by_id)"
  shows "M = selected_ids by_id s"
proof (cases s)
  case (Single a)
  with assms(1) show ?thesis
    by (auto simp: evaluate_selection_def selected_ids_def dest: evaluate_atomic_selects)
next
  case (CompositeAll i m cs)
  with assms(1) obtain results where r: "mapR (evaluate_atomic by_id) cs = Inr results"
    and M: "M = (if results = [] then {} else \<Inter> (set (map fst results)))"
    by (auto simp: evaluate_selection_def bindR_eq_Inr Let_def)
  show ?thesis
  proof (cases "cs = []")
    case False
    then have "M = \<Inter> ((\<lambda>c. fst ` {x \<in> set by_id. atomic_selects c x}) ` set cs)"
      using M evaluate_atomics[OF r] by simp
    also have "\<dots> = fst ` {x \<in> set by_id. \<forall>c \<in> set cs. atomic_selects c x}"
      using assms(2) False by (intro inter_fst_image) (simp_all add: distinct_map)
    finally show ?thesis using False CompositeAll by (simp add: selected_ids_def)
  qed (use M evaluate_atomics[OF r] CompositeAll in \<open>simp add: selected_ids_def\<close>)
next
  case (CompositeAny i m cs)
  with assms(1) obtain results where r: "mapR (evaluate_atomic by_id) cs = Inr results"
    and M: "M = \<Union> (set (map fst results))"
    by (auto simp: evaluate_selection_def bindR_eq_Inr Let_def)
  then show ?thesis
    using evaluate_atomics[OF r] CompositeAny by (auto simp: selected_ids_def)
qed

section \<open>The contract of the static checks\<close>

locale selection =
  fixes ok :: "'s \<Rightarrow> bool" and selects :: "'s \<Rightarrow> 'x \<Rightarrow> bool"
    and narrower :: "'s \<Rightarrow> 's \<Rightarrow> bool" and overlap :: "'s \<Rightarrow> 's \<Rightarrow> bool"
  assumes narrower_sound: "narrower p c \<Longrightarrow> ok p \<Longrightarrow> ok c \<Longrightarrow> selects c x \<Longrightarrow> selects p x"
    and overlap_sound: "selects a x \<Longrightarrow> selects b x \<Longrightarrow> overlap a b"
begin

lemma replacement_selects_less:
  assumes "\<forall>c \<in> set current. \<exists>p \<in> set previous. narrower p c"
    and "\<forall>s \<in> set previous \<union> set current. ok s"
  shows "{x. \<exists>c \<in> set current. selects c x} \<subseteq> {x. \<exists>p \<in> set previous. selects p x}"
  using assms narrower_sound by blast

lemma disjoint_if_no_overlap: "\<not> overlap a b \<Longrightarrow> {x. selects a x} \<inter> {x. selects b x} = {}"
  using overlap_sound by blast

end

section \<open>Criteria\<close>

lemma filter_is_narrowerD:
  "filter_is_narrower previous current \<Longrightarrow> current = [] \<or> v \<in> set (map normalized_id current)
   \<Longrightarrow> previous = [] \<or> v \<in> set (map normalized_id previous)"
  by (auto simp: filter_is_narrower_def Let_def)

lemma filter_is_narrower_Nil [simp]: "filter_is_narrower previous [] \<longleftrightarrow> previous = []"
  by (auto simp: filter_is_narrower_def)

lemma filters_overlapI:
  "ls = [] \<or> v \<in> set (map normalized_id ls) \<Longrightarrow> rs = [] \<or> v \<in> set (map normalized_id rs)
   \<Longrightarrow> filters_overlap ls rs"
  by (auto simp: filters_overlap_def)

lemma normalized_prefix: "prefix p c \<Longrightarrow> prefix (normalized_id p) (normalized_id c)"
  by (auto simp: prefix_def normalized_id_append)

lemma normalized_suffix: "suffix p c \<Longrightarrow> suffix (normalized_id p) (normalized_id c)"
  by (auto simp: suffix_def normalized_id_append)

lemma resource_name_normalized: "resource_name (normalized_id i) = normalized_id (resource_name i)"
  by (simp add: resource_name_def normalized_id_def split_on_casefold is_upper_code is_lower_code last_map)

lemma tag_matchesD:
  "tag_matches ps r \<Longrightarrow> (k, v) \<in> set ps
   \<Longrightarrow> dict_of (map (\<lambda>(k, v). (normalized_id k, normalized_id v)) (rs_tags r)) (normalized_id k)
       = Some (normalized_id v)"
  by (auto simp: tag_matches_def Let_def list_all_iff)

lemma dict_of_keyed: "k \<in> set (map (g \<circ> fst) ps) \<Longrightarrow> \<exists>k' v. (k', v) \<in> set ps \<and> g k' = k
   \<and> dict_of (map (\<lambda>(k, v). (g k, h v)) ps) k = Some (h v)"
proof -
  assume "k \<in> set (map (g \<circ> fst) ps)"
  then have "k \<in> fst ` set (map (\<lambda>(k, v). (g k, h v)) ps)" by force
  then obtain w where w: "dict_of (map (\<lambda>(k, v). (g k, h v)) ps) k = Some w"
    using dict_of_ex by metis
  then have "(k, w) \<in> set (map (\<lambda>(k, v). (g k, h v)) ps)" by (rule dict_ofD)
  with w show ?thesis by auto
qed

lemma tag_narrower_sound:
  assumes "criteria_is_narrower (TagPredicate ps) (TagPredicate cs)" and "criteria_ok (TagPredicate ps)"
    and "tag_matches cs r"
  shows "tag_matches ps r"
  unfolding tag_matches_def Let_def list_all_iff
proof (clarify)
  fix k v assume kv: "(k, v) \<in> set ps"
  have "dict_of (map (\<lambda>(k, v). (normalized_id k, v)) ps) (normalized_id k) = Some v"
  proof (rule dict_of_distinct)
    show "distinct (map fst (map (\<lambda>(k, v). (normalized_id k, v)) ps))"
      using assms(2) by (simp add: comp_def case_prod_beta)
  qed (use kv in force)
  then have "dict_of (map (\<lambda>(k, v). (normalized_id k, v)) cs) (normalized_id k) = Some v"
    using assms(1) kv by (auto simp: criteria_is_narrower_def Let_def list_all_iff)
  then obtain k' where "(k', v) \<in> set cs" and "normalized_id k' = normalized_id k"
    by (auto dest!: dict_ofD)
  then show "dict_of (map (\<lambda>(k, v). (normalized_id k, normalized_id v)) (rs_tags r)) (normalized_id k)
      = Some (normalized_id v)"
    using tag_matchesD[OF assms(3)] by metis
qed

lemma tag_overlap_sound:
  assumes "tag_matches ls r" and "tag_matches rs r"
  shows "criteria_may_overlap (TagPredicate ls) (TagPredicate rs)"
proof -
  let ?d = "\<lambda>ps. dict_of (map (\<lambda>(k, v). (normalized_id k, normalized_id v)) ps)"
  have known: "?d ps (normalized_id k) = ?d (rs_tags r) (normalized_id k)"
    if "tag_matches ps r" and "?d ps (normalized_id k) \<noteq> None" for ps k
  proof -
    from that(2) obtain w where w: "?d ps (normalized_id k) = Some w" by auto
    then obtain k' v where "(k', v) \<in> set ps" "normalized_id k' = normalized_id k" "w = normalized_id v"
      by (auto dest!: dict_ofD)
    with tag_matchesD[OF that(1)] w show ?thesis by metis
  qed
  have "?d ls (normalized_id k) \<noteq> None" if "(k, v) \<in> set ls" for k v
    using that by (auto simp: dict_of_None image_iff intro: bexI[of _ "(k, v)"])
  then show ?thesis
    using known[OF assms(1)] known[OF assms(2)]
    by (auto simp: criteria_may_overlap_def Let_def list_ex_iff) (metis option.distinct(1) option.inject)+
qed

lemma optional_prefix_overlap:
  "optional_prefix l s \<Longrightarrow> optional_prefix r s \<Longrightarrow> affixes_overlap prefix l r"
  by (auto simp: optional_prefix_def affixes_overlap_def split: option.splits dest: prefix_same_cases)

lemma optional_suffix_overlap:
  "optional_suffix l s \<Longrightarrow> optional_suffix r s \<Longrightarrow> affixes_overlap suffix l r"
  by (auto simp: optional_suffix_def affixes_overlap_def split: option.splits dest: suffix_same_cases)

lemma optional_prefix_narrower:
  "(case p of None \<Rightarrow> True | Some q \<Rightarrow> (case c of None \<Rightarrow> False | Some d \<Rightarrow> prefix q d))
   \<Longrightarrow> optional_prefix c s \<Longrightarrow> optional_prefix p s"
  by (auto simp: optional_prefix_def split: option.splits dest: normalized_prefix prefix_order.trans)

lemma optional_suffix_narrower:
  "(case p of None \<Rightarrow> True | Some q \<Rightarrow> (case c of None \<Rightarrow> False | Some d \<Rightarrow> suffix q d))
   \<Longrightarrow> optional_suffix c s \<Longrightarrow> optional_suffix p s"
  by (auto simp: optional_suffix_def split: option.splits dest: normalized_suffix suffix_order.trans)

lemma type_narrower_sound:
  assumes "criteria_is_narrower (ResourceType pt pl pg) (ResourceType ct cl cg)" and "type_matches ct cl cg r"
  shows "type_matches pt pl pg r"
  using assms filter_is_narrowerD[of pl cl] filter_is_narrowerD[of pg cg]
  by (auto simp: criteria_is_narrower_def type_matches_def Let_def split: option.splits)

lemma type_overlap_sound:
  assumes "type_matches lt ll lg r" and "type_matches rt rl rg r"
  shows "criteria_may_overlap (ResourceType lt ll lg) (ResourceType rt rl rg)"
  using assms filters_overlapI[of ll "normalized_id (rs_location r)" rl] filters_overlapI[of lg _ rg]
  by (auto simp: criteria_may_overlap_def type_matches_def Let_def filters_overlap_def split: option.splits)

lemma normalize_of_normalized:
  "normalized_id a = normalized_id b \<Longrightarrow> normalize_resource_id a = normalize_resource_id b"
  by (metis normalize_resource_id_casefold normalized_id_def)

lemma normalize_resource_id_inject:
  "normalize_resource_id a = Inr n \<Longrightarrow> normalize_resource_id b = Inr n \<Longrightarrow> normalized_id a = normalized_id b"
  by (auto simp: normalized_id_def dest!: normalize_resource_id_eq)

lemma scale_set_narrower_sound:
  assumes "criteria_is_narrower (VmScaleSet p pi) (VmScaleSet c ci)" and "criteria_selects (VmScaleSet c ci) x"
  shows "criteria_selects (VmScaleSet p pi) x"
  using assms filter_is_narrowerD[of pi ci] normalize_of_normalized[of p c]
  by (cases x) (auto simp: criteria_is_narrower_def scale_set_matches_def split: sum.splits option.splits)

lemma scale_set_overlap_sound:
  assumes "criteria_selects (VmScaleSet l li) x" and "criteria_selects (VmScaleSet r ri) x"
  shows "criteria_may_overlap (VmScaleSet l li) (VmScaleSet r ri)"
  using assms normalize_resource_id_inject[of l _ r] filters_overlapI[of li _ ri]
  by (cases x) (auto simp: criteria_may_overlap_def scale_set_matches_def split: sum.splits option.splits)

lemma criteria_narrower_sound:
  assumes "criteria_is_narrower p c" and "criteria_ok p" and "criteria_selects c x"
  shows "criteria_selects p x"
proof (cases p)
  case (TagPredicate ps)
  with assms obtain cs where "c = TagPredicate cs"
    by (auto simp: criteria_is_narrower_def split: criteria.splits)
  with TagPredicate assms tag_narrower_sound show ?thesis by (cases x) auto
next
  case (NamePredicate q s)
  with assms show ?thesis
    using optional_prefix_narrower optional_suffix_narrower
    by (cases x; cases c) (auto simp: criteria_is_narrower_def)
next
  case (ResourceType t ls gs)
  with assms show ?thesis
    using type_narrower_sound
    by (cases x; cases c) (auto simp: criteria_is_narrower_def)
next
  case (VmScaleSet s insts)
  with assms show ?thesis
    by (cases c) (auto simp only: criteria_is_narrower_def criteria.simps intro: scale_set_narrower_sound)
qed (use assms in \<open>cases x; cases c; auto simp: criteria_is_narrower_def provenance_matches_def\<close>)+

lemma ids_match_name:
  "i \<in> set (map normalized_id ids) \<Longrightarrow> optional_prefix p (normalized_id (resource_name i))
   \<Longrightarrow> optional_suffix s (normalized_id (resource_name i)) \<Longrightarrow> resource_ids_may_match_name ids p s"
  by (auto simp: resource_ids_may_match_name_def list_ex_iff resource_name_normalized)

lemma criteria_overlap_sound:
  assumes "criteria_selects a x" and "criteria_selects b x"
  shows "criteria_may_overlap a b"
proof (cases "criteria_type a = criteria_type b")
  case True
  then show ?thesis
  proof (cases a)
    case (TagPredicate ps)
    with True assms tag_overlap_sound show ?thesis by (cases x; cases b) auto
  next
    case (NamePredicate p s)
    with True assms show ?thesis
      by (cases x; cases b) (auto simp: criteria_may_overlap_def
          intro: optional_prefix_overlap optional_suffix_overlap)
  next
    case (ResourceType t ls gs)
    with True assms type_overlap_sound show ?thesis by (cases x; cases b) auto
  next
    case (VmScaleSet s insts)
    with True assms scale_set_overlap_sound show ?thesis by (cases b) auto
  qed (use True assms in \<open>cases x; cases b; auto simp: criteria_may_overlap_def provenance_matches_def\<close>)+
next
  case False
  with assms show ?thesis
    by (cases x; cases a; cases b) (auto simp: criteria_may_overlap_def intro!: ids_match_name[of "fst x"])
qed

interpretation criteria: selection criteria_ok criteria_selects criteria_is_narrower criteria_may_overlap
  by unfold_locales (auto intro: criteria_narrower_sound criteria_overlap_sound)

section \<open>Selectors\<close>

lemma atomic_narrower_sound:
  "atomic_is_narrower p c \<Longrightarrow> criteria_ok (atomic_criteria p) \<Longrightarrow> atomic_selects c x \<Longrightarrow> atomic_selects p x"
  unfolding atomic_is_narrower_def atomic_selects_def by (blast intro: criteria_narrower_sound)

lemma children_narrower_sound:
  assumes "children_are_narrower ps cs" and "distinct (map (normalized_id \<circ> atomic_id) cs)"
    and "list_all (criteria_ok \<circ> atomic_criteria) ps" and "c \<in> set cs" and "atomic_selects c x"
  shows "\<exists>p \<in> set ps. atomic_selects p x"
proof -
  let ?key = "\<lambda>c. (normalized_id (atomic_id c), c)" and ?i = "normalized_id (atomic_id c)"
  have "dict_of (map ?key cs) ?i = Some c"
    using assms(2,4) by (intro dict_of_distinct) (auto simp: comp_def)
  moreover have "?i \<in> set (map (fst \<circ> ?key) ps)"
    using assms(1,4) unfolding children_are_narrower_def Let_def by fastforce
  then have "case (dict_of (map ?key ps) ?i, dict_of (map ?key cs) ?i) of
      (Some p, Some c) \<Rightarrow> atomic_is_narrower p c | _ \<Rightarrow> False"
    using assms(1) unfolding children_are_narrower_def Let_def list_all_iff by blast
  ultimately obtain p where "dict_of (map ?key ps) ?i = Some p" and "atomic_is_narrower p c"
    by (auto split: option.splits)
  moreover from this(1) have "p \<in> set ps" by (auto dest: dict_ofD)
  ultimately have "atomic_selects p x"
    using assms(3,5) by (intro atomic_narrower_sound[of p c]) (simp_all add: list_all_iff)
  with \<open>p \<in> set ps\<close> show ?thesis ..
qed

lemma selector_narrower_sound:
  assumes "selector_override_is_narrower p c" and "selector_ok p" and "selector_ok c"
    and "selector_selects c x"
  shows "selector_selects p x"
proof (cases c)
  case (CompositeAny i m cs)
  with assms(1) obtain j n ps where p: "p = CompositeAny j n ps" and "children_are_narrower ps cs"
    by (auto simp: selector_override_is_narrower_def split: selector.splits)
  with CompositeAny assms show ?thesis
    by (auto simp: selector_ok_def dest!: children_narrower_sound)
next
  case (CompositeAll i m cs)
  with assms show ?thesis
    by (cases p) (auto simp: selector_override_is_narrower_def selector_ok_def list_all_iff list_ex_iff,
        (blast intro: atomic_narrower_sound)+)
next
  case (Single a)
  with assms show ?thesis
    by (cases p) (auto simp: selector_override_is_narrower_def selector_ok_def atomic_selects_def
        intro: criteria_narrower_sound)
qed

lemma overlap_simps:
  "selectors_may_overlap (CompositeAny i m cs) right = list_ex (\<lambda>c. selectors_may_overlap (Single c) right) cs"
  "selectors_may_overlap (Single l) (CompositeAny i m cs) = list_ex (\<lambda>c. selectors_may_overlap (Single l) (Single c)) cs"
  "selectors_may_overlap (CompositeAll j n ls) (CompositeAny i m cs)
     = list_ex (\<lambda>c. selectors_may_overlap (CompositeAll j n ls) (Single c)) cs"
  "selectors_may_overlap (CompositeAll i m cs) (Single a) = list_all (\<lambda>c. selectors_may_overlap (Single c) (Single a)) cs"
  "selectors_may_overlap (CompositeAll i m cs) (CompositeAll j n rs)
     = list_all (\<lambda>c. selectors_may_overlap (Single c) (CompositeAll j n rs)) cs"
  "selectors_may_overlap (Single l) (CompositeAll i m cs) = list_all (\<lambda>c. selectors_may_overlap (Single l) (Single c)) cs"
  "selectors_may_overlap (Single l) (Single r) = criteria_may_overlap (atomic_criteria l) (atomic_criteria r)"
  by (subst selectors_may_overlap.simps, simp)+

lemma selector_overlap_sound:
  assumes "selector_selects a x" and "selector_selects b x"
  shows "selectors_may_overlap a b"
proof -
  have single: "selectors_may_overlap (Single l) (Single r)" if "atomic_selects l x" "atomic_selects r x" for l r
    using that by (auto simp: overlap_simps atomic_selects_def intro: criteria_overlap_sound)
  show ?thesis
    using assms by (cases a; cases b) (auto 4 4 simp: overlap_simps(1-6) list_ex_iff list_all_iff intro: single)
qed

interpretation selectors: selection selector_ok selector_selects selector_override_is_narrower selectors_may_overlap
  by unfold_locales (auto intro: selector_narrower_sound selector_overlap_sound)

section \<open>Inventories\<close>

definition inventory_entry :: "resource \<Rightarrow> string \<times> resource" where
  "inventory_entry r = (casefold (rs_resource_id r), r)"

definition inventory_ok :: "resource list \<Rightarrow> bool" where
  "inventory_ok rs \<longleftrightarrow> (\<forall>r \<in> set rs. \<not> isl (normalize_resource_id (rs_resource_id r)))
     \<and> distinct (map (casefold \<circ> rs_resource_id) rs)"

lemma index_resources_cases:
  "index_resources acc rs = (if (\<forall>r \<in> set rs. \<not> isl (normalize_resource_id (rs_resource_id r)))
       \<and> distinct (map (casefold \<circ> rs_resource_id) rs)
       \<and> set (map (casefold \<circ> rs_resource_id) rs) \<inter> set (map fst acc) = {}
     then Inr (acc @ map inventory_entry rs) else Inl AthenaValidationError)"
proof (induction acc rs rule: index_resources.induct)
  case (2 acc r rs)
  show ?case
  proof (cases "normalize_resource_id (rs_resource_id r)")
    case (Inr n)
    then have n: "n = casefold (rs_resource_id r)" by (rule normalize_resource_id_eq)
    show ?thesis
      using 2[of n] Inr by (auto simp: n inventory_entry_def image_iff comp_def)
  qed (auto dest: normalize_resource_id_error)
qed simp

lemma index_resources_eq:
  "index_resources [] rs =
     (if inventory_ok rs then Inr (map inventory_entry rs) else Inl AthenaValidationError)"
  by (simp add: index_resources_cases inventory_ok_def)

lemma inventory_okD: "inventory_ok rs \<Longrightarrow> distinct (map fst (map inventory_entry rs))"
  by (simp add: inventory_ok_def inventory_entry_def comp_def)

lemma inventory_ok_perm: "mset rs = mset rs' \<Longrightarrow> inventory_ok rs = inventory_ok rs'"
  unfolding inventory_ok_def by (metis mset_eq_imp_distinct_iff mset_map set_mset_mset)

text \<open>The evaluation reads an inventory as a set.\<close>

lemma evaluate_selection_set:
  assumes "set xs = set ys"
  shows "evaluate_selection xs s = evaluate_selection ys s"
proof -
  have filtered: "set (map fst (filter P xs)) = set (map fst (filter P ys))" for P
    using assms by simp
  have "list_ex P xs = list_ex P ys" for P using assms by (simp add: list_ex_iff)
  then have "atomic_matches c xs = atomic_matches c ys" for c
    using filtered assms by (simp add: atomic_matches_def split: criteria.split sum.split)
  then have "evaluate_atomic xs = evaluate_atomic ys"
    by (simp add: evaluate_atomic_def fun_eq_iff)
  then show ?thesis by (cases s) (simp_all add: evaluate_selection_def)
qed

section \<open>The result of an evaluation\<close>

lemma evaluate_selectorE:
  assumes "evaluate_selector digest s resources = Inr e"
  obtains matched vs where "inventory_ok resources"
    and "evaluate_selection (map inventory_entry resources) s = Inr (matched, vs)"
    and "matched = selected_ids (map inventory_entry resources) s"
    and "se_matched e = sorted_list_of_set matched"
    and "se_rejected e = sorted_list_of_set (casefold ` rs_resource_id ` set resources - matched)"
    and "se_violations e = sort_key casefold (remdups vs)"
    and "se_status e = (if se_violations e \<noteq> [] then OverMaxMatches
           else if se_matched e \<noteq> [] then Matched else NoMatches)"
proof -
  have ids: "set (map fst (map inventory_entry resources)) = casefold ` rs_resource_id ` set resources"
    by (force simp: inventory_entry_def)
  from assms obtain matched vs where ok: "inventory_ok resources"
    and ev: "evaluate_selection (map inventory_entry resources) s = Inr (matched, vs)"
    and e: "e = \<lparr>se_selector = s,
           se_status = (if sort_key casefold (remdups vs) \<noteq> [] then OverMaxMatches
              else if sorted_list_of_set matched \<noteq> [] then Matched else NoMatches),
           se_matched = sorted_list_of_set matched,
           se_rejected = sorted_list_of_set (set (map fst (map inventory_entry resources)) - matched),
           se_max = max_matches s, se_violations = sort_key casefold (remdups vs),
           se_digest = digest s (sorted_list_of_set matched) (sort_key casefold (remdups vs))\<rparr>"
    by (auto simp: evaluate_selector_def index_resources_eq bindR_eq_Inr Let_def simp del: map_map
        split: if_splits)
  from evaluate_selection_selects[OF ev inventory_okD[OF ok]]
  show ?thesis using that[OF ok ev] e ids by simp
qed

lemma selected_ids_finite [simp]: "finite (selected_ids by_id s)"
  by (simp add: selected_ids_def)

lemma selected_ids_subset: "selected_ids (map inventory_entry rs) s \<subseteq> casefold ` rs_resource_id ` set rs"
  by (auto simp: selected_ids_def inventory_entry_def)

lemma matched_ids:
  "evaluate_selector digest s rs = Inr e
   \<Longrightarrow> set (se_matched e) = selected_ids (map inventory_entry rs) s"
  by (erule evaluate_selectorE) simp

lemma within_bound:
  assumes "evaluate_selection by_id s = Inr (M, [])"
  shows "card M \<le> max_matches s"
  using assms
  by (cases s) (auto simp: evaluate_selection_def evaluate_atomic_def bindR_eq_Inr Let_def split: if_splits)

section \<open>Validated selectors\<close>

lemma claim_ids_Inr:
  "claim_ids seen is = Inr seen' \<Longrightarrow>
     distinct (map normalized_id is) \<and> set (map normalized_id is) \<inter> set seen = {}
     \<and> set seen' = set seen \<union> set (map normalized_id is)"
  by (induction seen "is" rule: claim_ids.induct) (auto split: if_splits)

definition roles_disjoint :: "(string \<times> selector) set \<Rightarrow> bool" where
  "roles_disjoint S \<longleftrightarrow> (\<forall>x \<in> S. \<forall>y \<in> S. normalized_id (fst x) \<noteq> normalized_id (fst y)
     \<longrightarrow> (\<forall>e. \<not> (selector_selects (snd x) e \<and> selector_selects (snd y) e)))"

lemma roles_disjoint_insert:
  assumes "roles_disjoint S"
    and "\<forall>x \<in> S. normalized_id (fst x) \<noteq> normalized_id (fst y) \<longrightarrow> \<not> selectors_may_overlap (snd x) (snd y)"
  shows "roles_disjoint (insert y S)"
  using assms selectors.overlap_sound by (simp add: roles_disjoint_def) metis

lemma resolve_selectors_disjoint:
  "resolve_selectors digest ids fps placed rest = Inr u \<Longrightarrow> roles_disjoint (set placed)
   \<Longrightarrow> roles_disjoint (set placed \<union> set rest)"
proof (induction digest ids fps placed rest rule: resolve_selectors.induct)
  case (2 digest ids fps placed role s rest)
  from "2.prems"(1) obtain ids' where
    rest: "resolve_selectors digest ids' (selector_fingerprint digest s # fps) (placed @ [(role, s)]) rest = Inr u"
    and new: "\<forall>x \<in> set placed. normalized_id (fst x) \<noteq> normalized_id role \<longrightarrow> \<not> selectors_may_overlap (snd x) s"
    and ids: "claim_ids ids (selector_tree s) = Inr ids'"
    and fp: "selector_fingerprint digest s \<notin> set fps"
    by (auto simp: bindR_eq_Inr list_ex_iff case_prod_beta split: if_splits)
  have "roles_disjoint (insert (role, s) (set placed))"
    using "2.prems"(2) new by (intro roles_disjoint_insert) auto
  with "2.IH"[of ids'] rest new fp show ?case by (auto simp: list_ex_iff case_prod_beta)
qed simp

lemma validated_roles_disjoint:
  assumes "validate_resolved_selectors digest roles = Inr u"
    and "(r1, ss1) \<in> set roles" and "(r2, ss2) \<in> set roles" and "normalized_id r1 \<noteq> normalized_id r2"
    and "s1 \<in> set ss1" and "s2 \<in> set ss2"
  shows "\<not> (selector_selects s1 e \<and> selector_selects s2 e)"
proof -
  let ?all = "concat (map (\<lambda>(role, ss). map (Pair role) ss) roles)"
  have "(r1, s1) \<in> set ?all" and "(r2, s2) \<in> set ?all"
    using assms by (auto intro!: bexI)
  moreover have "roles_disjoint (set ?all)"
    using resolve_selectors_disjoint[OF assms(1)[unfolded validate_resolved_selectors_def]]
    by (simp add: roles_disjoint_def)
  ultimately show ?thesis
    using assms(4) unfolding roles_disjoint_def by (metis fst_conv snd_conv)
qed

lemma validate_resolved_selectors_error:
  "validate_resolved_selectors digest roles = Inl e \<Longrightarrow> e = AthenaValidationError"
proof -
  have claim: "claim_ids seen is = Inl e \<Longrightarrow> e = AthenaValidationError" for seen "is" e
    by (induction seen "is" rule: claim_ids.induct) (auto split: if_splits)
  have "resolve_selectors digest ids fps placed rest = Inl e \<Longrightarrow> e = AthenaValidationError"
    for ids fps placed rest
    by (induction digest ids fps placed rest rule: resolve_selectors.induct)
      (auto simp: bindR_eq_Inl dest: claim split: if_splits)
  then show "validate_resolved_selectors digest roles = Inl e \<Longrightarrow> e = AthenaValidationError"
    by (simp add: validate_resolved_selectors_def)
qed

end
