(* ===== verification/ProfileChecks.thy ===== *)
theory ProfileChecks
  imports PolicyEval SelectorFacts
begin

text \<open>
  Validation of a resolved profile (\<open>contracts/manifest.py\<close>,
  \<open>validate_resolved_manifest_profile\<close> and what it calls): digests, compatibility, unique
  identifiers, the reference graph, requirements that contradict each other, and the five protected
  constraints. The digest functions are the record \<open>digests\<close>, a parameter.
\<close>

record digests =
  artifact_of :: "resolved_profile \<Rightarrow> string"
  semantic_of :: "resolved_profile \<Rightarrow> string"
  selector_of :: "payload \<Rightarrow> string"

text \<open>
  The preimage of a digest: the digest fields are removed, and for the semantic digest the schema
  version (here: reset).
\<close>

definition digest_payload :: "bool \<Rightarrow> resolved_profile \<Rightarrow> resolved_profile" where
  "digest_payload semantic p = p\<lparr>rp_digest := [], rp_compatibility :=
     (rp_compatibility p)\<lparr>cm_artifact_digest := [], cm_semantic_digest := [],
        cm_schema_version := (if semantic then Version 0 0 0 else cm_schema_version (rp_compatibility p))\<rparr>\<rparr>"

definition recompute_artifact_digest :: "digests \<Rightarrow> resolved_profile \<Rightarrow> string" where
  "recompute_artifact_digest dg p = artifact_of dg (digest_payload False p)"

definition recompute_semantic_digest :: "digests \<Rightarrow> resolved_profile \<Rightarrow> string" where
  "recompute_semantic_digest dg p = semantic_of dg (digest_payload True p)"

section \<open>Compatibility\<close>

definition require_supported_compatibility :: "compatibility \<Rightarrow> bool \<Rightarrow> athena_error + unit" where
  "require_supported_compatibility cm resolved =
     bindR (guardR (cm_resolved_profile cm = resolved) AthenaValidationError) (\<lambda>_.
     guardR (major (cm_schema_version cm) = 1
         \<and> cm_semantic_contract cm = Version 1 0 0 \<and> cm_policy_contract cm = Version 1 0 0
         \<and> cm_minimum_reader cm \<le> Version 1 0 0 \<and> cm_capabilities cm = []) AthenaValidationError)"

section \<open>Contradictory requirements\<close>

definition endpoint_key :: "endpoint \<Rightarrow> string" where
  "endpoint_key e = (case e of RoleEndpoint r \<Rightarrow> ''role:'' @ normalized_id r
     | ExternalEndpoint x \<Rightarrow> ''external:'' @ normalized_id x)"

type_synonym interval = "pyfloat option \<times> bool \<times> pyfloat option \<times> bool"

definition tighten_lower :: "comparison \<Rightarrow> pyfloat \<Rightarrow> pyfloat option \<times> bool \<Rightarrow> pyfloat option \<times> bool" where
  "tighten_lower cmp threshold = (\<lambda>(lower, inclusive).
     if cmp \<in> {Gt, Gte, Eq} \<and> (case lower of None \<Rightarrow> True | Some l \<Rightarrow> pf_less l threshold)
     then (Some threshold, cmp \<in> {Gte, Eq})
     else if cmp \<in> {Gt, Gte, Eq} \<and> (case lower of None \<Rightarrow> False | Some l \<Rightarrow> pf_eq threshold l)
     then (lower, inclusive \<and> cmp \<in> {Gte, Eq})
     else (lower, inclusive))"

definition tighten_upper :: "comparison \<Rightarrow> pyfloat \<Rightarrow> pyfloat option \<times> bool \<Rightarrow> pyfloat option \<times> bool" where
  "tighten_upper cmp threshold = (\<lambda>(upper, inclusive).
     if cmp \<in> {Lt, Lte, Eq} \<and> (case upper of None \<Rightarrow> True | Some u \<Rightarrow> pf_less threshold u)
     then (Some threshold, cmp \<in> {Lte, Eq})
     else if cmp \<in> {Lt, Lte, Eq} \<and> (case upper of None \<Rightarrow> False | Some u \<Rightarrow> pf_eq threshold u)
     then (upper, inclusive \<and> cmp \<in> {Lte, Eq})
     else (upper, inclusive))"

definition empty_interval :: "interval \<Rightarrow> bool" where
  "empty_interval = (\<lambda>(lower, lower_inclusive, upper, upper_inclusive). case (lower, upper) of
       (Some l, Some u) \<Rightarrow> pf_less u l \<or> (pf_eq l u \<and> \<not> (lower_inclusive \<and> upper_inclusive))
     | _ \<Rightarrow> False)"

text \<open>
  The dictionaries of the loop. The dict from relationships to their set of constraint types is
  kept as the list of its (relationship, type) pairs.
\<close>

record requirements =
  rq_cardinality :: "string \<Rightarrow> (nat \<times> nat) option"
  rq_relationships :: "(string \<times> constraint_type) list"
  rq_objectives :: "string \<Rightarrow> interval option"

definition initial_requirements :: "resolved_profile \<Rightarrow> requirements" where
  "initial_requirements p =
     \<lparr>rq_cardinality = dict_of (map (\<lambda>r. (normalized_id (ro_role_id r), cardinality_bounds (ro_cardinality r))) (rp_roles p)),
      rq_relationships = [], rq_objectives = (\<lambda>_. None)\<rparr>"

definition declared_dict :: "resolved_profile \<Rightarrow> string \<Rightarrow> declared_relationship option" where
  "declared_dict p =
     dict_of (map (\<lambda>d. (normalized_id (dl_relationship_id d), d)) (declared_of (rp_relationships p)))"

definition requirement_step ::
    "resolved_profile \<Rightarrow> requirements \<Rightarrow> policy_constraint \<Rightarrow> athena_error + requirements" where
  "requirement_step p rq c = (case pc_proof c of
       CardinalityProof role expected \<Rightarrow>
         bindR (requireR (rq_cardinality rq (normalized_id role)) PyKeyError) (\<lambda>(lo, hi).
         let (rlo, rhi) = cardinality_bounds expected; lo' = max lo rlo; hi' = min hi rhi
         in if hi' < lo' then Inl AthenaValidationError
            else Inr (rq\<lparr>rq_cardinality := (rq_cardinality rq)(normalized_id role \<mapsto> (lo', hi'))\<rparr>))
     | RelationshipPresenceProof ref \<Rightarrow>
         bindR (requireR (declared_dict p (normalized_id ref)) PyKeyError) (\<lambda>d.
         if (pc_type c = CtDependencyRequired \<and> dl_prohibited d)
            \<or> (pc_type c = CtDependencyProhibited \<and> \<not> dl_prohibited d)
         then Inl AthenaValidationError
         else Inr (rq\<lparr>rq_relationships := rq_relationships rq @ [(normalized_id ref, pc_type c)]\<rparr>))
     | ObjectiveThresholdProof ref cmp threshold \<Rightarrow>
         let (lower, li, upper, ui) = (case rq_objectives rq (normalized_id ref) of
                None \<Rightarrow> (None, True, None, True) | Some b \<Rightarrow> b);
             (lower', li') = tighten_lower cmp threshold (lower, li);
             (upper', ui') = tighten_upper cmp threshold (upper, ui);
             bounds = (lower', li', upper', ui')
         in if empty_interval bounds then Inl AthenaValidationError
            else Inr (rq\<lparr>rq_objectives := (rq_objectives rq)(normalized_id ref \<mapsto> bounds)\<rparr>)
     | _ \<Rightarrow> Inr rq)"

definition edges :: "bool \<Rightarrow> resolved_profile \<Rightarrow> (string \<times> string) set" where
  "edges prohibited p =
     set (map (\<lambda>d. (endpoint_key (dl_source d), endpoint_key (dl_target d)))
       (filter (\<lambda>d. dl_prohibited d = prohibited) (declared_of (rp_relationships p))))"

definition validate_contradictory_requirements :: "resolved_profile \<Rightarrow> athena_error + unit" where
  "validate_contradictory_requirements p =
     bindR (foldR (requirement_step p) (initial_requirements p) (rp_constraints p)) (\<lambda>rq.
     bindR (guardR (\<not> list_ex (\<lambda>(r, t). t = CtDependencyRequired
           \<and> (r, CtDependencyProhibited) \<in> set (rq_relationships rq)) (rq_relationships rq))
         AthenaValidationError) (\<lambda>_.
     guardR (edges False p \<inter> edges True p = {}) AthenaValidationError))"

section \<open>The reference graph\<close>

definition clause_path :: "string \<Rightarrow> string" where
  "clause_path i = ''/constraints/'' @ i"

definition refers :: "string \<Rightarrow> string list \<Rightarrow> bool" where
  "refers ref ids \<longleftrightarrow> normalized_id ref \<in> set (map normalized_id ids)"

definition ensure :: "bool \<Rightarrow> athena_error + unit" where
  "ensure b = guardR b AthenaValidationError"

definition require_owner :: "resolved_profile \<Rightarrow> string \<Rightarrow> athena_error + unit" where
  "require_owner p owner = ensure (refers owner (map ow_owner_ref (rp_owners p)))"

definition role_ids :: "resolved_profile \<Rightarrow> string list" where
  "role_ids p = map ro_role_id (rp_roles p)"

definition declared_ids :: "resolved_profile \<Rightarrow> string list" where
  "declared_ids p = map dl_relationship_id (declared_of (rp_relationships p))"

definition constraint_ids :: "resolved_profile \<Rightarrow> string list" where
  "constraint_ids p = map constraint_id (rp_constraints p)"

definition clause_paths :: "resolved_profile \<Rightarrow> string list" where
  "clause_paths p = map clause_path (constraint_ids p)"

definition check_declared :: "resolved_profile \<Rightarrow> declared_relationship \<Rightarrow> athena_error + unit" where
  "check_declared p d =
     bindR (require_owner p (dl_owner_ref d)) (\<lambda>_.
     bindR (ensure (refers (rp_profile_id p) (dl_profiles d))) (\<lambda>_.
     bindR (allR (\<lambda>e. case e of RoleEndpoint r \<Rightarrow> ensure (refers r (role_ids p)) | ExternalEndpoint _ \<Rightarrow> Inr ())
         [dl_source d, dl_target d]) (\<lambda>_.
     ensure (dl_source_clause d \<in> set (clause_paths p)))))"

text \<open>The clause an exception must be scoped to: its constraint, or the clause of its relationship.\<close>

definition expected_clause :: "resolved_profile \<Rightarrow> exception_relationship \<Rightarrow> athena_error + string" where
  "expected_clause p x = (case ex_clause_ref x of
       Some r \<Rightarrow> Inr (clause_path r)
     | None \<Rightarrow>
         bindR (requireR (find (\<lambda>d. normalized_id (dl_relationship_id d)
               = normalized_id (case ex_relationship_ref x of None \<Rightarrow> [] | Some r \<Rightarrow> r))
             (declared_of (rp_relationships p))) PyStopIteration) (\<lambda>d. Inr (dl_source_clause d)))"

definition find_acceptance :: "resolved_profile \<Rightarrow> string \<Rightarrow> risk_acceptance option" where
  "find_acceptance p ref =
     find (\<lambda>ra. normalized_id (risk_acceptance_id ra) = normalized_id ref) (rp_acceptances p)"

definition check_exception ::
    "resolved_profile \<Rightarrow> int \<Rightarrow> bool \<Rightarrow> exception_relationship \<Rightarrow> athena_error + unit" where
  "check_exception p as_of active x =
     bindR (require_owner p (ex_owner_ref x)) (\<lambda>_.
     bindR (ensure (\<not> (active \<and> ex_expires_at x \<le> as_of))) (\<lambda>_.
     bindR (ensure (case ex_relationship_ref x of None \<Rightarrow> True | Some r \<Rightarrow> refers r (declared_ids p))) (\<lambda>_.
     bindR (ensure (case ex_clause_ref x of None \<Rightarrow> True | Some r \<Rightarrow> refers r (constraint_ids p))) (\<lambda>_.
     bindR (expected_clause p x) (\<lambda>path.
     bindR (ensure (cs_manifest_id (ex_scope x) = rp_manifest_id p
         \<and> normalized_id (cs_profile_id (ex_scope x)) = normalized_id (rp_profile_id p)
         \<and> cs_clause_path (ex_scope x) = path
         \<and> cs_owner_ref (ex_scope x) = ex_owner_ref x)) (\<lambda>_.
     bindR (requireR (find_acceptance p (ex_acceptance_ref x)) AthenaValidationError) (\<lambda>ra.
     ensure (active \<longrightarrow> is_active ra as_of (rp_manifest_id p) (rp_profile_id p)
         (cs_clause_path (ex_scope x)) (ex_owner_ref x)))))))))"

fun check_relationship ::
    "resolved_profile \<Rightarrow> int \<Rightarrow> bool \<Rightarrow> relationship \<Rightarrow> athena_error + unit" where
  "check_relationship p as_of active (Declared d) = check_declared p d"
| "check_relationship p as_of active (Excepted x) = check_exception p as_of active x"

definition protected_refs :: "string list" where
  "protected_refs = [''db-singleton-supported'', ''db-zone-loss-spof'', ''db-zone-loss-acceptance'',
     ''worker-db-zone-colocation'', ''web-zone-distribution'']"

text \<open>The references of a proof, each class with the attributes it has.\<close>

definition proof_refs_resolve :: "resolved_profile \<Rightarrow> proof_requirement \<Rightarrow> bool" where
  "proof_refs_resolve p pr = (case pr of
       CardinalityProof r _ \<Rightarrow> refers r (role_ids p)
     | ZoneColocationProof s a \<Rightarrow> refers s (role_ids p) \<and> refers a (role_ids p)
     | ZoneDistributionProof r _ \<Rightarrow> refers r (role_ids p)
     | RoleOperationalStateProof r _ _ _ \<Rightarrow> refers r (role_ids p)
     | RelationshipPresenceProof r \<Rightarrow> refers r (declared_ids p)
     | EvidenceFreshnessProof _ \<Rightarrow> True
     | ControlHealthProof r _ \<Rightarrow> refers r (map ct_control_id (rp_controls p))
     | ObjectiveThresholdProof r _ _ \<Rightarrow> refers r (map ob_objective_id (rp_objectives p)))"

definition check_constraint_acceptance :: "resolved_profile \<Rightarrow> policy_constraint \<Rightarrow> athena_error + unit" where
  "check_constraint_acceptance p c = (case pc_acceptance_ref c of
       None \<Rightarrow> Inr ()
     | Some ref \<Rightarrow>
         bindR (requireR (find_acceptance p ref) PyStopIteration) (\<lambda>ra.
         let clause = (case pc_acceptance_clause_ref c of Some r \<Rightarrow> if r = [] then constraint_id c else r
                       | None \<Rightarrow> constraint_id c)
         in ensure (cs_manifest_id (ra_scope ra) = rp_manifest_id p
              \<and> normalized_id (cs_profile_id (ra_scope ra)) = normalized_id (rp_profile_id p)
              \<and> cs_clause_path (ra_scope ra) = clause_path clause
              \<and> cs_owner_ref (ra_scope ra) = pc_owner_ref c \<and> ra_owned_by ra = pc_owner_ref c)))"

definition check_constraint :: "resolved_profile \<Rightarrow> policy_constraint \<Rightarrow> athena_error + unit" where
  "check_constraint p c =
     bindR (require_owner p (pc_owner_ref c)) (\<lambda>_.
     bindR (ensure (normalized_id (constraint_id c) \<in> set protected_refs \<longrightarrow> pc_protected c)) (\<lambda>_.
     bindR (ensure (proof_refs_resolve p (pc_proof c))) (\<lambda>_.
     bindR (ensure (case pc_acceptance_ref c of None \<Rightarrow> True
         | Some r \<Rightarrow> refers r (map risk_acceptance_id (rp_acceptances p)))) (\<lambda>_.
     bindR (ensure (case pc_acceptance_clause_ref c of None \<Rightarrow> True
         | Some r \<Rightarrow> refers r (constraint_ids p))) (\<lambda>_.
     bindR (check_constraint_acceptance p c) (\<lambda>_.
     ensure (refers (rp_profile_id p) (pc_profiles c)
       \<and> cs_manifest_id (pc_scope c) = rp_manifest_id p
       \<and> normalized_id (cs_profile_id (pc_scope c)) = normalized_id (rp_profile_id p)
       \<and> cs_clause_path (pc_scope c) = clause_path (constraint_id c)
       \<and> cs_owner_ref (pc_scope c) = pc_owner_ref c)))))))"

definition check_control :: "resolved_profile \<Rightarrow> profile_control \<Rightarrow> athena_error + unit" where
  "check_control p ct =
     bindR (require_owner p (ct_owner_ref ct)) (\<lambda>_.
     ensure (refers (rp_profile_id p) (ct_profiles ct)
       \<and> cs_manifest_id (ct_scope ct) = rp_manifest_id p
       \<and> normalized_id (cs_profile_id (ct_scope ct)) = normalized_id (rp_profile_id p)
       \<and> cs_clause_path (ct_scope ct) \<in> set (clause_paths p)
       \<and> cs_owner_ref (ct_scope ct) = ct_owner_ref ct))"

definition check_risk :: "resolved_profile \<Rightarrow> risk_acceptance \<Rightarrow> athena_error + unit" where
  "check_risk p ra =
     bindR (require_owner p (ra_owned_by ra)) (\<lambda>_.
     bindR (allR (\<lambda>(role, _). ensure (refers role (role_ids p))) (ra_bindings ra)) (\<lambda>_.
     bindR (allR (\<lambda>r. ensure (refers r (map ct_control_id (rp_controls p)))) (ra_control_refs ra)) (\<lambda>_.
     ensure (cs_manifest_id (ra_scope ra) = rp_manifest_id p
       \<and> normalized_id (cs_profile_id (ra_scope ra)) = normalized_id (rp_profile_id p)
       \<and> cs_clause_path (ra_scope ra) \<in> set (clause_paths p)
       \<and> cs_owner_ref (ra_scope ra) = ra_owned_by ra))))"

definition resolve_cross_references ::
    "(payload \<Rightarrow> string) \<Rightarrow> resolved_profile \<Rightarrow> int \<Rightarrow> bool \<Rightarrow> athena_error + unit" where
  "resolve_cross_references digest p as_of active =
     bindR (validate_resolved_selectors digest (map (\<lambda>r. (ro_role_id r, ro_selectors r)) (rp_roles p))) (\<lambda>_.
     bindR (allR (\<lambda>r. require_owner p (ro_owner_ref r)) (rp_roles p)) (\<lambda>_.
     bindR (allR (check_relationship p as_of active) (rp_relationships p)) (\<lambda>_.
     bindR (allR (check_constraint p) (rp_constraints p)) (\<lambda>_.
     bindR (allR (check_control p) (rp_controls p)) (\<lambda>_.
     bindR (allR (check_risk p) (rp_acceptances p)) (\<lambda>_.
     bindR (allR (\<lambda>o'. require_owner p (ob_owner_ref o')) (rp_objectives p)) (\<lambda>_.
     validate_contradictory_requirements p)))))))"

section \<open>The protected constraints\<close>

definition expected_semantics :: "string \<Rightarrow> (constraint_type \<times> finding_kind \<times> verdict) option" where
  "expected_semantics i =
     (if i = ''db-singleton-supported'' then Some (CtSupportedSingleton, TechnologyConstraint, ExpectedConstraint)
      else if i = ''db-zone-loss-spof'' then Some (CtSupportedSingleton, ActualSpof, Observation)
      else if i = ''db-zone-loss-acceptance'' then Some (CtSupportedSingleton, RiskAcceptanceFinding, Observation)
      else if i = ''worker-db-zone-colocation'' then Some (CtZoneColocation, ArchitectureConstraint, Pass)
      else if i = ''web-zone-distribution'' then Some (CtZoneDistribution, ArchitectureConstraint, Pass)
      else None)"

definition protected_proof_ok :: "string \<Rightarrow> proof_requirement \<Rightarrow> bool" where
  "protected_proof_ok i pr =
     (if i \<in> {''db-singleton-supported'', ''db-zone-loss-spof'', ''db-zone-loss-acceptance''} then
        (case pr of CardinalityProof r n \<Rightarrow> normalized_id r = ''database-primary'' \<and> n = ExactlyOne | _ \<Rightarrow> False)
      else if i = ''worker-db-zone-colocation'' then
        (case pr of ZoneColocationProof s a \<Rightarrow> normalized_id s = ''worker'' \<and> normalized_id a = ''database-primary''
         | _ \<Rightarrow> False)
      else (case pr of ZoneDistributionProof r _ \<Rightarrow> normalized_id r = ''web'' | _ \<Rightarrow> False))"

definition check_protected :: "policy_constraint \<Rightarrow> athena_error + unit" where
  "check_protected c =
     (let i = normalized_id (constraint_id c)
      in case expected_semantics i of
           None \<Rightarrow> Inr ()
         | Some (t, k, success) \<Rightarrow>
             ensure (pc_protected c \<and> pc_type c = t \<and> pc_finding_kind c = k
               \<and> failure_verdict c = Violation \<and> success_verdict c = success
               \<and> protected_proof_ok i (pc_proof c)
               \<and> (i = ''db-singleton-supported'' \<longrightarrow>
                    pc_acceptance_ref c = None \<and> pc_acceptance_clause_ref c = None)))"

definition validate_canonical_protected_constraints :: "resolved_profile \<Rightarrow> athena_error + unit" where
  "validate_canonical_protected_constraints p =
     bindR (ensure (set protected_refs \<subseteq> set (map normalized_id (constraint_ids p)))) (\<lambda>_.
     allR check_protected (rp_constraints p))"

section \<open>The whole validation\<close>

fun relationship_key :: "relationship \<Rightarrow> string" where
  "relationship_key (Declared d) = dl_relationship_id d"
| "relationship_key (Excepted x) = ex_exception_id x"

definition validate_resolved_manifest_profile ::
    "digests \<Rightarrow> resolved_profile \<Rightarrow> int \<Rightarrow> bool \<Rightarrow> athena_error + unit" where
  "validate_resolved_manifest_profile dg p as_of active =
     bindR (ensure (rp_digest p = recompute_semantic_digest dg p
         \<and> cm_semantic_digest (rp_compatibility p) = recompute_semantic_digest dg p
         \<and> cm_artifact_digest (rp_compatibility p) = recompute_artifact_digest dg p)) (\<lambda>_.
     bindR (require_supported_compatibility (rp_compatibility p) True) (\<lambda>_.
     bindR (require_unique ro_role_id (rp_roles p)) (\<lambda>_.
     bindR (require_unique relationship_key (rp_relationships p)) (\<lambda>_.
     bindR (require_unique constraint_id (rp_constraints p)) (\<lambda>_.
     bindR (require_unique ct_control_id (rp_controls p)) (\<lambda>_.
     bindR (require_unique risk_acceptance_id (rp_acceptances p)) (\<lambda>_.
     bindR (require_unique ob_objective_id (rp_objectives p)) (\<lambda>_.
     bindR (require_unique ow_owner_ref (rp_owners p)) (\<lambda>_.
     bindR (resolve_cross_references (selector_of dg) p as_of active) (\<lambda>_.
     validate_canonical_protected_constraints p))))))))))"

end
