(* ===== verification/Evaluator.thy ===== *)
theory Evaluator
  imports ProfileChecks
begin

text \<open>
  The policy evaluator (\<open>policy/evaluator.py\<close>): containment of evidence scopes, validation of the
  evaluation context, and the evaluation of every constraint of a profile into findings. The
  verifier of the evidence context is a callback of the caller, a parameter here; the findings
  are a dict in insertion order.
\<close>

section \<open>Evidence scopes\<close>

definition startswith :: "string \<Rightarrow> string \<Rightarrow> bool" where
  "startswith s p = prefix p s"

definition rstrip_slash :: "string \<Rightarrow> string" where
  "rstrip_slash s = rev (dropWhile (\<lambda>c. c = CHR ''/'') (rev s))"

definition subscription_prefix :: "string \<Rightarrow> string" where
  "subscription_prefix sub = ''/subscriptions/'' @ sub @ ''/''"

definition resource_group_prefix :: "string \<Rightarrow> string \<Rightarrow> string" where
  "resource_group_prefix sub rg = ''/subscriptions/'' @ sub @ ''/resourceGroups/'' @ rg @ ''/''"

text \<open>Equality of the canonical JSON of two scopes is equality of the scopes.\<close>

definition scope_contains :: "evidence_scope \<Rightarrow> evidence_scope \<Rightarrow> bool" where
  "scope_contains allowed authorized \<longleftrightarrow> allowed = authorized \<or>
     (case (allowed, authorized) of
        (SubscriptionScope t s, ResourceGroupScope t' s' _) \<Rightarrow> t = t' \<and> s = s'
      | (SubscriptionScope t s, WorkspaceScope t' s' _ _) \<Rightarrow> t = t' \<and> s = s'
      | (SubscriptionScope t s, ResourceIdScope r) \<Rightarrow>
          startswith (casefold r) (casefold (subscription_prefix s))
      | (ResourceGroupScope t s g, ResourceIdScope r) \<Rightarrow>
          startswith (casefold r) (casefold (resource_group_prefix s g))
      | (ResourceIdScope a, ResourceIdScope r) \<Rightarrow>
          let allowed_id = casefold (rstrip_slash a); authorized_id = casefold (rstrip_slash r)
          in authorized_id = allowed_id \<or> startswith authorized_id (allowed_id @ ''/'')
      | _ \<Rightarrow> False)"

section \<open>The evaluation\<close>

definition validate_evaluation_context ::
    "digests \<Rightarrow> resolved_profile \<Rightarrow> 'r evidence \<Rightarrow> int \<Rightarrow> athena_error + unit" where
  "validate_evaluation_context dg p ev as_of =
     bindR (validate_resolved_manifest_profile dg p as_of False) (\<lambda>_.
     bindR (ensure (ev_manifest_id ev = rp_manifest_id p
         \<and> normalized_id (ev_profile_id ev) = normalized_id (rp_profile_id p)
         \<and> ev_profile_digest ev = rp_digest p)) (\<lambda>_.
     bindR (ensure (\<not> list_ex (\<lambda>authorized. \<not> list_ex (\<lambda>allowed. scope_contains allowed authorized)
         (rp_allowed_scopes p)) (ev_scopes ev))) (\<lambda>_.
     ensure (ev_collected_at ev \<le> as_of \<and> as_of < ev_expires_at ev))))"

record 'r finding =
  fi_clause_id :: string
  fi_kind :: finding_kind
  fi_verdict :: verdict
  fi_manifest_id :: string
  fi_manifest_version :: version
  fi_profile_id :: string
  fi_profile_digest :: string
  fi_scope :: clause_scope
  fi_refs :: "'r list"
  fi_acceptance :: "string option"

definition make_finding :: "resolved_profile \<Rightarrow> policy_constraint \<Rightarrow> 'r decision \<Rightarrow> 'r finding" where
  "make_finding p c d =
     \<lparr>fi_clause_id = constraint_id c, fi_kind = pc_finding_kind c, fi_verdict = de_verdict d,
      fi_manifest_id = rp_manifest_id p, fi_manifest_version = rp_manifest_version p,
      fi_profile_id = rp_profile_id p, fi_profile_digest = rp_digest p, fi_scope = pc_scope c,
      fi_refs = de_refs d, fi_acceptance = de_acceptance d\<rparr>"

definition finding_step ::
    "('r \<Rightarrow> string) \<Rightarrow> resolved_profile \<Rightarrow> 'r evidence \<Rightarrow> int \<Rightarrow> (string \<times> 'r finding) list
     \<Rightarrow> policy_constraint \<Rightarrow> athena_error + (string \<times> 'r finding) list" where
  "finding_step cj p ev as_of findings c =
     bindR (evaluate_constraint cj p ev c as_of) (\<lambda>d.
     if de_refs d = [] then Inl AthenaValidationError
     else Inr (AList.update (constraint_id c) (make_finding p c d) findings))"

definition evaluate_verified_profile ::
    "('r \<Rightarrow> string) \<Rightarrow> resolved_profile \<Rightarrow> 'r evidence \<Rightarrow> int \<Rightarrow> athena_error + (string \<times> 'r finding) list" where
  "evaluate_verified_profile cj p ev as_of =
     foldR (finding_step cj p ev as_of) []
       (sort_key (\<lambda>c. normalized_id (constraint_id c)) (rp_constraints p))"

definition evaluate_manifest_profile ::
    "('r \<Rightarrow> string) \<Rightarrow> digests \<Rightarrow> resolved_profile \<Rightarrow> 'r evidence \<Rightarrow> int
     \<Rightarrow> ('r evidence \<Rightarrow> int \<Rightarrow> athena_error + unit) \<Rightarrow> athena_error + (string \<times> 'r finding) list" where
  "evaluate_manifest_profile cj dg p ev as_of verify =
     bindR (validate_evaluation_context dg p ev as_of) (\<lambda>_.
     bindR (verify ev as_of) (\<lambda>_.
     evaluate_verified_profile cj p ev as_of))"

end
