(* ===== verification/ProfileFacts.thy ===== *)
theory ProfileFacts
  imports ProfileChecks
begin

text \<open>
  What the validation of a resolved profile establishes. The loop over contradictory requirements
  is exact: it accepts a list of requirements if and only if some replica counts and some measured
  values satisfy all of them. The reference graph is complete enough that no lookup of the loops
  can fail.
\<close>

section \<open>Loops\<close>

lemma foldR_snoc: "foldR f s (xs @ [x]) = bindR (foldR f s xs) (\<lambda>s'. f s' x)"
  by (induction xs arbitrary: s) (auto simp: bindR_def split: sum.splits)

lemma ensure_eq [result_simps]: "ensure b = Inr u \<longleftrightarrow> b"
  by (simp add: ensure_def guardR_eq_Inr)

lemma ensure_error: "ensure b = Inl e \<Longrightarrow> e = AthenaValidationError"
  by (simp add: ensure_def guardR_eq_Inl)

lemma refers_find:
  "refers ref (map f xs) \<Longrightarrow> \<exists>x. find (\<lambda>x. normalized_id (f x) = normalized_id ref) xs = Some x"
  by (induction xs) (auto simp: refers_def)

lemma refers_dict:
  assumes "refers ref (map f xs)"
  shows "\<exists>x. dict_of (map (\<lambda>x. (normalized_id (f x), g x)) xs) (normalized_id ref) = Some x"
  by (rule dict_of_ex) (use assms in \<open>force simp: refers_def\<close>)

section \<open>Intervals of measured values\<close>

definition in_lower :: "rat \<Rightarrow> pyfloat option \<times> bool \<Rightarrow> bool" where
  "in_lower x = (\<lambda>(lower, inclusive). case lower of None \<Rightarrow> True
     | Some l \<Rightarrow> pf_less l (Finite x) \<or> inclusive \<and> pf_eq l (Finite x))"

definition in_upper :: "rat \<Rightarrow> pyfloat option \<times> bool \<Rightarrow> bool" where
  "in_upper x = (\<lambda>(upper, inclusive). case upper of None \<Rightarrow> True
     | Some u \<Rightarrow> pf_less (Finite x) u \<or> inclusive \<and> pf_eq u (Finite x))"

definition in_interval :: "rat \<Rightarrow> interval \<Rightarrow> bool" where
  "in_interval x = (\<lambda>(lower, li, upper, ui). in_lower x (lower, li) \<and> in_upper x (upper, ui))"

definition finite_bound :: "pyfloat option \<Rightarrow> bool" where
  "finite_bound b \<longleftrightarrow> (case b of None \<Rightarrow> True | Some x \<Rightarrow> is_finite x)"

lemma is_finiteE: "is_finite x \<Longrightarrow> (\<And>q. x = Finite q \<Longrightarrow> P) \<Longrightarrow> P"
  by (cases x) auto

lemma tighten_lower_spec:
  assumes "is_finite th" and "finite_bound lower"
  shows "in_lower x (tighten_lower cmp th (lower, li)) \<longleftrightarrow>
       in_lower x (lower, li) \<and> (cmp \<in> {Gt, Gte, Eq} \<longrightarrow> in_lower x (Some th, cmp \<noteq> Gt))"
    and "finite_bound (fst (tighten_lower cmp th (lower, li)))"
  using assms by (cases cmp; cases lower; auto simp: tighten_lower_def in_lower_def finite_bound_def
      elim!: is_finiteE)+

lemma tighten_upper_spec:
  assumes "is_finite th" and "finite_bound upper"
  shows "in_upper x (tighten_upper cmp th (upper, ui)) \<longleftrightarrow>
       in_upper x (upper, ui) \<and> (cmp \<in> {Lt, Lte, Eq} \<longrightarrow> in_upper x (Some th, cmp \<noteq> Lt))"
    and "finite_bound (fst (tighten_upper cmp th (upper, ui)))"
  using assms by (cases cmp; cases upper; auto simp: tighten_upper_def in_upper_def finite_bound_def
      elim!: is_finiteE)+

lemma comparison_matches_bounds:
  "is_finite th \<Longrightarrow> comparison_matches (Finite x) cmp th \<longleftrightarrow>
     (cmp \<in> {Gt, Gte, Eq} \<longrightarrow> in_lower x (Some th, cmp \<noteq> Gt))
     \<and> (cmp \<in> {Lt, Lte, Eq} \<longrightarrow> in_upper x (Some th, cmp \<noteq> Lt))"
  by (cases cmp) (auto simp: in_lower_def in_upper_def elim!: is_finiteE)

lemma empty_interval_iff:
  assumes "finite_bound lower" and "finite_bound upper"
  shows "empty_interval (lower, li, upper, ui) \<longleftrightarrow> \<not> (\<exists>x. in_interval x (lower, li, upper, ui))"
proof (cases "lower = None \<or> upper = None")
  case True
  then have "\<exists>x. in_interval x (lower, li, upper, ui)"
    using assms lt_ex gt_ex
    by (fastforce simp: in_interval_def in_lower_def in_upper_def finite_bound_def
        split: option.splits elim!: is_finiteE)
  moreover have "\<not> empty_interval (lower, li, upper, ui)"
    using True by (auto simp: empty_interval_def split: option.splits)
  ultimately show ?thesis by blast
next
  case False
  with assms obtain l u where lu: "lower = Some (Finite l)" "upper = Some (Finite u)"
    by (auto simp: finite_bound_def elim!: is_finiteE)
  show ?thesis
  proof (cases "l < u")
    case True
    then obtain x where "l < x" "x < u" using dense by blast
    then have "in_interval x (lower, li, upper, ui)"
      by (simp add: lu in_interval_def in_lower_def in_upper_def)
    with True show ?thesis by (auto simp: lu empty_interval_def)
  next
    case False
    then show ?thesis
      by (auto simp: lu empty_interval_def in_interval_def in_lower_def in_upper_def)
  qed
qed

section \<open>Requirements that can be satisfied\<close>

definition count_ok :: "cardinality \<Rightarrow> nat \<Rightarrow> bool" where
  "count_ok c n \<longleftrightarrow> fst (cardinality_bounds c) \<le> n \<and> n \<le> snd (cardinality_bounds c)"

definition counts_allowed :: "string \<Rightarrow> policy_constraint list \<Rightarrow> nat \<Rightarrow> bool" where
  "counts_allowed k cs n \<longleftrightarrow> (\<forall>c \<in> set cs. \<forall>role expected.
     pc_proof c = CardinalityProof role expected \<and> normalized_id role = k \<longrightarrow> count_ok expected n)"

definition values_allowed :: "string \<Rightarrow> policy_constraint list \<Rightarrow> rat \<Rightarrow> bool" where
  "values_allowed k cs x \<longleftrightarrow> (\<forall>c \<in> set cs. \<forall>ref cmp threshold.
     pc_proof c = ObjectiveThresholdProof ref cmp threshold \<and> normalized_id ref = k
       \<longrightarrow> comparison_matches (Finite x) cmp threshold)"

text \<open>A presence requirement that contradicts the kind of its relationship.\<close>

definition contradicts_kind :: "resolved_profile \<Rightarrow> policy_constraint \<Rightarrow> bool" where
  "contradicts_kind p c \<longleftrightarrow> (\<exists>ref d. pc_proof c = RelationshipPresenceProof ref
     \<and> declared_dict p (normalized_id ref) = Some d
     \<and> (pc_type c = CtDependencyRequired \<and> dl_prohibited d
        \<or> pc_type c = CtDependencyProhibited \<and> \<not> dl_prohibited d))"

definition role_counts :: "resolved_profile \<Rightarrow> string \<Rightarrow> (nat \<times> nat) option" where
  "role_counts p = rq_cardinality (initial_requirements p)"

definition satisfiable :: "resolved_profile \<Rightarrow> policy_constraint list \<Rightarrow> bool" where
  "satisfiable p cs \<longleftrightarrow>
     (\<forall>k lo hi. role_counts p k = Some (lo, hi) \<longrightarrow> (\<exists>n. lo \<le> n \<and> n \<le> hi \<and> counts_allowed k cs n))
     \<and> (\<forall>k. \<exists>x. values_allowed k cs x)
     \<and> (\<forall>c \<in> set cs. \<not> contradicts_kind p c)"

text \<open>Every lookup of the loop finds its key, and every threshold is a number.\<close>

definition lookups_ok :: "resolved_profile \<Rightarrow> policy_constraint \<Rightarrow> bool" where
  "lookups_ok p c \<longleftrightarrow> (case pc_proof c of
       CardinalityProof role _ \<Rightarrow> role_counts p (normalized_id role) \<noteq> None
     | RelationshipPresenceProof ref \<Rightarrow> declared_dict p (normalized_id ref) \<noteq> None
     | ObjectiveThresholdProof _ _ threshold \<Rightarrow> is_finite threshold
     | _ \<Rightarrow> True)"

definition counts_tracked :: "resolved_profile \<Rightarrow> policy_constraint list \<Rightarrow> (string \<Rightarrow> (nat \<times> nat) option) \<Rightarrow> bool" where
  "counts_tracked p cs m \<longleftrightarrow> (\<forall>k. (m k = None \<longleftrightarrow> role_counts p k = None)
     \<and> (\<forall>lo hi lo0 hi0. m k = Some (lo, hi) \<longrightarrow> role_counts p k = Some (lo0, hi0) \<longrightarrow>
          lo \<le> hi \<and> (\<forall>n. lo \<le> n \<and> n \<le> hi \<longleftrightarrow> lo0 \<le> n \<and> n \<le> hi0 \<and> counts_allowed k cs n)))"

definition the_interval :: "interval option \<Rightarrow> interval" where
  "the_interval b = (case b of None \<Rightarrow> (None, True, None, True) | Some i \<Rightarrow> i)"

definition values_tracked :: "policy_constraint list \<Rightarrow> (string \<Rightarrow> interval option) \<Rightarrow> bool" where
  "values_tracked cs m \<longleftrightarrow> (\<forall>k. case the_interval (m k) of (lower, li, upper, ui) \<Rightarrow>
     finite_bound lower \<and> finite_bound upper \<and> \<not> empty_interval (lower, li, upper, ui)
     \<and> (\<forall>x. in_interval x (lower, li, upper, ui) \<longleftrightarrow> values_allowed k cs x))"

definition tracked :: "resolved_profile \<Rightarrow> policy_constraint list \<Rightarrow> requirements \<Rightarrow> bool" where
  "tracked p cs rq \<longleftrightarrow> counts_tracked p cs (rq_cardinality rq) \<and> values_tracked cs (rq_objectives rq)
     \<and> (\<forall>c \<in> set cs. \<not> contradicts_kind p c)
     \<and> (\<forall>r t. (r, t) \<in> set (rq_relationships rq) \<longleftrightarrow>
          (\<exists>c \<in> set cs. \<exists>ref. pc_proof c = RelationshipPresenceProof ref \<and> r = normalized_id ref \<and> t = pc_type c))"

lemma counts_allowed_snoc:
  "counts_allowed k (cs @ [c]) n \<longleftrightarrow> counts_allowed k cs n \<and>
     (case pc_proof c of CardinalityProof role e \<Rightarrow> normalized_id role = k \<longrightarrow> count_ok e n | _ \<Rightarrow> True)"
  by (auto simp: counts_allowed_def split: proof_requirement.splits)

lemma values_allowed_snoc:
  "values_allowed k (cs @ [c]) x \<longleftrightarrow> values_allowed k cs x \<and>
     (case pc_proof c of ObjectiveThresholdProof ref cmp th \<Rightarrow>
        normalized_id ref = k \<longrightarrow> comparison_matches (Finite x) cmp th | _ \<Rightarrow> True)"
  by (auto simp: values_allowed_def split: proof_requirement.splits)

lemma values_tracked_at:
  assumes "values_tracked cs m" and "the_interval (m k) = (lower, li, upper, ui)"
  shows "finite_bound lower \<and> finite_bound upper \<and> \<not> empty_interval (lower, li, upper, ui)
    \<and> (\<forall>x. in_interval x (lower, li, upper, ui) \<longleftrightarrow> values_allowed k cs x)"
  using assms(1)[unfolded values_tracked_def, rule_format, of k] assms(2) by simp

lemma tracked_satisfiable: "tracked p cs rq \<Longrightarrow> satisfiable p cs"
proof -
  assume t: "tracked p cs rq"
  have "\<exists>n. lo0 \<le> n \<and> n \<le> hi0 \<and> counts_allowed k cs n" if "role_counts p k = Some (lo0, hi0)" for k lo0 hi0
  proof -
    from t that obtain lo hi where "rq_cardinality rq k = Some (lo, hi)"
      by (cases "rq_cardinality rq k") (auto simp: tracked_def counts_tracked_def)
    with t that show ?thesis unfolding tracked_def counts_tracked_def by blast
  qed
  moreover have "\<exists>x. values_allowed k cs x" for k
  proof (cases "the_interval (rq_objectives rq k)")
    case (fields lower li upper ui)
    then have "finite_bound lower" "finite_bound upper" "\<not> empty_interval (lower, li, upper, ui)"
      and iff: "\<forall>x. in_interval x (lower, li, upper, ui) \<longleftrightarrow> values_allowed k cs x"
      using t values_tracked_at[of cs "rq_objectives rq" k, OF _ fields] by (auto simp: tracked_def)
    then show ?thesis using empty_interval_iff by blast
  qed
  ultimately show ?thesis using t by (auto simp: satisfiable_def tracked_def)
qed

lemma tracked_initial:
  assumes "\<forall>r \<in> set (rp_roles p). cardinality_ok (ro_cardinality r)"
  shows "tracked p [] (initial_requirements p)"
proof -
  have "lo \<le> hi" if "role_counts p k = Some (lo, hi)" for k lo hi
    using that assms
    by (auto simp: role_counts_def initial_requirements_def cardinality_bounds_def cardinality_ok_def
        dest!: dict_ofD split: cardinality.splits)
  then have "counts_tracked p [] (role_counts p)"
    by (auto simp: counts_tracked_def counts_allowed_def)
  moreover have "values_tracked [] (\<lambda>_. None)"
    by (auto simp: values_tracked_def the_interval_def finite_bound_def empty_interval_def in_interval_def
        in_lower_def in_upper_def values_allowed_def)
  ultimately show ?thesis
    by (simp add: tracked_def role_counts_def) (simp add: initial_requirements_def)
qed

section \<open>One requirement\<close>

lemma counts_tracked_update:
  assumes tr: "counts_tracked p cs m" and m: "m k = Some (lo, hi)" and c: "pc_proof c = CardinalityProof role e"
    and k: "k = normalized_id role" and ne: "max lo (fst (cardinality_bounds e)) \<le> min hi (snd (cardinality_bounds e))"
  shows "counts_tracked p (cs @ [c])
           (m(k \<mapsto> (max lo (fst (cardinality_bounds e)), min hi (snd (cardinality_bounds e)))))"
  unfolding counts_tracked_def
proof (intro allI conjI impI)
  fix k'
  show "((m(k \<mapsto> (max lo (fst (cardinality_bounds e)), min hi (snd (cardinality_bounds e))))) k' = None)
      = (role_counts p k' = None)"
    using tr m unfolding counts_tracked_def by (metis fun_upd_apply option.distinct(1))
next
  fix k' a b lo0 hi0
  assume ab: "(m(k \<mapsto> (max lo (fst (cardinality_bounds e)), min hi (snd (cardinality_bounds e))))) k' = Some (a, b)"
    and r: "role_counts p k' = Some (lo0, hi0)"
  show "a \<le> b" using ab ne tr r unfolding counts_tracked_def by (auto split: if_splits)
  fix n
  have old: "m k' = Some (x, y) \<Longrightarrow> x \<le> n \<and> n \<le> y \<longleftrightarrow> lo0 \<le> n \<and> n \<le> hi0 \<and> counts_allowed k' cs n" for x y
    using tr r unfolding counts_tracked_def by blast
  show "(a \<le> n \<and> n \<le> b) = (lo0 \<le> n \<and> n \<le> hi0 \<and> counts_allowed k' (cs @ [c]) n)"
  proof (cases "k' = k")
    case True
    then have "a \<le> n \<and> n \<le> b \<longleftrightarrow> (lo \<le> n \<and> n \<le> hi) \<and> count_ok e n"
      using ab by (auto simp: count_ok_def)
    with old[of lo hi] True m show ?thesis by (simp add: counts_allowed_snoc c k)
  next
    case False
    then have "m k' = Some (a, b)" using ab by simp
    with old False k show ?thesis by (simp add: counts_allowed_snoc c)
  qed
qed

lemma counts_tracked_unchanged:
  "counts_tracked p cs m \<Longrightarrow> (\<forall>r e. pc_proof c \<noteq> CardinalityProof r e) \<Longrightarrow> counts_tracked p (cs @ [c]) m"
  by (cases "pc_proof c") (simp_all add: counts_tracked_def counts_allowed_snoc)

lemma values_tracked_unchanged:
  "values_tracked cs m \<Longrightarrow> (\<forall>r q th. pc_proof c \<noteq> ObjectiveThresholdProof r q th) \<Longrightarrow> values_tracked (cs @ [c]) m"
  by (cases "pc_proof c") (simp_all add: values_tracked_def values_allowed_snoc)

lemma tightened_interval:
  assumes b: "the_interval (m k) = (lower, li, upper, ui)" and tr: "values_tracked cs m"
    and th: "is_finite th" and c: "pc_proof c = ObjectiveThresholdProof ref cmp th" and k: "k = normalized_id ref"
    and l: "tighten_lower cmp th (lower, li) = (lower', li')" and u: "tighten_upper cmp th (upper, ui) = (upper', ui')"
  shows "finite_bound lower'" and "finite_bound upper'"
    and "in_interval x (lower', li', upper', ui') \<longleftrightarrow> values_allowed k (cs @ [c]) x"
proof -
  have fin: "finite_bound lower" "finite_bound upper"
    and old: "in_interval x (lower, li, upper, ui) \<longleftrightarrow> values_allowed k cs x"
    using values_tracked_at[OF tr b] by blast+
  show "finite_bound lower'" using tighten_lower_spec(2)[OF th fin(1), of cmp li] l by simp
  show "finite_bound upper'" using tighten_upper_spec(2)[OF th fin(2), of cmp ui] u by simp
  have "in_interval x (lower', li', upper', ui') \<longleftrightarrow>
      in_interval x (lower, li, upper, ui) \<and> comparison_matches (Finite x) cmp th"
    using tighten_lower_spec(1)[OF th fin(1), of x cmp li] tighten_upper_spec(1)[OF th fin(2), of x cmp ui]
    unfolding l u in_interval_def comparison_matches_bounds[OF th] prod.case by argo
  then show "in_interval x (lower', li', upper', ui') \<longleftrightarrow> values_allowed k (cs @ [c]) x"
    by (simp add: old values_allowed_snoc c k)
qed

lemma requirement_step_cardinality:
  assumes tr: "tracked p cs rq" and ok: "lookups_ok p c" and c: "pc_proof c = CardinalityProof role e"
  shows "case requirement_step p rq c of Inr rq' \<Rightarrow> tracked p (cs @ [c]) rq'
    | Inl err \<Rightarrow> err = AthenaValidationError \<and> \<not> satisfiable p (cs @ [c])"
proof -
  let ?k = "normalized_id role"
  obtain lo0 hi0 where r: "role_counts p ?k = Some (lo0, hi0)" using ok c by (auto simp: lookups_ok_def)
  with tr obtain lo hi where m: "rq_cardinality rq ?k = Some (lo, hi)"
    by (cases "rq_cardinality rq ?k") (auto simp: tracked_def counts_tracked_def)
  let ?lo = "max lo (fst (cardinality_bounds e))" and ?hi = "min hi (snd (cardinality_bounds e))"
  have step: "requirement_step p rq c = (if ?hi < ?lo then Inl AthenaValidationError
      else Inr (rq\<lparr>rq_cardinality := (rq_cardinality rq)(?k \<mapsto> (?lo, ?hi))\<rparr>))"
    by (simp add: requirement_step_def c m Let_def case_prod_beta)
  show ?thesis
  proof (cases "?hi < ?lo")
    case True
    have "counts_tracked p cs (rq_cardinality rq)" using tr by (simp add: tracked_def)
    then have "lo \<le> n \<and> n \<le> hi" if "lo0 \<le> n" "n \<le> hi0" "counts_allowed ?k cs n" for n
      using that m r unfolding counts_tracked_def by blast
    moreover have "\<not> (lo \<le> n \<and> n \<le> hi \<and> count_ok e n)" for n
      using True by (auto simp: count_ok_def min_def max_def split: if_splits)
    ultimately have "\<not> (lo0 \<le> n \<and> n \<le> hi0 \<and> counts_allowed ?k (cs @ [c]) n)" for n
      by (auto simp: counts_allowed_snoc c)
    with r have "\<not> satisfiable p (cs @ [c])" unfolding satisfiable_def by blast
    with True show ?thesis by (simp add: step)
  next
    case False
    with tr have "counts_tracked p (cs @ [c]) ((rq_cardinality rq)(?k \<mapsto> (?lo, ?hi)))"
      by (intro counts_tracked_update[of p cs "rq_cardinality rq" ?k lo hi c role e] m c refl) (auto simp: tracked_def)
    with False tr c show ?thesis
      by (auto simp: step tracked_def contradicts_kind_def intro: values_tracked_unchanged)
  qed
qed

lemma requirement_step_objective:
  assumes tr: "tracked p cs rq" and ok: "lookups_ok p c" and c: "pc_proof c = ObjectiveThresholdProof ref cmp th"
  shows "case requirement_step p rq c of Inr rq' \<Rightarrow> tracked p (cs @ [c]) rq'
    | Inl err \<Rightarrow> err = AthenaValidationError \<and> \<not> satisfiable p (cs @ [c])"
proof -
  let ?k = "normalized_id ref" and ?m = "rq_objectives rq"
  obtain lower li upper ui where b: "the_interval (?m ?k) = (lower, li, upper, ui)" by (metis prod.exhaust)
  obtain lower' li' where l: "tighten_lower cmp th (lower, li) = (lower', li')" by (metis prod.exhaust)
  obtain upper' ui' where u: "tighten_upper cmp th (upper, ui) = (upper', ui')" by (metis prod.exhaust)
  let ?b = "(lower', li', upper', ui')"
  have th: "is_finite th" and vt: "values_tracked cs ?m"
    using ok c tr by (auto simp: lookups_ok_def tracked_def)
  note new = tightened_interval[OF b vt th c refl l u]
  have step: "requirement_step p rq c = (if empty_interval ?b then Inl AthenaValidationError
      else Inr (rq\<lparr>rq_objectives := ?m(?k \<mapsto> ?b)\<rparr>))"
    using b by (simp add: requirement_step_def c Let_def the_interval_def l u)
  show ?thesis
  proof (cases "empty_interval ?b")
    case True
    then have "\<not> (\<exists>x. values_allowed ?k (cs @ [c]) x)"
      using new empty_interval_iff by blast
    with True show ?thesis by (auto simp: step satisfiable_def)
  next
    case False
    have "values_tracked (cs @ [c]) (?m(?k \<mapsto> ?b))"
      unfolding values_tracked_def
    proof
      fix k
      show "case the_interval ((?m(?k \<mapsto> ?b)) k) of (lower, li, upper, ui) \<Rightarrow>
          finite_bound lower \<and> finite_bound upper \<and> \<not> empty_interval (lower, li, upper, ui)
          \<and> (\<forall>x. in_interval x (lower, li, upper, ui) \<longleftrightarrow> values_allowed k (cs @ [c]) x)"
      proof (cases "k = ?k")
        case True
        then show ?thesis using new False by (simp add: the_interval_def)
      next
        case False
        then have "values_allowed k (cs @ [c]) x = values_allowed k cs x" for x
          by (auto simp: values_allowed_snoc c)
        with False vt show ?thesis by (simp add: values_tracked_def)
      qed
    qed
    with False tr c show ?thesis
      by (auto simp: step tracked_def contradicts_kind_def intro: counts_tracked_unchanged)
  qed
qed

lemma requirement_step_relationship:
  assumes tr: "tracked p cs rq" and ok: "lookups_ok p c" and c: "pc_proof c = RelationshipPresenceProof ref"
  shows "case requirement_step p rq c of Inr rq' \<Rightarrow> tracked p (cs @ [c]) rq'
    | Inl err \<Rightarrow> err = AthenaValidationError \<and> \<not> satisfiable p (cs @ [c])"
proof -
  obtain d where d: "declared_dict p (normalized_id ref) = Some d" using ok c by (auto simp: lookups_ok_def)
  have step: "requirement_step p rq c = (if contradicts_kind p c then Inl AthenaValidationError
      else Inr (rq\<lparr>rq_relationships := rq_relationships rq @ [(normalized_id ref, pc_type c)]\<rparr>))"
    by (auto simp: requirement_step_def c d contradicts_kind_def)
  have "tracked p (cs @ [c]) (rq\<lparr>rq_relationships := rq_relationships rq @ [(normalized_id ref, pc_type c)]\<rparr>)"
    if "\<not> contradicts_kind p c"
    using tr that c
    by (auto simp: tracked_def intro: counts_tracked_unchanged values_tracked_unchanged)
  then show ?thesis by (auto simp: step satisfiable_def)
qed

lemma requirement_step_tracked:
  assumes tr: "tracked p cs rq" and ok: "lookups_ok p c"
  shows "case requirement_step p rq c of Inr rq' \<Rightarrow> tracked p (cs @ [c]) rq'
    | Inl err \<Rightarrow> err = AthenaValidationError \<and> \<not> satisfiable p (cs @ [c])"
proof (cases "pc_proof c")
  case (CardinalityProof role e)
  then show ?thesis by (rule requirement_step_cardinality[OF assms])
next
  case (ObjectiveThresholdProof ref cmp th)
  then show ?thesis by (rule requirement_step_objective[OF assms])
next
  case (RelationshipPresenceProof ref)
  then show ?thesis by (rule requirement_step_relationship[OF assms])
qed (use tr in \<open>auto simp: requirement_step_def tracked_def contradicts_kind_def
      intro: counts_tracked_unchanged values_tracked_unchanged\<close>)

lemma satisfiable_prefix: "satisfiable p (cs @ ds) \<Longrightarrow> satisfiable p cs"
proof -
  assume s: "satisfiable p (cs @ ds)"
  have "counts_allowed k (cs @ ds) n \<Longrightarrow> counts_allowed k cs n" for k n
    by (auto simp: counts_allowed_def)
  moreover have "values_allowed k (cs @ ds) x \<Longrightarrow> values_allowed k cs x" for k x
    by (auto simp: values_allowed_def)
  ultimately show ?thesis using s unfolding satisfiable_def by (metis Un_iff set_append)
qed

lemma requirement_loop:
  assumes "\<forall>r \<in> set (rp_roles p). cardinality_ok (ro_cardinality r)" and "\<forall>c \<in> set cs. lookups_ok p c"
  shows "case foldR (requirement_step p) (initial_requirements p) cs of
      Inr rq \<Rightarrow> tracked p cs rq | Inl err \<Rightarrow> err = AthenaValidationError \<and> \<not> satisfiable p cs"
  using assms(2)
proof (induction cs rule: rev_induct)
  case Nil
  then show ?case by (simp add: tracked_initial[OF assms(1)])
next
  case (snoc c cs)
  then have ok: "lookups_ok p c" by simp
  show ?case
  proof (cases "foldR (requirement_step p) (initial_requirements p) cs")
    case (Inl err)
    with snoc show ?thesis using satisfiable_prefix[of p cs "[c]"] by (auto simp: foldR_snoc)
  next
    case (Inr rq)
    with snoc have "tracked p cs rq" by simp
    from requirement_step_tracked[OF this ok] Inr show ?thesis by (simp add: foldR_snoc)
  qed
qed

section \<open>The contradiction check is exact\<close>

definition requirements_consistent :: "resolved_profile \<Rightarrow> bool" where
  "requirements_consistent p \<longleftrightarrow> satisfiable p (rp_constraints p) \<and> edges False p \<inter> edges True p = {}"

lemma validate_contradictory_requirements_spec:
  assumes "\<forall>r \<in> set (rp_roles p). cardinality_ok (ro_cardinality r)"
    and "\<forall>c \<in> set (rp_constraints p). lookups_ok p c"
  shows "validate_contradictory_requirements p =
     (if requirements_consistent p then Inr () else Inl AthenaValidationError)"
proof (cases "foldR (requirement_step p) (initial_requirements p) (rp_constraints p)")
  case (Inl err)
  then have "err = AthenaValidationError \<and> \<not> satisfiable p (rp_constraints p)"
    using requirement_loop[OF assms] by simp
  with Inl show ?thesis
    by (simp add: validate_contradictory_requirements_def requirements_consistent_def)
next
  case (Inr rq)
  then have tr: "tracked p (rp_constraints p) rq" using requirement_loop[OF assms] by simp
  have "\<not> ((r, CtDependencyRequired) \<in> set (rq_relationships rq)
      \<and> (r, CtDependencyProhibited) \<in> set (rq_relationships rq))" for r
  proof
    assume "(r, CtDependencyRequired) \<in> set (rq_relationships rq)
      \<and> (r, CtDependencyProhibited) \<in> set (rq_relationships rq)"
    then obtain c1 c2 ref1 ref2 where c: "c1 \<in> set (rp_constraints p)" "c2 \<in> set (rp_constraints p)"
      and "pc_proof c1 = RelationshipPresenceProof ref1" "r = normalized_id ref1" "pc_type c1 = CtDependencyRequired"
      and "pc_proof c2 = RelationshipPresenceProof ref2" "r = normalized_id ref2" "pc_type c2 = CtDependencyProhibited"
      using tr unfolding tracked_def by metis
    moreover from this obtain d where "declared_dict p r = Some d"
      using assms(2) by (fastforce simp: lookups_ok_def)
    ultimately have "contradicts_kind p c1 \<or> contradicts_kind p c2"
      by (auto simp: contradicts_kind_def)
    with c tr show False by (auto simp: tracked_def)
  qed
  then have "\<not> list_ex (\<lambda>(r, t). t = CtDependencyRequired
           \<and> (r, CtDependencyProhibited) \<in> set (rq_relationships rq)) (rq_relationships rq)"
    by (auto simp: list_ex_iff)
  with Inr tracked_satisfiable[OF tr] show ?thesis
    by (simp add: validate_contradictory_requirements_def requirements_consistent_def guardR_def)
qed

section \<open>No lookup fails\<close>

definition raises_only :: "'e \<Rightarrow> 'e + 'a \<Rightarrow> bool" where
  "raises_only e m \<longleftrightarrow> (\<forall>x. m = Inl x \<longrightarrow> x = e)"

lemma raises_only_bind:
  "raises_only e m \<Longrightarrow> (\<And>x. m = Inr x \<Longrightarrow> raises_only e (f x)) \<Longrightarrow> raises_only e (bindR m f)"
  by (cases m) (auto simp: raises_only_def)

lemma raises_only_ensure: "raises_only AthenaValidationError (ensure b)"
  by (auto simp: raises_only_def dest: ensure_error)

lemma raises_only_allR: "(\<And>x. x \<in> set xs \<Longrightarrow> raises_only e (f x)) \<Longrightarrow> raises_only e (allR f xs)"
  by (auto simp: raises_only_def dest!: allR_Inl)

lemma raises_only_owner: "raises_only AthenaValidationError (require_owner p x)"
  by (simp add: require_owner_def raises_only_ensure)

lemma raises_only_unique: "raises_only AthenaValidationError (require_unique f xs)"
  by (auto simp: raises_only_def dest: require_unique_error)

lemmas raises_only_intros = raises_only_bind raises_only_ensure raises_only_allR raises_only_owner raises_only_unique

definition exception_ok :: "exception_relationship \<Rightarrow> bool" where
  "exception_ok x \<longleftrightarrow> (ex_relationship_ref x = None) \<noteq> (ex_clause_ref x = None)"

text \<open>What the model classes of a resolved profile validate, and thresholds that are numbers.\<close>

definition resolved_profile_ok :: "resolved_profile \<Rightarrow> bool" where
  "resolved_profile_ok p \<longleftrightarrow>
     (\<forall>r \<in> set (rp_roles p). cardinality_ok (ro_cardinality r) \<and> list_all selector_ok (ro_selectors r))
     \<and> (\<forall>x. Excepted x \<in> set (rp_relationships p) \<longrightarrow> exception_ok x)
     \<and> (\<forall>c \<in> set (rp_constraints p). constraint_ok c)
     \<and> (\<forall>c \<in> set (rp_constraints p). \<forall>ref cmp th.
          pc_proof c = ObjectiveThresholdProof ref cmp th \<longrightarrow> is_finite th)"

lemma check_exception_error:
  assumes "exception_ok x" and "check_exception p as_of active x = Inl e"
  shows "e = AthenaValidationError"
proof -
  have "expected_clause p x \<noteq> Inl e'"
    if "case ex_relationship_ref x of None \<Rightarrow> True | Some r \<Rightarrow> refers r (declared_ids p)" for e'
  proof (cases "ex_clause_ref x")
    case None
    with assms(1) that obtain r where "ex_relationship_ref x = Some r" "refers r (declared_ids p)"
      by (auto simp: exception_ok_def)
    with None refers_find[of r dl_relationship_id] show ?thesis
      by (fastforce simp: expected_clause_def declared_ids_def)
  qed (simp add: expected_clause_def)
  with assms(2) show ?thesis
    unfolding check_exception_def bindR_eq_Inl require_owner_def
    by (auto simp: ensure_eq requireR_def split: option.splits dest: ensure_error)
qed

lemma check_relationship_error:
  assumes "\<forall>x. r = Excepted x \<longrightarrow> exception_ok x" and "check_relationship p as_of active r = Inl e"
  shows "e = AthenaValidationError"
proof (cases r)
  case (Declared d)
  with assms show ?thesis
    by (auto simp: check_declared_def bindR_eq_Inl require_owner_def dest!: ensure_error allR_Inl
        split: endpoint.splits)
next
  case (Excepted x)
  with assms show ?thesis by (auto intro: check_exception_error)
qed

lemma check_constraint_error:
  assumes "check_constraint p c = Inl e"
  shows "e = AthenaValidationError"
proof -
  have "check_constraint_acceptance p c = Inl e' \<Longrightarrow> e' = AthenaValidationError"
    if "case pc_acceptance_ref c of None \<Rightarrow> True
      | Some r \<Rightarrow> refers r (map risk_acceptance_id (rp_acceptances p))" for e'
    using that refers_find[of _ risk_acceptance_id "rp_acceptances p"]
    by (fastforce simp: check_constraint_acceptance_def find_acceptance_def bindR_eq_Inl Let_def requireR_def
        split: option.splits dest: ensure_error)
  with assms show ?thesis
    unfolding check_constraint_def bindR_eq_Inl require_owner_def
    by (auto simp: ensure_eq dest: ensure_error)
qed

lemma checked_constraint_lookups:
  assumes "check_constraint p c = Inr u" and "\<forall>ref cmp th. pc_proof c = ObjectiveThresholdProof ref cmp th \<longrightarrow> is_finite th"
  shows "lookups_ok p c"
proof -
  have "proof_refs_resolve p (pc_proof c)"
    using assms(1) by (auto simp: check_constraint_def bindR_eq_Inr ensure_eq)
  moreover have "role_counts p (normalized_id r) \<noteq> None" if "refers r (role_ids p)" for r
    using refers_dict[OF that[unfolded role_ids_def], of "\<lambda>r. cardinality_bounds (ro_cardinality r)"]
    by (auto simp: role_counts_def initial_requirements_def)
  moreover have "declared_dict p (normalized_id r) \<noteq> None" if "refers r (declared_ids p)" for r
    using refers_dict[OF that[unfolded declared_ids_def], of id] by (auto simp: declared_dict_def)
  ultimately show ?thesis
    using assms(2) by (cases "pc_proof c") (simp_all add: lookups_ok_def proof_refs_resolve_def)
qed

lemma contradictions_raise_only:
  assumes "resolved_profile_ok p" and "\<forall>c \<in> set (rp_constraints p). check_constraint p c = Inr ()"
  shows "raises_only AthenaValidationError (validate_contradictory_requirements p)"
proof -
  have "\<forall>c \<in> set (rp_constraints p). lookups_ok p c"
    using assms checked_constraint_lookups unfolding resolved_profile_ok_def by blast
  moreover have "\<forall>r \<in> set (rp_roles p). cardinality_ok (ro_cardinality r)"
    using assms(1) by (simp add: resolved_profile_ok_def)
  ultimately show ?thesis
    by (simp add: validate_contradictory_requirements_spec raises_only_def)
qed

lemma resolve_cross_references_raises_only:
  assumes ok: "resolved_profile_ok p"
  shows "raises_only AthenaValidationError (resolve_cross_references digest p as_of active)"
  unfolding resolve_cross_references_def
proof (intro raises_only_intros)
  show "raises_only AthenaValidationError (validate_resolved_selectors digest rs)" for rs
    by (auto simp: raises_only_def dest: validate_resolved_selectors_error)
  show "raises_only AthenaValidationError (check_relationship p as_of active r)"
    if "r \<in> set (rp_relationships p)" for r
  proof -
    have "\<forall>x. r = Excepted x \<longrightarrow> exception_ok x" using that ok by (auto simp: resolved_profile_ok_def)
    then show ?thesis by (auto simp: raises_only_def dest: check_relationship_error)
  qed
  show "raises_only AthenaValidationError (check_constraint p c)" for c
    by (auto simp: raises_only_def dest: check_constraint_error)
  show "raises_only AthenaValidationError (check_control p ct)" for ct
    unfolding check_control_def by (intro raises_only_intros)
  show "raises_only AthenaValidationError (check_risk p ra)" for ra
    unfolding check_risk_def case_prod_beta by (intro raises_only_intros)
  show "raises_only AthenaValidationError (validate_contradictory_requirements p)"
    if "allR (check_constraint p) (rp_constraints p) = Inr u" for u
    using that ok by (intro contradictions_raise_only) (simp_all add: allR_Inr)
qed

lemma validate_resolved_manifest_profile_raises_only:
  assumes ok: "resolved_profile_ok p"
  shows "raises_only AthenaValidationError (validate_resolved_manifest_profile dg p as_of active)"
  unfolding validate_resolved_manifest_profile_def validate_canonical_protected_constraints_def
proof (intro raises_only_intros resolve_cross_references_raises_only ok)
  show "raises_only AthenaValidationError (require_supported_compatibility cm b)" for cm b
    by (auto simp: raises_only_def require_supported_compatibility_def bindR_eq_Inl guardR_eq_Inl)
  show "raises_only AthenaValidationError (check_protected c)" for c
    by (auto simp: raises_only_def check_protected_def Let_def split: option.splits dest: ensure_error)
qed

section \<open>What a validated profile guarantees\<close>

lemma validated_profile:
  assumes "validate_resolved_manifest_profile dg p as_of active = Inr u"
  shows "distinct (map (normalized_id \<circ> constraint_id) (rp_constraints p))"
    and "distinct (map (normalized_id \<circ> risk_acceptance_id) (rp_acceptances p))"
    and "set protected_refs \<subseteq> set (map normalized_id (constraint_ids p))"
    and "\<forall>c \<in> set (rp_constraints p). check_protected c = Inr () \<and> check_constraint p c = Inr ()"
    and "validate_resolved_selectors (selector_of dg) (map (\<lambda>r. (ro_role_id r, ro_selectors r)) (rp_roles p)) = Inr ()"
    and "validate_contradictory_requirements p = Inr ()"
  using assms
  unfolding validate_resolved_manifest_profile_def resolve_cross_references_def
    validate_canonical_protected_constraints_def bindR_eq_Inr require_unique_iff ensure_eq allR_Inr
  by auto

end
