(* ===== verification/KeyedDict.thy ===== *)
theory KeyedDict
  imports ResourceId "HOL-Library.AList"
begin

text \<open>
  The dict comprehension \<open>{f(x): x for x in xs}\<close> as an association list in insertion order: one
  entry for each key, with the last value.
\<close>

definition keyed :: "('a \<Rightarrow> 'k) \<Rightarrow> 'a list \<Rightarrow> ('k \<times> 'a) list" where
  "keyed f xs = fold (\<lambda>x. AList.update (f x) x) xs []"

lemma set_update: "set (AList.update k v al) \<subseteq> insert (k, v) (set al)"
  by (induction al) auto

lemma fold_update_entries:
  "set (fold (\<lambda>x. AList.update (f x) x) xs acc) \<subseteq> set acc \<union> (\<lambda>x. (f x, x)) ` set xs"
proof (induction xs arbitrary: acc)
  case (Cons x xs)
  then show ?case using set_update[of "f x" x acc] by fastforce
qed simp

lemma fold_update_keys: "fst ` set (fold (\<lambda>x. AList.update (f x) x) xs acc) = fst ` set acc \<union> f ` set xs"
  by (induction xs arbitrary: acc) (auto simp: AList.dom_update)

lemma fold_update_distinct:
  "distinct (map fst acc) \<Longrightarrow> distinct (map fst (fold (\<lambda>x. AList.update (f x) x) xs acc))"
  by (induction xs arbitrary: acc) (auto simp: AList.distinct_update)

lemma keyed_entries: "(k, v) \<in> set (keyed f xs) \<Longrightarrow> k = f v \<and> v \<in> set xs"
  using fold_update_entries[of f xs "[]"] by (auto simp: keyed_def)

lemma keyed_keys: "fst ` set (keyed f xs) = f ` set xs"
  by (simp add: keyed_def fold_update_keys)

lemma keyed_distinct: "distinct (map fst (keyed f xs))"
  by (simp add: keyed_def fold_update_distinct)

lemma keyed_values: "f ` snd ` set (keyed f xs) = f ` set xs" and keyed_subset: "snd ` set (keyed f xs) \<subseteq> set xs"
proof -
  have "f ` snd ` set (keyed f xs) = fst ` set (keyed f xs)"
    by (force simp: image_image dest: keyed_entries intro: image_cong)
  then show "f ` snd ` set (keyed f xs) = f ` set xs" by (simp add: keyed_keys)
qed (auto dest: keyed_entries)

lemma update_fresh: "k \<notin> fst ` set al \<Longrightarrow> AList.update k v al = al @ [(k, v)]"
  by (induction al) auto

end
