(* ===== verification/PolicyFacts.thy ===== *)
theory PolicyFacts
  imports Evaluator ProfileFacts KeyedDict
begin

text \<open>
  What a verdict of the policy engine means. Every proof is decided only on complete, observed and
  bound facts; conflicts surface as such; an accepted residual risk has an active acceptance that
  names exactly the resources found; the references of a finding are ordered, distinct and bounded.
\<close>

section \<open>Gates\<close>

definition undecided :: "verdict \<Rightarrow> bool" where
  "undecided v \<longleftrightarrow> v = Unknown \<or> v = Conflicting"

lemma merge_gates_None: "merge_gates gs = None \<longleftrightarrow> Some Conflicting \<notin> set gs \<and> Some Unknown \<notin> set gs"
  by (simp add: merge_gates_def)

lemma merge_gates_Conflicting: "merge_gates gs = Some Conflicting \<longleftrightarrow> Some Conflicting \<in> set gs"
  by (simp add: merge_gates_def)

lemma merge_gates_undecided: "merge_gates gs = Some g \<Longrightarrow> undecided g"
  by (auto simp: merge_gates_def undecided_def split: if_splits)

lemma br_gate_values: "br_gate (bound_role_resources ev role) \<in> {None, Some Unknown, Some Conflicting}"
  by (auto simp: bound_role_resources_def Let_def split: list.splits)

lemma resource_gate_values: "resource_gate rs \<in> {None, Some Unknown, Some Conflicting}"
  by (auto simp: resource_gate_def)

lemma merge_gates_all_None:
  "set gs \<subseteq> {None, Some Unknown, Some Conflicting} \<Longrightarrow> merge_gates gs = None \<longleftrightarrow> set gs \<subseteq> {None}"
  by (auto simp: merge_gates_None)

section \<open>Proven roles\<close>

definition role_facts :: "'r evidence \<Rightarrow> string \<Rightarrow> 'r resource_fact set" where
  "role_facts ev role = {r \<in> set (ev_resources ev). normalized_id (rf_role_ref r) = normalized_id role}"

definition role_bindings :: "'r evidence \<Rightarrow> string \<Rightarrow> role_binding list" where
  "role_bindings ev role = filter (\<lambda>b. normalized_id (rb_role_ref b) = normalized_id role) (ev_bindings ev)"

text \<open>One complete binding, whose selection is exactly the facts; some facts, all complete and observed.\<close>

definition role_proven :: "'r evidence \<Rightarrow> string \<Rightarrow> bool" where
  "role_proven ev role \<longleftrightarrow>
     (\<exists>b. role_bindings ev role = [b] \<and> rb_state b = Complete
        \<and> normalized_id ` set (rb_selected b) = (normalized_id \<circ> rf_resource_id) ` role_facts ev role)
     \<and> role_facts ev role \<noteq> {}
     \<and> (\<forall>f \<in> role_facts ev role. rf_state f = Complete \<and> rf_source f = Observed)"

definition role_conflicting :: "'r evidence \<Rightarrow> string \<Rightarrow> bool" where
  "role_conflicting ev role \<longleftrightarrow>
     (\<exists>f \<in> role_facts ev role. rf_state f = StateConflicting)
     \<or> (\<exists>b. role_bindings ev role = [b] \<and> rb_state b = StateConflicting)"

lemma set_bound_resources [simp]: "set (br_resources (bound_role_resources ev role)) = role_facts ev role"
  by (auto simp: bound_role_resources_def Let_def role_facts_def)

lemma proof_source_not_inferred: "s \<noteq> Inferred \<longleftrightarrow> s = Observed"
  by (cases s) auto

lemma role_gates_None:
  "br_gate (bound_role_resources ev role) = None
     \<and> resource_gate (br_resources (bound_role_resources ev role)) = None \<longleftrightarrow> role_proven ev role"
proof -
  let ?rs = "br_resources (bound_role_resources ev role)"
  have "resource_gate ?rs = None \<longleftrightarrow> ?rs \<noteq> [] \<and> (\<forall>f \<in> set ?rs. rf_state f = Complete \<and> rf_source f = Observed)"
    by (auto simp: resource_gate_def list_ex_iff simp flip: proof_source_not_inferred simp del: set_bound_resources)
  moreover have "?rs \<noteq> [] \<longleftrightarrow> role_facts ev role \<noteq> {}" by (metis set_bound_resources set_empty)
  moreover have "br_gate (bound_role_resources ev role) = None \<longleftrightarrow>
      (\<exists>b. role_bindings ev role = [b] \<and> rb_state b = Complete
        \<and> normalized_id ` set (rb_selected b) = (normalized_id \<circ> rf_resource_id) ` set ?rs)"
    by (auto simp: bound_role_resources_def role_bindings_def Let_def image_comp[symmetric] image_image
        split: list.splits if_splits)
  ultimately show ?thesis by (simp add: role_proven_def)
qed

lemma role_gates_Conflicting:
  "br_gate (bound_role_resources ev role) = Some Conflicting
     \<or> resource_gate (br_resources (bound_role_resources ev role)) = Some Conflicting
   \<longleftrightarrow> role_conflicting ev role"
proof -
  let ?rs = "br_resources (bound_role_resources ev role)"
  have "resource_gate ?rs = Some Conflicting \<longleftrightarrow> (\<exists>f \<in> set ?rs. rf_state f = StateConflicting)"
    by (auto simp: resource_gate_def list_ex_iff simp del: set_bound_resources)
  moreover have "br_gate (bound_role_resources ev role) = Some Conflicting \<longleftrightarrow>
      (\<exists>b. role_bindings ev role = [b] \<and> rb_state b = StateConflicting)"
    by (auto simp: bound_role_resources_def role_bindings_def Let_def split: list.splits if_splits)
  ultimately show ?thesis by (auto simp: role_conflicting_def)
qed

lemma role_proven_cong: "normalized_id r = normalized_id r' \<Longrightarrow> role_proven ev r = role_proven ev r'"
  by (simp add: role_proven_def role_facts_def role_bindings_def)

lemma role_conflicting_cong: "normalized_id r = normalized_id r' \<Longrightarrow> role_conflicting ev r = role_conflicting ev r'"
  by (simp add: role_conflicting_def role_facts_def role_bindings_def)

text \<open>The merged gate of some roles: open exactly when all are proven.\<close>

definition roles_gate :: "'r evidence \<Rightarrow> string list \<Rightarrow> verdict option" where
  "roles_gate ev roles = merge_gates (concat (map (\<lambda>role.
     [br_gate (bound_role_resources ev role), resource_gate (br_resources (bound_role_resources ev role))]) roles))"

lemma roles_gate_None: "roles_gate ev roles = None \<longleftrightarrow> (\<forall>r \<in> set roles. role_proven ev r)"
proof -
  let ?gs = "concat (map (\<lambda>r. [br_gate (bound_role_resources ev r),
    resource_gate (br_resources (bound_role_resources ev r))]) roles)"
  have "set ?gs \<subseteq> {None, Some Unknown, Some Conflicting}"
  proof
    fix g assume "g \<in> set ?gs"
    then obtain r where "g = br_gate (bound_role_resources ev r)
        \<or> g = resource_gate (br_resources (bound_role_resources ev r))" by auto
    then show "g \<in> {None, Some Unknown, Some Conflicting}"
      using br_gate_values resource_gate_values by metis
  qed
  then have "roles_gate ev roles = None \<longleftrightarrow> set ?gs \<subseteq> {None}"
    unfolding roles_gate_def by (rule merge_gates_all_None)
  also have "\<dots> \<longleftrightarrow> (\<forall>r \<in> set roles. role_proven ev r)"
    unfolding role_gates_None[symmetric] by auto
  finally show ?thesis .
qed

lemma roles_gate_Conflicting: "roles_gate ev roles = Some Conflicting \<longleftrightarrow> (\<exists>r \<in> set roles. role_conflicting ev r)"
  unfolding roles_gate_def merge_gates_Conflicting role_gates_Conflicting[symmetric]
  by (simp add: eq_commute[of "Some Conflicting"])

lemma roles_gate_undecided: "roles_gate ev roles = Some g \<Longrightarrow> undecided g"
  unfolding roles_gate_def by (rule merge_gates_undecided)

lemma roles_gate_cong:
  "normalized_id ` set rs = normalized_id ` set rs' \<Longrightarrow> roles_gate ev rs = roles_gate ev rs'"
proof -
  assume eq: "normalized_id ` set rs = normalized_id ` set rs'"
  have "(\<forall>r \<in> set rs. role_proven ev r) \<longleftrightarrow> (\<forall>r \<in> set rs'. role_proven ev r)"
    using eq by (metis (no_types, lifting) imageE imageI role_proven_cong)
  then have none: "roles_gate ev rs = None \<longleftrightarrow> roles_gate ev rs' = None" by (simp add: roles_gate_None)
  have "(\<exists>r \<in> set rs. role_conflicting ev r) \<longleftrightarrow> (\<exists>r \<in> set rs'. role_conflicting ev r)"
    using eq by (metis (no_types, lifting) imageE imageI role_conflicting_cong)
  then have "roles_gate ev rs = Some Conflicting \<longleftrightarrow> roles_gate ev rs' = Some Conflicting"
    by (simp add: roles_gate_Conflicting)
  with none show ?thesis
    using roles_gate_undecided[of ev rs] roles_gate_undecided[of ev rs']
    by (cases "roles_gate ev rs"; cases "roles_gate ev rs'") (auto simp: undecided_def)
qed

section \<open>The verdict of one proof\<close>

text \<open>The facts that are not about roles, which the proofs of the other kinds rest on.\<close>

definition facts_proven :: "'r evidence \<Rightarrow> proof_requirement \<Rightarrow> bool" where
  "facts_proven ev pr \<longleftrightarrow> (case pr of
       RelationshipPresenceProof ref \<Rightarrow>
         \<exists>f. filter (\<lambda>f. normalized_id (lf_relationship_ref f) = normalized_id ref) (ev_relationships ev) = [f]
             \<and> lf_state f = Complete \<and> lf_source f = Observed
     | ControlHealthProof ref _ \<Rightarrow>
         \<exists>f. filter (\<lambda>f. normalized_id (cf_control_ref f) = normalized_id ref) (ev_controls ev) = [f]
             \<and> cf_state f = Complete
     | ObjectiveThresholdProof ref _ threshold \<Rightarrow>
         \<exists>f. filter (\<lambda>f. normalized_id (jf_objective_ref f) = normalized_id ref) (ev_objectives ev) = [f]
             \<and> jf_state f = Complete \<and> is_finite (jf_value f) \<and> is_finite threshold
     | EvidenceFreshnessProof _ \<Rightarrow>
         all_states ev \<noteq> [] \<and> (\<forall>s \<in> set (all_states ev). s = Complete)
         \<and> (\<forall>r \<in> set (ev_resources ev). rf_source r = Observed)
         \<and> (\<forall>l \<in> set (ev_relationships ev). lf_source l = Observed)
     | _ \<Rightarrow> True)"

lemma decide_sel [simp]:
  "de_verdict (decide v refs) = v" "de_refs (decide v refs) = refs" "de_acceptance (decide v refs) = None"
  by (simp_all add: decide_def)

definition decides_on :: "verdict option \<Rightarrow> verdict \<Rightarrow> bool" where
  "decides_on gate v \<longleftrightarrow> (case gate of None \<Rightarrow> True | Some g \<Rightarrow> v = g)"

lemma evaluate_cardinality_gate:
  "decides_on (roles_gate ev [role]) (de_verdict (evaluate_cardinality p ev c role n))"
  by (simp add: evaluate_cardinality_def Let_def roles_gate_def decides_on_def case_prod_beta split: option.split)

lemma evaluate_zone_colocation_gate:
  "decides_on (roles_gate ev [sub, anc]) (de_verdict (evaluate_zone_colocation ev c sub anc))"
proof -
  have "roles_gate ev [sub, anc] = merge_gates [br_gate (bound_role_resources ev sub),
      br_gate (bound_role_resources ev anc), resource_gate (br_resources (bound_role_resources ev sub)),
      resource_gate (br_resources (bound_role_resources ev anc))]"
    by (simp add: roles_gate_def merge_gates_def)
  then show ?thesis
    by (simp add: evaluate_zone_colocation_def Let_def decides_on_def split: option.split)
qed

lemma evaluate_zone_distribution_gate:
  "decides_on (roles_gate ev [role]) (de_verdict (evaluate_zone_distribution ev c role n))"
  by (simp add: evaluate_zone_distribution_def Let_def roles_gate_def decides_on_def split: option.split)

lemma evaluate_role_operational_state_gate:
  "decides_on (roles_gate ev [role]) (de_verdict (evaluate_role_operational_state ev c role hs fs n))"
  by (simp add: evaluate_role_operational_state_def Let_def roles_gate_def decides_on_def split: option.split)

section \<open>Relationships\<close>

lemma relationship_roles_ids:
  "normalized_id ` set (relationship_roles d) = normalized_id ` set (endpoint_roles [dl_source d, dl_target d])"
  unfolding relationship_roles_def keyed_def[symmetric]
  using keyed_values[of normalized_id] by (simp add: image_image)

lemma relationship_role_bindings_gate:
  assumes "relationship_role_bindings p ev ref = Inr (gate, refs)" and "find_declared p ref = Inr d"
  shows "gate = roles_gate ev (endpoint_roles [dl_source d, dl_target d])"
proof -
  have "gate = roles_gate ev (relationship_roles d)"
    using assms by (auto simp: relationship_role_bindings_def roles_gate_def comp_def)
  then show ?thesis using roles_gate_cong[OF relationship_roles_ids] by metis
qed

lemma sort_key_singleton: "sort_key f xs = [x] \<longleftrightarrow> xs = [x]"
proof
  assume s: "sort_key f xs = [x]"
  then have "length xs = 1" using length_sort[of f xs] by simp
  then obtain y where "xs = [y]" by (auto simp: length_Suc_conv)
  with s show "xs = [x]" by simp
qed simp

lemma evaluate_relationship_decided:
  assumes ev: "evaluate_relationship cj p ev c ref = Inr d" and dec: "\<not> undecided (de_verdict d)"
    and r: "find_declared p ref = Inr r"
  shows "roles_gate ev (endpoint_roles [dl_source r, dl_target r]) = None"
    and "facts_proven ev (RelationshipPresenceProof ref)"
proof -
  let ?facts = "filter (\<lambda>f. normalized_id (lf_relationship_ref f) = normalized_id ref) (ev_relationships ev)"
  from ev obtain gate refs where b: "relationship_role_bindings p ev ref = Inr (gate, refs)"
    by (auto simp: evaluate_relationship_def Let_def bindR_eq_Inr)
  have g: "gate = roles_gate ev (endpoint_roles [dl_source r, dl_target r])"
    by (rule relationship_role_bindings_gate[OF b r])
  have "gate = None \<and> (\<exists>f. sort_key (\<lambda>f. cj (lf_ref f)) ?facts = [f] \<and> lf_state f = Complete \<and> lf_source f \<noteq> Inferred)"
    using ev dec roles_gate_undecided[of ev "endpoint_roles [dl_source r, dl_target r]", folded g]
    by (auto simp: evaluate_relationship_def Let_def b undecided_def
        split: if_splits option.splits list.splits)
  then show "roles_gate ev (endpoint_roles [dl_source r, dl_target r]) = None"
    and "facts_proven ev (RelationshipPresenceProof ref)"
    by (auto simp: g facts_proven_def sort_key_singleton proof_source_not_inferred)
qed

lemma evaluate_control_decided:
  "\<not> undecided (de_verdict (evaluate_control ev c ref h)) \<Longrightarrow> facts_proven ev (ControlHealthProof ref h)"
  by (auto simp: evaluate_control_def facts_proven_def Let_def undecided_def split: if_splits list.splits)

lemma evaluate_objective_decided:
  "\<not> undecided (de_verdict (evaluate_objective ev c ref cmp th)) \<Longrightarrow> facts_proven ev (ObjectiveThresholdProof ref cmp th)"
  by (auto simp: evaluate_objective_def facts_proven_def Let_def undecided_def split: if_splits list.splits)

lemma evaluate_freshness_decided:
  "\<not> undecided (de_verdict (evaluate_freshness ev c m as_of)) \<Longrightarrow> facts_proven ev (EvidenceFreshnessProof m)"
  by (auto simp: evaluate_freshness_def facts_proven_def Let_def undecided_def list_ex_iff
      simp flip: proof_source_not_inferred split: if_splits)

lemma decides_onD: "decides_on (roles_gate ev roles) v \<Longrightarrow> \<not> undecided v \<Longrightarrow> roles_gate ev roles = None"
  by (auto simp: decides_on_def dest: roles_gate_undecided split: option.splits)

lemma evaluate_proof_decided:
  assumes ev: "evaluate_proof cj p ev c as_of = Inr d" and dec: "\<not> undecided (de_verdict d)"
    and roles: "proof_role_refs p c = Inr roles"
  shows "(\<forall>r \<in> set roles. role_proven ev r) \<and> facts_proven ev (pc_proof c)"
proof (cases "pc_proof c")
  case (CardinalityProof role n)
  with assms decides_onD[OF evaluate_cardinality_gate] show ?thesis
    by (auto simp: evaluate_proof_def proof_role_refs_def facts_proven_def roles_gate_None)
next
  case (ZoneColocationProof sub anc)
  with assms decides_onD[OF evaluate_zone_colocation_gate[of ev sub anc c]] show ?thesis
    by (auto simp: evaluate_proof_def proof_role_refs_def facts_proven_def roles_gate_None)
next
  case (ZoneDistributionProof role n)
  with assms decides_onD[OF evaluate_zone_distribution_gate] show ?thesis
    by (auto simp: evaluate_proof_def proof_role_refs_def facts_proven_def roles_gate_None)
next
  case (RoleOperationalStateProof role hs fs n)
  with assms decides_onD[OF evaluate_role_operational_state_gate] show ?thesis
    by (auto simp: evaluate_proof_def proof_role_refs_def facts_proven_def roles_gate_None)
next
  case (RelationshipPresenceProof ref)
  with ev have e: "evaluate_relationship cj p ev c ref = Inr d" by (simp add: evaluate_proof_def)
  from roles RelationshipPresenceProof obtain r where r: "find_declared p ref = Inr r"
    and "roles = endpoint_roles [dl_source r, dl_target r]"
    by (auto simp: proof_role_refs_def bindR_eq_Inr)
  with evaluate_relationship_decided[OF e dec r] RelationshipPresenceProof show ?thesis
    by (simp add: roles_gate_None)
next
  case (EvidenceFreshnessProof m)
  with assms evaluate_freshness_decided show ?thesis by (auto simp: evaluate_proof_def proof_role_refs_def)
next
  case (ControlHealthProof ref h)
  with assms evaluate_control_decided show ?thesis by (auto simp: evaluate_proof_def proof_role_refs_def)
next
  case (ObjectiveThresholdProof ref cmp th)
  with assms evaluate_objective_decided show ?thesis by (auto simp: evaluate_proof_def proof_role_refs_def)
qed

text \<open>A conflict in the facts or the binding of a role of the proof is the verdict.\<close>

lemma evaluate_proof_conflict:
  assumes ev: "evaluate_proof cj p ev c as_of = Inr d"
    and roles: "proof_role_refs p c = Inr roles" and r: "r \<in> set roles" "role_conflicting ev r"
  shows "de_verdict d = Conflicting"
proof -
  have gate: "roles_gate ev roles = Some Conflicting" using r by (auto simp: roles_gate_Conflicting)
  show ?thesis
  proof (cases "pc_proof c")
    case (CardinalityProof role n)
    with assms gate evaluate_cardinality_gate[of ev role p c n] show ?thesis
      by (auto simp: evaluate_proof_def proof_role_refs_def decides_on_def)
  next
    case (ZoneColocationProof sub anc)
    with assms gate evaluate_zone_colocation_gate[of ev sub anc c] show ?thesis
      by (auto simp: evaluate_proof_def proof_role_refs_def decides_on_def)
  next
    case (ZoneDistributionProof role n)
    with assms gate evaluate_zone_distribution_gate[of ev role c n] show ?thesis
      by (auto simp: evaluate_proof_def proof_role_refs_def decides_on_def)
  next
    case (RoleOperationalStateProof role hs fs n)
    with assms gate evaluate_role_operational_state_gate[of ev role c hs fs n] show ?thesis
      by (auto simp: evaluate_proof_def proof_role_refs_def decides_on_def)
  next
    case (RelationshipPresenceProof ref)
    from roles RelationshipPresenceProof obtain x where x: "find_declared p ref = Inr x"
      and xs: "roles = endpoint_roles [dl_source x, dl_target x]"
      by (auto simp: proof_role_refs_def bindR_eq_Inr)
    from ev RelationshipPresenceProof obtain g refs where
      b: "relationship_role_bindings p ev ref = Inr (g, refs)"
      by (auto simp: evaluate_proof_def evaluate_relationship_def Let_def bindR_eq_Inr)
    have "g = Some Conflicting"
      using relationship_role_bindings_gate[OF b x] gate xs by simp
    with ev b RelationshipPresenceProof show ?thesis
      by (auto simp: evaluate_proof_def evaluate_relationship_def Let_def split: if_splits)
  qed (use assms in \<open>simp_all add: proof_role_refs_def\<close>)
qed

section \<open>The references of a finding\<close>

lemma ordered_references_texts:
  "map cj (ordered_references cj refs) = sorted_list_of_set (cj ` set refs)"
proof -
  let ?m = "fold (\<lambda>r. AList.update (cj r) r) refs []"
  have m: "?m = keyed cj refs" by (simp add: keyed_def)
  have "map cj (ordered_references cj refs) = map fst (sort_key fst ?m)"
    unfolding ordered_references_def Let_def m by (auto dest: keyed_entries)
  moreover have "sorted (map fst (sort_key fst ?m))" by simp
  moreover have "distinct (map fst (sort_key fst ?m))"
    using keyed_distinct[of cj refs] unfolding m
    by (metis distinct_map distinct_sort set_sort)
  moreover have "set (map fst (sort_key fst ?m)) = cj ` set refs"
    unfolding m by (simp add: keyed_keys)
  ultimately show ?thesis
    by (metis finite_imageI List.finite_set sorted_list_of_set.idem_if_sorted_distinct)
qed

lemma ordered_references_subset: "set (ordered_references cj refs) \<subseteq> set refs"
  using keyed_subset[of cj refs] by (auto simp: ordered_references_def Let_def keyed_def[symmetric])

lemma ordered_references_cong:
  assumes "set refs = set refs'" and "inj_on cj (set refs)"
  shows "ordered_references cj refs = ordered_references cj refs'"
proof -
  have "map cj (ordered_references cj refs) = map cj (ordered_references cj refs')"
    by (simp add: ordered_references_texts assms(1))
  moreover have "set (ordered_references cj refs) \<union> set (ordered_references cj refs') \<subseteq> set refs"
    using ordered_references_subset assms(1) by fastforce
  ultimately show ?thesis
    using assms(2) by (meson inj_on_subset inj_on_map_eq_map)
qed

lemma role_facts_refs: "set (references_for [br_resources (bound_role_resources ev role)]) \<subseteq> set (all_references ev)"
  by (auto simp: references_for_def all_references_def role_facts_def)

lemma references_for_append: "set (references_for [xs, ys]) = set (references_for [xs]) \<union> set (references_for [ys])"
  by (auto simp: references_for_def)

lemma evaluate_role_refs:
  "de_refs (evaluate_cardinality p ev c role n) = references_for [br_resources (bound_role_resources ev role)]"
  "de_refs (evaluate_zone_colocation ev c sub anc) =
     references_for [br_resources (bound_role_resources ev sub), br_resources (bound_role_resources ev anc)]"
  "de_refs (evaluate_zone_distribution ev c role m) = references_for [br_resources (bound_role_resources ev role)]"
  "de_refs (evaluate_role_operational_state ev c role hs fs m) = references_for [br_resources (bound_role_resources ev role)]"
  by (simp_all add: evaluate_cardinality_def evaluate_zone_colocation_def evaluate_zone_distribution_def
      evaluate_role_operational_state_def Let_def case_prod_beta split: option.split)

lemma evaluate_fact_refs:
  "de_refs (evaluate_control ev c ref h) =
     map cf_ref (filter (\<lambda>f. normalized_id (cf_control_ref f) = normalized_id ref) (ev_controls ev))"
  "de_refs (evaluate_objective ev c ref cmp th) =
     map jf_ref (filter (\<lambda>f. normalized_id (jf_objective_ref f) = normalized_id ref) (ev_objectives ev))"
  "de_refs (evaluate_freshness ev c m as_of) = all_references ev"
  by (simp_all add: evaluate_control_def evaluate_objective_def evaluate_freshness_def Let_def split: list.split)

lemma evaluate_relationship_refs:
  assumes "evaluate_relationship cj p ev c ref = Inr d"
  shows "set (de_refs d) \<subseteq> set (all_references ev)"
proof -
  let ?facts = "sort_key (\<lambda>f. cj (lf_ref f))
            (filter (\<lambda>f. normalized_id (lf_relationship_ref f) = normalized_id ref) (ev_relationships ev))"
  from assms obtain g refs where b: "relationship_role_bindings p ev ref = Inr (g, refs)"
    by (auto simp: evaluate_relationship_def Let_def bindR_eq_Inr)
  with assms have "de_refs d = map lf_ref ?facts @ refs"
    by (auto simp: evaluate_relationship_def Let_def split: option.splits list.splits)
  moreover have "set refs \<subseteq> set (all_references ev)"
    using b role_facts_refs by (fastforce simp: relationship_role_bindings_def bindR_eq_Inr Let_def)
  ultimately show ?thesis by (auto simp: all_references_def)
qed

lemma evaluate_proof_refs:
  assumes "evaluate_proof cj p ev c as_of = Inr d"
  shows "set (de_refs d) \<subseteq> set (all_references ev)"
proof (cases "pc_proof c")
  case (RelationshipPresenceProof ref)
  with assms show ?thesis by (intro evaluate_relationship_refs) (simp add: evaluate_proof_def)
qed (use assms role_facts_refs[of ev] in \<open>auto simp: evaluate_proof_def evaluate_role_refs
      references_for_append, auto simp: evaluate_fact_refs all_references_def\<close>)

section \<open>The verdict of a constraint\<close>

definition acceptable :: "policy_constraint \<Rightarrow> bool" where
  "acceptable c \<longleftrightarrow> normalized_id (constraint_id c) \<noteq> ''db-singleton-supported''
     \<and> acceptance_semantics (pc_finding_kind c) (pc_type c) \<and> \<not> is_freshness (pc_proof c)"

definition bounded_verdict :: "('r \<Rightarrow> string) \<Rightarrow> 'r decision \<Rightarrow> verdict" where
  "bounded_verdict cj d = (if 1000 < length (ordered_references cj (de_refs d)) \<and> de_verdict d \<noteq> Conflicting
     then Unknown else de_verdict d)"

definition accept :: "resolved_profile \<Rightarrow> 'r evidence \<Rightarrow> policy_constraint \<Rightarrow> int \<Rightarrow> verdict
    \<Rightarrow> athena_error + risk_acceptance option" where
  "accept p ev c as_of v =
     (if v = Violation \<and> acceptable c then matching_acceptance p ev c as_of else Inr None)"

definition conclude :: "('r \<Rightarrow> string) \<Rightarrow> 'r decision \<Rightarrow> risk_acceptance option \<Rightarrow> 'r decision" where
  "conclude cj d acceptance =
     \<lparr>de_verdict = (case acceptance of None \<Rightarrow> bounded_verdict cj d | Some _ \<Rightarrow> AcceptedResidualRisk),
      de_refs = take 1000 (ordered_references cj (de_refs d)),
      de_acceptance = map_option risk_acceptance_id acceptance\<rparr>"

lemma evaluate_constraint_eq:
  "evaluate_constraint cj p ev c as_of =
     bindR (evaluate_proof cj p ev c as_of) (\<lambda>d.
     bindR (accept p ev c as_of (bounded_verdict cj d)) (\<lambda>acceptance. Inr (conclude cj d acceptance)))"
  unfolding evaluate_constraint_def ordered_bounded_references_def bounded_verdict_def accept_def
    conclude_def acceptable_def Let_def prod.case
  by (simp only: conj_assoc)

lemma evaluate_constraintE:
  assumes "evaluate_constraint cj p ev c as_of = Inr d"
  obtains d0 acceptance where "evaluate_proof cj p ev c as_of = Inr d0"
    and "accept p ev c as_of (bounded_verdict cj d0) = Inr acceptance" and "d = conclude cj d0 acceptance"
  using assms by (auto simp: evaluate_constraint_eq bindR_eq_Inr)

lemma evaluate_proof_verdict:
  assumes "evaluate_proof cj p ev c as_of = Inr d"
  shows "de_verdict d \<in> {success_verdict c, failure_verdict c, Observation, Violation, Unknown, Conflicting}"
proof (cases "pc_proof c")
  case (CardinalityProof role n)
  with assms show ?thesis
    by (auto simp: evaluate_proof_def evaluate_cardinality_def Let_def case_prod_beta undecided_def
        dest!: merge_gates_undecided split: option.splits if_splits)
next
  case (ZoneColocationProof sub anc)
  with assms show ?thesis
    by (auto simp: evaluate_proof_def evaluate_zone_colocation_def Let_def undecided_def
        dest!: merge_gates_undecided split: option.splits if_splits)
next
  case (ZoneDistributionProof role n)
  with assms show ?thesis
    by (auto simp: evaluate_proof_def evaluate_zone_distribution_def Let_def undecided_def
        dest!: merge_gates_undecided split: option.splits if_splits)
next
  case (RoleOperationalStateProof role hs fs n)
  with assms show ?thesis
    by (auto simp: evaluate_proof_def evaluate_role_operational_state_def Let_def undecided_def
        dest!: merge_gates_undecided split: option.splits if_splits)
next
  case (RelationshipPresenceProof ref)
  with assms obtain g refs where b: "relationship_role_bindings p ev ref = Inr (g, refs)"
    by (auto simp: evaluate_proof_def evaluate_relationship_def Let_def bindR_eq_Inr)
  then have "g = Some v \<Longrightarrow> undecided v" for v
    by (auto simp: relationship_role_bindings_def bindR_eq_Inr Let_def intro: merge_gates_undecided)
  with assms b RelationshipPresenceProof show ?thesis
    by (auto simp: evaluate_proof_def evaluate_relationship_def Let_def undecided_def
        split: option.splits list.splits if_splits)
qed (use assms in \<open>auto simp: evaluate_proof_def evaluate_freshness_def evaluate_control_def
      evaluate_objective_def Let_def split: list.splits if_splits\<close>)

lemma constraint_ok_verdicts:
  "constraint_ok c \<Longrightarrow> failure_verdict c \<noteq> AcceptedResidualRisk \<and> success_verdict c \<noteq> AcceptedResidualRisk"
  by (auto simp: constraint_ok_def)

lemma accepted_iff:
  assumes "constraint_ok c" and "evaluate_constraint cj p ev c as_of = Inr d"
  shows "de_verdict d = AcceptedResidualRisk \<longleftrightarrow> de_acceptance d \<noteq> None"
    and "de_verdict d \<in> {success_verdict c, failure_verdict c, Observation, Violation, Unknown, Conflicting,
           AcceptedResidualRisk}"
proof -
  from assms(2) obtain d0 a where d0: "evaluate_proof cj p ev c as_of = Inr d0" and d: "d = conclude cj d0 a"
    by (rule evaluate_constraintE)
  have "bounded_verdict cj d0 \<in> {success_verdict c, failure_verdict c, Observation, Violation, Unknown, Conflicting}"
    using evaluate_proof_verdict[OF d0] by (auto simp: bounded_verdict_def)
  with constraint_ok_verdicts[OF assms(1)]
  show "de_verdict d = AcceptedResidualRisk \<longleftrightarrow> de_acceptance d \<noteq> None"
    and "de_verdict d \<in> {success_verdict c, failure_verdict c, Observation, Violation, Unknown, Conflicting,
           AcceptedResidualRisk}"
    by (auto simp: d conclude_def split: option.splits)
qed

section \<open>Acceptances\<close>

definition found_bindings :: "'r evidence \<Rightarrow> string list \<Rightarrow> (string \<times> string) set" where
  "found_bindings ev roles =
     {(normalized_id role, normalized_id (rf_resource_id r)) | role r. role \<in> set roles \<and> r \<in> role_facts ev role}"

lemma collect_bindings_spec:
  "collect_bindings ev roles acc = Some bs \<Longrightarrow>
     set bs = set acc \<union> found_bindings ev roles \<and> (\<forall>r \<in> set roles. role_proven ev r)"
proof (induction ev roles acc rule: collect_bindings.induct)
  case (2 ev role roles acc)
  let ?b = "bound_role_resources ev role"
  from "2.prems" have g: "merge_gates [br_gate ?b, resource_gate (br_resources ?b)] = None"
    and rest: "collect_bindings ev roles
        (acc @ map (\<lambda>r. (normalized_id role, normalized_id (rf_resource_id r))) (br_resources ?b)) = Some bs"
    by (auto simp: Let_def split: if_splits)
  then have "role_proven ev role" using roles_gate_None[of ev "[role]"] by (simp add: roles_gate_def)
  moreover have "\<not> (merge_gates [br_gate ?b, resource_gate (br_resources ?b)] \<noteq> None \<or> br_resources ?b = [])"
    using "2.prems" by (auto simp: Let_def split: if_splits)
  note "2.IH"[OF refl refl this rest]
  ultimately show ?case
    by (auto simp: found_bindings_def)
qed (simp add: found_bindings_def)

lemma matching_acceptanceE:
  assumes "matching_acceptance p ev c as_of = Inr (Some ra)"
  obtains refs roles bs where "proof_role_refs p c = Inr roles" and "roles \<noteq> []"
    and "set bs = found_bindings ev roles" and "\<forall>r \<in> set roles. role_proven ev r"
    and "ra \<in> set (rp_acceptances p)" and "accepted_by p c as_of refs bs ra"
    and "filter (accepted_by p c as_of refs bs) (rp_acceptances p) = [ra]"
proof -
  from assms obtain exc where exc: "validated_exception_refs p c as_of = Inr exc"
    by (auto simp: matching_acceptance_def bindR_eq_Inr)
  define refs where "refs = exc @ (case pc_acceptance_ref c of None \<Rightarrow> [] | Some r \<Rightarrow> [normalized_id r])"
  from assms exc obtain bs where req: "required_bindings p ev c = Inr (Some bs)"
    and flt: "filter (accepted_by p c as_of refs bs) (rp_acceptances p) = [ra]"
    by (auto simp: matching_acceptance_def Let_def bindR_eq_Inr refs_def
        split: if_splits option.splits list.splits)
  from req obtain roles where roles: "proof_role_refs p c = Inr roles" "roles \<noteq> []"
    and "collect_bindings ev roles [] = Some bs"
    by (auto simp: required_bindings_def bindR_eq_Inr split: if_splits)
  from collect_bindings_spec[OF this(3)] have bs: "set bs = found_bindings ev roles" "\<forall>r \<in> set roles. role_proven ev r"
    by simp_all
  from filter_eq_singletonD[OF flt] show ?thesis
    using that[OF roles bs _ _ flt] by blast
qed

section \<open>Acceptances that are not in force\<close>

definition in_force :: "int \<Rightarrow> risk_acceptance \<Rightarrow> bool" where
  "in_force as_of ra \<longleftrightarrow> ra_status ra = AcceptanceApproved \<and> ra_accepted_at ra \<le> as_of \<and> as_of < ra_expires_at ra"

definition with_acceptances :: "risk_acceptance list \<Rightarrow> resolved_profile \<Rightarrow> resolved_profile" where
  "with_acceptances ras p = p\<lparr>rp_acceptances := ras\<rparr>"

lemma with_acceptances_simps [simp]:
  "rp_relationships (with_acceptances ras p) = rp_relationships p"
  "rp_manifest_id (with_acceptances ras p) = rp_manifest_id p"
  "rp_profile_id (with_acceptances ras p) = rp_profile_id p"
  "rp_acceptances (with_acceptances ras p) = ras"
  "zone_loss_continuity_required (with_acceptances ras p) = zone_loss_continuity_required p"
  by (simp_all add: with_acceptances_def)

lemma with_acceptances_declared [simp]: "find_declared (with_acceptances ras p) ref = find_declared p ref"
  by (simp add: find_declared_def)

lemma with_acceptances_roles [simp]: "proof_role_refs (with_acceptances ras p) c = proof_role_refs p c"
  by (simp add: proof_role_refs_def split: proof_requirement.split)

lemma with_acceptances_bindings [simp]: "required_bindings (with_acceptances ras p) ev c = required_bindings p ev c"
  by (simp add: required_bindings_def)

lemma with_acceptances_proof [simp]: "evaluate_proof cj (with_acceptances ras p) ev c as_of = evaluate_proof cj p ev c as_of"
proof -
  have "evaluate_cardinality (with_acceptances ras p) = (evaluate_cardinality p :: 'a evidence \<Rightarrow> _)"
    unfolding evaluate_cardinality_def with_acceptances_simps fun_eq_iff by simp
  then show ?thesis
    by (simp add: evaluate_proof_def evaluate_relationship_def relationship_role_bindings_def
        split: proof_requirement.split)
qed

lemma with_acceptances_exceptions [simp]:
  "validated_exception_refs (with_acceptances ras p) c as_of = validated_exception_refs p c as_of"
proof -
  have "exception_refs (with_acceptances ras p) c as_of target rs acc = exception_refs p c as_of target rs acc"
    for target rs acc
    by (induction p c as_of target rs acc rule: exception_refs.induct) (simp_all add: Let_def)
  then show ?thesis by (simp add: validated_exception_refs_def split: proof_requirement.split)
qed

lemma accepted_by_in_force: "accepted_by p c as_of refs bs ra \<Longrightarrow> in_force as_of ra"
  by (simp add: accepted_by_def is_active_def in_force_def)

lemma matching_acceptance_in_force:
  "matching_acceptance (with_acceptances (filter (in_force as_of) (rp_acceptances p)) p) ev c as_of
     = matching_acceptance p ev c as_of"
proof -
  have "accepted_by (with_acceptances ras p) = accepted_by p" for ras
    by (simp add: accepted_by_def fun_eq_iff)
  moreover have "filter (accepted_by p c as_of refs bs) (filter (in_force as_of) xs)
      = filter (accepted_by p c as_of refs bs) xs" for refs bs xs
    by (auto simp: filter_filter intro!: filter_cong dest: accepted_by_in_force)
  ultimately show ?thesis
    unfolding matching_acceptance_def with_acceptances_simps with_acceptances_exceptions
      with_acceptances_bindings by (simp only:)
qed

section \<open>The order of the evidence\<close>

text \<open>The same facts and bindings, collected in another order.\<close>

definition same_evidence :: "'r evidence \<Rightarrow> 'r evidence \<Rightarrow> bool" where
  "same_evidence ev ev' \<longleftrightarrow> ev_collected_at ev = ev_collected_at ev'
     \<and> mset (ev_resources ev) = mset (ev_resources ev') \<and> mset (ev_relationships ev) = mset (ev_relationships ev')
     \<and> mset (ev_controls ev) = mset (ev_controls ev') \<and> mset (ev_objectives ev) = mset (ev_objectives ev')
     \<and> mset (ev_bindings ev) = mset (ev_bindings ev')"

lemma filter_unique_perm:
  assumes "distinct (map f xs)" and "mset xs = mset ys"
  shows "filter (\<lambda>x. f x = k) xs = filter (\<lambda>x. f x = k) ys"
proof -
  have "length (filter (\<lambda>x. f x = k) xs) \<le> 1"
    using assms(1)
  proof (induction xs)
    case (Cons a xs)
    from Cons.prems have "f a \<notin> f ` set xs" by simp
    then have "\<forall>x \<in> set xs. f x \<noteq> f a" by (metis imageI)
    with Cons show ?case by (cases "f a = k") (auto simp: filter_empty_conv)
  qed simp
  moreover have m: "mset (filter (\<lambda>x. f x = k) xs) = mset (filter (\<lambda>x. f x = k) ys)"
    by (simp add: assms(2))
  ultimately show ?thesis
  proof (cases "filter (\<lambda>x. f x = k) xs")
    case Nil
    with m show ?thesis by (metis mset_zero_iff_right)
  next
    case (Cons a zs)
    with \<open>length (filter _ xs) \<le> 1\<close> have "filter (\<lambda>x. f x = k) xs = [a]" by simp
    with m show ?thesis by (metis mset_single_iff)
  qed
qed

lemma sort_key_perm:
  assumes "distinct (map f xs)" and "mset xs = mset ys"
  shows "sort_key f xs = sort_key f ys"
  using assms by (intro sort_key_inj_key_eq) (simp_all add: distinct_map)

lemma same_bound_resources:
  assumes "evidence_ok ev" and "same_evidence ev ev'"
  shows "bound_role_resources ev role = bound_role_resources ev' role"
proof -
  let ?mine = "\<lambda>r :: 'a resource_fact. normalized_id (rf_role_ref r) = normalized_id role"
  have "sort_key (\<lambda>r. normalized_id (rf_resource_id r)) (filter ?mine (ev_resources ev))
      = sort_key (\<lambda>r. normalized_id (rf_resource_id r)) (filter ?mine (ev_resources ev'))"
    using assms by (intro sort_key_perm) (auto simp: evidence_ok_def same_evidence_def comp_def distinct_map inj_on_def)
  moreover have "filter (\<lambda>b. normalized_id (rb_role_ref b) = normalized_id role) (ev_bindings ev)
      = filter (\<lambda>b. normalized_id (rb_role_ref b) = normalized_id role) (ev_bindings ev')"
    using assms by (intro filter_unique_perm) (auto simp: evidence_ok_def same_evidence_def comp_def)
  ultimately show ?thesis by (simp add: bound_role_resources_def)
qed

lemma same_bound_fun:
  "evidence_ok ev \<Longrightarrow> same_evidence ev ev' \<Longrightarrow> bound_role_resources ev = bound_role_resources ev'"
  by (rule ext) (rule same_bound_resources)

lemma same_facts:
  assumes "evidence_ok ev" and "same_evidence ev ev'"
  shows "filter (\<lambda>f. normalized_id (lf_relationship_ref f) = k) (ev_relationships ev)
       = filter (\<lambda>f. normalized_id (lf_relationship_ref f) = k) (ev_relationships ev')"
    and "filter (\<lambda>f. normalized_id (cf_control_ref f) = k) (ev_controls ev)
       = filter (\<lambda>f. normalized_id (cf_control_ref f) = k) (ev_controls ev')"
    and "filter (\<lambda>f. normalized_id (jf_objective_ref f) = k) (ev_objectives ev)
       = filter (\<lambda>f. normalized_id (jf_objective_ref f) = k) (ev_objectives ev')"
  using assms by (intro filter_unique_perm; simp add: evidence_ok_def same_evidence_def comp_def)+

lemma same_evidence_sets:
  assumes "same_evidence ev ev'"
  shows "set (all_references ev) = set (all_references ev')" and "set (all_states ev) = set (all_states ev')"
    and "set (ev_resources ev) = set (ev_resources ev')" and "set (ev_relationships ev) = set (ev_relationships ev')"
    and "set (ev_bindings ev) = set (ev_bindings ev')" and "ev_collected_at ev = ev_collected_at ev'"
  using assms by (auto simp: same_evidence_def all_references_def all_states_def dest!: mset_eq_setD)

lemma same_freshness:
  assumes "evidence_ok ev" and "same_evidence ev ev'"
  shows "de_verdict (evaluate_freshness ev c m as_of) = de_verdict (evaluate_freshness ev' c m as_of)"
proof -
  note sets = same_evidence_sets[OF assms(2)]
  have gate: "merge_gates (map (\<lambda>b. br_gate (bound_role_resources ev (rb_role_ref b))) (ev_bindings ev))
      = merge_gates (map (\<lambda>b. br_gate (bound_role_resources ev' (rb_role_ref b))) (ev_bindings ev'))"
    by (simp add: merge_gates_def same_bound_resources[OF assms] sets)
  have "all_states ev = [] \<longleftrightarrow> all_states ev' = []" using sets(2) by (metis set_empty)
  then show ?thesis
    by (simp add: evaluate_freshness_def Let_def gate list_ex_iff sets)
qed

lemma same_proof:
  assumes "evidence_ok ev" and "same_evidence ev ev'"
  shows "evaluate_proof cj p ev c as_of = evaluate_proof cj p ev' c as_of
    \<or> (\<exists>d d'. evaluate_proof cj p ev c as_of = Inr d \<and> evaluate_proof cj p ev' c as_of = Inr d'
          \<and> de_verdict d = de_verdict d' \<and> set (de_refs d) = set (de_refs d')
          \<and> set (de_refs d) \<subseteq> set (all_references ev))"
proof (cases "is_freshness (pc_proof c)")
  case True
  then obtain m where "pc_proof c = EvidenceFreshnessProof m"
    by (auto simp: is_freshness_def split: proof_requirement.splits)
  then show ?thesis
    using same_freshness[OF assms] same_evidence_sets[OF assms(2)]
    by (simp add: evaluate_proof_def evaluate_fact_refs)
next
  case False
  then show ?thesis
    by (cases "pc_proof c")
      (simp_all add: is_freshness_def evaluate_proof_def evaluate_cardinality_def evaluate_zone_colocation_def
        evaluate_zone_distribution_def evaluate_role_operational_state_def evaluate_control_def
        evaluate_objective_def evaluate_relationship_def relationship_role_bindings_def
        same_bound_fun[OF assms] same_facts[OF assms])
qed

lemma same_required_bindings:
  assumes "evidence_ok ev" and "same_evidence ev ev'"
  shows "required_bindings p ev c = required_bindings p ev' c"
proof -
  have "collect_bindings ev roles acc = collect_bindings ev' roles acc" for roles acc
    by (induction roles arbitrary: acc) (simp_all add: same_bound_resources[OF assms] Let_def)
  then show ?thesis unfolding required_bindings_def by (simp only:)
qed

lemma same_constraint:
  assumes "evidence_ok ev" and "same_evidence ev ev'" and "inj_on cj (set (all_references ev))"
  shows "evaluate_constraint cj p ev c as_of = evaluate_constraint cj p ev' c as_of"
proof -
  have "accept p ev c as_of v = accept p ev' c as_of v" for v
    unfolding accept_def matching_acceptance_def same_required_bindings[OF assms(1,2)] ..
  then have accept: "accept p ev c as_of = accept p ev' c as_of" by (rule ext)
  have bounded: "bounded_verdict cj d = bounded_verdict cj d' \<and> conclude cj d a = conclude cj d' a"
    if "de_verdict d = de_verdict d'" "set (de_refs d) = set (de_refs d')" "set (de_refs d) \<subseteq> set (all_references ev)"
    for d d' a
  proof -
    have "ordered_references cj (de_refs d) = ordered_references cj (de_refs d')"
      using that(2,3) assms(3) by (intro ordered_references_cong) (auto intro: inj_on_subset)
    with that(1) have "bounded_verdict cj d = bounded_verdict cj d'" by (simp add: bounded_verdict_def)
    with \<open>ordered_references cj (de_refs d) = _\<close> show ?thesis
      by (cases a) (simp_all add: conclude_def)
  qed
  from same_proof[OF assms(1,2), of cj p c as_of] show ?thesis
  proof (elim disjE exE conjE)
    fix d d'
    assume d: "evaluate_proof cj p ev c as_of = Inr d" "evaluate_proof cj p ev' c as_of = Inr d'"
      and "de_verdict d = de_verdict d'" "set (de_refs d) = set (de_refs d')"
        "set (de_refs d) \<subseteq> set (all_references ev)"
    then have "bounded_verdict cj d = bounded_verdict cj d'" and "conclude cj d = conclude cj d'"
      using bounded[of d d'] by (blast, blast intro: ext)
    with d show ?thesis by (simp add: evaluate_constraint_eq accept)
  qed (simp add: evaluate_constraint_eq accept)
qed

section \<open>Evidence scopes\<close>

definition scope_ok :: "evidence_scope \<Rightarrow> bool" where
  "scope_ok s \<longleftrightarrow> (case s of ResourceIdScope r \<Rightarrow> r \<noteq> [] \<and> last r \<noteq> CHR ''/'' | _ \<Rightarrow> True)"

lemma rstrip_slash_id: "s \<noteq> [] \<Longrightarrow> last s \<noteq> CHR ''/'' \<Longrightarrow> rstrip_slash s = s"
  by (cases s rule: rev_cases) (simp_all add: rstrip_slash_def)

lemma scope_contains_refl: "scope_contains s s"
  by (simp add: scope_contains_def)

lemma resource_id_within:
  assumes "scope_ok (ResourceIdScope a)" and "scope_ok (ResourceIdScope r)"
    and "scope_contains (ResourceIdScope a) (ResourceIdScope r)"
  shows "casefold r = casefold a \<or> prefix (casefold a @ ''/'') (casefold r)"
  using assms by (auto simp: scope_contains_def scope_ok_def startswith_def rstrip_slash_id Let_def)

lemma casefold_slash [simp]: "casefold ''/'' = ''/''"
  by code_simp

lemma resource_group_in_subscription:
  "prefix (casefold (resource_group_prefix s g)) r \<Longrightarrow> prefix (casefold (subscription_prefix s)) r"
proof -
  have "resource_group_prefix s g = subscription_prefix s @ ''resourceGroups/'' @ g @ ''/''"
    by (simp add: resource_group_prefix_def subscription_prefix_def)
  then show "prefix (casefold (resource_group_prefix s g)) r \<Longrightarrow> prefix (casefold (subscription_prefix s)) r"
    by (auto simp: casefold_append prefix_def)
qed

lemma scope_contains_trans:
  assumes ab: "scope_contains a b" and bc: "scope_contains b c" and ok: "scope_ok a" "scope_ok b" "scope_ok c"
  shows "scope_contains a c"
proof (cases b)
  case (ResourceIdScope r)
  show ?thesis
  proof (cases c)
    case c: (ResourceIdScope q)
    have w: "casefold q = casefold r \<or> prefix (casefold r @ ''/'') (casefold q)"
      using resource_id_within bc ok ResourceIdScope c by blast
    then have pre: "prefix u (casefold q)" if "prefix u (casefold r)" for u
      using that by (auto simp: prefix_def)
    show ?thesis
    proof (cases a)
      case a: (ResourceIdScope s)
      have "casefold r = casefold s \<or> prefix (casefold s @ ''/'') (casefold r)"
        using resource_id_within ab ok ResourceIdScope a by blast
      with w pre have "casefold q = casefold s \<or> prefix (casefold s @ ''/'') (casefold q)" by metis
      then show ?thesis
        using a c ok by (auto simp: scope_contains_def scope_ok_def startswith_def rstrip_slash_id Let_def)
    qed (use ab c pre ResourceIdScope in \<open>auto simp: scope_contains_def startswith_def\<close>)
  qed (use bc ResourceIdScope in \<open>auto simp: scope_contains_def\<close>)
next
  case (ResourceGroupScope t s g)
  with ab bc show ?thesis
    by (cases a; cases c) (auto simp: scope_contains_def startswith_def dest: resource_group_in_subscription)
qed (use ab bc in \<open>cases a; cases c; auto simp: scope_contains_def\<close>)+

section \<open>The findings of a profile\<close>

lemma finding_step_Inr:
  "finding_step cj p ev as_of fs c = Inr fs' \<longleftrightarrow> (\<exists>d. evaluate_constraint cj p ev c as_of = Inr d \<and> de_refs d \<noteq> []
     \<and> fs' = AList.update (constraint_id c) (make_finding p c d) fs)"
  by (auto simp: finding_step_def bindR_eq_Inr split: if_splits)

lemma finding_loop:
  assumes "foldR (finding_step cj p ev as_of) acc cs = Inr fs" and "distinct (map fst acc @ map constraint_id cs)"
  shows "\<exists>ds. list_all2 (\<lambda>c d. evaluate_constraint cj p ev c as_of = Inr d \<and> de_refs d \<noteq> []) cs ds
    \<and> fs = acc @ map (\<lambda>(c, d). (constraint_id c, make_finding p c d)) (zip cs ds)"
  using assms
proof (induction cs arbitrary: acc)
  case Nil
  then show ?case by simp
next
  case (Cons c cs)
  then obtain d where d: "evaluate_constraint cj p ev c as_of = Inr d" "de_refs d \<noteq> []"
    and rest: "foldR (finding_step cj p ev as_of) (acc @ [(constraint_id c, make_finding p c d)]) cs = Inr fs"
    by (auto simp: finding_step_Inr bindR_eq_Inr update_fresh)
  from Cons.IH[OF rest] Cons.prems(2) obtain ds where
    "list_all2 (\<lambda>c d. evaluate_constraint cj p ev c as_of = Inr d \<and> de_refs d \<noteq> []) cs ds"
    and "fs = (acc @ [(constraint_id c, make_finding p c d)])
      @ map (\<lambda>(c, d). (constraint_id c, make_finding p c d)) (zip cs ds)"
    by auto
  with d show ?case by (intro exI[of _ "d # ds"]) simp
qed

definition finding_for ::
    "('r \<Rightarrow> string) \<Rightarrow> resolved_profile \<Rightarrow> 'r evidence \<Rightarrow> int \<Rightarrow> policy_constraint \<Rightarrow> string \<times> 'r finding \<Rightarrow> bool" where
  "finding_for cj p ev as_of c kf \<longleftrightarrow> (\<exists>d. evaluate_constraint cj p ev c as_of = Inr d \<and> de_refs d \<noteq> []
     \<and> kf = (constraint_id c, make_finding p c d))"

lemma evaluate_verified_profile_findings:
  assumes "evaluate_verified_profile cj p ev as_of = Inr fs"
    and "distinct (map (normalized_id \<circ> constraint_id) (rp_constraints p))"
  shows "list_all2 (finding_for cj p ev as_of)
           (sort_key (\<lambda>c. normalized_id (constraint_id c)) (rp_constraints p)) fs"
proof -
  let ?cs = "sort_key (\<lambda>c. normalized_id (constraint_id c)) (rp_constraints p)"
  have "distinct (map constraint_id (rp_constraints p))"
    using assms(2) distinct_map[of normalized_id "map constraint_id (rp_constraints p)"] by simp
  then have "distinct (map constraint_id ?cs)"
    by (simp add: distinct_map inj_on_def)
  with assms(1) obtain ds where
    ds: "list_all2 (\<lambda>c d. evaluate_constraint cj p ev c as_of = Inr d \<and> de_refs d \<noteq> []) ?cs ds"
    and fs: "fs = map (\<lambda>(c, d). (constraint_id c, make_finding p c d)) (zip ?cs ds)"
    using finding_loop[of cj p ev as_of "[]" ?cs fs] by (auto simp: evaluate_verified_profile_def)
  show ?thesis
    using ds unfolding fs
    by (auto simp: list_all2_conv_all_nth finding_for_def)
qed

lemma evaluate_manifest_profile_checked:
  assumes "evaluate_manifest_profile cj dg p ev as_of verify = Inr fs"
  shows "validate_resolved_manifest_profile dg p as_of False = Inr ()" and "verify ev as_of = Inr ()"
    and "evaluate_verified_profile cj p ev as_of = Inr fs"
    and "\<forall>s \<in> set (ev_scopes ev). \<exists>a \<in> set (rp_allowed_scopes p). scope_contains a s"
    and "ev_collected_at ev \<le> as_of" and "as_of < ev_expires_at ev"
    and "ev_profile_digest ev = rp_digest p"
  using assms
  unfolding evaluate_manifest_profile_def validate_evaluation_context_def bindR_eq_Inr ensure_eq list_ex_iff
  by auto

end
