(* ===== verification/ManifestModel.thy ===== *)
theory ManifestModel
  imports ProfileChecks KeyedDict
begin

text \<open>
  The manifest document (\<open>contracts/manifest.py\<close>): profiles with their overrides and disabled
  references, \<open>ManifestProfile\<close> and \<open>CanonicalWorkloadManifest\<close> with their model validators. The
  validators of single fields (lengths, patterns) are not repeated here.
\<close>

section \<open>Overrides and disabled references\<close>

datatype override_reason =
    ContinuityRelaxation | CardinalityRelaxation | ZoneRequirementRelaxation
  | ControlRequirementRelaxation | ConstraintRequirementRelaxation | DisableInheritedItem

record weakening_override =
  ov_override_id :: string
  ov_reason :: override_reason
  ov_target_path :: string
  ov_target_ref :: string
  ov_owner_ref :: string
  ov_rationale :: string
  ov_approved_by :: string
  ov_status :: acceptance_status
  ov_accepted_at :: int
  ov_expires_at :: int
  ov_profiles :: "string list"

definition authorizes ::
    "weakening_override \<Rightarrow> int \<Rightarrow> string \<Rightarrow> string \<Rightarrow> string \<Rightarrow> override_reason \<Rightarrow> bool" where
  "authorizes ov as_of pid path ref reason \<longleftrightarrow>
     ov_status ov = AcceptanceApproved
     \<and> ov_accepted_at ov \<le> as_of \<and> as_of < ov_expires_at ov
     \<and> refers pid (ov_profiles ov)
     \<and> ov_target_path ov = path
     \<and> normalized_id (ov_target_ref ov) = normalized_id ref
     \<and> ov_reason ov = reason"

datatype target_kind =
    TargetRole | TargetRelationship | TargetConstraint | TargetControl | TargetRiskAcceptance
  | TargetObjective | TargetOwner

record disabled_ref =
  df_target_kind :: target_kind
  df_target_ref :: string
  df_override_ref :: string

section \<open>Profiles and manifests\<close>

text \<open>\<open>mp_continuity\<close> is \<open>settings.continuity.zoneLossContinuityRequired\<close>.\<close>

record manifest_profile =
  mp_profile_id :: string
  mp_profile_type :: string
  mp_extends :: "string option"
  mp_continuity :: bool
  mp_roles :: "profile_role list"
  mp_relationships :: "relationship list"
  mp_constraints :: "policy_constraint list"
  mp_controls :: "profile_control list"
  mp_acceptances :: "risk_acceptance list"
  mp_objectives :: "profile_objective list"
  mp_owners :: "profile_owner list"
  mp_overrides :: "weakening_override list"
  mp_disabled :: "disabled_ref list"

text \<open>\<open>profiles\<close> is the dict from its keys, in order.\<close>

record workload_manifest =
  pg_manifest_id :: string
  pg_manifest_version :: version
  pg_compatibility :: compatibility
  pg_environments :: "string list"
  pg_allowed_scopes :: "evidence_scope list"
  pg_roles :: "profile_role list"
  pg_relationships :: "relationship list"
  pg_constraints :: "policy_constraint list"
  pg_controls :: "profile_control list"
  pg_acceptances :: "risk_acceptance list"
  pg_objectives :: "profile_objective list"
  pg_owners :: "profile_owner list"
  pg_profiles :: "(string \<times> manifest_profile) list"

definition profile_list :: "workload_manifest \<Rightarrow> manifest_profile list" where
  "profile_list m = map snd (pg_profiles m)"

text \<open>The dict of the profiles by normalized \<open>profileId\<close>, and that by normalized key.\<close>

definition by_profile_id :: "workload_manifest \<Rightarrow> string \<Rightarrow> manifest_profile option" where
  "by_profile_id m i = dict_of (map (\<lambda>p. (normalized_id (mp_profile_id p), p)) (profile_list m)) i"

definition by_key :: "workload_manifest \<Rightarrow> string \<Rightarrow> manifest_profile option" where
  "by_key m i = dict_of (map (\<lambda>(k, p). (normalized_id k, p)) (pg_profiles m)) i"

section \<open>The graph of profiles\<close>

fun check_profile_keys :: "string list \<Rightarrow> (string \<times> manifest_profile) list \<Rightarrow> athena_error + string list" where
  "check_profile_keys seen [] = Inr seen"
| "check_profile_keys seen ((k, p) # kps) =
     (if normalized_id k \<in> set seen then Inl AthenaValidationError
      else if normalized_id k \<noteq> normalized_id (mp_profile_id p) then Inl AthenaValidationError
      else check_profile_keys (normalized_id k # seen) kps)"

text \<open>The depth-first visit; the path only grows and stays within the known profiles.\<close>

function visit :: "workload_manifest \<Rightarrow> string list \<Rightarrow> string list \<Rightarrow> string \<Rightarrow> athena_error + string list" where
  "visit m completed path i =
     (if i \<in> set path then Inl AthenaValidationError
      else if i \<in> set completed then Inr completed
      else (case by_profile_id m i of
          None \<Rightarrow> Inl PyKeyError
        | Some p \<Rightarrow> (case mp_extends p of
              None \<Rightarrow> Inr (i # completed)
            | Some parent \<Rightarrow>
                bindR (visit m completed (i # path) (normalized_id parent)) (\<lambda>done'. Inr (i # done')))))"
  by pat_completeness auto
termination
proof (relation "measure (\<lambda>(m, completed, path, i).
      card (set (map (normalized_id \<circ> mp_profile_id) (profile_list m)) - set path))", goal_cases)
  case (2 m completed path i p parent)
  then have "i \<in> set (map (normalized_id \<circ> mp_profile_id) (profile_list m))"
    by (auto simp: by_profile_id_def dest!: dict_ofD)
  with 2 have "set (map (normalized_id \<circ> mp_profile_id) (profile_list m)) - set (i # path)
      \<subset> set (map (normalized_id \<circ> mp_profile_id) (profile_list m)) - set path" by auto
  then show ?case by (auto intro: psubset_card_mono)
qed simp

declare visit.simps [simp del]

text \<open>\<open>validate_manifest_ids\<close> up to the loop that visits every profile.\<close>

definition validate_profile_graph :: "workload_manifest \<Rightarrow> athena_error + unit" where
  "validate_profile_graph m =
     bindR (require_supported_compatibility (pg_compatibility m) False) (\<lambda>_.
     bindR (require_unique_text (pg_environments m)) (\<lambda>_.
     bindR (check_profile_keys [] (pg_profiles m)) (\<lambda>keys.
     bindR (ensure ({''production'', ''development'', ''training''} \<subseteq> set keys)) (\<lambda>_.
     bindR (allR (\<lambda>p. case mp_extends p of None \<Rightarrow> Inr ()
         | Some parent \<Rightarrow> ensure (by_profile_id m (normalized_id parent) \<noteq> None)) (profile_list m)) (\<lambda>_.
     bindR (foldR (\<lambda>completed i. visit m completed [] i) []
         (map (normalized_id \<circ> mp_profile_id) (profile_list m))) (\<lambda>_.
     Inr ()))))))"

section \<open>The whole document\<close>

definition validate_local_uniqueness :: "manifest_profile \<Rightarrow> athena_error + unit" where
  "validate_local_uniqueness p =
     bindR (require_unique ro_role_id (mp_roles p)) (\<lambda>_.
     bindR (require_unique relationship_key (mp_relationships p)) (\<lambda>_.
     bindR (require_unique constraint_id (mp_constraints p)) (\<lambda>_.
     bindR (require_unique ct_control_id (mp_controls p)) (\<lambda>_.
     bindR (require_unique risk_acceptance_id (mp_acceptances p)) (\<lambda>_.
     bindR (require_unique ob_objective_id (mp_objectives p)) (\<lambda>_.
     bindR (require_unique ow_owner_ref (mp_owners p)) (\<lambda>_.
     require_unique ov_override_id (mp_overrides p))))))))"

definition check_applicability :: "workload_manifest \<Rightarrow> string list \<Rightarrow> athena_error + unit" where
  "check_applicability m profiles =
     bindR (require_unique_text profiles) (\<lambda>_.
     allR (\<lambda>i. ensure (normalized_id i \<in> set (map (normalized_id \<circ> fst) (pg_profiles m)))) profiles)"

text \<open>The \<open>profiles\<close> of the constraints, controls and acceptances of the manifest and its profiles.\<close>

definition applicable_items :: "workload_manifest \<Rightarrow> string list list" where
  "applicable_items m =
     map pc_profiles (pg_constraints m) @ map ct_profiles (pg_controls m) @ map ra_profiles (pg_acceptances m)
     @ concat (map (\<lambda>p. map pc_profiles (mp_constraints p) @ map ct_profiles (mp_controls p)
          @ map ra_profiles (mp_acceptances p)) (profile_list m))"

definition applicable_relationships :: "workload_manifest \<Rightarrow> string list list" where
  "applicable_relationships m = map dl_profiles
     (declared_of (pg_relationships m @ concat (map mp_relationships (profile_list m))))"

definition check_profile_overrides :: "workload_manifest \<Rightarrow> manifest_profile \<Rightarrow> athena_error + unit" where
  "check_profile_overrides m p =
     bindR (allR (\<lambda>ov. check_applicability m (ov_profiles ov)) (mp_overrides p)) (\<lambda>_.
     ensure (distinct (map (\<lambda>d. (df_target_kind d, normalized_id (df_target_ref d))) (mp_disabled p))))"

definition validate_manifest_ids :: "workload_manifest \<Rightarrow> athena_error + unit" where
  "validate_manifest_ids m =
     bindR (validate_profile_graph m) (\<lambda>_.
     bindR (require_unique ro_role_id (pg_roles m)) (\<lambda>_.
     bindR (require_unique relationship_key (pg_relationships m)) (\<lambda>_.
     bindR (require_unique constraint_id (pg_constraints m)) (\<lambda>_.
     bindR (require_unique ct_control_id (pg_controls m)) (\<lambda>_.
     bindR (require_unique risk_acceptance_id (pg_acceptances m)) (\<lambda>_.
     bindR (require_unique ob_objective_id (pg_objectives m)) (\<lambda>_.
     bindR (require_unique ow_owner_ref (pg_owners m)) (\<lambda>_.
     bindR (ensure (\<not> list_ex ro_deprecated (pg_roles m @ concat (map mp_roles (profile_list m))))) (\<lambda>_.
     bindR (allR (check_applicability m) (applicable_items m)) (\<lambda>_.
     bindR (allR (check_applicability m) (applicable_relationships m)) (\<lambda>_.
     bindR (allR (\<lambda>ra. require_unique_text (ra_control_refs ra))
         (pg_acceptances m @ concat (map mp_acceptances (profile_list m)))) (\<lambda>_.
     allR (check_profile_overrides m) (profile_list m)))))))))))))"

text \<open>What the classes of a manifest accept, digests aside: every profile, then the manifest.\<close>

definition manifest_accepted :: "workload_manifest \<Rightarrow> bool" where
  "manifest_accepted m \<longleftrightarrow>
     list_all (\<lambda>p. validate_local_uniqueness p = Inr ()) (profile_list m) \<and> validate_manifest_ids m = Inr ()"

end
