(* ===== verification/Inheritance.thy ===== *)
theory Inheritance
  imports ManifestModel
begin

text \<open>
  Profile inheritance (\<open>contracts/manifest.py\<close>): the walk up the lineage of a profile in
  \<open>_resolve_manifest_profile\<close>, and the roles a profile inherits
  (\<open>validate_manifest_selector_identity_inheritance\<close> with \<open>_merge_keyed\<close>). Loops that the source
  does not bound by a list are \<open>partial_function (option)\<close>, where \<open>None\<close> is not returning.
\<close>

section \<open>The lineage of a profile\<close>

text \<open>The \<open>while True\<close> loop; the result is the lineage from the root down.\<close>

partial_function (option) lineage_loop ::
    "workload_manifest \<Rightarrow> string list \<Rightarrow> manifest_profile list \<Rightarrow> manifest_profile
     \<Rightarrow> (athena_error + manifest_profile list) option" where
  "lineage_loop m visiting lineage current =
     (let current_id = normalized_id (mp_profile_id current)
      in if current_id \<in> set visiting then Some (Inl AthenaValidationError)
         else (case mp_extends current of
             None \<Rightarrow> Some (Inr (rev (lineage @ [current])))
           | Some parent \<Rightarrow> (case by_key m (normalized_id parent) of
                 None \<Rightarrow> Some (Inl AthenaValidationError)
               | Some p \<Rightarrow> lineage_loop m (current_id # visiting) (lineage @ [current]) p)))"

declare lineage_loop.simps [code]

definition profile_lineage ::
    "workload_manifest \<Rightarrow> string \<Rightarrow> (athena_error + manifest_profile list) option" where
  "profile_lineage m i = (case by_key m (normalized_id i) of
       None \<Rightarrow> Some (Inl AthenaValidationError)
     | Some p \<Rightarrow> lineage_loop m [] [] p)"

section \<open>Merging inherited items\<close>

fun cardinality_kind :: "cardinality \<Rightarrow> string" where
  "cardinality_kind ExactlyOne = ''exactlyOne''"
| "cardinality_kind OneOrMore = ''oneOrMore''"
| "cardinality_kind ZeroOrMore = ''zeroOrMore''"
| "cardinality_kind (BoundedRange _ _) = ''boundedRange''"

text \<open>\<open>_variant\<close> of a role and of a selector.\<close>

definition role_variant :: "profile_role \<Rightarrow> string list" where
  "role_variant r = [ro_kind r, cardinality_kind (ro_cardinality r)]"

definition child_labels :: "selector \<Rightarrow> string list" where
  "child_labels s = map (\<lambda>c. normalized_id (atomic_id c) @ '':'' @ criteria_type (atomic_criteria c))
     (sort_key (\<lambda>c. normalized_id (atomic_id c)) (selector_children s))"

definition selector_variant :: "selector \<Rightarrow> string list" where
  "selector_variant s = (case s of
       Single a \<Rightarrow> [criteria_type (atomic_criteria a)]
     | CompositeAll _ _ _ \<Rightarrow> ''compositeAll'' # child_labels s
     | CompositeAny _ _ _ \<Rightarrow> ''compositeAny'' # child_labels s)"

text \<open>
  \<open>_merge_keyed\<close>, with what it does to an item of one class once the variants agree as a
  parameter. The result lists the items by key.
\<close>

definition merge_step ::
    "('a \<Rightarrow> string) \<Rightarrow> ('a \<Rightarrow> 'v) \<Rightarrow> ('a option \<Rightarrow> 'a \<Rightarrow> athena_error + 'a)
     \<Rightarrow> (string \<times> 'a) list \<Rightarrow> 'a \<Rightarrow> athena_error + (string \<times> 'a) list" where
  "merge_step key variant adjust merged item =
     (let k = normalized_id (key item); previous = map_of merged k
      in if (case previous of None \<Rightarrow> False | Some q \<Rightarrow> variant q \<noteq> variant item)
         then Inl AthenaValidationError
         else bindR (adjust previous item) (\<lambda>item'. Inr (AList.update k item' merged)))"

definition merge_keyed ::
    "('a \<Rightarrow> string) \<Rightarrow> ('a \<Rightarrow> 'v) \<Rightarrow> ('a option \<Rightarrow> 'a \<Rightarrow> athena_error + 'a)
     \<Rightarrow> 'a list \<Rightarrow> 'a list \<Rightarrow> athena_error + 'a list" where
  "merge_keyed key variant adjust current additions =
     bindR (foldR (merge_step key variant adjust) (keyed (normalized_id \<circ> key) current) additions) (\<lambda>merged.
     Inr (map snd (sort_key fst merged)))"

definition merge_selectors :: "selector list \<Rightarrow> selector list \<Rightarrow> athena_error + selector list" where
  "merge_selectors = merge_keyed selector_id selector_variant (\<lambda>_ s. Inr s)"

definition selector_ids :: "selector list \<Rightarrow> string set" where
  "selector_ids ss = set (map (normalized_id \<circ> selector_id) ss)"

text \<open>
  A role that is inherited keeps its selectors unless overridden; new identities need the
  capability \<open>permits\<close>. A role holds at most 20 selectors.
\<close>

definition adjust_role ::
    "(profile_role \<Rightarrow> profile_role \<Rightarrow> bool) \<Rightarrow> profile_role option \<Rightarrow> profile_role
     \<Rightarrow> athena_error + profile_role" where
  "adjust_role permits previous item = (case previous of
       None \<Rightarrow> Inr item
     | Some q \<Rightarrow>
         bindR (if selector_ids (ro_selectors q) \<inter> selector_ids (ro_selectors item) = {}
                then (if permits q item then Inr (ro_selectors item) else Inl AthenaValidationError)
                else merge_selectors (ro_selectors q) (ro_selectors item)) (\<lambda>ss.
         if ss = [] \<or> 20 < length ss then Inl ModelValidationError
         else Inr (item\<lparr>ro_selectors := ss\<rparr>)))"

definition merge_roles ::
    "(profile_role \<Rightarrow> profile_role \<Rightarrow> bool) \<Rightarrow> profile_role list \<Rightarrow> profile_role list
     \<Rightarrow> athena_error + profile_role list" where
  "merge_roles permits = merge_keyed ro_role_id role_variant (adjust_role permits)"

section \<open>The roles a profile inherits\<close>

definition role_dict :: "profile_role list \<Rightarrow> string \<Rightarrow> profile_role option" where
  "role_dict rs = dict_of (map (\<lambda>r. (normalized_id (ro_role_id r), r)) rs)"

definition selector_dict :: "selector list \<Rightarrow> string \<Rightarrow> selector option" where
  "selector_dict ss = dict_of (map (\<lambda>s. (normalized_id (selector_id s), s)) ss)"

definition check_inherited_role :: "profile_role list \<Rightarrow> profile_role \<Rightarrow> athena_error + unit" where
  "check_inherited_role inherited r = (case role_dict inherited (normalized_id (ro_role_id r)) of
       None \<Rightarrow> Inr ()
     | Some q \<Rightarrow>
         bindR (ensure (selector_ids (ro_selectors r) \<subseteq> selector_ids (ro_selectors q))) (\<lambda>_.
         allR (\<lambda>s. case (selector_dict (ro_selectors q) (normalized_id (selector_id s)),
                       selector_dict (ro_selectors r) (normalized_id (selector_id s))) of
               (Some previous, Some current) \<Rightarrow>
                 ensure (current = previous \<or> selector_override_is_narrower previous current)
             | _ \<Rightarrow> Inl PyKeyError) (ro_selectors r)))"

definition inherit_roles :: "profile_role list \<Rightarrow> manifest_profile \<Rightarrow> athena_error + profile_role list" where
  "inherit_roles inherited p =
     bindR (allR (check_inherited_role inherited) (mp_roles p)) (\<lambda>_.
     merge_roles (\<lambda>_ _. False) inherited (mp_roles p))"

text \<open>The recursive \<open>roles_for\<close>; its cache only saves recomputation.\<close>

partial_function (option) roles_for ::
    "workload_manifest \<Rightarrow> manifest_profile \<Rightarrow> (athena_error + profile_role list) option" where
  "roles_for m p = (case mp_extends p of
       None \<Rightarrow> Some (inherit_roles (pg_roles m) p)
     | Some parent \<Rightarrow> (case by_profile_id m (normalized_id parent) of
           None \<Rightarrow> Some (Inl PyKeyError)
         | Some q \<Rightarrow> Option.bind (roles_for m q) (\<lambda>r. Some (bindR r (\<lambda>inherited. inherit_roles inherited p)))))"

fun inherit_all :: "workload_manifest \<Rightarrow> manifest_profile list \<Rightarrow> (athena_error + unit) option" where
  "inherit_all m [] = Some (Inr ())"
| "inherit_all m (p # ps) = Option.bind (roles_for m p) (\<lambda>r.
     case r of Inl e \<Rightarrow> Some (Inl e) | Inr _ \<Rightarrow> inherit_all m ps)"

definition validate_selector_identity_inheritance :: "workload_manifest \<Rightarrow> (athena_error + unit) option" where
  "validate_selector_identity_inheritance m = inherit_all m (map snd (keyed (normalized_id \<circ> mp_profile_id) (profile_list m)))"

end
