(* ===== verification/Weakening.thy ===== *)
theory Weakening
  imports Inheritance "HOL-Library.Sublist"
begin

text \<open>
  What a profile may change of what it inherits (\<open>contracts/manifest.py\<close>): the checks that
  \<open>_resolve_manifest_profile\<close> runs after merging a profile into its inherited items. A weakening
  needs exactly one active override of the profile for its exact path, target and reason.
\<close>

section \<open>Overrides\<close>

definition find_override ::
    "manifest_profile \<Rightarrow> int \<Rightarrow> string \<Rightarrow> string \<Rightarrow> override_reason \<Rightarrow> athena_error + unit" where
  "find_override child as_of path ref reason =
     ensure (length (filter (\<lambda>ov. authorizes ov as_of (mp_profile_id child) path ref reason)
         (mp_overrides child)) = 1)"

text \<open>A check that runs only when the condition of its \<open>if\<close> holds.\<close>

definition whenR :: "bool \<Rightarrow> athena_error + unit \<Rightarrow> athena_error + unit" where
  "whenR b m = (if b then m else Inr ())"

definition profile_path :: "manifest_profile \<Rightarrow> string \<Rightarrow> string" where
  "profile_path child rest = ''/resolvedProfiles/'' @ mp_profile_id child @ rest"

definition continuity_path :: "manifest_profile \<Rightarrow> string" where
  "continuity_path child = profile_path child ''/settings/continuity/zoneLossContinuityRequired''"

definition role_path :: "manifest_profile \<Rightarrow> profile_role \<Rightarrow> string" where
  "role_path child r = profile_path child (''/roles/'' @ ro_role_id r @ ''/cardinality'')"

definition constraint_path :: "manifest_profile \<Rightarrow> policy_constraint \<Rightarrow> string \<Rightarrow> string" where
  "constraint_path child c field = profile_path child (''/constraints/'' @ constraint_id c @ ''/'' @ field)"

definition control_path :: "manifest_profile \<Rightarrow> profile_control \<Rightarrow> string \<Rightarrow> string" where
  "control_path child ct field = profile_path child (''/controls/'' @ ct_control_id ct @ ''/'' @ field)"

text \<open>The dict of the inherited items by normalized key.\<close>

definition item_dict :: "('a \<Rightarrow> string) \<Rightarrow> 'a list \<Rightarrow> string \<Rightarrow> 'a option" where
  "item_dict key items = dict_of (map (\<lambda>x. (normalized_id (key x), x)) items)"

text \<open>The common loop: every resolved item that is inherited is compared with what it replaces.\<close>

definition for_inherited ::
    "('a \<Rightarrow> string) \<Rightarrow> 'a list \<Rightarrow> ('a \<Rightarrow> 'a \<Rightarrow> athena_error + unit) \<Rightarrow> 'a list \<Rightarrow> athena_error + unit" where
  "for_inherited key inherited check resolved =
     allR (\<lambda>x. case item_dict key inherited (normalized_id (key x)) of
         None \<Rightarrow> Inr ()
       | Some previous \<Rightarrow> check previous x) resolved"

section \<open>Roles\<close>

definition narrower_range :: "cardinality \<Rightarrow> cardinality \<Rightarrow> bool" where
  "narrower_range previous current \<longleftrightarrow>
     (let (plo, phi) = cardinality_bounds previous; (clo, chi) = cardinality_bounds current
      in plo \<le> clo \<and> chi \<le> phi)"

definition check_role_weakening ::
    "manifest_profile \<Rightarrow> int \<Rightarrow> profile_role \<Rightarrow> profile_role \<Rightarrow> athena_error + unit" where
  "check_role_weakening child as_of previous r =
     whenR (\<not> narrower_range (ro_cardinality previous) (ro_cardinality r))
       (find_override child as_of (role_path child r) (ro_role_id r) CardinalityRelaxation)"

definition validate_role_requirement_weakening ::
    "profile_role list \<Rightarrow> profile_role list \<Rightarrow> manifest_profile \<Rightarrow> int \<Rightarrow> athena_error + unit" where
  "validate_role_requirement_weakening inherited resolved child as_of =
     for_inherited ro_role_id inherited (check_role_weakening child as_of) resolved"

section \<open>Constraints\<close>

definition is_protected :: "policy_constraint \<Rightarrow> bool" where
  "is_protected c \<longleftrightarrow> pc_protected c \<or> normalized_id (constraint_id c) \<in> set protected_refs"

fun proof_kind :: "proof_requirement \<Rightarrow> string" where
  "proof_kind (CardinalityProof _ _) = ''cardinalityProof''"
| "proof_kind (ZoneColocationProof _ _) = ''zoneColocationProof''"
| "proof_kind (ZoneDistributionProof _ _) = ''zoneDistributionProof''"
| "proof_kind (RoleOperationalStateProof _ _ _ _) = ''roleOperationalStateProof''"
| "proof_kind (RelationshipPresenceProof _) = ''relationshipPresenceProof''"
| "proof_kind (EvidenceFreshnessProof _) = ''evidenceFreshnessProof''"
| "proof_kind (ControlHealthProof _ _) = ''controlHealthProof''"
| "proof_kind (ObjectiveThresholdProof _ _ _) = ''objectiveThresholdProof''"

text \<open>
  Two proofs differ when their JSON differs; thresholds are finite here, JSON has no other.
\<close>

definition same_semantics :: "policy_constraint \<Rightarrow> policy_constraint \<Rightarrow> bool" where
  "same_semantics previous c \<longleftrightarrow>
     pc_type c = pc_type previous \<and> pc_finding_kind c = pc_finding_kind previous
     \<and> failure_verdict c = failure_verdict previous \<and> success_verdict c = success_verdict previous"

definition check_zones ::
    "manifest_profile \<Rightarrow> int \<Rightarrow> policy_constraint \<Rightarrow> nat \<Rightarrow> nat \<Rightarrow> athena_error + unit" where
  "check_zones child as_of c previous current =
     whenR (current < previous)
       (find_override child as_of (constraint_path child c ''proofRequirement/minimumDistinctZones'')
          (constraint_id c) ZoneRequirementRelaxation)"

definition check_protected_override ::
    "manifest_profile \<Rightarrow> int \<Rightarrow> policy_constraint \<Rightarrow> policy_constraint \<Rightarrow> athena_error + unit" where
  "check_protected_override child as_of previous c =
     bindR (ensure (pc_finding_kind previous = pc_finding_kind c)) (\<lambda>_.
     whenR (is_protected previous)
       (bindR (ensure (pc_protected c \<and> same_semantics previous c)) (\<lambda>_.
        case (pc_proof previous, pc_proof c) of
          (ZoneDistributionProof r n, ZoneDistributionProof r' n') \<Rightarrow>
            bindR (ensure (r = r')) (\<lambda>_. check_zones child as_of c n n')
        | (pp, cp) \<Rightarrow> ensure (pp = cp))))"

definition validate_protected_constraint_overrides ::
    "policy_constraint list \<Rightarrow> policy_constraint list \<Rightarrow> manifest_profile \<Rightarrow> int \<Rightarrow> athena_error + unit" where
  "validate_protected_constraint_overrides inherited resolved child as_of =
     for_inherited constraint_id inherited (check_protected_override child as_of) resolved"

definition check_verdicts ::
    "manifest_profile \<Rightarrow> int \<Rightarrow> policy_constraint \<Rightarrow> policy_constraint \<Rightarrow> athena_error + unit" where
  "check_verdicts child as_of previous c =
     bindR (whenR (failure_verdict previous = Violation \<and> failure_verdict c \<noteq> Violation)
         (find_override child as_of (constraint_path child c ''failureVerdict'') (constraint_id c)
            ConstraintRequirementRelaxation)) (\<lambda>_.
     whenR (success_verdict previous \<noteq> success_verdict c)
       (find_override child as_of (constraint_path child c ''successVerdict'') (constraint_id c)
          ConstraintRequirementRelaxation))"

definition check_operational_state ::
    "manifest_profile \<Rightarrow> int \<Rightarrow> policy_constraint \<Rightarrow> proof_requirement \<Rightarrow> proof_requirement
     \<Rightarrow> athena_error + unit" where
  "check_operational_state child as_of c previous current = (case (previous, current) of
       (RoleOperationalStateProof r h f n, RoleOperationalStateProof r' h' f' n') \<Rightarrow>
         bindR (ensure (normalized_id r = normalized_id r' \<and> set h = set h' \<and> set f = set f')) (\<lambda>_.
         whenR (n' < n)
           (find_override child as_of (constraint_path child c ''proofRequirement/minimumHealthy'')
              (constraint_id c) ConstraintRequirementRelaxation))
     | _ \<Rightarrow> Inr ())"

text \<open>\<open>check_proof\<close> is the rest of the loop body; the proof kinds exclude each other.\<close>

definition check_proof ::
    "manifest_profile \<Rightarrow> int \<Rightarrow> policy_constraint \<Rightarrow> proof_requirement \<Rightarrow> proof_requirement
     \<Rightarrow> athena_error + unit" where
  "check_proof child as_of c previous current = (case previous of
       CardinalityProof r n \<Rightarrow> (case current of
           CardinalityProof r' n' \<Rightarrow>
             bindR (ensure (r = r')) (\<lambda>_.
             bindR (ensure (cardinality_kind n = cardinality_kind n')) (\<lambda>_.
             whenR (\<not> narrower_range n n')
               (find_override child as_of (constraint_path child c ''proofRequirement/expected'')
                  (constraint_id c) ConstraintRequirementRelaxation)))
         | _ \<Rightarrow> Inr ())
     | ZoneDistributionProof r n \<Rightarrow> (case current of
           ZoneDistributionProof r' n' \<Rightarrow> bindR (ensure (r = r')) (\<lambda>_. check_zones child as_of c n n')
         | _ \<Rightarrow> Inr ())
     | RoleOperationalStateProof _ _ _ _ \<Rightarrow> check_operational_state child as_of c previous current
     | EvidenceFreshnessProof n \<Rightarrow> (case current of
           EvidenceFreshnessProof n' \<Rightarrow>
             whenR (n < n')
               (find_override child as_of (constraint_path child c ''proofRequirement/maximumAgeSeconds'')
                  (constraint_id c) ConstraintRequirementRelaxation)
         | _ \<Rightarrow> Inr ())
     | _ \<Rightarrow> ensure (previous = current))"

definition check_constraint_weakening ::
    "manifest_profile \<Rightarrow> int \<Rightarrow> policy_constraint \<Rightarrow> policy_constraint \<Rightarrow> athena_error + unit" where
  "check_constraint_weakening child as_of previous c =
     bindR (check_verdicts child as_of previous c) (\<lambda>_.
     check_proof child as_of c (pc_proof previous) (pc_proof c))"

definition validate_constraint_requirement_weakening ::
    "policy_constraint list \<Rightarrow> policy_constraint list \<Rightarrow> manifest_profile \<Rightarrow> int \<Rightarrow> athena_error + unit" where
  "validate_constraint_requirement_weakening inherited resolved child as_of =
     for_inherited constraint_id inherited (check_constraint_weakening child as_of) resolved"

section \<open>Inherited semantics\<close>

text \<open>
  The state that the checks read: the items of the profile after the merge, and before it.
\<close>

record collections =
  co_roles :: "profile_role list"
  co_relationships :: "relationship list"
  co_constraints :: "policy_constraint list"
  co_controls :: "profile_control list"
  co_acceptances :: "risk_acceptance list"
  co_objectives :: "profile_objective list"
  co_owners :: "profile_owner list"

text \<open>
  The selectors of a role that the profile redeclares. New identities need the capability
  \<open>permits\<close> and replace all of the inherited ones.
\<close>

definition check_role_selectors ::
    "(profile_role \<Rightarrow> profile_role \<Rightarrow> bool) \<Rightarrow> profile_role list \<Rightarrow> profile_role list \<Rightarrow> string
     \<Rightarrow> athena_error + unit" where
  "check_role_selectors permits inherited resolved i =
     bindR (requireR (item_dict ro_role_id inherited i) PyKeyError) (\<lambda>previous.
     bindR (requireR (item_dict ro_role_id resolved i) PyKeyError) (\<lambda>current.
     let ps = selector_ids (ro_selectors previous); cs = selector_ids (ro_selectors current)
     in if \<not> cs \<subseteq> ps
        then ensure (ps \<inter> cs = {} \<and> permits previous current)
        else allR (\<lambda>s. case (selector_dict (ro_selectors previous) (normalized_id (selector_id s)),
                            selector_dict (ro_selectors current) (normalized_id (selector_id s))) of
               (Some p, Some c) \<Rightarrow> ensure (p = c \<or> selector_override_is_narrower p c)
             | _ \<Rightarrow> Inl PyKeyError) (ro_selectors current)))"

definition check_redeclared_roles ::
    "(profile_role \<Rightarrow> profile_role \<Rightarrow> bool) \<Rightarrow> manifest_profile \<Rightarrow> profile_role list \<Rightarrow> profile_role list
     \<Rightarrow> athena_error + unit" where
  "check_redeclared_roles permits child inherited resolved =
     allR (check_role_selectors permits inherited resolved)
       (filter (\<lambda>i. i \<in> set (map (normalized_id \<circ> ro_role_id) inherited))
          (map (normalized_id \<circ> ro_role_id) (mp_roles child)))"

text \<open>\<open>profiles\<close> is \<open>None\<close> for an item without that attribute.\<close>

definition reject_applicability_removal ::
    "manifest_profile \<Rightarrow> ('a \<Rightarrow> string) \<Rightarrow> ('a \<Rightarrow> string list option) \<Rightarrow> 'a list \<Rightarrow> 'a list
     \<Rightarrow> athena_error + unit" where
  "reject_applicability_removal child key profiles inherited resolved =
     for_inherited key inherited (\<lambda>previous x. case (profiles previous, profiles x) of
         (Some pps, Some cps) \<Rightarrow> ensure (refers (mp_profile_id child) pps \<longrightarrow> refers (mp_profile_id child) cps)
       | _ \<Rightarrow> Inr ()) resolved"

fun relationship_profiles :: "relationship \<Rightarrow> string list option" where
  "relationship_profiles (Declared d) = Some (dl_profiles d)"
| "relationship_profiles (Excepted _) = None"

fun health_strength :: "control_state \<Rightarrow> nat" where
  "health_strength ControlEffective = 5"
| "health_strength ControlDegraded = 4"
| "health_strength ControlUnknown = 3"
| "health_strength ControlMissing = 2"
| "health_strength ControlExpired = 2"
| "health_strength ControlNotApplicable = 1"

datatype field_value = TextValue string | TimeValue int | CountValue nat | TextsValue "string list" | NullValue

fun control_kind :: "control_details \<Rightarrow> string" where
  "control_kind (BackupControl _ _ _) = ''backup''"
| "control_kind (RestoreTestControl _ _ _ _) = ''restoreTest''"
| "control_kind (ManualFailoverRunbookControl _ _) = ''manualFailoverRunbook''"
| "control_kind (MonitoringAlertControl _ _ _ _) = ''monitoringAlert''"
| "control_kind (CapacityReviewControl _ _ _) = ''capacityReview''"
| "control_kind (AccessReviewControl _ _ _) = ''accessReview''"
| "control_kind (ChangeApprovalControl _ _) = ''changeApproval''"
| "control_kind (VendorSupportControl _ _ _) = ''vendorSupport''"

text \<open>\<open>_control_variant_payload\<close> without \<open>evidenceRefs\<close>, which is taken out of it first.\<close>

fun control_fields :: "control_details \<Rightarrow> (string \<times> field_value) list" where
  "control_fields (BackupControl policy time refs) =
     [(''backupPolicyRef'', TextValue policy), (''lastSuccessfulBackupAt'', TimeValue time)]"
| "control_fields (RestoreTestControl time outcome rto refs) =
     [(''lastTestedAt'', TimeValue time), (''testOutcome'', TextValue outcome),
      (''rtoObservedSeconds'', CountValue rto)]"
| "control_fields (ManualFailoverRunbookControl runbook time) =
     [(''runbookRef'', TextValue runbook), (''lastReviewedAt'', TimeValue time)]"
| "control_fields (MonitoringAlertControl rule enabled fired refs) =
     [(''alertRuleRef'', TextValue rule), (''enabledState'', TextValue enabled),
      (''lastFiredAt'', case fired of None \<Rightarrow> NullValue | Some t \<Rightarrow> TimeValue t)]"
| "control_fields (CapacityReviewControl cadence time due) =
     [(''cadence'', TextValue cadence), (''lastReviewedAt'', TimeValue time),
      (''nextReviewDueAt'', TimeValue due)]"
| "control_fields (AccessReviewControl cadence time system) =
     [(''cadence'', TextValue cadence), (''lastCompletedAt'', TimeValue time),
      (''reviewSystemRef'', TextValue system)]"
| "control_fields (ChangeApprovalControl system kinds) =
     [(''approvalSystemRef'', TextValue system), (''requiredForChangeKinds'', TextsValue kinds)]"
| "control_fields (VendorSupportControl plan hours expires) =
     [(''supportPlanRef'', TextValue plan), (''coverageHours'', TextValue hours),
      (''expiresAt'', TimeValue expires)]"

fun control_evidence :: "control_details \<Rightarrow> string list option" where
  "control_evidence (BackupControl _ _ refs) = Some refs"
| "control_evidence (RestoreTestControl _ _ _ refs) = Some refs"
| "control_evidence (MonitoringAlertControl _ _ _ refs) = Some refs"
| "control_evidence _ = None"

definition normalized_optional_ref_list :: "string list option \<Rightarrow> string list option" where
  "normalized_optional_ref_list refs = map_option (\<lambda>rs. sort (map normalized_id rs)) refs"

definition field_value_of :: "(string \<times> field_value) list \<Rightarrow> string \<Rightarrow> field_value" where
  "field_value_of payload name = (case map_of payload name of None \<Rightarrow> NullValue | Some v \<Rightarrow> v)"

definition check_inherited_control ::
    "manifest_profile \<Rightarrow> int \<Rightarrow> profile_control \<Rightarrow> profile_control \<Rightarrow> athena_error + unit" where
  "check_inherited_control child as_of previous ct =
     bindR (whenR (health_strength (ct_health ct) < health_strength (ct_health previous))
         (find_override child as_of (control_path child ct ''health'') (ct_control_id ct)
            ControlRequirementRelaxation)) (\<lambda>_.
     bindR (ensure (normalized_id (ct_owner_ref previous) = normalized_id (ct_owner_ref ct))) (\<lambda>_.
     bindR (ensure (ct_scope previous = ct_scope ct)) (\<lambda>_.
     bindR (ensure (normalized_optional_ref_list (control_evidence (ct_details previous))
         = normalized_optional_ref_list (control_evidence (ct_details ct)))) (\<lambda>_.
     let ps = control_fields (ct_details previous); cs = control_fields (ct_details ct)
     in allR (\<lambda>name. whenR (field_value_of ps name \<noteq> field_value_of cs name)
           (find_override child as_of (control_path child ct name) (ct_control_id ct)
              ControlRequirementRelaxation))
          (sort (remdups (map fst ps @ map fst cs)))))))"

definition validate_inherited_semantics ::
    "(profile_role \<Rightarrow> profile_role \<Rightarrow> bool) \<Rightarrow> manifest_profile \<Rightarrow> int \<Rightarrow> collections \<Rightarrow> collections
     \<Rightarrow> athena_error + unit" where
  "validate_inherited_semantics permits child as_of inherited resolved =
     bindR (check_redeclared_roles permits child (co_roles inherited) (co_roles resolved)) (\<lambda>_.
     bindR (reject_applicability_removal child relationship_key relationship_profiles
         (co_relationships inherited) (co_relationships resolved)) (\<lambda>_.
     bindR (reject_applicability_removal child constraint_id (\<lambda>c. Some (pc_profiles c))
         (co_constraints inherited) (co_constraints resolved)) (\<lambda>_.
     bindR (reject_applicability_removal child ct_control_id (\<lambda>ct. Some (ct_profiles ct))
         (co_controls inherited) (co_controls resolved)) (\<lambda>_.
     bindR (reject_applicability_removal child risk_acceptance_id (\<lambda>ra. Some (ra_profiles ra))
         (co_acceptances inherited) (co_acceptances resolved)) (\<lambda>_.
     bindR (for_inherited ct_control_id (co_controls inherited) (check_inherited_control child as_of)
         (co_controls resolved)) (\<lambda>_.
     for_inherited risk_acceptance_id (co_acceptances inherited) (\<lambda>previous ra. ensure (previous = ra))
       (mp_acceptances child)))))))"

section \<open>Owners of overrides\<close>

fun relationship_owner :: "relationship \<Rightarrow> string" where
  "relationship_owner (Declared d) = dl_owner_ref d"
| "relationship_owner (Excepted x) = ex_owner_ref x"

text \<open>The owners of the items that a path and a target reference name.\<close>

definition target_owners :: "collections \<Rightarrow> string \<Rightarrow> string \<Rightarrow> string list" where
  "target_owners co path target =
     (let contains = (\<lambda>s. sublist s path)
      in if contains ''/role/'' \<or> contains ''/roles/''
         then map ro_owner_ref (filter (\<lambda>x. normalized_id (ro_role_id x) = target) (co_roles co))
         else if contains ''/constraint/'' \<or> contains ''/constraints/''
         then map pc_owner_ref (filter (\<lambda>x. normalized_id (constraint_id x) = target) (co_constraints co))
         else if contains ''/relationship/'' \<or> contains ''/relationships/''
         then map relationship_owner (filter (\<lambda>x. normalized_id (relationship_key x) = target) (co_relationships co))
         else if contains ''/control/'' \<or> contains ''/controls/''
         then map ct_owner_ref (filter (\<lambda>x. normalized_id (ct_control_id x) = target) (co_controls co))
         else if contains ''/riskAcceptance/'' \<or> contains ''/riskAcceptances/''
         then map ra_owned_by (filter (\<lambda>x. normalized_id (risk_acceptance_id x) = target) (co_acceptances co))
         else if contains ''/objective/'' \<or> contains ''/objectives/''
         then map ob_owner_ref (filter (\<lambda>x. normalized_id (ob_objective_id x) = target) (co_objectives co))
         else [])"

definition check_override_owner ::
    "manifest_profile \<Rightarrow> collections \<Rightarrow> weakening_override \<Rightarrow> athena_error + unit" where
  "check_override_owner child co ov =
     bindR (ensure (refers (ov_owner_ref ov) (map ow_owner_ref (co_owners co)))) (\<lambda>_.
     let owners = target_owners co (ov_target_path ov) (normalized_id (ov_target_ref ov))
     in bindR (ensure (owners \<noteq> [] \<or> (ov_target_path ov = continuity_path child
            \<and> ov_target_ref ov = ''zoneLossContinuityRequired''))) (\<lambda>_.
        bindR (ensure (length owners \<le> 1)) (\<lambda>_.
        ensure (owners \<noteq> [] \<longrightarrow> normalized_id (hd owners) = normalized_id (ov_owner_ref ov)))))"

definition validate_override_owners :: "manifest_profile \<Rightarrow> collections \<Rightarrow> athena_error + unit" where
  "validate_override_owners child co = allR (check_override_owner child co) (mp_overrides child)"

section \<open>Weakening of the resolved parent\<close>

definition check_parent_constraint ::
    "manifest_profile \<Rightarrow> int \<Rightarrow> policy_constraint \<Rightarrow> policy_constraint \<Rightarrow> athena_error + unit" where
  "check_parent_constraint child as_of previous c =
     bindR (check_verdicts child as_of previous c) (\<lambda>_.
     bindR (whenR (is_protected previous)
       (bindR (ensure (pc_protected c)) (\<lambda>_.
        bindR (ensure (same_semantics previous c)) (\<lambda>_.
        case (pc_proof previous, pc_proof c) of
          (ZoneDistributionProof r n, ZoneDistributionProof r' n') \<Rightarrow> ensure (r = r')
        | (pp, cp) \<Rightarrow> ensure (pp = cp))))) (\<lambda>_.
     bindR (case (pc_proof previous, pc_proof c) of
          (ZoneDistributionProof r n, ZoneDistributionProof r' n') \<Rightarrow> check_zones child as_of c n n'
        | _ \<Rightarrow> Inr ()) (\<lambda>_.
     check_operational_state child as_of c (pc_proof previous) (pc_proof c))))"

definition validate_weakening ::
    "resolved_profile \<Rightarrow> manifest_profile \<Rightarrow> profile_role list \<Rightarrow> policy_constraint list \<Rightarrow> int
     \<Rightarrow> athena_error + unit" where
  "validate_weakening parent child roles constraints as_of =
     bindR (whenR (zone_loss_continuity_required parent \<and> \<not> mp_continuity child)
         (find_override child as_of (continuity_path child) ''zoneLossContinuityRequired''
            ContinuityRelaxation)) (\<lambda>_.
     bindR (for_inherited ro_role_id (rp_roles parent) (check_role_weakening child as_of) roles) (\<lambda>_.
     for_inherited constraint_id (rp_constraints parent) (check_parent_constraint child as_of) constraints))"

section \<open>Disabled references\<close>

fun target_text :: "target_kind \<Rightarrow> string" where
  "target_text TargetRole = ''role''"
| "target_text TargetRelationship = ''relationship''"
| "target_text TargetConstraint = ''constraint''"
| "target_text TargetControl = ''control''"
| "target_text TargetRiskAcceptance = ''riskAcceptance''"
| "target_text TargetObjective = ''objective''"
| "target_text TargetOwner = ''owner''"

definition disabled_path :: "manifest_profile \<Rightarrow> disabled_ref \<Rightarrow> string" where
  "disabled_path child d =
     profile_path child (''/'' @ target_text (df_target_kind d) @ ''/'' @ df_target_ref d)"

definition disabling_reason :: "target_kind \<Rightarrow> override_reason" where
  "disabling_reason k = (if k = TargetControl then ControlRequirementRelaxation else DisableInheritedItem)"

text \<open>Removing the items of a key; it is an error to remove none.\<close>

definition remove_item :: "('a \<Rightarrow> string) \<Rightarrow> string \<Rightarrow> 'a list \<Rightarrow> athena_error + 'a list" where
  "remove_item key ref items =
     (let rest = filter (\<lambda>x. normalized_id (key x) \<noteq> normalized_id ref) items
      in if length rest = length items then Inl AthenaValidationError else Inr rest)"

definition remove_target :: "disabled_ref \<Rightarrow> collections \<Rightarrow> athena_error + collections" where
  "remove_target d co = (let ref = df_target_ref d in case df_target_kind d of
       TargetRole \<Rightarrow> bindR (remove_item ro_role_id ref (co_roles co)) (\<lambda>xs. Inr (co\<lparr>co_roles := xs\<rparr>))
     | TargetRelationship \<Rightarrow>
         bindR (remove_item relationship_key ref (co_relationships co)) (\<lambda>xs. Inr (co\<lparr>co_relationships := xs\<rparr>))
     | TargetConstraint \<Rightarrow>
         bindR (remove_item constraint_id ref (co_constraints co)) (\<lambda>xs. Inr (co\<lparr>co_constraints := xs\<rparr>))
     | TargetControl \<Rightarrow>
         bindR (remove_item ct_control_id ref (co_controls co)) (\<lambda>xs. Inr (co\<lparr>co_controls := xs\<rparr>))
     | TargetRiskAcceptance \<Rightarrow>
         bindR (remove_item risk_acceptance_id ref (co_acceptances co)) (\<lambda>xs. Inr (co\<lparr>co_acceptances := xs\<rparr>))
     | TargetObjective \<Rightarrow>
         bindR (remove_item ob_objective_id ref (co_objectives co)) (\<lambda>xs. Inr (co\<lparr>co_objectives := xs\<rparr>))
     | TargetOwner \<Rightarrow>
         bindR (remove_item ow_owner_ref ref (co_owners co)) (\<lambda>xs. Inr (co\<lparr>co_owners := xs\<rparr>)))"

definition disable ::
    "manifest_profile \<Rightarrow> int \<Rightarrow> collections \<Rightarrow> disabled_ref \<Rightarrow> athena_error + collections" where
  "disable child as_of co d =
     bindR (ensure (normalized_id (df_target_ref d) \<notin> set protected_refs)) (\<lambda>_.
     bindR (ensure (case find (\<lambda>ov. normalized_id (ov_override_id ov) = normalized_id (df_override_ref d))
             (mp_overrides child) of
         None \<Rightarrow> False
       | Some ov \<Rightarrow> authorizes ov as_of (mp_profile_id child) (disabled_path child d) (df_target_ref d)
           (disabling_reason (df_target_kind d)))) (\<lambda>_.
     remove_target d co))"

definition apply_disabled_refs ::
    "manifest_profile \<Rightarrow> int \<Rightarrow> collections \<Rightarrow> athena_error + collections" where
  "apply_disabled_refs child as_of co = foldR (disable child as_of) co (mp_disabled child)"

end
