(* ===== verification/Resolution.thy ===== *)
theory Resolution
  imports Weakening
begin

text \<open>
  The resolution of a profile (\<open>_resolve_manifest_profile\<close> of \<open>contracts/manifest.py\<close>): from the
  root of its lineage down, every profile is merged into what it inherits, checked, stripped of its
  disabled items, and assembled into a resolved profile with its digests; the last one is validated.
\<close>

section \<open>Merging\<close>

definition adjust_constraint ::
    "policy_constraint option \<Rightarrow> policy_constraint \<Rightarrow> athena_error + policy_constraint" where
  "adjust_constraint previous c = (case previous of
       None \<Rightarrow> Inr c
     | Some q \<Rightarrow> if is_protected q \<and> \<not> pc_protected c then Inl AthenaValidationError else Inr c)"

definition constraint_variant :: "policy_constraint \<Rightarrow> constraint_type \<times> string" where
  "constraint_variant c = (pc_type c, proof_kind (pc_proof c))"

fun relationship_variant :: "relationship \<Rightarrow> string list" where
  "relationship_variant (Declared d) = [dl_kind d, ''declared'']"
| "relationship_variant (Excepted _) = [''exception'']"

definition keep_item :: "'a option \<Rightarrow> 'a \<Rightarrow> athena_error + 'a" where
  "keep_item previous x = Inr x"

definition merge_profile ::
    "(profile_role \<Rightarrow> profile_role \<Rightarrow> bool) \<Rightarrow> manifest_profile \<Rightarrow> int \<Rightarrow> collections
     \<Rightarrow> athena_error + collections" where
  "merge_profile permits child as_of co =
     bindR (merge_roles permits (co_roles co) (mp_roles child)) (\<lambda>roles.
     bindR (validate_role_requirement_weakening (co_roles co) roles child as_of) (\<lambda>_.
     bindR (merge_keyed relationship_key relationship_variant keep_item
         (co_relationships co) (mp_relationships child)) (\<lambda>relationships.
     bindR (merge_keyed constraint_id constraint_variant adjust_constraint
         (co_constraints co) (mp_constraints child)) (\<lambda>constraints.
     bindR (validate_protected_constraint_overrides (co_constraints co) constraints child as_of) (\<lambda>_.
     bindR (validate_constraint_requirement_weakening (co_constraints co) constraints child as_of) (\<lambda>_.
     bindR (merge_keyed ct_control_id (control_kind \<circ> ct_details) keep_item
         (co_controls co) (mp_controls child)) (\<lambda>controls.
     bindR (merge_keyed risk_acceptance_id ra_kind keep_item
         (co_acceptances co) (mp_acceptances child)) (\<lambda>acceptances.
     bindR (merge_keyed ob_objective_id ob_type keep_item
         (co_objectives co) (mp_objectives child)) (\<lambda>objectives.
     bindR (merge_keyed ow_owner_ref (\<lambda>_. ()) keep_item (co_owners co) (mp_owners child)) (\<lambda>owners.
     let merged = \<lparr>co_roles = roles, co_relationships = relationships, co_constraints = constraints,
           co_controls = controls, co_acceptances = acceptances, co_objectives = objectives,
           co_owners = owners\<rparr>
     in bindR (validate_inherited_semantics permits child as_of co merged) (\<lambda>_.
        bindR (validate_override_owners child merged) (\<lambda>_.
        Inr merged))))))))))))"

section \<open>Assembly\<close>

fun applies_to :: "string \<Rightarrow> relationship \<Rightarrow> bool" where
  "applies_to i (Declared d) = refers i (dl_profiles d)"
| "applies_to i (Excepted x) = (normalized_id (cs_profile_id (ex_scope x)) = normalized_id i)"

text \<open>The payload of the resolved profile; its digests are still missing.\<close>

definition assemble ::
    "workload_manifest \<Rightarrow> manifest_profile \<Rightarrow> string list \<Rightarrow> collections \<Rightarrow> resolved_profile" where
  "assemble m child chain co = (let i = mp_profile_id child in
     \<lparr>rp_manifest_id = pg_manifest_id m, rp_manifest_version = pg_manifest_version m,
      rp_profile_id = i, rp_profile_type = mp_profile_type child,
      rp_allowed_scopes = pg_allowed_scopes m,
      rp_compatibility = (pg_compatibility m)\<lparr>cm_resolved_profile := True,
         cm_artifact_digest := [], cm_semantic_digest := []\<rparr>,
      rp_inheritance_chain = chain, zone_loss_continuity_required = mp_continuity child,
      rp_roles = co_roles co,
      rp_relationships = filter (applies_to i) (co_relationships co),
      rp_constraints = filter (\<lambda>c. refers i (pc_profiles c)) (co_constraints co),
      rp_controls = filter (\<lambda>ct. refers i (ct_profiles ct)) (co_controls co),
      rp_acceptances = filter (\<lambda>ra. refers i (ra_profiles ra)) (co_acceptances co),
      rp_objectives = co_objectives co, rp_owners = co_owners co, rp_digest = []\<rparr>)"

text \<open>
  \<open>_sort_manifest_keyed_collections\<close> on that payload: every collection, the selectors of every role
  and the children of every selector are sorted by normalized identifier.
\<close>

fun sort_children :: "selector \<Rightarrow> selector" where
  "sort_children (Single a) = Single a"
| "sort_children (CompositeAll i n cs) = CompositeAll i n (sort_key (normalized_id \<circ> atomic_id) cs)"
| "sort_children (CompositeAny i n cs) = CompositeAny i n (sort_key (normalized_id \<circ> atomic_id) cs)"

definition sort_selectors :: "profile_role \<Rightarrow> profile_role" where
  "sort_selectors r = r\<lparr>ro_selectors :=
     map sort_children (sort_key (normalized_id \<circ> selector_id) (ro_selectors r))\<rparr>"

definition sort_resolved :: "resolved_profile \<Rightarrow> resolved_profile" where
  "sort_resolved p = p\<lparr>
     rp_relationships := sort_key (normalized_id \<circ> relationship_key) (rp_relationships p),
     rp_roles := map sort_selectors (sort_key (normalized_id \<circ> ro_role_id) (rp_roles p)),
     rp_constraints := sort_key (normalized_id \<circ> constraint_id) (rp_constraints p),
     rp_controls := sort_key (normalized_id \<circ> ct_control_id) (rp_controls p),
     rp_acceptances := sort_key (normalized_id \<circ> risk_acceptance_id) (rp_acceptances p),
     rp_objectives := sort_key (normalized_id \<circ> ob_objective_id) (rp_objectives p),
     rp_owners := sort_key (normalized_id \<circ> ow_owner_ref) (rp_owners p)\<rparr>"

text \<open>
  The constructor of the resolved profile: the lengths of two of its lists, and \<open>validate_digest\<close>,
  which digests the profile as it is, not sorted.
\<close>

definition resolved_fields_ok :: "resolved_profile \<Rightarrow> bool" where
  "resolved_fields_ok p \<longleftrightarrow> rp_allowed_scopes p \<noteq> [] \<and> length (rp_allowed_scopes p) \<le> 100
     \<and> rp_inheritance_chain p \<noteq> [] \<and> length (rp_inheritance_chain p) \<le> 25"

definition construct_resolved :: "digests \<Rightarrow> resolved_profile \<Rightarrow> athena_error + resolved_profile" where
  "construct_resolved dg p =
     (if resolved_fields_ok p
         \<and> cm_artifact_digest (rp_compatibility p) = recompute_artifact_digest dg p
         \<and> cm_semantic_digest (rp_compatibility p) = recompute_semantic_digest dg p
         \<and> rp_digest p = recompute_semantic_digest dg p
         \<and> require_supported_compatibility (rp_compatibility p) True = Inr ()
      then Inr p else Inl ModelValidationError)"

definition seal_resolved :: "digests \<Rightarrow> resolved_profile \<Rightarrow> athena_error + resolved_profile" where
  "seal_resolved dg p =
     (let artifact = recompute_artifact_digest dg (sort_resolved p);
          semantic = recompute_semantic_digest dg (sort_resolved p)
      in construct_resolved dg (p\<lparr>rp_digest := semantic, rp_compatibility :=
           (rp_compatibility p)\<lparr>cm_artifact_digest := artifact, cm_semantic_digest := semantic\<rparr>\<rparr>))"

section \<open>Along the lineage\<close>

text \<open>
  What the functions take from outside: the digests, those of the manifest, and the capability for
  new selector identities, if any.
\<close>

record resolver =
  rv_digests :: digests
  rv_manifest_artifact :: "workload_manifest \<Rightarrow> string"
  rv_manifest_semantic :: "workload_manifest \<Rightarrow> string"
  rv_capability :: "(string \<Rightarrow> version \<Rightarrow> string \<Rightarrow> profile_role \<Rightarrow> profile_role \<Rightarrow> bool) option"

definition permits_for ::
    "resolver \<Rightarrow> workload_manifest \<Rightarrow> manifest_profile \<Rightarrow> profile_role \<Rightarrow> profile_role \<Rightarrow> bool" where
  "permits_for rv m child previous r = (case rv_capability rv of
       None \<Rightarrow> False
     | Some f \<Rightarrow> f (pg_manifest_id m) (pg_manifest_version m) (mp_profile_id child) previous r)"

type_synonym resolving = "collections \<times> resolved_profile option \<times> string list"

definition resolve_step ::
    "resolver \<Rightarrow> workload_manifest \<Rightarrow> int \<Rightarrow> resolving \<Rightarrow> manifest_profile \<Rightarrow> athena_error + resolving" where
  "resolve_step rv m as_of = (\<lambda>(co, parent, chain) child.
     bindR (merge_profile (permits_for rv m child) child as_of co) (\<lambda>merged.
     bindR (case parent of None \<Rightarrow> Inr ()
       | Some p \<Rightarrow> validate_weakening p child (co_roles merged) (co_constraints merged) as_of) (\<lambda>_.
     bindR (apply_disabled_refs child as_of merged) (\<lambda>kept.
     let chain' = chain @ [mp_profile_id child]
     in bindR (seal_resolved (rv_digests rv) (assemble m child chain' kept)) (\<lambda>p.
        Inr (kept, Some p, chain'))))))"

definition manifest_collections :: "workload_manifest \<Rightarrow> collections" where
  "manifest_collections m = \<lparr>co_roles = pg_roles m, co_relationships = pg_relationships m,
     co_constraints = pg_constraints m, co_controls = pg_controls m,
     co_acceptances = pg_acceptances m, co_objectives = pg_objectives m, co_owners = pg_owners m\<rparr>"

definition resolve_lineage ::
    "resolver \<Rightarrow> workload_manifest \<Rightarrow> int \<Rightarrow> manifest_profile list \<Rightarrow> athena_error + resolved_profile" where
  "resolve_lineage rv m as_of lineage =
     bindR (foldR (resolve_step rv m as_of) (manifest_collections m, None, []) lineage)
       (\<lambda>(_, resolved, _).
     bindR (requireR resolved AthenaValidationError) (\<lambda>p.
     bindR (validate_resolved_manifest_profile (rv_digests rv) p as_of True) (\<lambda>_.
     Inr p)))"

definition manifest_unchanged :: "resolver \<Rightarrow> workload_manifest \<Rightarrow> bool" where
  "manifest_unchanged rv m \<longleftrightarrow>
     cm_artifact_digest (pg_compatibility m) = rv_manifest_artifact rv m
     \<and> cm_semantic_digest (pg_compatibility m) = rv_manifest_semantic rv m"

definition resolve_one ::
    "resolver \<Rightarrow> workload_manifest \<Rightarrow> int \<Rightarrow> string \<Rightarrow> (athena_error + resolved_profile) option" where
  "resolve_one rv m as_of i =
     (if \<not> manifest_unchanged rv m then Some (Inl AthenaValidationError)
      else map_option (\<lambda>r. bindR r (resolve_lineage rv m as_of)) (profile_lineage m i))"

text \<open>With \<open>validate_complete_graph\<close>: every profile is resolved, then the requested one is looked up.\<close>

fun resolve_each ::
    "resolver \<Rightarrow> workload_manifest \<Rightarrow> int \<Rightarrow> manifest_profile list
     \<Rightarrow> (athena_error + (string \<times> resolved_profile) list) option" where
  "resolve_each rv m as_of [] = Some (Inr [])"
| "resolve_each rv m as_of (p # ps) =
     Option.bind (resolve_one rv m as_of (mp_profile_id p)) (\<lambda>r. case r of
         Inl e \<Rightarrow> Some (Inl e)
       | Inr x \<Rightarrow> map_option (\<lambda>rs. bindR rs (\<lambda>xs. Inr ((normalized_id (mp_profile_id p), x) # xs)))
           (resolve_each rv m as_of ps))"

definition resolve_manifest_profile ::
    "resolver \<Rightarrow> workload_manifest \<Rightarrow> int \<Rightarrow> string \<Rightarrow> (athena_error + resolved_profile) option" where
  "resolve_manifest_profile rv m as_of i =
     (if \<not> manifest_unchanged rv m then Some (Inl AthenaValidationError)
      else map_option (\<lambda>rs. bindR rs (\<lambda>xs.
          requireR (dict_of xs (normalized_id i)) AthenaValidationError))
        (resolve_each rv m as_of (profile_list m)))"

end
