(* ===== verification/InheritanceFacts.thy ===== *)
theory InheritanceFacts
  imports Inheritance ProfileFacts
begin

text \<open>
  Inheritance returns and only narrows. The walk up a lineage ends for every graph, cyclic ones
  included; a graph that passes validation has no cycle, so the recursive computation of inherited
  roles returns. A role that a profile inherits selects no resource that the manifest's role of the
  same identifier does not select.
\<close>

section \<open>The lineage walk ends\<close>

definition known_ids :: "workload_manifest \<Rightarrow> manifest_profile \<Rightarrow> string set" where
  "known_ids m p = insert (normalized_id (mp_profile_id p)) (set (map (normalized_id \<circ> mp_profile_id) (profile_list m)))"

lemma by_key_known: "by_key m k = Some p \<Longrightarrow> p \<in> set (profile_list m)"
  by (force simp: by_key_def profile_list_def dest!: dict_ofD)

lemma by_profile_id_known: "by_profile_id m k = Some p \<Longrightarrow> p \<in> set (profile_list m) \<and> normalized_id (mp_profile_id p) = k"
  by (auto simp: by_profile_id_def dest!: dict_ofD)

lemma lineage_loop_returns:
  assumes "finite S" and "set (map (normalized_id \<circ> mp_profile_id) (profile_list m)) \<subseteq> S"
    and "normalized_id (mp_profile_id p) \<in> S"
  shows "lineage_loop m visiting acc p \<noteq> None"
  using assms(3)
proof (induction "card (S - set visiting)" arbitrary: visiting acc p rule: less_induct)
  case less
  let ?i = "normalized_id (mp_profile_id p)"
  show ?case
  proof (cases "?i \<in> set visiting \<or> mp_extends p = None")
    case True
    then show ?thesis by (subst lineage_loop.simps) (auto simp: Let_def)
  next
    case False
    then obtain parent where ext: "mp_extends p = Some parent" by auto
    show ?thesis
    proof (cases "by_key m (normalized_id parent)")
      case None
      then show ?thesis by (subst lineage_loop.simps) (simp add: Let_def ext)
    next
      case (Some q)
      have "S - set (?i # visiting) \<subset> S - set visiting" using False less.prems by auto
      then have "card (S - set (?i # visiting)) < card (S - set visiting)"
        using assms(1) by (intro psubset_card_mono) auto
      moreover have "normalized_id (mp_profile_id q) \<in> S"
        using by_key_known[OF Some] assms(2) by auto
      ultimately have "lineage_loop m (?i # visiting) (acc @ [p]) q \<noteq> None" by (rule less.hyps)
      with False Some show ?thesis by (subst lineage_loop.simps) (simp add: Let_def ext)
    qed
  qed
qed

lemma profile_lineage_returns: "profile_lineage m i \<noteq> None"
proof (cases "by_key m (normalized_id i)")
  case (Some p)
  then show ?thesis
    using lineage_loop_returns[of "set (map (normalized_id \<circ> mp_profile_id) (profile_list m))" m p]
      by_key_known[OF Some]
    by (simp add: profile_lineage_def)
qed (simp add: profile_lineage_def)

text \<open>The lineage of a successful walk: a chain from a root to the profile, without repetition.\<close>

definition extends_chain :: "workload_manifest \<Rightarrow> manifest_profile list \<Rightarrow> bool" where
  "extends_chain m ps \<longleftrightarrow> (\<forall>k. Suc k < length ps \<longrightarrow>
     (\<exists>parent. mp_extends (ps ! Suc k) = Some parent \<and> by_key m (normalized_id parent) = Some (ps ! k)))"

section \<open>Validated graphs are acyclic\<close>

text \<open>A profile is grounded when its chain of parents ends at a root.\<close>

inductive grounded :: "workload_manifest \<Rightarrow> string \<Rightarrow> bool" for m where
  root: "by_profile_id m i = Some p \<Longrightarrow> mp_extends p = None \<Longrightarrow> grounded m i"
| child: "by_profile_id m i = Some p \<Longrightarrow> mp_extends p = Some parent \<Longrightarrow> grounded m (normalized_id parent)
     \<Longrightarrow> grounded m i"

lemma visit_grounded:
  "visit m completed path i = Inr completed' \<Longrightarrow> \<forall>j \<in> set completed. grounded m j
   \<Longrightarrow> i \<in> set completed' \<and> (\<forall>j \<in> set completed'. grounded m j) \<and> set completed \<subseteq> set completed'"
proof (induction m completed path i arbitrary: completed' rule: visit.induct)
  case (1 m completed path i)
  from "1.prems"(1) have i: "i \<notin> set path"
    by (subst (asm) visit.simps) (auto split: if_splits)
  show ?case
  proof (cases "i \<in> set completed")
    case True
    with "1.prems" i show ?thesis by (subst (asm) visit.simps) auto
  next
    case False
    with "1.prems"(1) i obtain p where p: "by_profile_id m i = Some p"
      by (subst (asm) visit.simps) (auto split: option.splits)
    show ?thesis
    proof (cases "mp_extends p")
      case None
      with "1.prems" i False p show ?thesis
        by (subst (asm) visit.simps) (auto intro: grounded.root)
    next
      case (Some parent)
      with "1.prems"(1) i False p obtain c where c: "visit m completed (i # path) (normalized_id parent) = Inr c"
        and "completed' = i # c"
        by (subst (asm) visit.simps) (auto simp: bindR_eq_Inr)
      with "1.IH"[OF i False p Some c "1.prems"(2)] p Some show ?thesis
        by (auto intro: grounded.child)
    qed
  qed
qed

lemma visit_all_grounded:
  assumes "foldR (\<lambda>completed i. visit m completed [] i) completed is = Inr completed'"
    and "\<forall>j \<in> set completed. grounded m j"
  shows "set is \<subseteq> set completed' \<and> (\<forall>j \<in> set completed'. grounded m j) \<and> set completed \<subseteq> set completed'"
  using assms
proof (induction "is" arbitrary: completed)
  case (Cons i "is")
  then obtain c where c: "visit m completed [] i = Inr c"
    and rest: "foldR (\<lambda>completed i. visit m completed [] i) c is = Inr completed'"
    by (auto simp: bindR_eq_Inr)
  from visit_grounded[OF c Cons.prems(2)] Cons.IH[OF rest] show ?case by auto
qed simp

lemma validated_graph_grounded:
  assumes "validate_profile_graph m = Inr u" and "p \<in> set (profile_list m)"
  shows "grounded m (normalized_id (mp_profile_id p))"
proof -
  from assms(1) obtain completed where
    "foldR (\<lambda>completed i. visit m completed [] i) [] (map (normalized_id \<circ> mp_profile_id) (profile_list m)) = Inr completed"
    by (auto simp: validate_profile_graph_def bindR_eq_Inr)
  from visit_all_grounded[OF this] assms(2) show ?thesis by auto
qed

lemma roles_for_returns:
  assumes "grounded m i" and "by_profile_id m i = Some p"
  shows "roles_for m p \<noteq> None"
  using assms
proof (induction arbitrary: p rule: grounded.induct)
  case (root i q)
  then show ?case by (subst roles_for.simps) simp
next
  case (child i q parent)
  from child.hyps(3) obtain r where r: "by_profile_id m (normalized_id parent) = Some r"
    by (cases rule: grounded.cases) auto
  then have "roles_for m r \<noteq> None" by (rule child.IH)
  with r child.hyps child.prems show ?case by (subst roles_for.simps) auto
qed

lemma inherit_all_returns: "\<forall>p \<in> set ps. roles_for m p \<noteq> None \<Longrightarrow> inherit_all m ps \<noteq> None"
  by (induction ps) (auto split: sum.splits)

lemma check_profile_keys_Inr:
  "check_profile_keys seen kps = Inr keys \<Longrightarrow>
     distinct (map (normalized_id \<circ> fst) kps) \<and> set (map (normalized_id \<circ> fst) kps) \<inter> set seen = {}
     \<and> (\<forall>(k, p) \<in> set kps. normalized_id k = normalized_id (mp_profile_id p))
     \<and> set keys = set seen \<union> set (map (normalized_id \<circ> fst) kps)"
  by (induction seen kps rule: check_profile_keys.induct) (auto split: if_splits)

lemma validated_ids_distinct:
  assumes "validate_profile_graph m = Inr u"
  shows "distinct (map (normalized_id \<circ> mp_profile_id) (profile_list m))"
proof -
  from assms obtain keys where "check_profile_keys [] (pg_profiles m) = Inr keys"
    by (auto simp: validate_profile_graph_def bindR_eq_Inr)
  from check_profile_keys_Inr[OF this] have d: "distinct (map (normalized_id \<circ> fst) (pg_profiles m))"
    and "\<forall>(k, p) \<in> set (pg_profiles m). normalized_id k = normalized_id (mp_profile_id p)" by auto
  then have "map (normalized_id \<circ> mp_profile_id) (profile_list m) = map (normalized_id \<circ> fst) (pg_profiles m)"
    by (auto simp: profile_list_def)
  with d show ?thesis by (simp only:)
qed

lemma by_profile_id_self:
  assumes "validate_profile_graph m = Inr u" and "p \<in> set (profile_list m)"
  shows "by_profile_id m (normalized_id (mp_profile_id p)) = Some p"
  unfolding by_profile_id_def
  using validated_ids_distinct[OF assms(1)] assms(2)
  by (intro dict_of_distinct) (auto simp: comp_def)

lemma validated_roles_for_returns:
  assumes "validate_profile_graph m = Inr u" and "p \<in> set (profile_list m)"
  shows "roles_for m p \<noteq> None"
  using roles_for_returns[OF validated_graph_grounded by_profile_id_self] assms by blast

lemma validated_inheritance_returns:
  assumes "validate_profile_graph m = Inr u"
  shows "validate_selector_identity_inheritance m \<noteq> None"
  unfolding validate_selector_identity_inheritance_def
proof (intro inherit_all_returns ballI validated_roles_for_returns[OF assms])
  fix p assume "p \<in> set (map snd (keyed (normalized_id \<circ> mp_profile_id) (profile_list m)))"
  then have "p \<in> snd ` set (keyed (normalized_id \<circ> mp_profile_id) (profile_list m))" by simp
  then show "p \<in> set (profile_list m)" by (rule subsetD[OF keyed_subset])
qed

section \<open>Merging by key\<close>

lemma map_of_keyed: "distinct (map f xs) \<Longrightarrow> x \<in> set xs \<Longrightarrow> map_of (keyed f xs) (f x) = Some x"
proof -
  assume d: "distinct (map f xs)" and x: "x \<in> set xs"
  then have "f x \<in> fst ` set (keyed f xs)" by (simp add: keyed_keys)
  then obtain v where v: "(f x, v) \<in> set (keyed f xs)" by auto
  then have "f x = f v" "v \<in> set xs" using keyed_entries by metis+
  with d x have "v = x" by (metis distinct_map inj_onD)
  with v show ?thesis using keyed_distinct[of f xs] by (simp add: map_of_eq_Some_iff)
qed

lemma map_of_keyedD: "map_of (keyed f xs) k = Some v \<Longrightarrow> k = f v \<and> v \<in> set xs"
  by (auto dest!: map_of_SomeD keyed_entries)

lemma merge_step_Inr:
  "merge_step key variant adjust merged item = Inr merged' \<longleftrightarrow>
     (\<exists>v. (\<forall>q. map_of merged (normalized_id (key item)) = Some q \<longrightarrow> variant q = variant item)
       \<and> adjust (map_of merged (normalized_id (key item))) item = Inr v
       \<and> merged' = AList.update (normalized_id (key item)) v merged)"
  by (auto simp: merge_step_def Let_def bindR_eq_Inr split: if_splits option.splits)

lemma merge_loop:
  assumes "foldR (merge_step key variant adjust) m0 items = Inr m"
    and "distinct (map (normalized_id \<circ> key) items)" and "distinct (map fst m0)"
  shows "distinct (map fst m)
    \<and> (\<forall>item \<in> set items. \<exists>v. adjust (map_of m0 (normalized_id (key item))) item = Inr v
         \<and> map_of m (normalized_id (key item)) = Some v)
    \<and> (\<forall>k. k \<notin> (normalized_id \<circ> key) ` set items \<longrightarrow> map_of m k = map_of m0 k)"
  using assms
proof (induction items arbitrary: m0)
  case (Cons item items)
  let ?k = "normalized_id (key item)"
  from Cons.prems(1) obtain v where v: "adjust (map_of m0 ?k) item = Inr v"
    and rest: "foldR (merge_step key variant adjust) (AList.update ?k v m0) items = Inr m"
    by (auto simp: merge_step_Inr bindR_eq_Inr)
  have d: "distinct (map fst (AList.update ?k v m0))" using Cons.prems(3) by (rule AList.distinct_update)
  have "distinct (map (normalized_id \<circ> key) items)" using Cons.prems(2) by (simp add: comp_def)
  note IH = Cons.IH[OF rest this d]
  have fresh: "?k \<notin> (normalized_id \<circ> key) ` set items" using Cons.prems(2) by simp
  then have "map_of m ?k = Some v" using IH by (simp add: AList.update_conv')
  moreover have "map_of (AList.update ?k v m0) (normalized_id (key i)) = map_of m0 (normalized_id (key i))"
    if "i \<in> set items" for i
    using that fresh by (auto simp: AList.update_conv' image_iff)
  ultimately show ?case using IH v fresh by (auto simp: AList.update_conv')
qed simp

lemma merge_keyed_Inr:
  assumes "merge_keyed key variant adjust current additions = Inr rs"
    and "distinct (map (normalized_id \<circ> key) current)" and "distinct (map (normalized_id \<circ> key) additions)"
  obtains m where "rs = map snd (sort_key fst m)" and "distinct (map fst m)"
    and "\<And>item. item \<in> set additions \<Longrightarrow>
          \<exists>v. adjust (map_of (keyed (normalized_id \<circ> key) current) (normalized_id (key item))) item = Inr v
            \<and> map_of m (normalized_id (key item)) = Some v"
    and "\<And>k. k \<notin> (normalized_id \<circ> key) ` set additions \<Longrightarrow>
          map_of m k = map_of (keyed (normalized_id \<circ> key) current) k"
proof -
  from assms(1) obtain m where "foldR (merge_step key variant adjust) (keyed (normalized_id \<circ> key) current) additions = Inr m"
    and rs: "rs = map snd (sort_key fst m)"
    by (auto simp: merge_keyed_def bindR_eq_Inr)
  from merge_loop[OF this(1) assms(3) keyed_distinct] show ?thesis
    using that[OF rs] by blast
qed

lemma merged_value:
  "distinct (map fst m) \<Longrightarrow> v \<in> set (map snd (sort_key fst m)) \<longleftrightarrow> (\<exists>k. map_of m k = Some v)"
  by (auto simp: map_of_eq_Some_iff) force

section \<open>Selectors of a merged role\<close>

definition role_selects :: "profile_role \<Rightarrow> string \<times> resource \<Rightarrow> bool" where
  "role_selects r x \<longleftrightarrow> (\<exists>s \<in> set (ro_selectors r). selector_selects s x)"

definition role_ok :: "profile_role \<Rightarrow> bool" where
  "role_ok r \<longleftrightarrow> (\<forall>s \<in> set (ro_selectors r). selector_ok s)
     \<and> distinct (map (normalized_id \<circ> selector_id) (ro_selectors r))"

definition roles_ok :: "profile_role list \<Rightarrow> bool" where
  "roles_ok rs \<longleftrightarrow> distinct (map (normalized_id \<circ> ro_role_id) rs) \<and> (\<forall>r \<in> set rs. role_ok r)"

lemma merge_selectors_from:
  assumes "merge_selectors ps cs = Inr ss"
    and "distinct (map (normalized_id \<circ> selector_id) ps)" and "distinct (map (normalized_id \<circ> selector_id) cs)"
  shows "set ss \<subseteq> set ps \<union> set cs" and "distinct (map (normalized_id \<circ> selector_id) ss)"
proof -
  let ?key = "normalized_id \<circ> selector_id"
  from merge_keyed_Inr[OF assms(1)[unfolded merge_selectors_def] assms(2,3)] obtain m where
    ss: "ss = map snd (sort_key fst m)" and d: "distinct (map fst m)"
    and new: "\<And>s. s \<in> set cs \<Longrightarrow> map_of m (?key s) = Some s"
    and old: "\<And>k. k \<notin> ?key ` set cs \<Longrightarrow> map_of m k = map_of (keyed ?key ps) k"
    by auto
  have entry: "k = ?key s \<and> s \<in> set ps \<union> set cs" if "map_of m k = Some s" for k s
  proof (cases "k \<in> ?key ` set cs")
    case True
    then obtain c where "c \<in> set cs" "k = ?key c" by blast
    with new[of c] that show ?thesis by auto
  next
    case False
    with old that show ?thesis by (auto dest: map_of_keyedD)
  qed
  then show "set ss \<subseteq> set ps \<union> set cs"
    unfolding ss using merged_value[OF d] by blast
  have "map ?key ss = map fst (sort_key fst m)"
    unfolding ss map_map using entry d by (auto simp: map_of_eq_Some_iff)
  then show "distinct (map ?key ss)" using d by (simp add: distinct_map)
qed

lemma check_inherited_selector:
  assumes "check_inherited_role inherited r = Inr ()" and "roles_ok inherited" and "role_ok r"
    and "q \<in> set inherited" and "normalized_id (ro_role_id q) = normalized_id (ro_role_id r)"
    and "s \<in> set (ro_selectors r)"
  shows "\<exists>t \<in> set (ro_selectors q). s = t \<or> selector_override_is_narrower t s"
proof -
  have q: "role_dict inherited (normalized_id (ro_role_id r)) = Some q"
    unfolding role_dict_def
    using assms(2,4,5) by (intro dict_of_distinct) (auto simp: roles_ok_def comp_def intro: rev_image_eqI)
  have s: "selector_dict (ro_selectors r) (normalized_id (selector_id s)) = Some s"
    unfolding selector_dict_def
    using assms(3,6) by (intro dict_of_distinct) (auto simp: role_ok_def comp_def)
  have "(case (selector_dict (ro_selectors q) (normalized_id (selector_id s)),
                       selector_dict (ro_selectors r) (normalized_id (selector_id s))) of
               (Some previous, Some current) \<Rightarrow>
                 ensure (current = previous \<or> selector_override_is_narrower previous current)
             | _ \<Rightarrow> Inl PyKeyError) = Inr ()"
    using assms(1,6) unfolding check_inherited_role_def q option.case bindR_eq_Inr allR_Inr by blast
  then obtain t where t: "selector_dict (ro_selectors q) (normalized_id (selector_id s)) = Some t"
    and "s = t \<or> selector_override_is_narrower t s"
    by (auto simp: s ensure_eq split: option.splits)
  moreover from t have "t \<in> set (ro_selectors q)" by (auto simp: selector_dict_def dest!: dict_ofD)
  ultimately show ?thesis by blast
qed

lemma adjust_role_Inr:
  assumes "adjust_role permits previous item = Inr v"
  shows "ro_role_id v = ro_role_id item"
    and "previous = None \<Longrightarrow> v = item"
    and "previous = Some q \<Longrightarrow> \<not> permits q item \<Longrightarrow> merge_selectors (ro_selectors q) (ro_selectors item) = Inr (ro_selectors v)"
  using assms by (auto simp: adjust_role_def bindR_eq_Inr split: option.splits if_splits)

lemma adjusted_role_narrower:
  assumes adj: "adjust_role (\<lambda>_ _. False) (Some q) r = Inr v"
    and sel: "\<And>s. s \<in> set (ro_selectors r) \<Longrightarrow> \<exists>t \<in> set (ro_selectors q). s = t \<or> selector_override_is_narrower t s"
    and ok: "role_ok q" "role_ok r"
  shows "role_ok v" and "role_selects v x \<Longrightarrow> role_selects q x"
proof -
  have "merge_selectors (ro_selectors q) (ro_selectors r) = Inr (ro_selectors v)"
    using adjust_role_Inr(3)[OF adj] by blast
  note ms = merge_selectors_from[OF this]
  have v: "set (ro_selectors v) \<subseteq> set (ro_selectors q) \<union> set (ro_selectors r)"
    and "distinct (map (normalized_id \<circ> selector_id) (ro_selectors v))"
    using ms ok by (simp_all add: role_ok_def)
  then show "role_ok v" using ok by (auto simp: role_ok_def)
  assume "role_selects v x"
  then obtain s where s: "s \<in> set (ro_selectors v)" "selector_selects s x" by (auto simp: role_selects_def)
  show "role_selects q x"
  proof (cases "s \<in> set (ro_selectors q)")
    case False
    with s v have r: "s \<in> set (ro_selectors r)" by blast
    from sel[OF this] obtain t where t: "t \<in> set (ro_selectors q)" "s = t \<or> selector_override_is_narrower t s" by blast
    moreover have "selector_ok t" "selector_ok s" using ok r t by (simp_all add: role_ok_def)
    ultimately have "selector_selects t x" using s(2) selectors.narrower_sound by blast
    with t show ?thesis by (auto simp: role_selects_def)
  qed (use s in \<open>auto simp: role_selects_def\<close>)
qed

definition narrows :: "profile_role list \<Rightarrow> profile_role list \<Rightarrow> bool" where
  "narrows inherited roles \<longleftrightarrow> (\<forall>q \<in> set inherited. \<exists>r \<in> set roles.
     normalized_id (ro_role_id r) = normalized_id (ro_role_id q) \<and> (\<forall>x. role_selects r x \<longrightarrow> role_selects q x))"

lemma inherit_roles_narrows:
  assumes inh: "inherit_roles inherited p = Inr roles"
    and ok: "roles_ok inherited" "roles_ok (mp_roles p)"
  shows "roles_ok roles" and "narrows inherited roles"
proof -
  let ?key = "normalized_id \<circ> ro_role_id"
  from inh have check: "\<forall>r \<in> set (mp_roles p). check_inherited_role inherited r = Inr ()"
    and merge: "merge_keyed ro_role_id role_variant (adjust_role (\<lambda>_ _. False)) inherited (mp_roles p) = Inr roles"
    by (auto simp: inherit_roles_def merge_roles_def bindR_eq_Inr allR_Inr)
  have di: "distinct (map ?key inherited)" and dp: "distinct (map ?key (mp_roles p))"
    using ok by (simp_all add: roles_ok_def)
  from merge_keyed_Inr[OF merge di dp] obtain m where
    rs: "roles = map snd (sort_key fst m)" and d: "distinct (map fst m)"
    and new: "\<And>r. r \<in> set (mp_roles p) \<Longrightarrow>
          \<exists>v. adjust_role (\<lambda>_ _. False) (map_of (keyed ?key inherited) (?key r)) r = Inr v \<and> map_of m (?key r) = Some v"
    and old: "\<And>k. k \<notin> ?key ` set (mp_roles p) \<Longrightarrow> map_of m k = map_of (keyed ?key inherited) k"
    by auto
  have entry: "?key v = k \<and> role_ok v \<and> (\<forall>q \<in> set inherited. ?key q = k \<longrightarrow> (\<forall>x. role_selects v x \<longrightarrow> role_selects q x))"
    if v: "map_of m k = Some v" for k v
  proof (cases "k \<in> ?key ` set (mp_roles p)")
    case True
    then obtain r where r: "r \<in> set (mp_roles p)" "k = ?key r" by blast
    from new[OF r(1)] v r(2) have adj: "adjust_role (\<lambda>_ _. False) (map_of (keyed ?key inherited) k) r = Inr v" by auto
    have kv: "?key v = k" using adjust_role_Inr(1)[OF adj] r(2) by simp
    have rok: "role_ok r" using ok(2) r(1) by (simp add: roles_ok_def)
    show ?thesis
    proof (cases "map_of (keyed ?key inherited) k")
      case None
      then have "v = r" using adjust_role_Inr(2)[OF adj] by blast
      moreover have "\<forall>q \<in> set inherited. ?key q \<noteq> k"
        using map_of_keyed[OF di] None by (metis option.distinct(1))
      ultimately show ?thesis using kv rok by blast
    next
      case (Some q)
      then have q: "q \<in> set inherited" "?key q = k" by (auto dest: map_of_keyedD)
      have qok: "role_ok q" using ok(1) q(1) by (simp add: roles_ok_def)
      have "\<exists>t \<in> set (ro_selectors q). s = t \<or> selector_override_is_narrower t s" if "s \<in> set (ro_selectors r)" for s
        using check_inherited_selector[OF check[rule_format, OF r(1)] ok(1) rok q(1) _ that] q(2) r(2) by simp
      note nar = adjusted_role_narrower[OF adj[unfolded Some] this qok rok]
      have "q' = q" if "q' \<in> set inherited" "?key q' = k" for q'
        using that q di by (metis distinct_map inj_onD)
      with kv nar show ?thesis by blast
    qed
  next
    case False
    with old v have "map_of (keyed ?key inherited) k = Some v" by simp
    then have v': "v \<in> set inherited" "?key v = k" by (auto dest: map_of_keyedD)
    then have "role_ok v" using ok(1) by (simp add: roles_ok_def)
    moreover have "q' = v" if "q' \<in> set inherited" "?key q' = k" for q'
      using that v' di by (metis distinct_map inj_onD)
    ultimately show ?thesis using v'(2) by blast
  qed
  have keys: "map ?key roles = map fst (sort_key fst m)"
    unfolding rs map_map using entry d by (auto simp: map_of_eq_Some_iff)
  then have "distinct (map ?key roles)" using d by (simp add: distinct_map)
  moreover have "role_ok v" if "v \<in> set roles" for v
    using that entry merged_value[OF d] unfolding rs by blast
  ultimately show "roles_ok roles" by (simp add: roles_ok_def)
  show "narrows inherited roles"
    unfolding narrows_def
  proof
    fix q assume q: "q \<in> set inherited"
    have "\<exists>v. map_of m (?key q) = Some v"
    proof (cases "?key q \<in> ?key ` set (mp_roles p)")
      case True
      then obtain r where "r \<in> set (mp_roles p)" "?key q = ?key r" by blast
      with new[of r] show ?thesis by auto
    next
      case False
      with old map_of_keyed[OF di q] show ?thesis by metis
    qed
    then obtain v where v: "map_of m (?key q) = Some v" by blast
    then have "v \<in> set roles" unfolding rs using merged_value[OF d] by blast
    with entry[OF v] q show "\<exists>r \<in> set roles. normalized_id (ro_role_id r) = normalized_id (ro_role_id q)
        \<and> (\<forall>x. role_selects r x \<longrightarrow> role_selects q x)"
      by auto
  qed
qed

lemma narrows_trans: "narrows a b \<Longrightarrow> narrows b c \<Longrightarrow> narrows a c"
  unfolding narrows_def by metis

definition graph_ok :: "workload_manifest \<Rightarrow> bool" where
  "graph_ok m \<longleftrightarrow> roles_ok (pg_roles m) \<and> (\<forall>p \<in> set (profile_list m). roles_ok (mp_roles p))"

lemma roles_for_narrows:
  assumes "grounded m i" and "by_profile_id m i = Some p" and "graph_ok m" and "roles_for m p = Some (Inr roles)"
  shows "roles_ok roles \<and> narrows (pg_roles m) roles"
  using assms
proof (induction arbitrary: p roles rule: grounded.induct)
  case (root i q)
  then have "inherit_roles (pg_roles m) p = Inr roles" by (subst (asm) roles_for.simps) auto
  with root show ?case
    using inherit_roles_narrows by_profile_id_known unfolding graph_ok_def by blast
next
  case (child i q parent)
  then have pq: "p = q" by simp
  from child.hyps(3) obtain r where r: "by_profile_id m (normalized_id parent) = Some r"
    by (cases rule: grounded.cases) auto
  from child.prems(3) child.hyps(2) pq r obtain inherited where
    inh: "roles_for m r = Some (Inr inherited)" and step: "inherit_roles inherited p = Inr roles"
    by (subst (asm) roles_for.simps) (auto simp: bindR_eq_Inr split: Option.bind_splits)
  from child.IH[OF r child.prems(2) inh] have IH: "roles_ok inherited" "narrows (pg_roles m) inherited" by auto
  moreover have "roles_ok (mp_roles p)"
    using child.prems(1,2) by_profile_id_known unfolding graph_ok_def by blast
  ultimately show ?case
    using inherit_roles_narrows[OF step] narrows_trans by blast
qed

end
