(* ===== verification/ResolutionFacts.thy ===== *)
theory ResolutionFacts
  imports Resolution InheritanceFacts PolicyFacts
begin

text \<open>
  Resolution only weakens under an override. A constraint that a profile inherits stays at least as
  strict in what it accepts, unless an active override of the profile names it; the lemmas go from
  one check over one step of the lineage to the resolved profile.
\<close>

section \<open>Overrides that name a constraint\<close>

text \<open>
  The path of an override names a constraint when it is that of one of its fields, or that of the
  constraint in the list of disabled references.
\<close>

definition path_names :: "manifest_profile \<Rightarrow> string \<Rightarrow> string \<Rightarrow> bool" where
  "path_names q i path \<longleftrightarrow>
     (\<exists>n \<in> set (prefixes (drop (length (profile_path q ''/constraints/'')) path)).
        normalized_id n = normalized_id i \<and> prefix (profile_path q (''/constraints/'' @ n @ ''/'')) path)
     \<or> (let n = drop (length (profile_path q ''/constraint/'')) path
        in normalized_id n = normalized_id i \<and> path = profile_path q (''/constraint/'' @ n))"

lemma path_names_field: "normalized_id (constraint_id c) = normalized_id i \<Longrightarrow>
    path_names q i (constraint_path q c field)"
  unfolding path_names_def by (intro disjI1 bexI[of _ "constraint_id c"])
    (simp_all add: constraint_path_def profile_path_def prefix_def)

lemma path_names_disabled: "normalized_id (df_target_ref d) = normalized_id i \<Longrightarrow>
    df_target_kind d = TargetConstraint \<Longrightarrow> path_names q i (disabled_path q d)"
  by (simp add: path_names_def disabled_path_def profile_path_def)

definition overrides_constraint ::
    "manifest_profile \<Rightarrow> int \<Rightarrow> string \<Rightarrow> weakening_override \<Rightarrow> bool" where
  "overrides_constraint q as_of i ov \<longleftrightarrow>
     ov_status ov = AcceptanceApproved \<and> ov_accepted_at ov \<le> as_of \<and> as_of < ov_expires_at ov
     \<and> refers (mp_profile_id q) (ov_profiles ov)
     \<and> normalized_id (ov_target_ref ov) = normalized_id i
     \<and> path_names q i (ov_target_path ov)"

definition overridden :: "manifest_profile \<Rightarrow> int \<Rightarrow> string \<Rightarrow> bool" where
  "overridden q as_of i \<longleftrightarrow> (\<exists>ov \<in> set (mp_overrides q). overrides_constraint q as_of i ov)"

lemma overridden_cong: "normalized_id i = normalized_id j \<Longrightarrow> overridden q as_of i = overridden q as_of j"
  by (simp add: overridden_def overrides_constraint_def path_names_def)

lemma find_override_names:
  assumes "find_override child as_of (constraint_path child c field) (constraint_id c) reason = Inr ()"
  shows "overridden child as_of (constraint_id c)"
proof -
  let ?P = "\<lambda>ov. authorizes ov as_of (mp_profile_id child) (constraint_path child c field) (constraint_id c) reason"
  have "length (filter ?P (mp_overrides child)) = 1"
    using assms by (simp add: find_override_def ensure_eq)
  then have "filter ?P (mp_overrides child) \<noteq> []" by auto
  then obtain ov where "ov \<in> set (mp_overrides child)" "?P ov" by (auto simp: filter_empty_conv)
  moreover have "path_names child (constraint_id c) (constraint_path child c field)"
    by (rule path_names_field) simp
  ultimately show ?thesis
    by (auto simp: overridden_def overrides_constraint_def authorizes_def)
qed

lemma whenR_Inr: "whenR b m = Inr () \<longleftrightarrow> (b \<longrightarrow> m = Inr ())"
  by (simp add: whenR_def)

lemma when_overridden:
  assumes "whenR b (find_override child as_of (constraint_path child c field) (constraint_id c) reason) = Inr ()"
    and "\<not> overridden child as_of (constraint_id c)"
  shows "\<not> b"
  using assms find_override_names by (auto simp: whenR_Inr)

lemma for_inherited_Inr:
  "for_inherited key inherited check resolved = Inr () \<longleftrightarrow>
     (\<forall>x \<in> set resolved. \<forall>q. item_dict key inherited (normalized_id (key x)) = Some q \<longrightarrow> check q x = Inr ())"
  by (auto simp: for_inherited_def allR_Inr split: option.splits)

lemma item_dict_distinct:
  assumes "distinct (map (normalized_id \<circ> key) items)" and "q \<in> set items" and "normalized_id (key q) = k"
  shows "item_dict key items k = Some q"
  unfolding item_dict_def using assms by (intro dict_of_distinct) (auto simp: comp_def)

section \<open>Strictness\<close>

text \<open>A constraint is satisfied when its proof yields its own success verdict.\<close>

definition satisfied ::
    "('r \<Rightarrow> string) \<Rightarrow> resolved_profile \<Rightarrow> 'r evidence \<Rightarrow> int \<Rightarrow> policy_constraint \<Rightarrow> bool" where
  "satisfied cj p ev t c \<longleftrightarrow>
     (\<exists>d. evaluate_proof cj p ev c t = Inr d \<and> de_verdict d = success_verdict c)"

definition stricter :: "'r itself \<Rightarrow> policy_constraint \<Rightarrow> policy_constraint \<Rightarrow> bool" where
  "stricter T c c' \<longleftrightarrow> (\<forall>(cj :: 'r \<Rightarrow> string) p ev t. satisfied cj p ev t c' \<longrightarrow> satisfied cj p ev t c)"

lemma stricter_refl: "stricter T c c"
  by (simp add: stricter_def)

lemma stricter_trans: "stricter T a b \<Longrightarrow> stricter T b c \<Longrightarrow> stricter T a c"
  by (simp add: stricter_def)

text \<open>What is the same in a constraint and the one it replaces when no override names it.\<close>

definition same_frame :: "policy_constraint \<Rightarrow> policy_constraint \<Rightarrow> bool" where
  "same_frame c c' \<longleftrightarrow> pc_type c = pc_type c' \<and> pc_finding_kind c = pc_finding_kind c'
     \<and> success_verdict c = success_verdict c'
     \<and> (failure_verdict c = Violation \<longrightarrow> failure_verdict c' = Violation)"

lemma decide_verdict [simp]: "de_verdict (decide v refs) = v"
  by (simp add: decide_def)

lemma success_not_failure:
  "constraint_ok c \<Longrightarrow> success_verdict c \<noteq> failure_verdict c \<and> success_verdict c \<noteq> Unknown
     \<and> success_verdict c \<noteq> Conflicting \<and> success_verdict c \<noteq> Violation"
  by (auto simp: constraint_ok_def)

lemma gate_verdict:
  assumes "merge_gates gs = Some g"
  shows "g = Conflicting \<or> g = Unknown"
  using assms by (auto simp: merge_gates_def split: if_splits)

lemma same_frame_success:
  "same_frame c c' \<Longrightarrow> success_verdict c' = success_verdict c"
  by (simp add: same_frame_def)

lemma cardinality_stricter:
  assumes "same_frame c c'" and "constraint_ok c'" and "narrower_range n n'"
    and "de_verdict (evaluate_cardinality p ev c' r n') = success_verdict c'"
  shows "de_verdict (evaluate_cardinality p ev c r n) = success_verdict c"
  using assms(3,4) success_not_failure[OF assms(2)] assms(1)
  by (auto simp: evaluate_cardinality_def Let_def narrower_range_def same_frame_def
      dest: gate_verdict split: prod.splits option.splits if_splits)

lemma zone_distribution_stricter:
  assumes "same_frame c c'" and "constraint_ok c'" and "n \<le> n'"
    and "de_verdict (evaluate_zone_distribution ev c' r n') = success_verdict c'"
  shows "de_verdict (evaluate_zone_distribution ev c r n) = success_verdict c"
  using assms(3,4) success_not_failure[OF assms(2)] assms(1)
  by (auto simp: evaluate_zone_distribution_def Let_def same_frame_def
      dest: gate_verdict split: option.splits if_splits)

lemma zone_colocation_stricter:
  assumes "same_frame c c'" and "constraint_ok c'"
    and "de_verdict (evaluate_zone_colocation ev c' s a) = success_verdict c'"
  shows "de_verdict (evaluate_zone_colocation ev c s a) = success_verdict c"
  using assms(3) success_not_failure[OF assms(2)] assms(1)
  by (auto simp: evaluate_zone_colocation_def Let_def same_frame_def
      dest: gate_verdict split: option.splits if_splits)

lemma bound_role_cong: "normalized_id r = normalized_id r' \<Longrightarrow> bound_role_resources ev r = bound_role_resources ev r'"
  by (simp add: bound_role_resources_def)

lemma operational_state_stricter:
  assumes "same_frame c c'" and "constraint_ok c'" and "n \<le> n'"
    and "normalized_id r = normalized_id r'" and "set h = set h'" and "set f = set f'"
    and "de_verdict (evaluate_role_operational_state ev c' r' h' f' n') = success_verdict c'"
  shows "de_verdict (evaluate_role_operational_state ev c r h f n) = success_verdict c"
  using assms(3,7) success_not_failure[OF assms(2)] assms(1,5,6) bound_role_cong[OF assms(4), of ev]
  by (auto simp: evaluate_role_operational_state_def Let_def same_frame_def
      dest: gate_verdict split: option.splits if_splits)

lemma relationship_stricter:
  assumes "same_frame c c'" and "constraint_ok c'"
    and "evaluate_relationship cj p ev c' ref = Inr d'" and "de_verdict d' = success_verdict c'"
  shows "\<exists>d. evaluate_relationship cj p ev c ref = Inr d \<and> de_verdict d = success_verdict c"
proof -
  let ?fs = "sort_key (\<lambda>f. cj (lf_ref f))
      (filter (\<lambda>f. normalized_id (lf_relationship_ref f) = normalized_id ref) (ev_relationships ev))"
  obtain g brefs where g: "relationship_role_bindings p ev ref = Inr (g, brefs)"
    using assms(3) by (auto simp: evaluate_relationship_def Let_def bindR_eq_Inr)
  have same: "success_verdict c' = success_verdict c" "pc_type c' = pc_type c"
    using assms(1) by (simp_all add: same_frame_def)
  have ne: "success_verdict c \<noteq> failure_verdict c'" "success_verdict c \<noteq> Unknown" "success_verdict c \<noteq> Conflicting"
    using success_not_failure[OF assms(2)] same by auto
  have v: "de_verdict d' = success_verdict c" using assms(4) same by simp
  show ?thesis
  proof (cases "list_ex (\<lambda>f. lf_state f = StateConflicting) ?fs")
    case True
    with assms(3) v ne show ?thesis by (auto simp: evaluate_relationship_def Let_def g)
  next
    case False
    show ?thesis
    proof (cases g)
      case (Some x)
      with assms(3) v False show ?thesis by (auto simp: evaluate_relationship_def Let_def g)
    next
      case None
      obtain f where f: "?fs = [f]"
        using assms(3) v ne False None
        by (auto simp: evaluate_relationship_def Let_def g split: list.splits)
      with assms(3) v ne False None show ?thesis
        by (auto simp: evaluate_relationship_def Let_def g same f split: if_splits)
    qed
  qed
qed

lemma control_stricter:
  assumes "same_frame c c'" and "constraint_ok c'"
    and "de_verdict (evaluate_control ev c' ref h) = success_verdict c'"
  shows "de_verdict (evaluate_control ev c ref h) = success_verdict c"
  using assms(3) success_not_failure[OF assms(2)] assms(1)
  by (auto simp: evaluate_control_def Let_def same_frame_def split: if_splits list.splits)

lemma freshness_stricter:
  assumes "same_frame c c'" and "constraint_ok c'" and "n' \<le> n"
    and "de_verdict (evaluate_freshness ev c' n' t) = success_verdict c'"
  shows "de_verdict (evaluate_freshness ev c n t) = success_verdict c"
  using assms(3,4) success_not_failure[OF assms(2)] assms(1)
  by (auto simp: evaluate_freshness_def Let_def same_frame_def split: if_splits)

lemma objective_stricter:
  assumes "same_frame c c'" and "constraint_ok c'"
    and "de_verdict (evaluate_objective ev c' ref cmp th) = success_verdict c'"
  shows "de_verdict (evaluate_objective ev c ref cmp th) = success_verdict c"
  using assms(3) success_not_failure[OF assms(2)] assms(1)
  by (auto simp: evaluate_objective_def Let_def same_frame_def split: if_splits list.splits)

text \<open>What the loop body guarantees of the two proofs when no override names the constraint.\<close>

lemma check_verdicts_frame:
  assumes "check_verdicts child as_of c c' = Inr ()" and "\<not> overridden child as_of (constraint_id c')"
    and "pc_type c = pc_type c'" and "pc_finding_kind c = pc_finding_kind c'"
  shows "same_frame c c'"
proof -
  from assms(1) have
    f: "whenR (failure_verdict c = Violation \<and> failure_verdict c' \<noteq> Violation)
       (find_override child as_of (constraint_path child c' ''failureVerdict'') (constraint_id c')
          ConstraintRequirementRelaxation) = Inr ()"
    and s: "whenR (success_verdict c \<noteq> success_verdict c')
       (find_override child as_of (constraint_path child c' ''successVerdict'') (constraint_id c')
          ConstraintRequirementRelaxation) = Inr ()"
    by (auto simp: check_verdicts_def bindR_eq_Inr)
  show ?thesis
    using when_overridden[OF f assms(2)] when_overridden[OF s assms(2)] assms(3,4)
    by (auto simp: same_frame_def)
qed

definition proof_narrows :: "proof_requirement \<Rightarrow> proof_requirement \<Rightarrow> bool" where
  "proof_narrows pp cp \<longleftrightarrow> (case pp of
       CardinalityProof r n \<Rightarrow> (case cp of CardinalityProof r' n' \<Rightarrow> r = r' \<and> narrower_range n n' | _ \<Rightarrow> False)
     | ZoneDistributionProof r n \<Rightarrow> (case cp of ZoneDistributionProof r' n' \<Rightarrow> r = r' \<and> n \<le> n' | _ \<Rightarrow> False)
     | RoleOperationalStateProof r h f n \<Rightarrow> (case cp of
           RoleOperationalStateProof r' h' f' n' \<Rightarrow>
             normalized_id r = normalized_id r' \<and> set h = set h' \<and> set f = set f' \<and> n \<le> n'
         | _ \<Rightarrow> False)
     | EvidenceFreshnessProof n \<Rightarrow> (case cp of EvidenceFreshnessProof n' \<Rightarrow> n' \<le> n | _ \<Rightarrow> False)
     | _ \<Rightarrow> pp = cp)"

lemma check_proof_narrows:
  assumes "check_proof child as_of c' pp cp = Inr ()" and "proof_kind pp = proof_kind cp"
    and "\<not> overridden child as_of (constraint_id c')"
  shows "proof_narrows pp cp"
proof (cases pp)
  case (CardinalityProof r n)
  then obtain r' n' where "cp = CardinalityProof r' n'" using assms(2) by (cases cp) auto
  with assms(1,3) CardinalityProof show ?thesis
    by (auto simp: check_proof_def proof_narrows_def bindR_eq_Inr ensure_eq dest: when_overridden)
next
  case (ZoneDistributionProof r n)
  then obtain r' n' where "cp = ZoneDistributionProof r' n'" using assms(2) by (cases cp) auto
  with assms(1,3) ZoneDistributionProof show ?thesis
    by (auto simp: check_proof_def check_zones_def proof_narrows_def bindR_eq_Inr ensure_eq dest: when_overridden)
next
  case (RoleOperationalStateProof r h f n)
  then obtain r' h' f' n' where "cp = RoleOperationalStateProof r' h' f' n'" using assms(2) by (cases cp) auto
  with assms(1,3) RoleOperationalStateProof show ?thesis
    by (auto simp: check_proof_def check_operational_state_def proof_narrows_def bindR_eq_Inr ensure_eq
        dest: when_overridden)
next
  case (EvidenceFreshnessProof n)
  then obtain n' where "cp = EvidenceFreshnessProof n'" using assms(2) by (cases cp) auto
  with assms(1,3) EvidenceFreshnessProof show ?thesis
    by (auto simp: check_proof_def proof_narrows_def dest: when_overridden)
qed (use assms(1) in \<open>auto simp: check_proof_def proof_narrows_def ensure_eq\<close>)

lemma proof_narrows_stricter:
  assumes "same_frame c c'" and "constraint_ok c'" and "proof_narrows (pc_proof c) (pc_proof c')"
  shows "stricter T c c'"
  unfolding stricter_def
proof (intro allI impI)
  fix cj p ev t assume "satisfied cj p ev t c'"
  then obtain d' where e: "evaluate_proof cj p ev c' t = Inr d'" and v: "de_verdict d' = success_verdict c'"
    by (auto simp: satisfied_def)
  note intros = cardinality_stricter[OF assms(1,2)] zone_colocation_stricter[OF assms(1,2)]
    zone_distribution_stricter[OF assms(1,2)] operational_state_stricter[OF assms(1,2)]
    control_stricter[OF assms(1,2)] freshness_stricter[OF assms(1,2)] objective_stricter[OF assms(1,2)]
  show "satisfied cj p ev t c"
  proof (cases "pc_proof c'")
    case (RelationshipPresenceProof ref)
    moreover from this assms(3) have "pc_proof c = RelationshipPresenceProof ref"
      by (auto simp: proof_narrows_def split: proof_requirement.splits)
    ultimately show ?thesis
      using relationship_stricter[OF assms(1,2)] e v by (auto simp: satisfied_def evaluate_proof_def)
  qed (use assms(3) e v intros in
      \<open>auto simp: satisfied_def evaluate_proof_def proof_narrows_def split: proof_requirement.splits\<close>)
qed

lemma weakening_checks_stricter:
  assumes "check_constraint_weakening child as_of c c' = Inr ()"
    and "pc_finding_kind c = pc_finding_kind c'" and "constraint_variant c = constraint_variant c'"
    and "constraint_ok c'" and "\<not> overridden child as_of (constraint_id c')"
  shows "stricter T c c'"
proof -
  from assms(1) have v: "check_verdicts child as_of c c' = Inr ()"
    and p: "check_proof child as_of c' (pc_proof c) (pc_proof c') = Inr ()"
    by (auto simp: check_constraint_weakening_def bindR_eq_Inr)
  from assms(3) have ty: "pc_type c = pc_type c'" and k: "proof_kind (pc_proof c) = proof_kind (pc_proof c')"
    by (simp_all add: constraint_variant_def)
  show ?thesis
    by (rule proof_narrows_stricter[OF check_verdicts_frame[OF v assms(5) ty assms(2)] assms(4)
          check_proof_narrows[OF p k assms(5)]])
qed

section \<open>Merging items\<close>

lemma merge_loop_variant:
  assumes "foldR (merge_step key variant adjust) m0 items = Inr m"
    and "distinct (map (normalized_id \<circ> key) items)"
    and "item \<in> set items" and "map_of m0 (normalized_id (key item)) = Some q"
  shows "variant q = variant item"
  using assms
proof (induction items arbitrary: m0)
  case (Cons x items)
  let ?k = "normalized_id (key x)"
  from Cons.prems(1) obtain v where hd: "\<forall>q. map_of m0 ?k = Some q \<longrightarrow> variant q = variant x"
    and rest: "foldR (merge_step key variant adjust) (AList.update ?k v m0) items = Inr m"
    by (auto simp: merge_step_Inr bindR_eq_Inr)
  show ?case
  proof (cases "item = x")
    case True
    with hd Cons.prems(4) show ?thesis by blast
  next
    case False
    with Cons.prems(3) have i: "item \<in> set items" by simp
    with Cons.prems(2) have "normalized_id (key item) \<noteq> ?k" by (auto simp: rev_image_eqI)
    then have "map_of (AList.update ?k v m0) (normalized_id (key item)) = Some q"
      using Cons.prems(4) by (simp add: AList.update_conv')
    with Cons.IH[OF rest] Cons.prems(2) i show ?thesis by simp
  qed
qed simp

lemma merge_items:
  assumes "merge_keyed key variant adjust current additions = Inr rs"
    and dc: "distinct (map (normalized_id \<circ> key) current)" and da: "distinct (map (normalized_id \<circ> key) additions)"
    and keep: "\<forall>q x v. adjust q x = Inr v \<longrightarrow> v = x"
  shows "distinct (map (normalized_id \<circ> key) rs)" and "set rs \<subseteq> set current \<union> set additions"
    and "x \<in> set current \<Longrightarrow> \<exists>y \<in> set rs. normalized_id (key y) = normalized_id (key x)
          \<and> (y = x \<or> y \<in> set additions \<and> variant x = variant y)"
proof -
  let ?key = "normalized_id \<circ> key"
  from assms(1) obtain m where fold: "foldR (merge_step key variant adjust) (keyed ?key current) additions = Inr m"
    and rs: "rs = map snd (sort_key fst m)"
    by (auto simp: merge_keyed_def bindR_eq_Inr)
  from merge_loop[OF fold da keyed_distinct] have d: "distinct (map fst m)"
    and new: "\<And>y. y \<in> set additions \<Longrightarrow> \<exists>v. adjust (map_of (keyed ?key current) (?key y)) y = Inr v \<and> map_of m (?key y) = Some v"
    and old: "\<And>k. k \<notin> ?key ` set additions \<Longrightarrow> map_of m k = map_of (keyed ?key current) k"
    by auto
  have new': "map_of m (?key y) = Some y" if "y \<in> set additions" for y
    using new[OF that] keep by blast
  have entry: "k = ?key v \<and> v \<in> set current \<union> set additions" if v: "map_of m k = Some v" for k v
  proof (cases "k \<in> ?key ` set additions")
    case True
    then obtain y where "y \<in> set additions" "k = ?key y" by blast
    with new'[of y] v show ?thesis by auto
  next
    case False
    with old v show ?thesis by (auto dest: map_of_keyedD)
  qed
  then show "set rs \<subseteq> set current \<union> set additions"
    unfolding rs using merged_value[OF d] by blast
  have "map ?key rs = map fst (sort_key fst m)"
    unfolding rs map_map using entry d by (auto simp: map_of_eq_Some_iff)
  then show "distinct (map ?key rs)" using d by (simp add: distinct_map)
  show "\<exists>y \<in> set rs. normalized_id (key y) = normalized_id (key x)
          \<and> (y = x \<or> y \<in> set additions \<and> variant x = variant y)" if x: "x \<in> set current"
  proof (cases "?key x \<in> ?key ` set additions")
    case True
    then obtain y where y: "y \<in> set additions" "?key y = ?key x" by force
    have "map_of (keyed ?key current) (?key y) = Some x" using map_of_keyed[OF dc x] y(2) by simp
    then have "variant x = variant y" using merge_loop_variant[OF fold da y(1)] by simp
    moreover have "y \<in> set rs" unfolding rs using merged_value[OF d] new'[OF y(1)] by blast
    ultimately show ?thesis using y by auto
  next
    case False
    then have "map_of m (?key x) = Some x" using old map_of_keyed[OF dc x] by simp
    then have "x \<in> set rs" unfolding rs using merged_value[OF d] by blast
    then show ?thesis by blast
  qed
qed

lemma adjust_constraint_keeps: "\<forall>q x v. adjust_constraint q x = Inr v \<longrightarrow> v = x"
  by (auto simp: adjust_constraint_def split: option.splits if_splits)

section \<open>Disabled references\<close>

definition disables_constraint :: "manifest_profile \<Rightarrow> int \<Rightarrow> string \<Rightarrow> bool" where
  "disables_constraint child as_of i \<longleftrightarrow>
     overridden child as_of i \<and> normalized_id i \<notin> set protected_refs"

lemma remove_item_Inr:
  "remove_item key ref items = Inr rest \<longleftrightarrow>
     rest = filter (\<lambda>x. normalized_id (key x) \<noteq> normalized_id ref) items \<and> length rest \<noteq> length items"
  by (auto simp: remove_item_def Let_def)

lemma remove_target_constraints:
  assumes "remove_target d co = Inr co'"
  shows "co_constraints co' = (if df_target_kind d = TargetConstraint
      then filter (\<lambda>c. normalized_id (constraint_id c) \<noteq> normalized_id (df_target_ref d)) (co_constraints co)
      else co_constraints co)"
    and "co_roles co' = (if df_target_kind d = TargetRole
      then filter (\<lambda>r. normalized_id (ro_role_id r) \<noteq> normalized_id (df_target_ref d)) (co_roles co)
      else co_roles co)"
  using assms by (auto simp: remove_target_def Let_def bindR_eq_Inr remove_item_Inr split: target_kind.splits)

lemma disable_constraint:
  assumes "disable child as_of co d = Inr co'" and "c \<in> set (co_constraints co)"
  shows "c \<in> set (co_constraints co') \<or> disables_constraint child as_of (constraint_id c)"
proof (cases "c \<in> set (co_constraints co')")
  case False
  from assms(1) obtain ov where
    ref: "normalized_id (df_target_ref d) \<notin> set protected_refs"
    and ov: "find (\<lambda>ov. normalized_id (ov_override_id ov) = normalized_id (df_override_ref d)) (mp_overrides child) = Some ov"
    and auth: "authorizes ov as_of (mp_profile_id child) (disabled_path child d) (df_target_ref d)
       (disabling_reason (df_target_kind d))"
    and rem: "remove_target d co = Inr co'"
    by (auto simp: disable_def bindR_eq_Inr ensure_eq split: option.splits)
  from False assms(2) remove_target_constraints(1)[OF rem] have k: "df_target_kind d = TargetConstraint"
    and i: "normalized_id (constraint_id c) = normalized_id (df_target_ref d)"
    by (auto split: if_splits)
  have "ov \<in> set (mp_overrides child)" using ov by (auto simp: find_Some_iff)
  moreover have "path_names child (constraint_id c) (disabled_path child d)"
    using i k by (intro path_names_disabled) simp_all
  ultimately have "overridden child as_of (constraint_id c)"
    using auth i by (auto simp: overridden_def overrides_constraint_def authorizes_def)
  with ref i show ?thesis by (simp add: disables_constraint_def)
qed simp

lemma apply_disabled_refs_constraint:
  assumes "apply_disabled_refs child as_of co = Inr co'" and "c \<in> set (co_constraints co)"
  shows "c \<in> set (co_constraints co') \<or> disables_constraint child as_of (constraint_id c)"
proof -
  have "foldR (disable child as_of) co ds = Inr co' \<Longrightarrow> c \<in> set (co_constraints co) \<Longrightarrow>
      c \<in> set (co_constraints co') \<or> disables_constraint child as_of (constraint_id c)" for ds
    by (induction ds arbitrary: co) (auto simp: bindR_eq_Inr dest: disable_constraint)
  with assms show ?thesis by (simp add: apply_disabled_refs_def)
qed

lemma apply_disabled_refs_subset:
  assumes "apply_disabled_refs child as_of co = Inr co'"
  shows "set (co_constraints co') \<subseteq> set (co_constraints co)
    \<and> (distinct (map (normalized_id \<circ> constraint_id) (co_constraints co)) \<longrightarrow>
         distinct (map (normalized_id \<circ> constraint_id) (co_constraints co')))
    \<and> set (co_roles co') \<subseteq> set (co_roles co)"
proof -
  have step: "set (co_constraints co') \<subseteq> set (co_constraints co)
    \<and> (distinct (map (normalized_id \<circ> constraint_id) (co_constraints co)) \<longrightarrow>
         distinct (map (normalized_id \<circ> constraint_id) (co_constraints co')))
    \<and> set (co_roles co') \<subseteq> set (co_roles co)"
    if "disable child as_of co d = Inr co'" for co co' d
  proof -
    from that have "remove_target d co = Inr co'" by (auto simp: disable_def bindR_eq_Inr)
    from remove_target_constraints[OF this] show ?thesis by (auto simp: distinct_map_filter)
  qed
  have "foldR (disable child as_of) co ds = Inr co' \<Longrightarrow> set (co_constraints co') \<subseteq> set (co_constraints co)
    \<and> (distinct (map (normalized_id \<circ> constraint_id) (co_constraints co)) \<longrightarrow>
         distinct (map (normalized_id \<circ> constraint_id) (co_constraints co')))
    \<and> set (co_roles co') \<subseteq> set (co_roles co)" for ds
  proof (induction ds arbitrary: co)
    case (Cons d ds)
    then obtain c1 where s1: "disable child as_of co d = Inr c1" and r: "foldR (disable child as_of) c1 ds = Inr co'"
      by (auto simp: bindR_eq_Inr)
    from step[OF s1] Cons.IH[OF r] show ?case by blast
  qed simp
  with assms show ?thesis by (simp add: apply_disabled_refs_def)
qed

section \<open>One step of the lineage\<close>

definition distinct_constraints :: "policy_constraint list \<Rightarrow> bool" where
  "distinct_constraints cs \<longleftrightarrow> distinct (map (normalized_id \<circ> constraint_id) cs)"

lemma merged_constraint:
  assumes "merge_profile permits child as_of co = Inr merged"
    and "distinct_constraints (co_constraints co)" and "distinct_constraints (mp_constraints child)"
  shows "distinct_constraints (co_constraints merged)"
    and "set (co_constraints merged) \<subseteq> set (co_constraints co) \<union> set (mp_constraints child)"
    and "c \<in> set (co_constraints co) \<Longrightarrow> \<not> overridden child as_of (constraint_id c)
      \<Longrightarrow> \<forall>x \<in> set (mp_constraints child). constraint_ok x
      \<Longrightarrow> \<exists>c' \<in> set (co_constraints merged). normalized_id (constraint_id c') = normalized_id (constraint_id c)
            \<and> stricter T c c' \<and> (c' = c \<or> c' \<in> set (mp_constraints child))"
proof -
  from assms(1) have merge: "merge_keyed constraint_id constraint_variant adjust_constraint
        (co_constraints co) (mp_constraints child) = Inr (co_constraints merged)"
    and prot: "validate_protected_constraint_overrides (co_constraints co) (co_constraints merged) child as_of = Inr ()"
    and weak: "validate_constraint_requirement_weakening (co_constraints co) (co_constraints merged) child as_of = Inr ()"
    by (auto simp: merge_profile_def bindR_eq_Inr Let_def)
  note items = merge_items[OF merge assms(2,3)[unfolded distinct_constraints_def] adjust_constraint_keeps]
  show "distinct_constraints (co_constraints merged)"
    using items(1) by (simp add: distinct_constraints_def)
  show "set (co_constraints merged) \<subseteq> set (co_constraints co) \<union> set (mp_constraints child)"
    by (rule items(2))
  assume c: "c \<in> set (co_constraints co)" and free: "\<not> overridden child as_of (constraint_id c)"
    and ok: "\<forall>x \<in> set (mp_constraints child). constraint_ok x"
  from items(3)[OF c] obtain c' where c': "c' \<in> set (co_constraints merged)"
    and i: "normalized_id (constraint_id c') = normalized_id (constraint_id c)"
    and new: "c' = c \<or> c' \<in> set (mp_constraints child) \<and> constraint_variant c = constraint_variant c'" by blast
  have prev: "item_dict constraint_id (co_constraints co) (normalized_id (constraint_id c')) = Some c"
    using item_dict_distinct[OF _ c] assms(2) i by (simp add: distinct_constraints_def)
  have "stricter T c c'"
  proof (cases "c' = c")
    case False
    with new ok have n: "constraint_variant c = constraint_variant c'" "constraint_ok c'" by auto
    have "check_protected_override child as_of c c' = Inr ()"
      using prot prev c' by (auto simp: validate_protected_constraint_overrides_def for_inherited_Inr)
    then have "pc_finding_kind c = pc_finding_kind c'"
      by (auto simp: check_protected_override_def bindR_eq_Inr ensure_eq)
    moreover have "check_constraint_weakening child as_of c c' = Inr ()"
      using weak prev c' by (auto simp: validate_constraint_requirement_weakening_def for_inherited_Inr)
    moreover have "\<not> overridden child as_of (constraint_id c')" using free overridden_cong[OF i] by simp
    ultimately show ?thesis using weakening_checks_stricter n by blast
  qed (simp add: stricter_refl)
  with c' i new show "\<exists>c' \<in> set (co_constraints merged). normalized_id (constraint_id c') = normalized_id (constraint_id c)
            \<and> stricter T c c' \<and> (c' = c \<or> c' \<in> set (mp_constraints child))" by blast
qed

lemma resolve_step_Inr:
  assumes "resolve_step rv m as_of (co, parent, chain) child = Inr s"
  obtains merged kept p where "merge_profile (permits_for rv m child) child as_of co = Inr merged"
    and "apply_disabled_refs child as_of merged = Inr kept"
    and "seal_resolved (rv_digests rv) (assemble m child (chain @ [mp_profile_id child]) kept) = Inr p"
    and "s = (kept, Some p, chain @ [mp_profile_id child])"
  using assms by (auto simp: resolve_step_def bindR_eq_Inr Let_def)

lemma step_constraint:
  assumes "resolve_step rv m as_of (co, parent, chain) child = Inr (kept, parent', chain')"
    and d: "distinct_constraints (co_constraints co)" and dc: "distinct_constraints (mp_constraints child)"
  shows "distinct_constraints (co_constraints kept)"
    and "c \<in> set (co_constraints co) \<Longrightarrow> \<not> overridden child as_of (constraint_id c)
      \<Longrightarrow> \<forall>x \<in> set (mp_constraints child). constraint_ok x
      \<Longrightarrow> \<exists>c' \<in> set (co_constraints kept). normalized_id (constraint_id c') = normalized_id (constraint_id c)
            \<and> stricter T c c' \<and> (c' = c \<or> c' \<in> set (mp_constraints child))"
proof -
  obtain merged where merge: "merge_profile (permits_for rv m child) child as_of co = Inr merged"
    and disable: "apply_disabled_refs child as_of merged = Inr kept"
    by (rule resolve_step_Inr[OF assms(1)]) auto
  note mc = merged_constraint[OF merge d dc]
  show "distinct_constraints (co_constraints kept)"
    using apply_disabled_refs_subset[OF disable] mc(1) by (simp add: distinct_constraints_def)
  assume c: "c \<in> set (co_constraints co)" and free: "\<not> overridden child as_of (constraint_id c)"
    and ok: "\<forall>x \<in> set (mp_constraints child). constraint_ok x"
  from mc(3)[OF this] obtain c' where c': "c' \<in> set (co_constraints merged)"
    and i: "normalized_id (constraint_id c') = normalized_id (constraint_id c)"
    and r: "stricter T c c'" "c' = c \<or> c' \<in> set (mp_constraints child)" by blast
  have "\<not> overridden child as_of (constraint_id c')" using free overridden_cong[OF i] by simp
  then have "c' \<in> set (co_constraints kept)"
    using apply_disabled_refs_constraint[OF disable c'] by (auto simp: disables_constraint_def)
  with i r show "\<exists>c' \<in> set (co_constraints kept). normalized_id (constraint_id c') = normalized_id (constraint_id c)
            \<and> stricter T c c' \<and> (c' = c \<or> c' \<in> set (mp_constraints child))" by blast
qed

section \<open>The whole lineage\<close>

lemma lineage_constraint:
  assumes "foldR (resolve_step rv m as_of) (co, parent, chain) ps = Inr (kept, parent', chain')"
    and "distinct_constraints (co_constraints co)"
    and "\<forall>p \<in> set ps. distinct_constraints (mp_constraints p) \<and> (\<forall>x \<in> set (mp_constraints p). constraint_ok x)"
    and "c \<in> set (co_constraints co)" and "\<forall>p \<in> set ps. \<not> overridden p as_of (constraint_id c)"
  shows "\<exists>c' \<in> set (co_constraints kept). normalized_id (constraint_id c') = normalized_id (constraint_id c)
     \<and> stricter T c c' \<and> (c' = c \<or> (\<exists>p \<in> set ps. c' \<in> set (mp_constraints p)))"
  using assms
proof (induction ps arbitrary: co parent chain c)
  case Nil
  then show ?case by (auto simp: stricter_refl)
next
  case (Cons p ps)
  from Cons.prems(1) obtain co1 pa1 ch1 where
    s: "resolve_step rv m as_of (co, parent, chain) p = Inr (co1, pa1, ch1)"
    and rest: "foldR (resolve_step rv m as_of) (co1, pa1, ch1) ps = Inr (kept, parent', chain')"
    by (auto simp: bindR_eq_Inr)
  from Cons.prems(3) have dp: "distinct_constraints (mp_constraints p)"
    and okp: "\<forall>x \<in> set (mp_constraints p). constraint_ok x" by auto
  note st = step_constraint[OF s Cons.prems(2) dp]
  from Cons.prems(5) have "\<not> overridden p as_of (constraint_id c)" by simp
  from st(2)[OF Cons.prems(4) this okp] obtain c1 where c1: "c1 \<in> set (co_constraints co1)"
    and i1: "normalized_id (constraint_id c1) = normalized_id (constraint_id c)"
    and r1: "stricter T c c1" "c1 = c \<or> c1 \<in> set (mp_constraints p)" by blast
  have "\<forall>q \<in> set ps. \<not> overridden q as_of (constraint_id c1)"
    using Cons.prems(5) overridden_cong[OF i1] by simp
  from Cons.IH[OF rest st(1) _ c1 this] Cons.prems(3) obtain c' where "c' \<in> set (co_constraints kept)"
    and "normalized_id (constraint_id c') = normalized_id (constraint_id c)"
    and "stricter T c1 c'" "c' = c1 \<or> (\<exists>p \<in> set ps. c' \<in> set (mp_constraints p))"
    using i1 by auto
  with r1 stricter_trans[OF r1(1)] show ?case by auto
qed

lemma foldR_append: "foldR f s (xs @ ys) = bindR (foldR f s xs) (\<lambda>s'. foldR f s' ys)"
  by (induction xs arbitrary: s) (auto simp: bindR_def split: sum.splits)

lemma lineage_chain:
  "foldR (resolve_step rv m as_of) (co, parent, chain) ps = Inr (kept, parent', chain')
   \<Longrightarrow> chain' = chain @ map mp_profile_id ps"
proof (induction ps arbitrary: co parent chain)
  case (Cons p ps)
  from Cons.prems obtain co1 pa1 ch1 where s: "resolve_step rv m as_of (co, parent, chain) p = Inr (co1, pa1, ch1)"
    and rest: "foldR (resolve_step rv m as_of) (co1, pa1, ch1) ps = Inr (kept, parent', chain')"
    by (auto simp: bindR_eq_Inr)
  have "ch1 = chain @ [mp_profile_id p]" by (rule resolve_step_Inr[OF s]) simp
  with Cons.IH[OF rest] show ?case by simp
qed simp

lemma if_Inr_D: "(if b then Inr x else Inl e) = Inr y \<Longrightarrow> x = y"
  by (simp split: if_splits)

lemma sealed_collections:
  assumes "seal_resolved dg q = Inr p"
  shows "rp_constraints p = rp_constraints q" and "rp_roles p = rp_roles q"
    and "rp_profile_id p = rp_profile_id q" and "rp_inheritance_chain p = rp_inheritance_chain q"
proof -
  from assms have "q\<lparr>rp_digest := recompute_semantic_digest dg (sort_resolved q), rp_compatibility := (rp_compatibility q)
     \<lparr>cm_artifact_digest := recompute_artifact_digest dg (sort_resolved q),
       cm_semantic_digest := recompute_semantic_digest dg (sort_resolved q)\<rparr>\<rparr> = p"
    unfolding seal_resolved_def construct_resolved_def Let_def by (rule if_Inr_D)
  then show "rp_constraints p = rp_constraints q" and "rp_roles p = rp_roles q"
    and "rp_profile_id p = rp_profile_id q" and "rp_inheritance_chain p = rp_inheritance_chain q"
    by (auto dest: sym)
qed

lemma resolved_of_last:
  assumes "foldR (resolve_step rv m as_of) s (ps @ [p]) = Inr (kept, parent', chain')"
  obtains r where "parent' = Some r" and "rp_constraints r = filter (\<lambda>c. refers (mp_profile_id p) (pc_profiles c)) (co_constraints kept)"
    and "rp_roles r = co_roles kept" and "rp_profile_id r = mp_profile_id p" and "rp_inheritance_chain r = chain'"
proof -
  from assms obtain co parent chain where
    s: "resolve_step rv m as_of (co, parent, chain) p = Inr (kept, parent', chain')"
    by (auto simp: foldR_append bindR_eq_Inr)
  obtain r where seal: "seal_resolved (rv_digests rv) (assemble m p (chain @ [mp_profile_id p]) kept) = Inr r"
    and "parent' = Some r" and "chain' = chain @ [mp_profile_id p]"
    by (rule resolve_step_Inr[OF s]) auto
  with sealed_collections[OF seal] show ?thesis by (intro that) (auto simp: assemble_def Let_def)
qed

definition lineage_from :: "workload_manifest \<Rightarrow> manifest_profile list \<Rightarrow> manifest_profile
    \<Rightarrow> (athena_error + manifest_profile list) \<Rightarrow> bool" where
  "lineage_from m acc p r \<longleftrightarrow> (p \<in> set (profile_list m) \<longrightarrow> (\<forall>ps. r = Inr ps \<longrightarrow>
     (\<exists>qs. ps = rev (acc @ p # qs) \<and> set qs \<subseteq> set (profile_list m))))"

lemma lineage_loop_lineage: "lineage_loop m visiting acc p = Some r \<Longrightarrow> lineage_from m acc p r"
proof (rule lineage_loop.raw_induct[where P = "\<lambda>m visiting acc p r. lineage_from m acc p r"], goal_cases)
  case (1 loop m visiting acc p r)
  show ?case
  proof (cases "normalized_id (mp_profile_id p) \<in> set visiting")
    case True
    with 1 show ?thesis by (auto simp: Let_def lineage_from_def)
  next
    case False
    show ?thesis
    proof (cases "mp_extends p")
      case None
      with False 1 show ?thesis by (auto simp: Let_def lineage_from_def)
    next
      case ext: (Some parent)
      show ?thesis
      proof (cases "by_key m (normalized_id parent)")
        case None
        with False ext 1 show ?thesis by (auto simp: Let_def lineage_from_def)
      next
        case (Some q)
        with False ext 1 have l: "lineage_from m (acc @ [p]) q r" by (auto simp: Let_def)
        show ?thesis unfolding lineage_from_def
        proof (intro impI allI)
          fix ps assume "r = Inr ps"
          with l by_key_known[OF Some] obtain qs where "ps = rev ((acc @ [p]) @ q # qs)"
            and "set qs \<subseteq> set (profile_list m)" by (auto simp: lineage_from_def)
          with by_key_known[OF Some] show "\<exists>qs. ps = rev (acc @ p # qs) \<and> set qs \<subseteq> set (profile_list m)"
            by (intro exI[of _ "q # qs"]) auto
        qed
      qed
    qed
  qed
qed simp

section \<open>Resolving a profile of a manifest\<close>

lemma profile_lineage_Inr:
  assumes "profile_lineage m i = Some (Inr ps)"
  obtains q qs where "by_key m (normalized_id i) = Some q" and "ps = qs @ [q]" and "set ps \<subseteq> set (profile_list m)"
proof -
  from assms obtain q where q: "by_key m (normalized_id i) = Some q" and loop: "lineage_loop m [] [] q = Some (Inr ps)"
    by (auto simp: profile_lineage_def split: option.splits)
  from lineage_loop_lineage[OF loop] by_key_known[OF q] obtain qs where
    "ps = rev qs @ [q]" "set qs \<subseteq> set (profile_list m)"
    by (auto simp: lineage_from_def)
  with that[OF q] by_key_known[OF q] show ?thesis by auto
qed

lemma resolve_one_Inr:
  assumes "resolve_one rv m as_of i = Some (Inr p)"
  obtains ps kept chain where "profile_lineage m i = Some (Inr ps)"
    and "foldR (resolve_step rv m as_of) (manifest_collections m, None, []) ps = Inr (kept, Some p, chain)"
    and "validate_resolved_manifest_profile (rv_digests rv) p as_of True = Inr ()"
proof -
  from assms obtain r where l: "profile_lineage m i = Some r"
    and r: "bindR r (resolve_lineage rv m as_of) = Inr p"
    by (auto simp: resolve_one_def split: if_splits)
  then show ?thesis
    by (auto simp: resolve_lineage_def bindR_eq_Inr requireR_eq_Inr intro!: that)
qed

lemma resolve_one_returns: "resolve_one rv m as_of i \<noteq> None"
  using profile_lineage_returns[of m i] by (auto simp: resolve_one_def)

lemma resolve_each_returns: "resolve_each rv m as_of ps \<noteq> None"
proof (induction ps)
  case (Cons p ps)
  obtain r where "resolve_one rv m as_of (mp_profile_id p) = Some r" using resolve_one_returns by blast
  with Cons show ?case by (auto split: sum.splits)
qed simp

lemma resolve_manifest_profile_returns: "resolve_manifest_profile rv m as_of i \<noteq> None"
  using resolve_each_returns by (auto simp: resolve_manifest_profile_def)

lemma resolve_each_Inr:
  "resolve_each rv m as_of ps = Some (Inr xs) \<Longrightarrow> (k, x) \<in> set xs
   \<Longrightarrow> \<exists>p \<in> set ps. normalized_id (mp_profile_id p) = k \<and> resolve_one rv m as_of (mp_profile_id p) = Some (Inr x)"
proof (induction ps arbitrary: xs)
  case (Cons p ps)
  then obtain y ys where y: "resolve_one rv m as_of (mp_profile_id p) = Some (Inr y)"
    and ys: "resolve_each rv m as_of ps = Some (Inr ys)" and xs: "xs = (normalized_id (mp_profile_id p), y) # ys"
    by (cases "resolve_one rv m as_of (mp_profile_id p)") (auto simp: bindR_eq_Inr split: sum.splits)
  with Cons.IH[OF ys] Cons.prems(2) show ?case by auto
qed simp

lemma profile_lineage_cong: "normalized_id i = normalized_id j \<Longrightarrow> profile_lineage m i = profile_lineage m j"
  by (simp add: profile_lineage_def)

lemma resolve_manifest_profile_Inr:
  assumes "resolve_manifest_profile rv m as_of i = Some (Inr p)"
  obtains ps kept chain where "profile_lineage m i = Some (Inr ps)"
    and "foldR (resolve_step rv m as_of) (manifest_collections m, None, []) ps = Inr (kept, Some p, chain)"
    and "validate_resolved_manifest_profile (rv_digests rv) p as_of True = Inr ()"
proof -
  from assms obtain xs where xs: "resolve_each rv m as_of (profile_list m) = Some (Inr xs)"
    and "dict_of xs (normalized_id i) = Some p"
    by (auto simp: resolve_manifest_profile_def requireR_eq_Inr bindR_eq_Inr split: if_splits)
  then have "(normalized_id i, p) \<in> set xs" by (auto dest: dict_ofD)
  from resolve_each_Inr[OF xs this] obtain j where j: "normalized_id j = normalized_id i"
    and "resolve_one rv m as_of j = Some (Inr p)" by blast
  from this(2) show ?thesis
    by (rule resolve_one_Inr) (rule that, simp_all add: profile_lineage_cong[OF j])
qed

lemma accepted_by_key:
  assumes "manifest_accepted m" and "by_key m k = Some q"
  shows "normalized_id (mp_profile_id q) = k"
proof -
  from assms(1) have "validate_profile_graph m = Inr ()"
    by (auto simp: manifest_accepted_def validate_manifest_ids_def bindR_eq_Inr)
  then obtain keys where "check_profile_keys [] (pg_profiles m) = Inr keys"
    by (auto simp: validate_profile_graph_def bindR_eq_Inr)
  from check_profile_keys_Inr[OF this] assms(2) show ?thesis
    by (force simp: by_key_def dest!: dict_ofD)
qed

lemma require_unique_distinct: "require_unique key xs = Inr () \<Longrightarrow> distinct (map (normalized_id \<circ> key) xs)"
  by (simp add: require_unique_iff comp_def)

lemma accepted_distinct:
  assumes "manifest_accepted m"
  shows "distinct_constraints (pg_constraints m)" and "distinct (map (normalized_id \<circ> ro_role_id) (pg_roles m))"
    and "p \<in> set (profile_list m) \<Longrightarrow> distinct_constraints (mp_constraints p)"
    and "p \<in> set (profile_list m) \<Longrightarrow> distinct (map (normalized_id \<circ> ro_role_id) (mp_roles p))"
  using assms
  by (auto simp: manifest_accepted_def validate_manifest_ids_def validate_local_uniqueness_def bindR_eq_Inr
      distinct_constraints_def list_all_iff dest!: require_unique_distinct)

section \<open>Unsorted selectors\<close>

text \<open>
  The digests of a sealed profile are those of its sorted payload and of its own payload. A digest is
  order sensitive when no payload out of order shares the digest of its sorted form.
\<close>

definition order_sensitive :: "digests \<Rightarrow> bool" where
  "order_sensitive dg \<longleftrightarrow> (\<forall>q. semantic_of dg (sort_resolved q) = semantic_of dg q \<longrightarrow> sort_resolved q = q)"

lemma sealed_sorted:
  assumes "seal_resolved dg q = Inr p" and "order_sensitive dg"
  shows "rp_roles q = rp_roles (sort_resolved q)"
proof -
  let ?q = "q\<lparr>rp_digest := recompute_semantic_digest dg (sort_resolved q), rp_compatibility := (rp_compatibility q)
     \<lparr>cm_artifact_digest := recompute_artifact_digest dg (sort_resolved q),
       cm_semantic_digest := recompute_semantic_digest dg (sort_resolved q)\<rparr>\<rparr>"
  from assms(1) have "recompute_semantic_digest dg (sort_resolved q) = recompute_semantic_digest dg ?q"
    unfolding seal_resolved_def construct_resolved_def Let_def by (simp split: if_splits)
  moreover have "digest_payload True (sort_resolved q) = sort_resolved (digest_payload True q)"
    and "digest_payload True ?q = digest_payload True q"
    by (simp_all add: digest_payload_def sort_resolved_def)
  ultimately have "sort_resolved (digest_payload True q) = digest_payload True q"
    using assms(2) by (simp add: recompute_semantic_digest_def order_sensitive_def)
  then have "rp_roles (sort_resolved (digest_payload True q)) = rp_roles (digest_payload True q)" by simp
  then show ?thesis by (simp add: digest_payload_def sort_resolved_def)
qed

lemma sort_resolved_selectors:
  assumes "rp_roles q = rp_roles (sort_resolved q)" and "r \<in> set (rp_roles q)"
  shows "sorted (map (normalized_id \<circ> selector_id) (ro_selectors r))"
proof -
  from assms(2) have "r \<in> set (rp_roles (sort_resolved q))" using assms(1) by simp
  then obtain r0 where r: "r = sort_selectors r0" by (auto simp: sort_resolved_def)
  have "selector_id (sort_children s) = selector_id s" for s by (cases s) auto
  then have "map (normalized_id \<circ> selector_id) (ro_selectors r)
      = map (normalized_id \<circ> selector_id) (sort_key (normalized_id \<circ> selector_id) (ro_selectors r0))"
    by (simp add: r sort_selectors_def)
  then show ?thesis by (simp only: sorted_sort_key)
qed

lemma untouched_role:
  assumes "merge_profile permits child as_of co = Inr merged" and "r \<in> set (co_roles co)"
    and "distinct (map (normalized_id \<circ> ro_role_id) (co_roles co))"
    and "distinct (map (normalized_id \<circ> ro_role_id) (mp_roles child))"
    and "normalized_id (ro_role_id r) \<notin> (normalized_id \<circ> ro_role_id) ` set (mp_roles child)"
  shows "r \<in> set (co_roles merged)"
proof -
  from assms(1) have "merge_keyed ro_role_id role_variant (adjust_role permits) (co_roles co) (mp_roles child)
      = Inr (co_roles merged)"
    by (auto simp: merge_profile_def bindR_eq_Inr Let_def merge_roles_def)
  then obtain ms where rs: "co_roles merged = map snd (sort_key fst ms)" and d: "distinct (map fst ms)"
    and old: "\<And>k. k \<notin> (normalized_id \<circ> ro_role_id) ` set (mp_roles child) \<Longrightarrow>
          map_of ms k = map_of (keyed (normalized_id \<circ> ro_role_id) (co_roles co)) k"
    by (rule merge_keyed_Inr[OF _ assms(3,4)]) (rule that, assumption+)
  from old[OF assms(5)] map_of_keyed[OF assms(3,2)] have "map_of ms (normalized_id (ro_role_id r)) = Some r" by simp
  then show ?thesis unfolding rs using merged_value[OF d] by blast
qed

definition disables_role :: "manifest_profile \<Rightarrow> string \<Rightarrow> bool" where
  "disables_role p i \<longleftrightarrow>
     (TargetRole, normalized_id i) \<in> (\<lambda>d. (df_target_kind d, normalized_id (df_target_ref d))) ` set (mp_disabled p)"

lemma undisabled_role:
  assumes "apply_disabled_refs child as_of co = Inr kept" and "r \<in> set (co_roles co)"
    and "\<not> disables_role child (ro_role_id r)"
  shows "r \<in> set (co_roles kept)"
proof -
  have "foldR (disable child as_of) co ds = Inr kept \<Longrightarrow> r \<in> set (co_roles co)
      \<Longrightarrow> \<forall>d \<in> set ds. \<not> (df_target_kind d = TargetRole \<and> normalized_id (df_target_ref d) = normalized_id (ro_role_id r))
      \<Longrightarrow> r \<in> set (co_roles kept)" for ds
  proof (induction ds arbitrary: co)
    case (Cons d ds)
    then obtain c1 where d: "disable child as_of co d = Inr c1" and r: "foldR (disable child as_of) c1 ds = Inr kept"
      by (auto simp: bindR_eq_Inr)
    from d have "remove_target d co = Inr c1" by (auto simp: disable_def bindR_eq_Inr)
    from remove_target_constraints(2)[OF this] Cons.prems(2,3) have "r \<in> set (co_roles c1)" by auto
    with Cons.IH[OF r] Cons.prems(3) show ?case by simp
  qed simp
  with assms show ?thesis by (force simp: apply_disabled_refs_def disables_role_def)
qed

text \<open>The first profile of a lineage already fails.\<close>

lemma unsorted_first_step:
  assumes "resolve_step rv m as_of (manifest_collections m, None, []) q = Inr s"
    and "order_sensitive (rv_digests rv)" and "r \<in> set (pg_roles m)"
    and "distinct (map (normalized_id \<circ> ro_role_id) (pg_roles m))"
    and "distinct (map (normalized_id \<circ> ro_role_id) (mp_roles q))"
    and "normalized_id (ro_role_id r) \<notin> (normalized_id \<circ> ro_role_id) ` set (mp_roles q)"
    and "\<not> disables_role q (ro_role_id r)"
  shows "sorted (map (normalized_id \<circ> selector_id) (ro_selectors r))"
proof -
  obtain merged kept p where merge: "merge_profile (permits_for rv m q) q as_of (manifest_collections m) = Inr merged"
    and kept: "apply_disabled_refs q as_of merged = Inr kept"
    and seal: "seal_resolved (rv_digests rv) (assemble m q ([] @ [mp_profile_id q]) kept) = Inr p"
    by (rule resolve_step_Inr[OF assms(1)])
  have "r \<in> set (co_roles merged)"
    using untouched_role[OF merge] assms(3-6) by (simp add: manifest_collections_def)
  from undisabled_role[OF kept this assms(7)] have "r \<in> set (rp_roles (assemble m q ([] @ [mp_profile_id q]) kept))"
    by (simp add: assemble_def Let_def)
  from sort_resolved_selectors[OF sealed_sorted[OF seal assms(2)] this] show ?thesis .
qed

section \<open>Disabling an owner\<close>

definition owned_segments :: "string list" where
  "owned_segments = [''/role/'', ''/roles/'', ''/constraint/'', ''/constraints/'', ''/relationship/'',
     ''/relationships/'', ''/control/'', ''/controls/'', ''/riskAcceptance/'', ''/riskAcceptances/'',
     ''/objective/'', ''/objectives/'']"

lemma resolve_each_all:
  "resolve_each rv m as_of ps = Some (Inr xs) \<Longrightarrow> p \<in> set ps
   \<Longrightarrow> \<exists>x. resolve_one rv m as_of (mp_profile_id p) = Some (Inr x)"
proof (induction ps arbitrary: xs)
  case (Cons q ps)
  then obtain y ys where "resolve_one rv m as_of (mp_profile_id q) = Some (Inr y)"
    and "resolve_each rv m as_of ps = Some (Inr ys)"
    by (cases "resolve_one rv m as_of (mp_profile_id q)") (auto simp: bindR_eq_Inr split: sum.splits)
  with Cons show ?case by auto
qed simp

lemma accepted_by_key_self:
  assumes "manifest_accepted m" and "q \<in> set (profile_list m)"
  shows "by_key m (normalized_id (mp_profile_id q)) = Some q"
proof -
  from assms(1) have "validate_profile_graph m = Inr ()"
    by (auto simp: manifest_accepted_def validate_manifest_ids_def bindR_eq_Inr)
  then obtain keys where "check_profile_keys [] (pg_profiles m) = Inr keys"
    by (auto simp: validate_profile_graph_def bindR_eq_Inr)
  note keys = check_profile_keys_Inr[OF this]
  from assms(2) obtain k where "(k, q) \<in> set (pg_profiles m)" by (auto simp: profile_list_def)
  with keys show ?thesis
    unfolding by_key_def by (intro dict_of_distinct) (force simp: comp_def case_prod_unfold)+
qed

text \<open>In a manifest that resolves, the step of every profile succeeds on what it inherits.\<close>

lemma every_profile_steps:
  assumes "manifest_accepted m" and "q \<in> set (profile_list m)"
    and "resolve_manifest_profile rv m as_of i = Some (Inr p)"
  obtains co merged kept where "merge_profile (permits_for rv m q) q as_of co = Inr merged"
    and "apply_disabled_refs q as_of merged = Inr kept"
proof -
  from assms(3) obtain xs where "resolve_each rv m as_of (profile_list m) = Some (Inr xs)"
    by (auto simp: resolve_manifest_profile_def bindR_eq_Inr split: if_splits)
  from resolve_each_all[OF this assms(2)] obtain x where
    "resolve_one rv m as_of (mp_profile_id q) = Some (Inr x)" by blast
  then obtain ps kept chain where l: "profile_lineage m (mp_profile_id q) = Some (Inr ps)"
    and fold: "foldR (resolve_step rv m as_of) (manifest_collections m, None, []) ps = Inr (kept, Some x, chain)"
    by (rule resolve_one_Inr)
  obtain qs where ps: "ps = qs @ [q]"
    by (rule profile_lineage_Inr[OF l]) (simp add: accepted_by_key_self[OF assms(1,2)])
  from fold obtain co pa ch where "resolve_step rv m as_of (co, pa, ch) q = Inr (kept, Some x, chain)"
    unfolding ps by (auto simp: foldR_append bindR_eq_Inr)
  from resolve_step_Inr[OF this] that show ?thesis by metis
qed

lemma disabled_override:
  assumes "apply_disabled_refs child as_of co = Inr kept" and "d \<in> set (mp_disabled child)"
  obtains ov where "ov \<in> set (mp_overrides child)" and "ov_target_path ov = disabled_path child d"
    and "normalized_id (ov_target_ref ov) = normalized_id (df_target_ref d)"
proof -
  have "foldR (disable child as_of) co ds = Inr kept \<Longrightarrow> d \<in> set ds \<Longrightarrow> \<exists>co co'. disable child as_of co d = Inr co'" for ds
    by (induction ds arbitrary: co) (auto simp: bindR_eq_Inr)
  from this[of "mp_disabled child"] assms obtain co1 co2 where "disable child as_of co1 d = Inr co2"
    unfolding apply_disabled_refs_def by blast
  then have "case find (\<lambda>ov. normalized_id (ov_override_id ov) = normalized_id (df_override_ref d)) (mp_overrides child) of
         None \<Rightarrow> False
       | Some ov \<Rightarrow> authorizes ov as_of (mp_profile_id child) (disabled_path child d) (df_target_ref d)
           (disabling_reason (df_target_kind d))"
    by (auto simp: disable_def bindR_eq_Inr ensure_eq)
  then show ?thesis
    by (auto simp: find_Some_iff authorizes_def split: option.splits intro!: that)
qed

lemma merged_override_owner:
  assumes "merge_profile permits child as_of co = Inr merged" and "ov \<in> set (mp_overrides child)"
    and "\<forall>s \<in> set owned_segments. \<not> sublist s (ov_target_path ov)"
  shows "ov_target_path ov = continuity_path child"
proof -
  from assms(1) have "validate_override_owners child merged = Inr ()"
    by (auto simp: merge_profile_def bindR_eq_Inr Let_def)
  with assms(2) have "check_override_owner child merged ov = Inr ()"
    by (simp add: validate_override_owners_def allR_Inr)
  moreover have "target_owners merged (ov_target_path ov) t = []" for t
    using assms(3) by (simp add: target_owners_def owned_segments_def Let_def)
  ultimately show ?thesis by (auto simp: check_override_owner_def bindR_eq_Inr ensure_eq Let_def)
qed

end
