(* ===== verification/PolicyExample.thy ===== *)
theory PolicyExample
  imports PolicyFacts ResolutionFacts "HOL-Library.Code_Target_Nat"
begin

text \<open>
  A worked profile with the five protected constraints, its evidence and a small inventory, on
  which the properties are instantiated. The database is a single instance in one zone; its loss
  is accepted by an approved risk acceptance.
\<close>

section \<open>Inventory and selectors\<close>

definition vm_id :: "string \<Rightarrow> string" where
  "vm_id name = ''/subscriptions/00000000-0000-0000-0000-000000000001/resourceGroups/rg/providers/M.C/vm/'' @ name"

definition vm :: "string \<Rightarrow> string \<Rightarrow> resource" where
  "vm name tag = \<lparr>rs_resource_id = vm_id name, rs_resource_type = ''Microsoft.Compute/virtualMachines'',
     rs_location = ''eastus'', rs_tags = [(''workloadRole'', tag)], rs_tool_name = ''collector'',
     rs_tool_version = ''1.0.0'', rs_identity_ref = ''id''\<rparr>"

definition demo_inventory :: "resource list" where
  "demo_inventory = [vm ''db1'' ''db'', vm ''worker1'' ''worker'', vm ''web1'' ''web'']"

definition tag_selector :: "string \<Rightarrow> string \<Rightarrow> nat \<Rightarrow> selector" where
  "tag_selector i tag bound = Single (Atomic i bound (TagPredicate [(''workloadRole'', tag)]))"

text \<open>A conjunction that narrows the tag selector by a name prefix.\<close>

definition narrow_selector :: "string \<Rightarrow> string \<Rightarrow> string \<Rightarrow> selector" where
  "narrow_selector i tag p = CompositeAll i 1 [Atomic (i @ ''-tag'') 1 (TagPredicate [(''workloadRole'', tag)]),
     Atomic (i @ ''-name'') 1 (NamePredicate (Some p) None)]"

definition simple_digest :: "payload \<Rightarrow> string" where
  "simple_digest p = (case p of AtomicPayload (TagPredicate [(k, v)]) \<Rightarrow> ''tag:'' @ v | _ \<Rightarrow> ''other'')"

definition demo_result_digest :: "selector \<Rightarrow> string list \<Rightarrow> string list \<Rightarrow> string" where
  "demo_result_digest s ms vs = ''digest''"

section \<open>The profile\<close>

definition demo_scope :: "string \<Rightarrow> clause_scope" where
  "demo_scope i = \<lparr>cs_manifest_id = ''m'', cs_profile_id = ''prod'', cs_clause_path = ''/constraints/'' @ i,
     cs_owner_ref = ''ops''\<rparr>"

definition demo_constraint ::
    "string \<Rightarrow> constraint_type \<Rightarrow> finding_kind \<Rightarrow> proof_requirement \<Rightarrow> verdict \<Rightarrow> string option
     \<Rightarrow> string option \<Rightarrow> policy_constraint" where
  "demo_constraint i t k pr success acceptance clause =
     \<lparr>constraint_id = i, pc_type = t, pc_finding_kind = k, pc_scope = demo_scope i, pc_owner_ref = ''ops'',
      pc_profiles = [''prod''], pc_proof = pr, failure_verdict = Violation, success_verdict = success,
      pc_acceptance_ref = acceptance, pc_acceptance_clause_ref = clause, pc_protected = True\<rparr>"

definition demo_spof :: policy_constraint where
  "demo_spof = demo_constraint ''db-zone-loss-spof'' CtSupportedSingleton ActualSpof
     (CardinalityProof ''database-primary'' ExactlyOne) Observation (Some ''ra-1'') None"

definition demo_colocation :: policy_constraint where
  "demo_colocation = demo_constraint ''worker-db-zone-colocation'' CtZoneColocation ArchitectureConstraint
     (ZoneColocationProof ''worker'' ''database-primary'') Pass None None"

definition demo_constraints :: "policy_constraint list" where
  "demo_constraints =
     [demo_constraint ''db-singleton-supported'' CtSupportedSingleton TechnologyConstraint
        (CardinalityProof ''database-primary'' ExactlyOne) ExpectedConstraint None None,
      demo_spof,
      demo_constraint ''db-zone-loss-acceptance'' CtSupportedSingleton RiskAcceptanceFinding
        (CardinalityProof ''database-primary'' ExactlyOne) Observation (Some ''ra-1'') (Some ''db-zone-loss-spof''),
      demo_colocation,
      demo_constraint ''web-zone-distribution'' CtZoneDistribution ArchitectureConstraint
        (ZoneDistributionProof ''web'' 2) Pass None None]"

definition demo_acceptance :: risk_acceptance where
  "demo_acceptance = \<lparr>risk_acceptance_id = ''ra-1'', ra_scope = demo_scope ''db-zone-loss-spof'',
     ra_kind = ''zoneLoss'', ra_rating = ''medium'', ra_statement = ''single zone'',
     ra_rationale = ''vendor limit'', ra_accepted_by = ''risk-board'', ra_owned_by = ''ops'', ra_accepted_at = 0, ra_expires_at = 100, ra_control_refs = [],
     ra_bindings = [(''database-primary'', ''db-1'')], ra_profiles = [''prod''], ra_status = AcceptanceApproved\<rparr>"

definition expired_acceptance :: risk_acceptance where
  "expired_acceptance = demo_acceptance\<lparr>risk_acceptance_id := ''ra-0'', ra_expires_at := 5\<rparr>"

definition demo_role :: "string \<Rightarrow> cardinality \<Rightarrow> string \<Rightarrow> profile_role" where
  "demo_role i n tag = \<lparr>ro_role_id = i, ro_kind = ''worker'', ro_cardinality = n,
     ro_selectors = [tag_selector (''sel-'' @ tag) tag 5], ro_owner_ref = ''ops'', ro_deprecated = False\<rparr>"

definition demo_compatibility :: compatibility where
  "demo_compatibility = \<lparr>cm_resolved_profile = True, cm_schema_version = Version 1 0 0,
     cm_semantic_contract = Version 1 0 0, cm_policy_contract = Version 1 0 0,
     cm_minimum_reader = Version 1 0 0, cm_capabilities = [], cm_artifact_digest = ''a'', cm_semantic_digest = ''s''\<rparr>"

definition demo_profile :: resolved_profile where
  "demo_profile = \<lparr>rp_manifest_id = ''m'', rp_manifest_version = Version 1 0 0, rp_profile_id = ''prod'',
     rp_profile_type = ''production'', rp_allowed_scopes = [SubscriptionScope ''t'' ''sub''],
     rp_compatibility = demo_compatibility, rp_inheritance_chain = [''prod''], zone_loss_continuity_required = True,
     rp_roles = [demo_role ''database-primary'' ExactlyOne ''db'', demo_role ''worker'' OneOrMore ''worker'',
       demo_role ''web'' OneOrMore ''web''],
     rp_relationships = [], rp_constraints = demo_constraints, rp_controls = [],
     rp_acceptances = [expired_acceptance, demo_acceptance], rp_objectives = [], rp_owners = [\<lparr>ow_owner_ref = ''ops'', ow_role = ''operationsOwner'', ow_authority_ref = ''team''\<rparr>], rp_digest = ''s''\<rparr>"

definition demo_digests :: digests where
  "demo_digests = \<lparr>artifact_of = (\<lambda>_. ''a''), semantic_of = (\<lambda>_. ''s''), selector_of = simple_digest\<rparr>"

definition unowned_profile :: resolved_profile where
  "unowned_profile = demo_profile\<lparr>rp_owners := []\<rparr>"

section \<open>The evidence\<close>

definition demo_fact :: "string \<Rightarrow> string \<Rightarrow> zone \<Rightarrow> string resource_fact" where
  "demo_fact i role z = \<lparr>rf_resource_id = i, rf_role_ref = role, rf_zone = z, rf_operational = Running,
     rf_state = Complete, rf_source = Observed, rf_ref = ''ref-'' @ i\<rparr>"

definition demo_binding :: "string \<Rightarrow> string list \<Rightarrow> role_binding" where
  "demo_binding role ids = \<lparr>rb_role_ref = role, rb_selected = ids, rb_state = Complete\<rparr>"

definition demo_evidence :: "string evidence" where
  "demo_evidence = \<lparr>ev_manifest_id = ''m'', ev_profile_id = ''prod'', ev_profile_digest = ''s'',
     ev_collected_at = 0, ev_expires_at = 100, ev_scopes = [ResourceGroupScope ''t'' ''sub'' ''rg''],
     ev_resources = [demo_fact ''db-1'' ''database-primary'' Zone1, demo_fact ''w-1'' ''worker'' Zone1,
       demo_fact ''web-1'' ''web'' Zone1, demo_fact ''web-2'' ''web'' Zone2],
     ev_relationships = [], ev_controls = [], ev_objectives = [],
     ev_bindings = [demo_binding ''database-primary'' [''db-1''], demo_binding ''worker'' [''w-1''],
       demo_binding ''web'' [''web-1'', ''web-2'']]\<rparr>"

definition shuffled_evidence :: "string evidence" where
  "shuffled_evidence = demo_evidence\<lparr>ev_resources := rev (ev_resources demo_evidence),
     ev_bindings := rev (ev_bindings demo_evidence)\<rparr>"

definition conflicting_evidence :: "string evidence" where
  "conflicting_evidence = demo_evidence\<lparr>ev_resources :=
     (demo_fact ''db-1'' ''database-primary'' Zone1)\<lparr>rf_state := StateConflicting\<rparr> # tl (ev_resources demo_evidence)\<rparr>"

section \<open>A manifest\<close>

text \<open>
  Three profiles, one extending the other. Development narrows the selector of the web role and
  requires one more zone; training goes back to two zones with an approved override.
\<close>

definition demo_manifest_role :: "selector list \<Rightarrow> profile_role" where
  "demo_manifest_role ss = \<lparr>ro_role_id = ''web'', ro_kind = ''webService'', ro_cardinality = OneOrMore,
     ro_selectors = ss, ro_owner_ref = ''ops'', ro_deprecated = False\<rparr>"

definition profile_constraint :: "string \<Rightarrow> policy_constraint \<Rightarrow> policy_constraint" where
  "profile_constraint i c = c\<lparr>pc_scope := (pc_scope c)\<lparr>cs_profile_id := i\<rparr>,
     pc_profiles := [''production'', ''development'', ''training''],
     pc_acceptance_ref := None, pc_acceptance_clause_ref := None\<rparr>"

definition web_zones :: "nat \<Rightarrow> policy_constraint" where
  "web_zones n = demo_constraint ''web-zone-distribution'' CtZoneDistribution ArchitectureConstraint
     (ZoneDistributionProof ''web'' n) Pass None None"

definition profile_constraints :: "string \<Rightarrow> nat \<Rightarrow> policy_constraint list" where
  "profile_constraints i n = map (profile_constraint i) (take 4 demo_constraints @ [web_zones n])"

definition production_profile :: manifest_profile where
  "production_profile = \<lparr>mp_profile_id = ''production'', mp_profile_type = ''production'', mp_extends = None,
     mp_continuity = True, mp_roles = [], mp_relationships = [], mp_constraints = [], mp_controls = [],
     mp_acceptances = [], mp_objectives = [], mp_owners = [], mp_overrides = [], mp_disabled = []\<rparr>"

definition development_profile :: manifest_profile where
  "development_profile = production_profile\<lparr>mp_profile_id := ''development'', mp_profile_type := ''development'',
     mp_extends := Some ''production'', mp_constraints := profile_constraints ''development'' 3,
     mp_roles := [demo_manifest_role [tag_selector ''sel-web'' ''web'' 2]]\<rparr>"

definition zone_override :: weakening_override where
  "zone_override = \<lparr>ov_override_id = ''ov-1'', ov_reason = ZoneRequirementRelaxation,
     ov_target_path = ''/resolvedProfiles/training/constraints/web-zone-distribution/proofRequirement/minimumDistinctZones'',
     ov_target_ref = ''web-zone-distribution'', ov_owner_ref = ''ops'', ov_rationale = ''two zones suffice'',
     ov_approved_by = ''risk-board'', ov_status = AcceptanceApproved, ov_accepted_at = 0, ov_expires_at = 100,
     ov_profiles = [''training'']\<rparr>"

definition training_profile :: manifest_profile where
  "training_profile = production_profile\<lparr>mp_profile_id := ''training'', mp_profile_type := ''training'',
     mp_extends := Some ''development'', mp_constraints := profile_constraints ''training'' 2,
     mp_overrides := [zone_override]\<rparr>"

definition demo_graph :: workload_manifest where
  "demo_graph = \<lparr>pg_manifest_id = ''m'', pg_manifest_version = Version 1 0 0,
     pg_compatibility = demo_compatibility\<lparr>cm_resolved_profile := False\<rparr>, pg_environments = [''prod''],
     pg_allowed_scopes = [SubscriptionScope ''t'' ''sub''],
     pg_roles = [demo_role ''database-primary'' ExactlyOne ''db'', demo_role ''worker'' OneOrMore ''worker'',
       demo_manifest_role [tag_selector ''sel-web'' ''web'' 5]],
     pg_relationships = [], pg_constraints = profile_constraints ''production'' 2, pg_controls = [],
     pg_acceptances = [], pg_objectives = [],
     pg_owners = [\<lparr>ow_owner_ref = ''ops'', ow_role = ''operationsOwner'', ow_authority_ref = ''team''\<rparr>],
     pg_profiles = [(''production'', production_profile), (''development'', development_profile),
       (''training'', training_profile)]\<rparr>"

definition demo_resolver :: resolver where
  "demo_resolver = \<lparr>rv_digests = demo_digests, rv_manifest_artifact = (\<lambda>_. ''a''),
     rv_manifest_semantic = (\<lambda>_. ''s''), rv_capability = None\<rparr>"

section \<open>Evaluation\<close>

lemma map_sum_Inr: "map_sum id f m = Inr y \<Longrightarrow> \<exists>x. m = Inr x \<and> f x = y"
  by (cases m) auto

lemma demo_profile_valid: "validate_resolved_manifest_profile demo_digests demo_profile 10 False = Inr ()"
  by code_simp

lemma demo_context: "validate_evaluation_context demo_digests demo_profile demo_evidence 10 = Inr ()"
proof -
  have "bindR (ensure (ev_manifest_id demo_evidence = rp_manifest_id demo_profile
         \<and> normalized_id (ev_profile_id demo_evidence) = normalized_id (rp_profile_id demo_profile)
         \<and> ev_profile_digest demo_evidence = rp_digest demo_profile)) (\<lambda>_.
     bindR (ensure (\<not> list_ex (\<lambda>authorized. \<not> list_ex (\<lambda>allowed. scope_contains allowed authorized)
         (rp_allowed_scopes demo_profile)) (ev_scopes demo_evidence))) (\<lambda>_.
     ensure (ev_collected_at demo_evidence \<le> 10 \<and> 10 < ev_expires_at demo_evidence))) = Inr ()"
    by code_simp
  then show ?thesis by (simp add: validate_evaluation_context_def demo_profile_valid)
qed

lemma demo_findings:
  "map_sum id (map (\<lambda>(k, f). (k, fi_verdict f, fi_acceptance f)))
     (evaluate_verified_profile id demo_profile demo_evidence 10)
   = Inr [(''db-singleton-supported'', ExpectedConstraint, None),
      (''db-zone-loss-acceptance'', AcceptedResidualRisk, Some ''ra-1''),
      (''db-zone-loss-spof'', AcceptedResidualRisk, Some ''ra-1''),
      (''web-zone-distribution'', Pass, None), (''worker-db-zone-colocation'', Pass, None)]"
  by code_simp

lemma demo_evaluation:
  "evaluate_manifest_profile id demo_digests demo_profile demo_evidence 10 (\<lambda>_ _. Inr ())
     = evaluate_verified_profile id demo_profile demo_evidence 10"
  by (simp add: evaluate_manifest_profile_def demo_context)

lemma demo_graph_valid: "validate_profile_graph demo_graph = Inr ()"
  by code_simp

lemma demo_graph_accepted: "manifest_accepted demo_graph"
  by code_simp

definition narrowed_roles :: "nat \<Rightarrow> profile_role list" where
  "narrowed_roles n = [demo_role ''database-primary'' ExactlyOne ''db'',
     demo_manifest_role [tag_selector ''sel-web'' ''web'' n], demo_role ''worker'' OneOrMore ''worker'']"

lemma demo_inherited:
  "roles_for demo_graph development_profile = Some (Inr (narrowed_roles 2))"
proof -
  have "inherit_roles (pg_roles demo_graph) production_profile = Inr (narrowed_roles 5)"
    by code_simp
  then have "roles_for demo_graph production_profile = Some (Inr (narrowed_roles 5))"
    by (subst roles_for.simps) (simp add: production_profile_def)
  moreover have "by_profile_id demo_graph (normalized_id ''production'') = Some production_profile"
    and "inherit_roles (narrowed_roles 5) development_profile = Inr (narrowed_roles 2)"
    by code_simp+
  moreover have "mp_extends development_profile = Some ''production''"
    by (simp add: development_profile_def)
  ultimately show ?thesis by (subst roles_for.simps) simp
qed

lemma demo_lineage:
  "profile_lineage demo_graph ''production'' = Some (Inr [production_profile])"
  "profile_lineage demo_graph ''development'' = Some (Inr [production_profile, development_profile])"
  "profile_lineage demo_graph ''training'' = Some (Inr [production_profile, development_profile, training_profile])"
  by code_simp+

lemma demo_resolves:
  "case resolve_manifest_profile demo_resolver demo_graph 10 ''development'' of
     Some (Inr p) \<Rightarrow> True | _ \<Rightarrow> False"
  by code_simp

text \<open>A role whose selectors are not in order, and a digest that sees the order.\<close>

definition unsorted_role :: profile_role where
  "unsorted_role = (demo_role ''worker'' OneOrMore ''worker'')\<lparr>ro_selectors :=
     [tag_selector ''sel-worker'' ''worker'' 5, tag_selector ''sel-batch'' ''batch'' 5]\<rparr>"

definition unsorted_graph :: workload_manifest where
  "unsorted_graph = demo_graph\<lparr>pg_roles := [demo_role ''database-primary'' ExactlyOne ''db'', unsorted_role,
     demo_manifest_role [tag_selector ''sel-web'' ''web'' 5]]\<rparr>"

definition order_digests :: digests where
  "order_digests = demo_digests\<lparr>semantic_of := (\<lambda>q. if sort_resolved q = q then ''s'' else ''u'')\<rparr>"

text \<open>Training also disables an owner, with an override for its path.\<close>

definition owner_disabled_graph :: workload_manifest where
  "owner_disabled_graph = demo_graph\<lparr>pg_owners := pg_owners demo_graph
       @ [\<lparr>ow_owner_ref = ''former'', ow_role = ''operationsOwner'', ow_authority_ref = ''team''\<rparr>],
     pg_profiles := [(''production'', production_profile), (''development'', development_profile),
       (''training'', training_profile\<lparr>mp_overrides := mp_overrides training_profile
          @ [zone_override\<lparr>ov_override_id := ''ov-2'', ov_reason := DisableInheritedItem,
               ov_target_path := ''/resolvedProfiles/training/owner/former'', ov_target_ref := ''former'',
               ov_owner_ref := ''former''\<rparr>],
          mp_disabled := [\<lparr>df_target_kind = TargetOwner, df_target_ref = ''former'', df_override_ref = ''ov-2''\<rparr>]\<rparr>)]\<rparr>"

lemma sort_key_idem: "sort_key f (sort_key f xs) = sort_key f xs"
  by (simp add: sort_key_id_if_sorted)

lemma sort_children_idem: "sort_children (sort_children s) = sort_children s"
  by (cases s) (simp_all add: sort_key_idem)

lemma sort_children_key: "normalized_id (selector_id (sort_children s)) = normalized_id (selector_id s)"
  by (cases s) simp_all

lemma sort_key_map_key:
  assumes "\<And>x. f (g x) = f x"
  shows "sort_key f (map g (sort_key f xs)) = map g (sort_key f xs)"
proof -
  have eq: "map f (map g (sort_key f xs)) = map f (sort_key f xs)" using assms by simp
  have "sorted (map f (map g (sort_key f xs)))" unfolding eq by (rule sorted_sort_key)
  then show ?thesis by (rule sort_key_id_if_sorted)
qed

lemma sort_selectors_idem: "sort_selectors (sort_selectors r) = sort_selectors r"
  by (simp add: sort_selectors_def sort_key_map_key sort_children_key sort_children_idem comp_def)

lemma sort_resolved_idem: "sort_resolved (sort_resolved q) = sort_resolved q"
proof -
  have "ro_role_id (sort_selectors r) = ro_role_id r" for r by (simp add: sort_selectors_def)
  then show ?thesis
    by (simp add: sort_resolved_def sort_key_idem sort_key_map_key sort_selectors_idem comp_def)
qed

lemma order_digests_sensitive: "order_sensitive order_digests"
  by (auto simp: order_sensitive_def order_digests_def sort_resolved_idem)

end
