(* ===== verification/PolicyProperties.thy ===== *)
theory PolicyProperties
  imports PolicyExample
begin

text \<open>
  The properties of the policy engine, of the validation of resolved profiles, of resource
  selectors and of profile inheritance, each with a witness on the worked profile.
\<close>

section \<open>Verdicts\<close>

text \<open>
  C16. Fail closed: a constraint gets a verdict other than unknown or conflicting only if every role
  of its proof has exactly one complete binding that selects exactly the facts found, at least one
  such fact, all of them complete and observed (not inferred), and the relationship, control,
  objective or freshness facts its proof rests on are single, complete and, where a source is
  recorded, observed.
\<close>

theorem decided_only_on_proven_facts:
  assumes "evaluate_constraint cj p ev c as_of = Inr d"
    and "de_verdict d \<noteq> Unknown" and "de_verdict d \<noteq> Conflicting"
    and "proof_role_refs p c = Inr roles"
  shows "(\<forall>r \<in> set roles. role_proven ev r) \<and> facts_proven ev (pc_proof c)"
proof -
  from assms(1) obtain d0 a where d0: "evaluate_proof cj p ev c as_of = Inr d0"
    and a: "accept p ev c as_of (bounded_verdict cj d0) = Inr a" and d: "d = conclude cj d0 a"
    by (rule evaluate_constraintE)
  have "\<not> undecided (bounded_verdict cj d0)"
    using assms(2,3) a by (auto simp: d conclude_def undecided_def accept_def split: option.splits if_splits)
  then have "\<not> undecided (de_verdict d0)"
    by (auto simp: bounded_verdict_def undecided_def split: if_splits)
  from evaluate_proof_decided[OF d0 this assms(4)] show ?thesis .
qed

lemma demo_colocation_evaluated:
  "evaluate_constraint id demo_profile demo_evidence demo_colocation 10
     = Inr \<lparr>de_verdict = Pass, de_refs = [''ref-db-1'', ''ref-w-1''], de_acceptance = None\<rparr>"
  by code_simp

theorem decided_only_on_proven_facts_witness:
  "role_proven demo_evidence ''worker'' \<and> role_proven demo_evidence ''database-primary''"
proof -
  have "proof_role_refs demo_profile demo_colocation = Inr [''worker'', ''database-primary'']" by code_simp
  from decided_only_on_proven_facts[OF demo_colocation_evaluated _ _ this] show ?thesis by simp
qed

text \<open>
  C17. Conflicts surface: when a fact of a role of the proof, or the binding of that role, is in
  conflict, the verdict of the constraint is conflicting, whatever the other facts say and however
  many references the finding has; no acceptance can hide it.
\<close>

theorem conflicts_surface:
  assumes "evaluate_constraint cj p ev c as_of = Inr d"
    and "proof_role_refs p c = Inr roles" and "r \<in> set roles" and "role_conflicting ev r"
  shows "de_verdict d = Conflicting \<and> de_acceptance d = None"
proof -
  from assms(1) obtain d0 a where d0: "evaluate_proof cj p ev c as_of = Inr d0"
    and a: "accept p ev c as_of (bounded_verdict cj d0) = Inr a" and d: "d = conclude cj d0 a"
    by (rule evaluate_constraintE)
  have "de_verdict d0 = Conflicting" by (rule evaluate_proof_conflict[OF d0 assms(2-4)])
  then have "bounded_verdict cj d0 = Conflicting" by (simp add: bounded_verdict_def)
  with a show ?thesis by (simp add: accept_def d conclude_def)
qed

theorem conflicts_surface_witness:
  "\<exists>d. evaluate_constraint id demo_profile conflicting_evidence demo_spof 10 = Inr d \<and> de_verdict d = Conflicting"
proof -
  have ev: "evaluate_constraint id demo_profile conflicting_evidence demo_spof 10
      = Inr \<lparr>de_verdict = Conflicting, de_refs = [''ref-db-1''], de_acceptance = None\<rparr>" by code_simp
  have roles: "proof_role_refs demo_profile demo_spof = Inr [''database-primary'']" by code_simp
  have "hd (ev_resources conflicting_evidence) \<in> role_facts conflicting_evidence ''database-primary''"
    and "rf_state (hd (ev_resources conflicting_evidence)) = StateConflicting"
    by (simp_all add: role_facts_def conflicting_evidence_def demo_fact_def)
  then have "role_conflicting conflicting_evidence ''database-primary''"
    unfolding role_conflicting_def by blast
  from conflicts_surface[OF ev roles _ this] ev show ?thesis by simp
qed

text \<open>
  C18. An accepted residual risk is justified: the constraint may be accepted at all (it is not the
  supported singleton and not a freshness requirement), its proof found a violation, and one of the
  profile's acceptances, named by the finding, is approved and within its dates, is scoped to the
  clause, profile, manifest and owner of the constraint, and lists exactly the resources now found
  for the roles of the proof.
\<close>

theorem accepted_risk_is_justified:
  assumes "constraint_ok c" and "evaluate_constraint cj p ev c as_of = Inr d"
    and "de_verdict d = AcceptedResidualRisk"
  shows "acceptable c \<and> (\<exists>d0. evaluate_proof cj p ev c as_of = Inr d0 \<and> de_verdict d0 = Violation)
    \<and> (\<exists>ra \<in> set (rp_acceptances p). \<exists>roles. de_acceptance d = Some (risk_acceptance_id ra)
         \<and> is_active ra as_of (rp_manifest_id p) (rp_profile_id p)
             (''/constraints/'' @ acceptance_clause c) (pc_owner_ref c)
         \<and> proof_role_refs p c = Inr roles
         \<and> (\<lambda>(role, res). (normalized_id role, normalized_id res)) ` set (ra_bindings ra) = found_bindings ev roles)"
proof -
  from assms(2) obtain d0 a where d0: "evaluate_proof cj p ev c as_of = Inr d0"
    and a: "accept p ev c as_of (bounded_verdict cj d0) = Inr a" and d: "d = conclude cj d0 a"
    by (rule evaluate_constraintE)
  from accepted_iff(1)[OF assms(1,2)] assms(3) obtain ra where ra: "a = Some ra"
    by (auto simp: d conclude_def)
  with a have v: "bounded_verdict cj d0 = Violation" and acc: "acceptable c"
    and m: "matching_acceptance p ev c as_of = Inr (Some ra)"
    by (auto simp: accept_def split: if_splits)
  from v have "de_verdict d0 = Violation" by (auto simp: bounded_verdict_def split: if_splits)
  moreover from m obtain refs roles bs where "proof_role_refs p c = Inr roles"
    and "set bs = found_bindings ev roles" and "ra \<in> set (rp_acceptances p)" and "accepted_by p c as_of refs bs ra"
    by (rule matching_acceptanceE)
  ultimately show ?thesis
    using d0 acc ra by (auto simp: d conclude_def accepted_by_def)
qed

lemma demo_spof_evaluated:
  "evaluate_constraint id demo_profile demo_evidence demo_spof 10
     = Inr \<lparr>de_verdict = AcceptedResidualRisk, de_refs = [''ref-db-1''], de_acceptance = Some ''ra-1''\<rparr>"
  by code_simp

theorem accepted_risk_is_justified_witness:
  "acceptable demo_spof \<and> (\<exists>ra \<in> set (rp_acceptances demo_profile). risk_acceptance_id ra = ''ra-1''
     \<and> is_active ra 10 ''m'' ''prod'' ''/constraints/db-zone-loss-spof'' ''ops'')"
proof -
  have "constraint_ok demo_spof" by code_simp
  from accepted_risk_is_justified[OF this demo_spof_evaluated] show ?thesis
    by (auto simp: demo_profile_def demo_spof_def demo_constraint_def acceptance_clause_def)
qed

text \<open>
  C19. An acceptance that is not in force (not approved, not yet accepted, or expired at the time of
  evaluation) has no effect: removing all such acceptances from the profile changes no decision and
  no error.
\<close>

theorem inactive_acceptances_have_no_effect:
  "evaluate_constraint cj (p\<lparr>rp_acceptances := filter (in_force as_of) (rp_acceptances p)\<rparr>) ev c as_of
     = evaluate_constraint cj p ev c as_of"
proof -
  have "accept (with_acceptances (filter (in_force as_of) (rp_acceptances p)) p) ev c as_of v = accept p ev c as_of v" for v
    by (simp add: accept_def matching_acceptance_in_force)
  then show ?thesis
    unfolding with_acceptances_def[symmetric] by (simp add: evaluate_constraint_eq)
qed

text \<open>
  C20. The references of a finding are at most 1000, strictly ordered by canonical text (so without
  duplicates), and references of facts in the evidence; when the proof rests on more than 1000
  distinct texts the verdict is unknown or conflicting.
\<close>

theorem finding_references_bounded:
  assumes "evaluate_constraint cj p ev c as_of = Inr d"
  shows "length (de_refs d) \<le> 1000 \<and> sorted_wrt (<) (map cj (de_refs d))
    \<and> set (de_refs d) \<subseteq> set (all_references ev)
    \<and> (\<exists>d0. evaluate_proof cj p ev c as_of = Inr d0
         \<and> (1000 < card (cj ` set (de_refs d0)) \<longrightarrow> undecided (de_verdict d)))"
proof -
  from assms obtain d0 a where d0: "evaluate_proof cj p ev c as_of = Inr d0"
    and a: "accept p ev c as_of (bounded_verdict cj d0) = Inr a" and d: "d = conclude cj d0 a"
    by (rule evaluate_constraintE)
  let ?refs = "ordered_references cj (de_refs d0)"
  have texts: "map cj ?refs = sorted_list_of_set (cj ` set (de_refs d0))" by (rule ordered_references_texts)
  then have "sorted_wrt (<) (map cj ?refs)" by simp
  then have "sorted_wrt (<) (map cj (take 1000 ?refs))" by (simp add: sorted_wrt_take flip: take_map)
  moreover have "set (take 1000 ?refs) \<subseteq> set (all_references ev)"
    using set_take_subset ordered_references_subset evaluate_proof_refs[OF d0] by fastforce
  moreover have "length ?refs = card (cj ` set (de_refs d0))"
    using arg_cong[OF texts, of length] by simp
  then have "undecided (de_verdict d)" if "1000 < card (cj ` set (de_refs d0))"
    using that a by (auto simp: d conclude_def bounded_verdict_def accept_def undecided_def split: if_splits)
  ultimately show ?thesis using d0 by (auto simp: d conclude_def)
qed

theorem finding_references_bounded_witness:
  "\<exists>d. evaluate_constraint id demo_profile demo_evidence demo_colocation 10 = Inr d
     \<and> length (de_refs d) = 2 \<and> sorted_wrt (<) (map id (de_refs d))"
  using finding_references_bounded[OF demo_colocation_evaluated] demo_colocation_evaluated by auto

text \<open>
  C21. The order in which the evidence was collected is irrelevant: for evidence that its class
  accepts, the same facts and bindings in another order give the same decision or error, provided
  that different references have different canonical texts.
\<close>

theorem evidence_order_is_irrelevant:
  assumes "evidence_ok ev" and "same_evidence ev ev'" and "inj_on cj (set (all_references ev))"
  shows "evaluate_constraint cj p ev c as_of = evaluate_constraint cj p ev' c as_of"
  using assms by (rule same_constraint)

theorem evidence_order_is_irrelevant_witness:
  "evaluate_constraint id demo_profile shuffled_evidence demo_spof 10
     = Inr \<lparr>de_verdict = AcceptedResidualRisk, de_refs = [''ref-db-1''], de_acceptance = Some ''ra-1''\<rparr>"
proof -
  have "evidence_ok demo_evidence" by code_simp
  moreover have "same_evidence demo_evidence shuffled_evidence"
    by (simp add: same_evidence_def shuffled_evidence_def)
  ultimately have "evaluate_constraint id demo_profile demo_evidence demo_spof 10
      = evaluate_constraint id demo_profile shuffled_evidence demo_spof 10"
    by (rule evidence_order_is_irrelevant) simp
  then show ?thesis by (simp add: demo_spof_evaluated)
qed

text \<open>
  C22. Verdicts are typed: the verdict of a valid constraint is its success or failure verdict,
  observation, violation, unknown, conflicting or accepted residual risk, and a finding carries an
  acceptance exactly when its verdict is accepted residual risk.
\<close>

theorem verdicts_are_typed:
  assumes "constraint_ok c" and "evaluate_constraint cj p ev c as_of = Inr d"
  shows "de_verdict d \<in> {success_verdict c, failure_verdict c, Observation, Violation, Unknown, Conflicting,
           AcceptedResidualRisk}
    \<and> (de_verdict d = AcceptedResidualRisk \<longleftrightarrow> de_acceptance d \<noteq> None)"
  using accepted_iff[OF assms] by blast

theorem verdicts_are_typed_witness:
  "\<exists>d. evaluate_constraint id demo_profile demo_evidence demo_spof 10 = Inr d
     \<and> de_verdict d = AcceptedResidualRisk \<and> de_acceptance d \<noteq> None"
proof -
  have "constraint_ok demo_spof" by code_simp
  from verdicts_are_typed[OF this demo_spof_evaluated] demo_spof_evaluated show ?thesis by auto
qed

section \<open>Validation and evaluation of a profile\<close>

text \<open>
  C23. The check for contradictory requirements is exact: on a profile whose roles have non-empty
  ranges, whose references resolve and whose thresholds are numbers, it passes if and only if every
  role has a replica count and every objective a value that satisfies all the constraints on it (a
  value is any rational or infinite number, not only one that a double can hold), no presence requirement contradicts the kind of its relationship, and no edge is both declared and
  prohibited.
\<close>

theorem contradiction_check_exact:
  assumes "\<forall>r \<in> set (rp_roles p). cardinality_ok (ro_cardinality r)"
    and "\<forall>c \<in> set (rp_constraints p). lookups_ok p c"
  shows "validate_contradictory_requirements p = Inr () \<longleftrightarrow>
     (\<forall>k lo hi. role_counts p k = Some (lo, hi) \<longrightarrow>
        (\<exists>n. lo \<le> n \<and> n \<le> hi \<and> counts_allowed k (rp_constraints p) n))
     \<and> (\<forall>k. \<exists>x. values_allowed k (rp_constraints p) x)
     \<and> (\<forall>c \<in> set (rp_constraints p). \<not> contradicts_kind p c)
     \<and> edges False p \<inter> edges True p = {}"
  by (auto simp: validate_contradictory_requirements_spec[OF assms] requirements_consistent_def satisfiable_def)

theorem contradiction_check_exact_witness:
  "\<exists>n. counts_allowed ''database-primary'' (rp_constraints demo_profile) n"
proof -
  have "list_all (cardinality_ok \<circ> ro_cardinality) (rp_roles demo_profile)"
    and "list_all (lookups_ok demo_profile) (rp_constraints demo_profile)"
    and v: "validate_contradictory_requirements demo_profile = Inr ()"
    and r: "role_counts demo_profile ''database-primary'' = Some (1, 1)" by code_simp+
  then have "\<forall>r \<in> set (rp_roles demo_profile). cardinality_ok (ro_cardinality r)"
    and "\<forall>c \<in> set (rp_constraints demo_profile). lookups_ok demo_profile c"
    by (simp_all add: list_all_iff)
  with v have "\<forall>k lo hi. role_counts demo_profile k = Some (lo, hi) \<longrightarrow>
      (\<exists>n. lo \<le> n \<and> n \<le> hi \<and> counts_allowed k (rp_constraints demo_profile) n)"
    using contradiction_check_exact by blast
  with r show ?thesis by blast
qed

text \<open>
  C24. Validation raises nothing but the validation error: on a profile its model classes accept
  (with finite thresholds) no lookup of a role, a relationship or an acceptance fails with a
  \<open>KeyError\<close> or a \<open>StopIteration\<close>.
\<close>

theorem validation_raises_only_validation_errors:
  assumes "resolved_profile_ok p" and "validate_resolved_manifest_profile dg p as_of active = Inl e"
  shows "e = AthenaValidationError"
  using validate_resolved_manifest_profile_raises_only[OF assms(1)] assms(2) by (simp add: raises_only_def)

theorem validation_raises_only_validation_errors_witness:
  "validate_resolved_manifest_profile demo_digests unowned_profile 10 False = Inl AthenaValidationError"
proof (cases "validate_resolved_manifest_profile demo_digests unowned_profile 10 False")
  case (Inl e)
  have "resolved_profile_ok unowned_profile"
    by (auto simp: resolved_profile_ok_def unowned_profile_def demo_profile_def demo_role_def
        demo_constraints_def demo_spof_def demo_colocation_def demo_constraint_def cardinality_ok_def
        constraint_ok_def selector_ok_def tag_selector_def)
  from validation_raises_only_validation_errors[OF this Inl] Inl show ?thesis by simp
next
  case (Inr u)
  have "isl (validate_resolved_manifest_profile demo_digests unowned_profile 10 False)" by code_simp
  with Inr show ?thesis by simp
qed

text \<open>
  C25. A successful evaluation covers every constraint: its findings are, in the order of the
  normalized constraint identifiers, one for each constraint of the profile with that constraint's
  decision and at least one reference; the five protected constraints are among them; and the
  evidence was within its dates, for the profile's own digest, inside the profile's allowed scopes
  and accepted by the caller's verifier.
\<close>

theorem evaluation_covers_every_constraint:
  assumes "evaluate_manifest_profile cj dg p ev as_of verify = Inr findings"
  shows "list_all2 (finding_for cj p ev as_of)
           (sort_key (\<lambda>c. normalized_id (constraint_id c)) (rp_constraints p)) findings
    \<and> set protected_refs \<subseteq> (normalized_id \<circ> fst) ` set findings
    \<and> ev_collected_at ev \<le> as_of \<and> as_of < ev_expires_at ev \<and> ev_profile_digest ev = rp_digest p
    \<and> rp_digest p = recompute_semantic_digest dg p
    \<and> (\<forall>s \<in> set (ev_scopes ev). \<exists>a \<in> set (rp_allowed_scopes p). scope_contains a s)
    \<and> verify ev as_of = Inr ()"
proof -
  note ok = evaluate_manifest_profile_checked[OF assms]
  note valid = validated_profile[OF ok(1)]
  let ?cs = "sort_key (\<lambda>c. normalized_id (constraint_id c)) (rp_constraints p)"
  have all: "list_all2 (finding_for cj p ev as_of) ?cs findings"
    by (rule evaluate_verified_profile_findings[OF ok(3) valid(1)])
  then have "map constraint_id ?cs = map fst findings"
    by (induction rule: list_all2_induct) (auto simp: finding_for_def)
  then have "set (map normalized_id (constraint_ids p)) = (normalized_id \<circ> fst) ` set findings"
    by (metis (no_types, lifting) constraint_ids_def image_comp list.set_map set_sort)
  moreover have "rp_digest p = recompute_semantic_digest dg p"
    using ok(1) by (auto simp: validate_resolved_manifest_profile_def bindR_eq_Inr ensure_eq)
  ultimately show ?thesis using all ok valid(3) by simp
qed

theorem evaluation_covers_every_constraint_witness:
  "\<exists>findings. evaluate_manifest_profile id demo_digests demo_profile demo_evidence 10 (\<lambda>_ _. Inr ()) = Inr findings
     \<and> set protected_refs \<subseteq> (normalized_id \<circ> fst) ` set findings"
proof -
  obtain findings where
    f: "evaluate_manifest_profile id demo_digests demo_profile demo_evidence 10 (\<lambda>_ _. Inr ()) = Inr findings"
    using map_sum_Inr[OF demo_findings] demo_evaluation by auto
  from evaluation_covers_every_constraint[OF f] f show ?thesis by blast
qed

section \<open>Selectors\<close>

text \<open>
  C26. Roles do not share resources: in a profile that passes validation, no selectors of two roles
  with different identifiers match a common resource of any inventory, whatever the status of the
  two evaluations.
\<close>

theorem validated_roles_select_disjointly:
  assumes "validate_resolved_manifest_profile dg p as_of active = Inr ()"
    and "r1 \<in> set (rp_roles p)" and "r2 \<in> set (rp_roles p)"
    and "normalized_id (ro_role_id r1) \<noteq> normalized_id (ro_role_id r2)"
    and "s1 \<in> set (ro_selectors r1)" and "s2 \<in> set (ro_selectors r2)"
    and "evaluate_selector h s1 resources = Inr e1" and "evaluate_selector h s2 resources = Inr e2"
  shows "set (se_matched e1) \<inter> set (se_matched e2) = {}"
proof -
  have sel: "\<not> (selector_selects s1 e \<and> selector_selects s2 e)" for e
    using assms(2,3)
    by (intro validated_roles_disjoint[OF validated_profile(5)[OF assms(1)] _ _ assms(4-6)]) auto
  have "inventory_ok resources" using assms(7) by (rule evaluate_selectorE)
  from inventory_okD[OF this] have inj: "inj_on fst (set (map inventory_entry resources))"
    by (simp only: distinct_map)
  have "selected_ids (map inventory_entry resources) s1 \<inter> selected_ids (map inventory_entry resources) s2 = {}"
  proof (rule ccontr)
    assume "\<not> ?thesis"
    then obtain x y where "x \<in> set (map inventory_entry resources)" "selector_selects s1 x"
      and "y \<in> set (map inventory_entry resources)" "selector_selects s2 y" and "fst x = fst y"
      unfolding selected_ids_def by blast
    moreover from this inj have "x = y" by (meson inj_onD)
    ultimately show False using sel by blast
  qed
  then show ?thesis by (simp only: matched_ids[OF assms(7)] matched_ids[OF assms(8)])
qed

lemma demo_matches:
  "map_sum id se_matched (evaluate_selector demo_result_digest (tag_selector ''sel-db'' ''db'' 5) demo_inventory)
     = Inr [casefold (vm_id ''db1'')]"
  "map_sum id se_matched (evaluate_selector demo_result_digest (tag_selector ''sel-web'' ''web'' 5) demo_inventory)
     = Inr [casefold (vm_id ''web1'')]"
  "map_sum id se_matched (evaluate_selector demo_result_digest (narrow_selector ''n'' ''web'' ''we'') demo_inventory)
     = Inr [casefold (vm_id ''web1'')]"
  by code_simp+

theorem validated_roles_select_disjointly_witness:
  "\<exists>e1 e2. evaluate_selector demo_result_digest (tag_selector ''sel-db'' ''db'' 5) demo_inventory = Inr e1
     \<and> evaluate_selector demo_result_digest (tag_selector ''sel-web'' ''web'' 5) demo_inventory = Inr e2
     \<and> se_matched e1 \<noteq> [] \<and> se_matched e2 \<noteq> [] \<and> set (se_matched e1) \<inter> set (se_matched e2) = {}"
proof -
  obtain e1 e2 where
    e1: "evaluate_selector demo_result_digest (tag_selector ''sel-db'' ''db'' 5) demo_inventory = Inr e1"
      "se_matched e1 = [casefold (vm_id ''db1'')]" and
    e2: "evaluate_selector demo_result_digest (tag_selector ''sel-web'' ''web'' 5) demo_inventory = Inr e2"
      "se_matched e2 = [casefold (vm_id ''web1'')]"
    using demo_matches(1,2)[THEN map_sum_Inr] by auto
  have ids: "normalized_id ''database-primary'' \<noteq> normalized_id ''web''" by code_simp
  have "set (se_matched e1) \<inter> set (se_matched e2) = {}"
    by (rule validated_roles_select_disjointly[OF demo_profile_valid, of
        "demo_role ''database-primary'' ExactlyOne ''db''" "demo_role ''web'' OneOrMore ''web''",
        OF _ _ _ _ _ e1(1) e2(1)])
      (use ids in \<open>simp_all add: demo_profile_def demo_role_def\<close>)
  with e1 e2 show ?thesis by auto
qed

text \<open>
  C27. Overrides only narrow: a selector accepted as narrower than a valid selector matches, on every
  inventory, a subset of its resources; and a list of selectors accepted as a guarded replacement
  selects a subset of what the replaced list selects.
\<close>

theorem narrower_selectors_select_less:
  assumes "\<forall>s \<in> set previous \<union> set current. selector_ok s"
    and "is_guarded_selector_replacement_narrower previous current
       \<or> (\<exists>s t. previous = [s] \<and> current = [t] \<and> selector_override_is_narrower s t)"
  shows "(\<Union>t \<in> set current. selected_ids by_id t) \<subseteq> (\<Union>s \<in> set previous. selected_ids by_id s)"
proof -
  have "\<forall>c \<in> set current. \<exists>p \<in> set previous. selector_override_is_narrower p c"
    using assms(2) by (auto simp: is_guarded_selector_replacement_narrower_def list_all_iff list_ex_iff)
  from selectors.replacement_selects_less[OF this assms(1)]
  show ?thesis by (fastforce simp: selected_ids_def)
qed

theorem narrower_selectors_select_less_witness:
  "selected_ids (map inventory_entry demo_inventory) (narrow_selector ''n'' ''web'' ''we'')
     \<subseteq> selected_ids (map inventory_entry demo_inventory) (tag_selector ''sel-web'' ''web'' 5)"
proof -
  have "list_all selector_ok ([tag_selector ''sel-web'' ''web'' 5] @ [narrow_selector ''n'' ''web'' ''we''])"
    and "is_guarded_selector_replacement_narrower [tag_selector ''sel-web'' ''web'' 5] [narrow_selector ''n'' ''web'' ''we'']"
    by code_simp+
  then show ?thesis
    using narrower_selectors_select_less[of "[tag_selector ''sel-web'' ''web'' 5]" "[narrow_selector ''n'' ''web'' ''we'']"]
    by (simp add: list_all_iff)
qed

text \<open>
  C28. A selector evaluation is exact: the matched identifiers are, in order, the normalized
  identifiers of the resources the selector selects, the rejected ones all others, and when the
  status is not \<open>overMaxMatches\<close> no more than \<open>maxMatches\<close> resources matched.
\<close>

theorem selector_evaluation_exact:
  assumes "evaluate_selector h s resources = Inr e"
  shows "se_matched e = sorted_list_of_set (casefold ` rs_resource_id
             ` {r \<in> set resources. selector_selects s (casefold (rs_resource_id r), r)})
    \<and> se_rejected e = sorted_list_of_set (casefold ` rs_resource_id ` set resources - set (se_matched e))
    \<and> (se_status e \<noteq> OverMaxMatches \<longrightarrow> length (se_matched e) \<le> max_matches s)"
proof -
  from assms obtain M vs where ev: "evaluate_selection (map inventory_entry resources) s = Inr (M, vs)"
    and M: "M = selected_ids (map inventory_entry resources) s"
    and m: "se_matched e = sorted_list_of_set M"
    and r: "se_rejected e = sorted_list_of_set (casefold ` rs_resource_id ` set resources - M)"
    and v: "se_violations e = sort_key casefold (remdups vs)"
    and st: "se_status e = (if se_violations e \<noteq> [] then OverMaxMatches
           else if se_matched e \<noteq> [] then Matched else NoMatches)"
    by (rule evaluate_selectorE)
  have "M = casefold ` rs_resource_id ` {r \<in> set resources. selector_selects s (casefold (rs_resource_id r), r)}"
    unfolding M selected_ids_def inventory_entry_def by force
  moreover have "finite M" by (simp add: M)
  moreover have "length (se_matched e) \<le> max_matches s" if "se_status e \<noteq> OverMaxMatches"
  proof -
    from that st v have "sort_key casefold (remdups vs) = []" by (auto split: if_splits)
    then have "length (remdups vs) = 0" by (metis length_sort list.size(3))
    then have "vs = []" by simp
    with ev within_bound \<open>finite M\<close> show ?thesis by (simp add: m)
  qed
  ultimately show ?thesis using m r by simp
qed

theorem selector_evaluation_exact_witness:
  "\<exists>e. evaluate_selector demo_result_digest (tag_selector ''sel-web'' ''web'' 5) demo_inventory = Inr e
     \<and> length (se_rejected e) = 2 \<and> se_status e = Matched
     \<and> se_rejected e = sorted_list_of_set (casefold ` rs_resource_id ` set demo_inventory - set (se_matched e))"
proof -
  have "map_sum id (\<lambda>e. (length (se_rejected e), se_status e))
      (evaluate_selector demo_result_digest (tag_selector ''sel-web'' ''web'' 5) demo_inventory) = Inr (2, Matched)"
    by code_simp
  from map_sum_Inr[OF this] obtain e where
    "evaluate_selector demo_result_digest (tag_selector ''sel-web'' ''web'' 5) demo_inventory = Inr e"
    "length (se_rejected e) = 2" "se_status e = Matched" by auto
  with selector_evaluation_exact[OF this(1)] show ?thesis by blast
qed

text \<open>
  The order of the inventory is irrelevant: the same resources in another order give the same
  evaluation, digest included, or the same error.
\<close>

theorem inventory_order_is_irrelevant:
  assumes "mset resources = mset resources'"
  shows "evaluate_selector h s resources = evaluate_selector h s resources'"
proof -
  have sets: "set (map inventory_entry resources) = set (map inventory_entry resources')"
    using assms by (metis set_mset_mset mset_map)
  then have keys: "set (map fst (map inventory_entry resources)) = set (map fst (map inventory_entry resources'))"
    by (metis list.set_map)
  show ?thesis
  proof (cases "inventory_ok resources")
    case True
    with inventory_ok_perm[OF assms] show ?thesis
      unfolding evaluate_selector_def index_resources_eq by (simp only: if_True bindR_Inr evaluate_selection_set[OF sets] keys)
  next
    case False
    with inventory_ok_perm[OF assms] show ?thesis
      unfolding evaluate_selector_def index_resources_eq by (simp only: if_False bindR_Inl)
  qed
qed

theorem inventory_order_is_irrelevant_witness:
  "map_sum id se_matched (evaluate_selector demo_result_digest (tag_selector ''sel-db'' ''db'' 5) (rev demo_inventory))
     = Inr [casefold (vm_id ''db1'')]"
  using inventory_order_is_irrelevant[of "rev demo_inventory" demo_inventory demo_result_digest]
  by (simp add: demo_matches)

section \<open>Inheritance\<close>

text \<open>
  C29. Inheritance only narrows: for every profile of a validated graph the computation of its roles
  returns, and if it succeeds every role of the manifest is still there, with the same identifier,
  and selects no entry of any inventory that the manifest's role does not select.
\<close>

theorem inherited_roles_only_narrow:
  assumes "validate_profile_graph m = Inr ()" and "graph_ok m" and "p \<in> set (profile_list m)"
  shows "\<exists>result. roles_for m p = Some result
    \<and> (\<forall>roles. result = Inr roles \<longrightarrow> (\<forall>q \<in> set (pg_roles m). \<exists>r \<in> set roles.
          normalized_id (ro_role_id r) = normalized_id (ro_role_id q)
          \<and> (\<forall>s \<in> set (ro_selectors r). \<forall>x. selector_selects s x \<longrightarrow>
               (\<exists>t \<in> set (ro_selectors q). selector_selects t x))))"
proof -
  obtain result where r: "roles_for m p = Some result"
    using validated_roles_for_returns[OF assms(1,3)] by auto
  have "narrows (pg_roles m) roles" if "result = Inr roles" for roles
    using roles_for_narrows[OF validated_graph_grounded[OF assms(1,3)] by_profile_id_self[OF assms(1,3)] assms(2)]
      r that by blast
  then have "\<forall>roles. result = Inr roles \<longrightarrow> (\<forall>q \<in> set (pg_roles m). \<exists>r \<in> set roles.
      normalized_id (ro_role_id r) = normalized_id (ro_role_id q)
      \<and> (\<forall>x. role_selects r x \<longrightarrow> role_selects q x))"
    by (simp add: narrows_def)
  moreover have "(\<forall>x. role_selects r x \<longrightarrow> role_selects q x) \<longleftrightarrow>
      (\<forall>s \<in> set (ro_selectors r). \<forall>x. selector_selects s x \<longrightarrow> (\<exists>t \<in> set (ro_selectors q). selector_selects t x))"
    for r q
    by (auto simp: role_selects_def)
  ultimately show ?thesis using r by (auto simp: Bex_def)
qed

theorem inherited_roles_only_narrow_witness:
  "roles_for demo_graph development_profile = Some (Inr (narrowed_roles 2))
   \<and> {x. selector_selects (tag_selector ''sel-web'' ''web'' 2) x}
       \<subseteq> {x. selector_selects (tag_selector ''sel-web'' ''web'' 5) x}"
proof -
  have "distinct (map normalized_id [''database-primary'', ''worker'', ''web''])" by code_simp
  then have ok: "graph_ok demo_graph"
    by (simp add: graph_ok_def demo_graph_def roles_ok_def role_ok_def profile_list_def demo_manifest_role_def
        production_profile_def development_profile_def training_profile_def tag_selector_def selector_ok_def
        demo_role_def)
  have dev: "development_profile \<in> set (profile_list demo_graph)"
    and q: "demo_manifest_role [tag_selector ''sel-web'' ''web'' 5] \<in> set (pg_roles demo_graph)"
    by (simp_all add: demo_graph_def profile_list_def)
  let ?q = "demo_manifest_role [tag_selector ''sel-web'' ''web'' 5]"
  from inherited_roles_only_narrow[OF demo_graph_valid ok dev] have
    "\<forall>q \<in> set (pg_roles demo_graph). \<exists>r \<in> set (narrowed_roles 2).
       normalized_id (ro_role_id r) = normalized_id (ro_role_id q)
       \<and> (\<forall>s \<in> set (ro_selectors r). \<forall>x. selector_selects s x \<longrightarrow>
            (\<exists>t \<in> set (ro_selectors q). selector_selects t x))"
    unfolding demo_inherited by simp
  from bspec[OF this q] obtain r where r: "r \<in> set (narrowed_roles 2)"
    "normalized_id (ro_role_id r) = normalized_id (ro_role_id ?q)"
    and s: "\<forall>s \<in> set (ro_selectors r). \<forall>x. selector_selects s x \<longrightarrow>
            (\<exists>t \<in> set (ro_selectors ?q). selector_selects t x)" by blast
  have "normalized_id (ro_role_id ?q) = ''web''" by code_simp
  with r(2) have "normalized_id (ro_role_id r) = ''web''" by (simp only:)
  moreover note r(1)
  moreover have "normalized_id (ro_role_id (demo_role ''database-primary'' ExactlyOne ''db'')) \<noteq> ''web''"
    and "normalized_id (ro_role_id (demo_role ''worker'' OneOrMore ''worker'')) \<noteq> ''web''"
    by code_simp+
  ultimately have "r = demo_manifest_role [tag_selector ''sel-web'' ''web'' 2]"
    unfolding narrowed_roles_def list.set by blast
  with s have "\<forall>x. selector_selects (tag_selector ''sel-web'' ''web'' 2) x \<longrightarrow>
      selector_selects (tag_selector ''sel-web'' ''web'' 5) x"
    by (simp add: demo_manifest_role_def)
  then show ?thesis unfolding demo_inherited by blast
qed

theorem lineage_walk_terminates:
  "\<exists>result. profile_lineage m i = Some result"
  using profile_lineage_returns by blast

text \<open>
  C30. Resolving a profile returns: for every manifest, also one whose profiles extend each other in
  a cycle or extend a missing one, and every requested identifier, the loops of the resolution end.
  A profile that comes out passes the whole validation with its governance in force, names the
  profiles of its lineage in order as its chain of inheritance, and is the last of them.
\<close>

theorem resolution_returns_valid_profiles:
  "\<exists>result. resolve_manifest_profile rv m as_of i = Some result
     \<and> (\<forall>p. result = Inr p \<longrightarrow>
          validate_resolved_manifest_profile (rv_digests rv) p as_of True = Inr ()
          \<and> (\<exists>ps. profile_lineage m i = Some (Inr ps) \<and> rp_inheritance_chain p = map mp_profile_id ps
               \<and> rp_profile_id p = mp_profile_id (ps ! (length ps - 1))))"
proof -
  obtain result where r: "resolve_manifest_profile rv m as_of i = Some result"
    using resolve_manifest_profile_returns by blast
  have "validate_resolved_manifest_profile (rv_digests rv) p as_of True = Inr ()
      \<and> (\<exists>ps. profile_lineage m i = Some (Inr ps) \<and> rp_inheritance_chain p = map mp_profile_id ps
           \<and> rp_profile_id p = mp_profile_id (ps ! (length ps - 1)))" if res: "result = Inr p" for p
  proof -
    obtain ps kept chain where l: "profile_lineage m i = Some (Inr ps)"
      and fold: "foldR (resolve_step rv m as_of) (manifest_collections m, None, []) ps = Inr (kept, Some p, chain)"
      and v: "validate_resolved_manifest_profile (rv_digests rv) p as_of True = Inr ()"
      using r res resolve_manifest_profile_Inr[of rv m as_of i p] by blast
    obtain q qs where ps: "ps = qs @ [q]" by (rule profile_lineage_Inr[OF l])
    have "rp_inheritance_chain p = chain" and "rp_profile_id p = mp_profile_id q"
      by (rule resolved_of_last[OF fold[unfolded ps]]; simp)+
    with l v lineage_chain[OF fold] ps show ?thesis by (auto simp: nth_append)
  qed
  with r show ?thesis by blast
qed

theorem resolution_returns_valid_profiles_witness:
  "list_all (\<lambda>r. case r of Some (Inr p) \<Rightarrow>
       validate_resolved_manifest_profile (rv_digests demo_resolver) p 10 True = Inr ()
       \<and> rp_profile_id p = ''development'' | _ \<Rightarrow> False)
     [resolve_manifest_profile demo_resolver demo_graph 10 ''development'']"
proof -
  obtain p where p: "resolve_manifest_profile demo_resolver demo_graph 10 ''development'' = Some (Inr p)"
    using demo_resolves by (auto split: option.splits sum.splits)
  obtain ps where ps: "profile_lineage demo_graph ''development'' = Some (Inr ps)"
    and v: "validate_resolved_manifest_profile (rv_digests demo_resolver) p 10 True = Inr ()"
    and i: "rp_profile_id p = mp_profile_id (ps ! (length ps - 1))"
    using resolution_returns_valid_profiles[of demo_resolver demo_graph 10 "''development''"] p by auto
  have "ps = [production_profile, development_profile]" using ps demo_lineage(2) by simp
  with i have "rp_profile_id p = ''development''" by (simp add: development_profile_def)
  with p v show ?thesis by simp
qed

text \<open>
  C31. Requirements are weakened only under an override: when the resolution of a profile of an
  accepted manifest succeeds, then for every constraint of the manifest that applies to the profile,
  and that no profile of the lineage takes away from it, either a profile of the lineage holds an
  approved override, in force at that time, for a path and target of this constraint, or the resolved
  profile has a constraint of the same identifier that is at least as strict: whatever evidence
  satisfies it, at any time, also satisfies the constraint of the manifest.
\<close>

theorem requirements_weaken_only_by_override:
  assumes "manifest_accepted m" and "profile_lineage m i = Some (Inr ps)"
    and "\<forall>q \<in> set ps. \<forall>x \<in> set (mp_constraints q). constraint_ok x"
    and "resolve_manifest_profile rv m as_of i = Some (Inr p)" and "c \<in> set (pg_constraints m)"
    and "refers i (pc_profiles c)"
    and "\<forall>q \<in> set ps. \<forall>x \<in> set (mp_constraints q).
           normalized_id (constraint_id x) = normalized_id (constraint_id c) \<longrightarrow> refers i (pc_profiles x)"
  shows "(\<exists>q \<in> set ps. overridden q as_of (constraint_id c))
    \<or> (\<exists>c' \<in> set (rp_constraints p). normalized_id (constraint_id c') = normalized_id (constraint_id c)
         \<and> (\<forall>(cj :: 'r \<Rightarrow> string) profile ev t. satisfied cj profile ev t c' \<longrightarrow> satisfied cj profile ev t c))"
proof (cases "\<exists>q \<in> set ps. overridden q as_of (constraint_id c)")
  case False
  obtain kept chain where fold: "foldR (resolve_step rv m as_of) (manifest_collections m, None, []) ps
      = Inr (kept, Some p, chain)"
    by (rule resolve_manifest_profile_Inr[OF assms(4)]) (use assms(2) in simp)
  obtain q qs where q: "by_key m (normalized_id i) = Some q" and ps: "ps = qs @ [q]"
    and known: "set ps \<subseteq> set (profile_list m)"
    by (rule profile_lineage_Inr[OF assms(2)])
  have ok: "\<forall>p \<in> set ps. distinct_constraints (mp_constraints p) \<and> (\<forall>x \<in> set (mp_constraints p). constraint_ok x)"
    using accepted_distinct(3)[OF assms(1)] known assms(3) by blast
  have "distinct_constraints (co_constraints (manifest_collections m))"
    and "c \<in> set (co_constraints (manifest_collections m))"
    using accepted_distinct(1)[OF assms(1)] assms(5) by (simp_all add: manifest_collections_def)
  from lineage_constraint[OF fold this(1) ok this(2)] False
  obtain c' where c': "c' \<in> set (co_constraints kept)"
    and i: "normalized_id (constraint_id c') = normalized_id (constraint_id c)"
    and s: "stricter TYPE('r) c c'" and new: "c' = c \<or> (\<exists>p \<in> set ps. c' \<in> set (mp_constraints p))"
    by blast
  have "refers i (pc_profiles c')" using new assms(6,7) i by blast
  moreover have "normalized_id (mp_profile_id q) = normalized_id i" by (rule accepted_by_key[OF assms(1) q])
  ultimately have "refers (mp_profile_id q) (pc_profiles c')" by (simp add: refers_def)
  moreover have "rp_constraints p = filter (\<lambda>c. refers (mp_profile_id q) (pc_profiles c)) (co_constraints kept)"
    by (rule resolved_of_last[OF fold[unfolded ps]]) simp
  ultimately have "c' \<in> set (rp_constraints p)" using c' by simp
  with i s show ?thesis by (auto simp: stricter_def)
qed simp

theorem requirements_weaken_only_by_override_witness:
  "\<exists>p. resolve_manifest_profile demo_resolver demo_graph 10 ''development'' = Some (Inr p)
     \<and> (\<exists>c' \<in> set (rp_constraints p). normalized_id (constraint_id c') = ''web-zone-distribution''
          \<and> {(cj, q, ev, t). satisfied (cj :: nat \<Rightarrow> string) q ev t c'}
              \<subseteq> {(cj, q, ev, t). satisfied cj q ev t (profile_constraint ''production'' (web_zones 2))})"
proof -
  let ?c = "profile_constraint ''production'' (web_zones 2)"
  obtain p where p: "resolve_manifest_profile demo_resolver demo_graph 10 ''development'' = Some (Inr p)"
    using demo_resolves by (auto split: option.splits sum.splits)
  have ok: "\<forall>q \<in> set [production_profile, development_profile]. \<forall>x \<in> set (mp_constraints q). constraint_ok x"
    and keep: "\<forall>q \<in> set [production_profile, development_profile]. \<forall>x \<in> set (mp_constraints q).
      normalized_id (constraint_id x) = normalized_id (constraint_id ?c) \<longrightarrow> refers ''development'' (pc_profiles x)"
    and free: "\<forall>q \<in> set [production_profile, development_profile]. \<not> overridden q 10 (constraint_id ?c)"
    and c: "?c \<in> set (pg_constraints demo_graph)" "refers ''development'' (pc_profiles ?c)"
      "normalized_id (constraint_id ?c) = ''web-zone-distribution''"
    unfolding overridden_def overrides_constraint_def by code_simp+
  from requirements_weaken_only_by_override[OF demo_graph_accepted demo_lineage(2) ok p c(1,2) keep, where ?'r = nat]
    free c(3) p
  show ?thesis by fastforce
qed

text \<open>
  C32. A role of a manifest whose selectors are not in the order of their identifiers, and that no
  profile redeclares or disables, makes every resolution of every profile fail, although the manifest
  is accepted: the digests of a resolved profile are computed from the sorted payload and compared
  with those of the unsorted one. The hypothesis on the digest is that a payload out of order never
  has the digest of its sorted form.
\<close>

theorem unsorted_selectors_never_resolve:
  assumes "manifest_accepted m" and "order_sensitive (rv_digests rv)" and "r \<in> set (pg_roles m)"
    and "\<not> sorted (map (normalized_id \<circ> selector_id) (ro_selectors r))"
    and "\<forall>q \<in> set (profile_list m). \<not> disables_role q (ro_role_id r)
           \<and> \<not> refers (ro_role_id r) (map ro_role_id (mp_roles q))"
  shows "resolve_manifest_profile rv m as_of i \<noteq> Some (Inr p)"
proof
  assume "resolve_manifest_profile rv m as_of i = Some (Inr p)"
  then obtain ps kept chain where l: "profile_lineage m i = Some (Inr ps)"
    and fold: "foldR (resolve_step rv m as_of) (manifest_collections m, None, []) ps = Inr (kept, Some p, chain)"
    by (rule resolve_manifest_profile_Inr) simp
  have "set ps \<subseteq> set (profile_list m)" and "ps \<noteq> []"
    by (rule profile_lineage_Inr[OF l]; simp)+
  then obtain q where q: "set ps \<subseteq> set (profile_list m)" "ps = q # tl ps" by (cases ps) auto
  have "foldR (resolve_step rv m as_of) (manifest_collections m, None, []) (q # tl ps) = Inr (kept, Some p, chain)"
    using fold q(2) by simp
  then obtain s where step: "resolve_step rv m as_of (manifest_collections m, None, []) q = Inr s"
    unfolding foldR.simps bindR_eq_Inr by blast
  have "q \<in> set (profile_list m)" by (rule subsetD[OF q(1)]) (subst q(2), simp)
  then have "\<not> disables_role q (ro_role_id r)" and "\<not> refers (ro_role_id r) (map ro_role_id (mp_roles q))"
    and "distinct (map (normalized_id \<circ> ro_role_id) (mp_roles q))"
    using assms(5) accepted_distinct(4)[OF assms(1)] by blast+
  with unsorted_first_step[OF step assms(2,3) accepted_distinct(2)[OF assms(1)]] assms(4)
  show False by (simp add: refers_def comp_def)
qed

theorem unsorted_selectors_never_resolve_witness:
  "{p. resolve_manifest_profile (demo_resolver\<lparr>rv_digests := order_digests\<rparr>) unsorted_graph 10 ''production''
     = Some (Inr p)} = {}"
proof -
  have "manifest_accepted unsorted_graph" and "unsorted_role \<in> set (pg_roles unsorted_graph)"
    and "\<not> sorted (map (normalized_id \<circ> selector_id) (ro_selectors unsorted_role))"
    and "\<forall>q \<in> set (profile_list unsorted_graph). \<not> disables_role q (ro_role_id unsorted_role)
           \<and> \<not> refers (ro_role_id unsorted_role) (map ro_role_id (mp_roles q))"
    by code_simp+
  from unsorted_selectors_never_resolve[OF this(1) _ this(2-4), of "demo_resolver\<lparr>rv_digests := order_digests\<rparr>"]
  show ?thesis by (simp add: order_digests_sensitive)
qed

text \<open>
  An owner can never be disabled: when a profile of an accepted manifest disables an owner (and
  its path has no segment that names another kind of item), every resolution of every profile fails.
  Disabling needs an override for the path of the owner, but the check of the owners of overrides
  finds no owner for such a path, and so rejects the override as unresolved.
\<close>

theorem disabled_owners_never_resolve:
  assumes "manifest_accepted m" and "q \<in> set (profile_list m)"
    and "d \<in> set (mp_disabled q)" and "df_target_kind d = TargetOwner"
    and "\<forall>s \<in> set owned_segments. \<not> sublist s (disabled_path q d)"
  shows "resolve_manifest_profile rv m as_of i \<noteq> Some (Inr p)"
proof
  assume "resolve_manifest_profile rv m as_of i = Some (Inr p)"
  then obtain co merged kept where merge: "merge_profile (permits_for rv m q) q as_of co = Inr merged"
    and kept: "apply_disabled_refs q as_of merged = Inr kept"
    by (rule every_profile_steps[OF assms(1,2)])
  obtain ov where ov: "ov \<in> set (mp_overrides q)" and path: "ov_target_path ov = disabled_path q d"
    by (rule disabled_override[OF kept assms(3)])
  from merged_override_owner[OF merge ov] path assms(5) have "disabled_path q d = continuity_path q" by simp
  with assms(4) show False by (simp add: disabled_path_def continuity_path_def profile_path_def)
qed

theorem disabled_owners_never_resolve_witness:
  "{p. resolve_manifest_profile demo_resolver owner_disabled_graph 10 ''production'' = Some (Inr p)} = {}"
proof -
  let ?q = "snd (last (pg_profiles owner_disabled_graph))" and ?d = "hd (mp_disabled (snd (last (pg_profiles owner_disabled_graph))))"
  have "manifest_accepted owner_disabled_graph" and "?q \<in> set (profile_list owner_disabled_graph)"
    and "?d \<in> set (mp_disabled ?q)" and "df_target_kind ?d = TargetOwner"
    and "\<forall>s \<in> set owned_segments. \<not> sublist s (disabled_path ?q ?d)"
    by code_simp+
  from disabled_owners_never_resolve[OF this] show ?thesis by simp
qed

end
