(* ===== verification/EventModel.thy ===== *)
theory EventModel
  imports PolicyModel "HOL-Library.Sublist"
begin

text \<open>
  Monitoring events: the contracts of \<open>contracts/eventing.py\<close>, the normalization of Azure payloads
  (\<open>eventing/normalization.py\<close>) and their routing to a reassessment request
  (\<open>eventing/routing.py\<close>). Instants are microseconds in UTC, so the checks for a UTC offset of the
  source are in the types, but for parsed text. Text is ASCII.
\<close>

section \<open>JSON values and text\<close>

datatype json =
    JNull | JBool bool | JInt int | JFloat pyfloat | JText string
  | JList "json list" | JObject "(string \<times> json) list"

text \<open>\<open>d.get(k)\<close>, and the truth of a value in \<open>a or b\<close>.\<close>

definition jget :: "(string \<times> json) list \<Rightarrow> string \<Rightarrow> json" where
  "jget o' k = (case map_of o' k of None \<Rightarrow> JNull | Some v \<Rightarrow> v)"

fun truthy :: "json \<Rightarrow> bool" where
  "truthy JNull = False"
| "truthy (JBool b) = b"
| "truthy (JInt n) = (n \<noteq> 0)"
| "truthy (JFloat f) = (\<not> pf_eq f (Finite 0))"
| "truthy (JText s) = (s \<noteq> [])"
| "truthy (JList xs) = (xs \<noteq> [])"
| "truthy (JObject kvs) = (kvs \<noteq> [])"

definition py_or :: "json \<Rightarrow> json \<Rightarrow> json" where
  "py_or a b = (if truthy a then a else b)"

text \<open>
  The environment: \<open>hashlib.sha256(text).hexdigest()\<close>, \<open>canonicalize_json\<close> (which refuses some values, such
  as text that only begins like a timestamp), \<open>datetime.isoformat\<close> of
  an instant in UTC, \<open>datetime.fromisoformat\<close> with the instant and whether its offset is that of UTC,
  and Python's \<open>str\<close> of a value that is not text.
\<close>

record platform =
  pl_hexdigest :: "string \<Rightarrow> string"
  pl_canonical :: "json \<Rightarrow> string option"
  pl_isoformat :: "int \<Rightarrow> string"
  pl_fromisoformat :: "string \<Rightarrow> (int \<times> bool) option"
  pl_str :: "json \<Rightarrow> string"

definition sha256_hex :: "platform \<Rightarrow> string \<Rightarrow> string" where
  "sha256_hex pl s = ''sha256:'' @ pl_hexdigest pl s"

definition py_str :: "platform \<Rightarrow> json \<Rightarrow> string" where
  "py_str pl v = (case v of JText s \<Rightarrow> s | _ \<Rightarrow> pl_str pl v)"

definition contains :: "string \<Rightarrow> string \<Rightarrow> bool" where
  "contains part s = sublist part s"

definition remove_prefix :: "string \<Rightarrow> string \<Rightarrow> string" where
  "remove_prefix p s = (if prefix p s then drop (length p) s else s)"

definition rstrip_char :: "char \<Rightarrow> string \<Rightarrow> string" where
  "rstrip_char c s = rev (dropWhile (\<lambda>x. x = c) (rev s))"

definition strip_chars :: "string \<Rightarrow> string \<Rightarrow> string" where
  "strip_chars cs s = rev (dropWhile (\<lambda>x. x \<in> set cs) (rev (dropWhile (\<lambda>x. x \<in> set cs) s)))"

text \<open>\<open>s.split()\<close>\<close>

definition words :: "string \<Rightarrow> string list" where
  "words s = filter (\<lambda>w. w \<noteq> []) (split_on CHR '' '' (map (\<lambda>c. if is_space c then CHR '' '' else c) s))"

text \<open>\<open>s.replace(old, new)\<close> for a non-empty \<open>old\<close>.\<close>

function replace_text :: "string \<Rightarrow> string \<Rightarrow> string \<Rightarrow> string" where
  "replace_text old new s =
     (if old = [] \<or> s = [] then s
      else if prefix old s then new @ replace_text old new (drop (length old) s)
      else hd s # replace_text old new (tl s))"
  by pat_completeness auto
termination
  by (relation "measure (\<lambda>(old, new, s). length s)") (auto simp: neq_Nil_conv)

declare replace_text.simps [simp del]

definition lower_hex :: "string \<Rightarrow> bool" where
  "lower_hex s \<longleftrightarrow> list_all (\<lambda>c. c \<in> set ''0123456789abcdef'') s"

text \<open>A pattern \<open>^<prefix>[a-f0-9]{n}$\<close>.\<close>

definition tagged_hex :: "string \<Rightarrow> nat \<Rightarrow> string \<Rightarrow> bool" where
  "tagged_hex p n s \<longleftrightarrow> prefix p s \<and> length s = length p + n \<and> lower_hex (drop (length p) s)"

section \<open>Events\<close>

datatype event_error =
    EventNormalizationError | EventRoutingError | SignalDetectionError | EventValidationError
  | ReaderError | SenderError | EventKeyError | PyAttributeError | PyOverflowError
  | CanonicalJsonError | IncidentValueError | IncidentRuntimeError | AssetAlreadyExists | AssetUnavailable
  | IncidentPortError

datatype event_lifecycle = EventActivated | EventResolved | EventChanged | EventUnknown

datatype event_source = AzureEventGrid | AzureMonitorCommonAlert

datatype signal_kind = ActivityLog | ResourceHealth | MetricAlert

datatype severity = SeverityCritical | SeverityWarning | SeverityInformational | SeverityUnknown

datatype target_type = VirtualMachine | LoadBalancer

fun type_text :: "target_type \<Rightarrow> string" where
  "type_text VirtualMachine = ''Microsoft.Compute/virtualMachines''"
| "type_text LoadBalancer = ''Microsoft.Network/loadBalancers''"

datatype workload_role = RoleDatabase | RoleWeb | RoleLoadBalancer

datatype incident_scenario = SingletonDatabaseFailure | WebServerFailure | LoadBalancerFailure

record monitor_event =
  me_event_id :: string
  me_deduplication_key :: string
  me_source_system :: event_source
  me_signal_kind :: signal_kind
  me_lifecycle :: event_lifecycle
  me_severity :: severity
  me_subscription_id :: string
  me_resource_group :: string
  me_target :: string
  me_target_type :: target_type
  me_operation :: string
  me_observed_at :: int
  me_received_at :: int
  me_source_digest :: string

text \<open>
  The class \<open>NormalizedMonitorEvent\<close>: the constraints of its fields, the validator of the resource
  identifier, which lowers it, and \<open>validate_freshness_order\<close>.
\<close>

definition event_fields_ok :: "monitor_event \<Rightarrow> bool" where
  "event_fields_ok e \<longleftrightarrow>
     tagged_hex ''evt-'' 12 (me_event_id e) \<and> tagged_hex ''sha256:'' 64 (me_deduplication_key e)
     \<and> guid_ok (me_subscription_id e)
     \<and> 1 \<le> length (me_resource_group e) \<and> length (me_resource_group e) \<le> 90
     \<and> 1 \<le> length (me_target e) \<and> length (me_target e) \<le> 2048
     \<and> 1 \<le> length (me_operation e) \<and> length (me_operation e) \<le> 256
     \<and> tagged_hex ''sha256:'' 64 (me_source_digest e)
     \<and> prefix ''/subscriptions/'' (me_target e) \<and> CHR 0x5C \<notin> set (me_target e) \<and> CHR ''%'' \<notin> set (me_target e)"

definition validate_freshness_order :: "platform \<Rightarrow> monitor_event \<Rightarrow> bool" where
  "validate_freshness_order pl e \<longleftrightarrow>
     me_observed_at e \<le> me_received_at e
     \<and> me_received_at e - me_observed_at e \<le> 600 * 1000000
     \<and> (case split_on CHR ''/'' (me_target e) of
           [_, s1, s2, s3, s4, s5, s6, s7, _] \<Rightarrow>
             s1 = ''subscriptions'' \<and> s2 = casefold (me_subscription_id e) \<and> s3 = ''resourcegroups''
             \<and> s4 = casefold (me_resource_group e) \<and> s5 = ''providers''
             \<and> casefold (s6 @ ''/'' @ s7) = casefold (type_text (me_target_type e))
         | _ \<Rightarrow> False)
     \<and> me_event_id e = ''evt-'' @ take 12 (pl_hexdigest pl (me_deduplication_key e))"

definition make_event :: "platform \<Rightarrow> monitor_event \<Rightarrow> event_error + monitor_event" where
  "make_event pl e = (let e' = e\<lparr>me_target := casefold (me_target e)\<rparr>
     in if event_fields_ok e \<and> validate_freshness_order pl e' then Inr e' else Inl EventValidationError)"

section \<open>Normalization\<close>

definition normalization_guard :: "bool \<Rightarrow> event_error + unit" where
  "normalization_guard b = guardR b EventNormalizationError"

definition to_record :: "json \<Rightarrow> event_error + (string \<times> json) list" where
  "to_record v = (case v of JObject kvs \<Rightarrow> Inr kvs | _ \<Rightarrow> Inl EventNormalizationError)"

definition bounded_text :: "json \<Rightarrow> event_error + string" where
  "bounded_text v = (case v of
       JText s \<Rightarrow> if strip s = [] \<or> 256 < length s then Inl EventNormalizationError else Inr (strip s)
     | _ \<Rightarrow> Inl EventNormalizationError)"

definition timestamp :: "platform \<Rightarrow> json \<Rightarrow> event_error + int" where
  "timestamp pl v = (case v of
       JText s \<Rightarrow>
         if 40 < length s then Inl EventNormalizationError
         else (case pl_fromisoformat pl (replace_text ''Z'' ''+00:00'' s) of
             Some (t, True) \<Rightarrow> Inr t
           | _ \<Rightarrow> Inl EventNormalizationError)
     | _ \<Rightarrow> Inl EventNormalizationError)"

definition target_id :: "json \<Rightarrow> event_error + string" where
  "target_id v = (case v of
       JText s \<Rightarrow> let n = casefold (rstrip_char CHR ''/'' (strip s))
         in if prefix ''/subscriptions/'' n \<and> length n \<le> 2048 then Inr n else Inl EventNormalizationError
     | _ \<Rightarrow> Inl EventNormalizationError)"

definition target_type_of :: "string \<Rightarrow> json \<Rightarrow> event_error + target_type" where
  "target_type_of i provider =
     (if contains ''/providers/microsoft.compute/virtualmachines/'' (casefold i) then Inr VirtualMachine
      else if contains ''/providers/microsoft.network/loadbalancers/'' (casefold i) then Inr LoadBalancer
      else (case provider of
          JText p \<Rightarrow>
            if casefold (strip p) = ''microsoft.compute'' then Inr VirtualMachine
            else if casefold (strip p) = ''microsoft.network'' then Inr LoadBalancer
            else Inl EventNormalizationError
        | _ \<Rightarrow> Inl EventNormalizationError))"

definition scope_of :: "string \<Rightarrow> event_error + (string \<times> string)" where
  "scope_of i = (let segments = split_on CHR ''/'' i
     in if length segments \<le> 4 then Inl EventNormalizationError else Inr (segments ! 2, segments ! 4))"

definition lifecycle_of :: "string \<Rightarrow> event_lifecycle" where
  "lifecycle_of value =
     (let lowered = strip (casefold value);
          tokens = filter (\<lambda>t. t \<noteq> []) (map (strip_chars '' :,'') (words lowered))
      in if set tokens \<inter> {''unavailable'', ''degraded'', ''fired'', ''activated'', ''deallocate'', ''poweroff'', ''delete''} \<noteq> {}
            \<or> contains ''/deallocate/'' lowered \<or> contains ''/poweroff/'' lowered \<or> contains ''/delete'' lowered
         then EventActivated
         else if set tokens \<inter> {''available'', ''resolved'', ''start'', ''restart''} \<noteq> {}
            \<or> contains ''/start/'' lowered \<or> contains ''/restart/'' lowered
         then EventResolved else EventUnknown)"

fun lifecycle_text :: "event_lifecycle \<Rightarrow> string" where
  "lifecycle_text EventActivated = ''activated''"
| "lifecycle_text EventResolved = ''resolved''"
| "lifecycle_text EventChanged = ''changed''"
| "lifecycle_text EventUnknown = ''unknown''"

definition severity_of :: "platform \<Rightarrow> json \<Rightarrow> severity" where
  "severity_of pl v = (let lowered = (if truthy v then casefold (py_str pl v) else [])
     in if lowered \<in> {''sev0'', ''sev1'', ''critical'', ''error'', ''unavailable''} then SeverityCritical
        else if lowered \<in> {''sev2'', ''sev3'', ''warning'', ''degraded''} then SeverityWarning
        else if lowered \<in> {''sev4'', ''informational'', ''info'', ''available''} then SeverityInformational
        else SeverityUnknown)"

fun source_text :: "event_source \<Rightarrow> string" where
  "source_text AzureEventGrid = ''azureEventGrid''"
| "source_text AzureMonitorCommonAlert = ''azureMonitorCommonAlert''"

text \<open>\<open>_normalized\<close>: the fields of the event, joined by NUL for its deduplication key.\<close>

definition normalized_fields ::
    "platform \<Rightarrow> event_source \<Rightarrow> signal_kind \<Rightarrow> string \<Rightarrow> string \<Rightarrow> target_type \<Rightarrow> string
     \<Rightarrow> event_lifecycle \<Rightarrow> severity \<Rightarrow> int \<Rightarrow> int \<Rightarrow> json \<Rightarrow> event_error + monitor_event" where
  "normalized_fields pl source sk source_id i type operation lifecycle severity observed received raw_safe =
     bindR (scope_of i) (\<lambda>(subscription, group).
     bindR (requireR (pl_canonical pl raw_safe) CanonicalJsonError) (\<lambda>canonical.
     let key = sha256_hex pl (join_with (CHR 0x00) [source_text source, casefold source_id, i,
           lifecycle_text lifecycle, pl_isoformat pl observed])
     in Inr \<lparr>me_event_id = ''evt-'' @ take 12 (pl_hexdigest pl key), me_deduplication_key = key,
          me_source_system = source, me_signal_kind = sk, me_lifecycle = lifecycle,
          me_severity = severity, me_subscription_id = subscription, me_resource_group = group,
          me_target = i, me_target_type = type, me_operation = operation, me_observed_at = observed,
          me_received_at = received, me_source_digest = sha256_hex pl canonical\<rparr>))"

text \<open>The members of an object that are kept, by name.\<close>

definition keep_members :: "(string \<times> json) list \<Rightarrow> string list \<Rightarrow> (string \<times> json) list" where
  "keep_members o' ks = map (\<lambda>k. (k, jget o' k)) ks"

definition from_event_grid :: "platform \<Rightarrow> (string \<times> json) list \<Rightarrow> int \<Rightarrow> event_error + monitor_event" where
  "from_event_grid pl event received =
     bindR (to_record (jget event ''data'')) (\<lambda>data.
     bindR (target_id (py_or (jget data ''resourceUri'') (py_or (jget data ''resourceId'') (jget event ''subject'')))) (\<lambda>i.
     bindR (target_type_of i (jget data ''resourceProvider'')) (\<lambda>type.
     bindR (bounded_text (py_or (jget data ''operationName'') (py_or (jget data ''status'') (jget event ''eventType'')))) (\<lambda>operation.
     let category = (case map_of data ''category'' of None \<Rightarrow> [] | Some v \<Rightarrow> casefold (py_str pl v));
         sk = (if category = ''resourcehealth'' then ResourceHealth else ActivityLog)
     in bindR (timestamp pl (py_or (jget event ''eventTime'') (jget data ''eventTimestamp''))) (\<lambda>observed.
     let status = join_with CHR '' '' (map (py_str pl) (filter truthy
           [JText operation, jget data ''status'', jget data ''currentHealthStatus'']))
     in bindR (bounded_text (jget event ''id'')) (\<lambda>source_id.
     normalized_fields pl AzureEventGrid sk source_id i type operation (lifecycle_of status)
       (severity_of pl (py_or (jget data ''level'') (jget data ''currentHealthStatus''))) observed received
       (JObject (keep_members event [''id'', ''eventType'', ''subject'', ''eventTime'']
          @ [(''data'', JObject (keep_members data [''resourceUri'', ''resourceProvider'', ''operationName'',
               ''status'', ''category'', ''currentHealthStatus'']))]))))))))"

definition from_common_alert ::
    "platform \<Rightarrow> (string \<times> json) list \<Rightarrow> int \<Rightarrow> string list \<Rightarrow> event_error + monitor_event" where
  "from_common_alert pl event received approved_rules =
     bindR (to_record (jget event ''data'')) (\<lambda>data.
     bindR (to_record (jget data ''essentials'')) (\<lambda>essentials.
     bindR (case jget essentials ''alertTargetIDs'' of JList [t] \<Rightarrow> Inr t | _ \<Rightarrow> Inl EventNormalizationError) (\<lambda>target.
     bindR (target_id target) (\<lambda>i.
     bindR (target_type_of i JNull) (\<lambda>type.
     bindR (bounded_text (jget essentials ''signalType'')) (\<lambda>signal_type.
     bindR (bounded_text (jget essentials ''monitorCondition'')) (\<lambda>condition.
     bindR (bounded_text (py_or (jget essentials ''alertRule'') (JText signal_type))) (\<lambda>operation.
     let signal = casefold signal_type
     in bindR (normalization_guard (type = LoadBalancer \<longrightarrow> signal \<in> {''metric'', ''resource health''})) (\<lambda>_.
     bindR (normalization_guard (signal = ''metric'' \<longrightarrow> casefold operation \<in> set (map casefold approved_rules))) (\<lambda>_.
     bindR (bounded_text (jget essentials ''alertId'')) (\<lambda>source_id.
     bindR (timestamp pl (if casefold condition = ''resolved'' then jget essentials ''resolvedDateTime''
         else jget essentials ''firedDateTime'')) (\<lambda>observed.
     normalized_fields pl AzureMonitorCommonAlert
       (if signal = ''resource health'' then ResourceHealth else MetricAlert) source_id i type operation
       (lifecycle_of condition) (severity_of pl (jget essentials ''severity'')) observed received
       (JObject [(''schemaId'', jget event ''schemaId''),
          (''data'', JObject [(''essentials'', JObject (keep_members essentials [''alertId'', ''signalType'',
             ''monitorCondition'', ''severity'', ''alertRule'', ''alertTargetIDs'', ''firedDateTime'',
             ''resolvedDateTime'']))])])))))))))))))"

definition normalize_monitor_event ::
    "platform \<Rightarrow> json \<Rightarrow> int \<Rightarrow> string list \<Rightarrow> event_error + monitor_event" where
  "normalize_monitor_event pl v received approved_rules =
     bindR (to_record v) (\<lambda>event.
     bindR (if ''eventType'' \<in> set (map fst event) \<and> ''data'' \<in> set (map fst event)
            then from_event_grid pl event received
            else if jget event ''schemaId'' = JText ''azureMonitorCommonAlertSchema''
            then from_common_alert pl event received approved_rules
            else Inl EventNormalizationError) (\<lambda>fields.
     case make_event pl fields of Inl _ \<Rightarrow> Inl EventNormalizationError | Inr e \<Rightarrow> Inr e))"

section \<open>Routing\<close>

record reassessment_request =
  rr_request_id :: string
  rr_incident_id :: string
  rr_trigger_event_id :: string
  rr_trigger_event :: monitor_event
  rr_scenario :: incident_scenario
  rr_workload_role :: workload_role
  rr_target :: string
  rr_lifecycle :: event_lifecycle
  rr_idempotency_key :: string

fun scenario_of :: "workload_role \<Rightarrow> incident_scenario" where
  "scenario_of RoleDatabase = SingletonDatabaseFailure"
| "scenario_of RoleWeb = WebServerFailure"
| "scenario_of RoleLoadBalancer = LoadBalancerFailure"

fun expected_scenario :: "target_type \<Rightarrow> workload_role \<Rightarrow> incident_scenario option" where
  "expected_scenario VirtualMachine RoleDatabase = Some SingletonDatabaseFailure"
| "expected_scenario VirtualMachine RoleWeb = Some WebServerFailure"
| "expected_scenario LoadBalancer RoleLoadBalancer = Some LoadBalancerFailure"
| "expected_scenario _ _ = None"

definition request_fields_ok :: "reassessment_request \<Rightarrow> bool" where
  "request_fields_ok r \<longleftrightarrow>
     tagged_hex ''reassess-'' 12 (rr_request_id r) \<and> tagged_hex ''inc-'' 12 (rr_incident_id r)
     \<and> tagged_hex ''evt-'' 12 (rr_trigger_event_id r)
     \<and> 1 \<le> length (rr_target r) \<and> length (rr_target r) \<le> 2048
     \<and> tagged_hex ''wc016-'' 64 (rr_idempotency_key r)"

definition validate_request_binding :: "platform \<Rightarrow> reassessment_request \<Rightarrow> bool" where
  "validate_request_binding pl r \<longleftrightarrow>
     (let e = rr_trigger_event r; digest = remove_prefix ''sha256:'' (me_deduplication_key e)
      in rr_trigger_event_id r = me_event_id e \<and> rr_target r = me_target e
         \<and> rr_lifecycle r = me_lifecycle e
         \<and> rr_request_id r = ''reassess-'' @ take 12 digest
         \<and> rr_incident_id r = ''inc-'' @ take 12 (pl_hexdigest pl (me_target e))
         \<and> rr_idempotency_key r = ''wc016-'' @ digest
         \<and> expected_scenario (me_target_type e) (rr_workload_role r) = Some (rr_scenario r))"

definition make_request :: "platform \<Rightarrow> reassessment_request \<Rightarrow> event_error + reassessment_request" where
  "make_request pl r =
     (if request_fields_ok r \<and> validate_request_binding pl r then Inr r else Inl EventValidationError)"

text \<open>The approved roles are a dict from resource identifiers, in order.\<close>

type_synonym approved_roles = "(string \<times> workload_role) list"

definition build_reassessment_request ::
    "platform \<Rightarrow> monitor_event \<Rightarrow> approved_roles \<Rightarrow> event_error + reassessment_request" where
  "build_reassessment_request pl e roles =
     bindR (requireR (map_of roles (me_target e)) EventRoutingError) (\<lambda>role.
     bindR (guardR (me_target_type e = LoadBalancer \<longrightarrow> role = RoleLoadBalancer) EventRoutingError) (\<lambda>_.
     bindR (guardR (me_target_type e = VirtualMachine \<longrightarrow> role \<noteq> RoleLoadBalancer) EventRoutingError) (\<lambda>_.
     bindR (guardR (me_lifecycle e \<in> {EventActivated, EventResolved}) EventRoutingError) (\<lambda>_.
     let seed = remove_prefix ''sha256:'' (me_deduplication_key e)
     in make_request pl
       \<lparr>rr_request_id = ''reassess-'' @ take 12 seed,
        rr_incident_id = ''inc-'' @ take 12 (pl_hexdigest pl (me_target e)),
        rr_trigger_event_id = me_event_id e, rr_trigger_event = e, rr_scenario = scenario_of role,
        rr_workload_role = role, rr_target = me_target e, rr_lifecycle = me_lifecycle e,
        rr_idempotency_key = ''wc016-'' @ seed\<rparr>))))"

end
