(* ===== verification/Detector.thy ===== *)
theory Detector
  imports EventModel
begin

text \<open>
  The scheduled detector of \<open>eventing/detector.py\<close>: it reads the approved Azure signals, stages every
  change of health in its state store, sends the reassessment request and completes the transition.
  A run can fail between any two effects, so an action returns the error or the value together with
  the world it leaves behind: the in-memory state store and the messages the broker has received.
\<close>

section \<open>Actions\<close>

type_synonym ('w, 'a) action = "'w \<Rightarrow> (event_error + 'a) \<times> 'w"

definition pureW :: "'a \<Rightarrow> ('w, 'a) action" where
  "pureW x = (\<lambda>w. (Inr x, w))"

definition liftW :: "event_error + 'a \<Rightarrow> ('w, 'a) action" where
  "liftW r = (\<lambda>w. (r, w))"

definition bindW :: "('w, 'a) action \<Rightarrow> ('a \<Rightarrow> ('w, 'b) action) \<Rightarrow> ('w, 'b) action" where
  "bindW m f = (\<lambda>w. case m w of (Inl e, w') \<Rightarrow> (Inl e, w') | (Inr x, w') \<Rightarrow> f x w')"

fun foldW :: "('s \<Rightarrow> 'a \<Rightarrow> ('w, 's) action) \<Rightarrow> 's \<Rightarrow> 'a list \<Rightarrow> ('w, 's) action" where
  "foldW f s [] = pureW s"
| "foldW f s (x # xs) = bindW (f s x) (\<lambda>s'. foldW f s' xs)"

section \<open>The state store\<close>

text \<open>A pending transition has its health and its request together, as \<open>__post_init__\<close> demands.\<close>

record signal_checkpoint =
  ck_committed :: "bool option"
  ck_pending :: "(bool \<times> reassessment_request) option"

text \<open>\<open>InMemorySignalStateStore\<close>; its keys are lower case.\<close>

record signal_store =
  ss_state :: "string \<Rightarrow> signal_checkpoint option"
  ss_lease_held :: bool

definition initial_store :: "(string \<times> bool) list \<Rightarrow> signal_store" where
  "initial_store initial = \<lparr>ss_state = dict_of (map (\<lambda>(i, h).
       (casefold i, \<lparr>ck_committed = Some h, ck_pending = None\<rparr>)) initial), ss_lease_held = False\<rparr>"

definition acquire_run_lease :: "signal_store \<Rightarrow> bool \<times> signal_store" where
  "acquire_run_lease s = (if ss_lease_held s then (False, s) else (True, s\<lparr>ss_lease_held := True\<rparr>))"

definition release_run_lease :: "signal_store \<Rightarrow> signal_store" where
  "release_run_lease s = s\<lparr>ss_lease_held := False\<rparr>"

definition load_checkpoint :: "signal_store \<Rightarrow> string \<Rightarrow> signal_checkpoint" where
  "load_checkpoint s i = (case ss_state s (casefold i) of
       None \<Rightarrow> \<lparr>ck_committed = None, ck_pending = None\<rparr> | Some c \<Rightarrow> c)"

definition put_checkpoint :: "signal_store \<Rightarrow> string \<Rightarrow> signal_checkpoint \<Rightarrow> signal_store" where
  "put_checkpoint s i c = s\<lparr>ss_state := (ss_state s)(casefold i \<mapsto> c)\<rparr>"

definition record_initial_health :: "signal_store \<Rightarrow> string \<Rightarrow> signal_store" where
  "record_initial_health s i = put_checkpoint s i \<lparr>ck_committed = Some True, ck_pending = None\<rparr>"

definition stage_transition ::
    "signal_store \<Rightarrow> string \<Rightarrow> bool \<Rightarrow> reassessment_request \<Rightarrow> event_error + signal_store" where
  "stage_transition s i healthy r = (let c = load_checkpoint s i
     in if ck_pending c \<noteq> None then Inl SignalDetectionError
        else Inr (put_checkpoint s i (c\<lparr>ck_pending := Some (healthy, r)\<rparr>)))"

definition complete_transition :: "signal_store \<Rightarrow> string \<Rightarrow> string \<Rightarrow> event_error + signal_store" where
  "complete_transition s i request_id = (case ck_pending (load_checkpoint s i) of
       None \<Rightarrow> Inl SignalDetectionError
     | Some (healthy, r) \<Rightarrow>
         if rr_request_id r \<noteq> request_id then Inl SignalDetectionError
         else Inr (put_checkpoint s i \<lparr>ck_committed = Some healthy, ck_pending = None\<rparr>))"

section \<open>The ports\<close>

record message =
  ms_request :: reassessment_request
  ms_message_id :: string
  ms_session_id :: string

text \<open>
  What the broker makes of a message, which may depend on the messages before it. A call can fail
  although the broker has the message.
\<close>

datatype delivery = Delivered | DeliveredThenFailed | Refused

record ports =
  po_platform :: platform
  po_reader :: "string \<Rightarrow> (string \<times> string) list \<Rightarrow> event_error + (string \<times> json) list"
  po_sender :: "message list \<Rightarrow> message \<Rightarrow> delivery"

record detector_world =
  dw_store :: signal_store
  dw_delivered :: "message list"

definition send_request :: "ports \<Rightarrow> reassessment_request \<Rightarrow> (detector_world, unit) action" where
  "send_request po r = (\<lambda>w.
     let m = \<lparr>ms_request = r, ms_message_id = rr_idempotency_key r, ms_session_id = rr_incident_id r\<rparr>
     in case po_sender po (dw_delivered w) m of
          Delivered \<Rightarrow> (Inr (), w\<lparr>dw_delivered := dw_delivered w @ [m]\<rparr>)
        | DeliveredThenFailed \<Rightarrow> (Inl SenderError, w\<lparr>dw_delivered := dw_delivered w @ [m]\<rparr>)
        | Refused \<Rightarrow> (Inl SenderError, w))"

definition update_store :: "(signal_store \<Rightarrow> event_error + signal_store) \<Rightarrow> (detector_world, unit) action" where
  "update_store f = (\<lambda>w. case f (dw_store w) of Inl e \<Rightarrow> (Inl e, w) | Inr s \<Rightarrow> (Inr (), w\<lparr>dw_store := s\<rparr>))"

definition load_action :: "string \<Rightarrow> (detector_world, signal_checkpoint) action" where
  "load_action i = (\<lambda>w. (Inr (load_checkpoint (dw_store w) i), w))"

section \<open>Approved resources\<close>

definition detection_guard :: "bool \<Rightarrow> event_error + unit" where
  "detection_guard b = guardR b SignalDetectionError"

text \<open>\<open>str(UUID(s))\<close> is \<open>s\<close> exactly for the five lower case groups; the text is lower case here.\<close>

definition canonical_resource_id :: "string \<Rightarrow> event_error + string" where
  "canonical_resource_id i =
     (let canonical = casefold (rstrip_char CHR ''/'' (strip i))
      in bindR (detection_guard (prefix ''/subscriptions/'' canonical \<and> length canonical \<le> 2048
             \<and> set canonical \<inter> {CHR 0x5C, CHR ''%'', CHR ''?'', CHR ''#''} = {})) (\<lambda>_.
         bindR (detection_guard (case split_on CHR ''/'' canonical of
             [_, s1, s2, s3, s4, s5, _, _, _] \<Rightarrow>
               s1 = ''subscriptions'' \<and> s3 = ''resourcegroups'' \<and> s4 \<noteq> [] \<and> s5 = ''providers'' \<and> guid_ok s2
           | _ \<Rightarrow> False)) (\<lambda>_.
         Inr canonical)))"

definition role_step :: "approved_roles \<Rightarrow> string \<times> workload_role \<Rightarrow> event_error + approved_roles" where
  "role_step normalized = (\<lambda>(i, role).
     bindR (canonical_resource_id i) (\<lambda>canonical.
     let segments = split_on CHR ''/'' canonical;
         (provider, type) = (if role = RoleLoadBalancer then (''microsoft.network'', ''loadbalancers'')
           else (''microsoft.compute'', ''virtualmachines''))
     in bindR (detection_guard (segments ! 6 = provider \<and> segments ! 7 = type \<and> segments ! 8 \<noteq> []
           \<and> canonical \<notin> set (map fst normalized))) (\<lambda>_.
        Inr (normalized @ [(canonical, role)]))))"

definition role_count :: "workload_role \<Rightarrow> approved_roles \<Rightarrow> nat" where
  "role_count role roles = length (filter (\<lambda>x. snd x = role) roles)"

definition validate_approved_resource_roles :: "approved_roles \<Rightarrow> event_error + approved_roles" where
  "validate_approved_resource_roles roles =
     bindR (detection_guard (3 \<le> length roles \<and> length roles \<le> 18)) (\<lambda>_.
     bindR (foldR role_step [] roles) (\<lambda>normalized.
     bindR (detection_guard (role_count RoleDatabase normalized = 1 \<and> role_count RoleLoadBalancer normalized = 1
         \<and> 1 \<le> role_count RoleWeb normalized \<and> role_count RoleWeb normalized \<le> 16)) (\<lambda>_.
     bindR (detection_guard (length (remdups (map (\<lambda>(i, _).
           (split_on CHR ''/'' i ! 2, split_on CHR ''/'' i ! 4)) normalized)) = 1)) (\<lambda>_.
     Inr normalized))))"

definition signal_rule_name :: "workload_role \<Rightarrow> string" where
  "signal_rule_name role = (case role of
       RoleDatabase \<Rightarrow> ''wc016-scheduled-database-primary-power-state''
     | RoleWeb \<Rightarrow> ''wc016-scheduled-web-power-state''
     | RoleLoadBalancer \<Rightarrow> ''wc016-scheduled-load-balancer-availability'')"

section \<open>Reading a signal\<close>

datatype signal_evidence = PowerState string | MinimumAvailability rat rat

record signal_observation =
  so_resource_id :: string
  so_workload_role :: workload_role
  so_healthy :: bool
  so_observed_at :: int
  so_evidence :: signal_evidence
  so_summary :: string

text \<open>The codes of the statuses that are objects; \<open>casefold\<close> of another value is an attribute error.\<close>

definition status_code :: "json \<Rightarrow> event_error + string option" where
  "status_code item = (case item of
       JObject kvs \<Rightarrow> (case map_of kvs ''code'' of
           None \<Rightarrow> Inr (Some [])
         | Some (JText s) \<Rightarrow> Inr (Some (casefold s))
         | Some _ \<Rightarrow> Inl PyAttributeError)
     | _ \<Rightarrow> Inr None)"

definition known_unhealthy :: "string list" where
  "known_unhealthy = [''powerstate/starting'', ''powerstate/stopping'', ''powerstate/stopped'',
     ''powerstate/deallocating'', ''powerstate/deallocated'', ''powerstate/hibernated'']"

definition vm_power_state :: "(string \<times> json) list \<Rightarrow> event_error + string" where
  "vm_power_state v =
     bindR (case jget v ''statuses'' of JList xs \<Rightarrow> Inr xs | _ \<Rightarrow> Inl SignalDetectionError) (\<lambda>statuses.
     bindR (mapR status_code statuses) (\<lambda>codes.
     case filter (prefix ''powerstate/'') (List.map_filter id codes) of
         [s] \<Rightarrow> if s = ''powerstate/running'' \<or> s \<in> set known_unhealthy then Inr s else Inl SignalDetectionError
       | _ \<Rightarrow> Inl SignalDetectionError))"

text \<open>
  A sample that is a finite number. \<open>float\<close> of an integer that no float can round to is an overflow;
  below that, integers stand for themselves, which is exact up to 53 bits.
\<close>

definition sample :: "json \<Rightarrow> event_error + rat option" where
  "sample point = (case point of
       JObject kvs \<Rightarrow> (case jget kvs ''average'' of
           JInt n \<Rightarrow> if 2 ^ 1024 - 2 ^ 970 \<le> abs n then Inl PyOverflowError else Inr (Some (of_int n))
         | JFloat (Finite x) \<Rightarrow> Inr (Some x)
         | _ \<Rightarrow> Inr None)
     | _ \<Rightarrow> Inr None)"

definition minimum :: "rat list \<Rightarrow> rat" where
  "minimum xs = foldl min (hd xs) (tl xs)"

definition series_minimum :: "json \<Rightarrow> event_error + rat" where
  "series_minimum series =
     bindR (case series of
         JObject kvs \<Rightarrow> (case jget kvs ''data'' of JList ps \<Rightarrow> Inr ps | _ \<Rightarrow> Inl SignalDetectionError)
       | _ \<Rightarrow> Inl SignalDetectionError) (\<lambda>points.
     bindR (mapR sample points) (\<lambda>samples.
     bindR (detection_guard (List.map_filter id samples \<noteq> [])) (\<lambda>_.
     Inr (minimum (List.map_filter id samples)))))"

definition metric_minimum :: "(string \<times> (string \<times> json) list) list \<Rightarrow> string \<Rightarrow> event_error + rat" where
  "metric_minimum by_name name =
     bindR (requireR (map_of by_name name) SignalDetectionError) (\<lambda>metric.
     bindR (case jget metric ''timeseries'' of JList (x # xs) \<Rightarrow> Inr (x # xs) | _ \<Rightarrow> Inl SignalDetectionError) (\<lambda>series.
     bindR (mapR series_minimum series) (\<lambda>minima. Inr (minimum minima))))"

definition metric_step ::
    "(string \<times> (string \<times> json) list) list \<Rightarrow> json \<Rightarrow> event_error + (string \<times> (string \<times> json) list) list" where
  "metric_step by_name metric = (case metric of
       JObject kvs \<Rightarrow> (case jget kvs ''name'' of
           JObject name \<Rightarrow> (case jget name ''value'' of
               JText s \<Rightarrow> if s \<in> set (map fst by_name) then Inl SignalDetectionError else Inr (by_name @ [(s, kvs)])
             | _ \<Rightarrow> Inl SignalDetectionError)
         | _ \<Rightarrow> Inl SignalDetectionError)
     | _ \<Rightarrow> Inl SignalDetectionError)"

definition load_balancer_availability :: "(string \<times> json) list \<Rightarrow> event_error + (rat \<times> rat)" where
  "load_balancer_availability v =
     bindR (case jget v ''value'' of JList [a, b] \<Rightarrow> Inr [a, b] | _ \<Rightarrow> Inl SignalDetectionError) (\<lambda>metrics.
     bindR (foldR metric_step [] metrics) (\<lambda>by_name.
     bindR (metric_minimum by_name ''VipAvailability'') (\<lambda>vip.
     bindR (metric_minimum by_name ''DipAvailability'') (\<lambda>dip.
     Inr (vip, dip)))))"

definition zulu :: "platform \<Rightarrow> int \<Rightarrow> string" where
  "zulu pl t = replace_text ''+00:00'' ''Z'' (pl_isoformat pl t)"

definition timespan :: "platform \<Rightarrow> int \<Rightarrow> int \<Rightarrow> string" where
  "timespan pl observed_at minutes =
     zulu pl (observed_at - minutes * 60 * 1000000) @ ''/'' @ zulu pl observed_at"

definition metrics_query :: "platform \<Rightarrow> int \<Rightarrow> int \<Rightarrow> (string \<times> string) list" where
  "metrics_query pl observed_at minutes =
     [(''api-version'', ''2023-10-01''), (''metricnames'', ''VipAvailability,DipAvailability''),
      (''metricnamespace'', ''Microsoft.Network/loadBalancers''), (''timespan'', timespan pl observed_at minutes),
      (''interval'', ''PT1M''), (''aggregation'', ''Average''), (''AutoAdjustTimegrain'', ''false''),
      (''ValidateDimensions'', ''true'')]"

definition read_virtual_machine :: "ports \<Rightarrow> string \<Rightarrow> workload_role \<Rightarrow> int \<Rightarrow> event_error + signal_observation" where
  "read_virtual_machine po canonical role observed_at =
     bindR (detection_guard (contains ''/providers/microsoft.compute/virtualmachines/'' canonical)) (\<lambda>_.
     bindR (po_reader po (canonical @ ''/instanceView'') [(''api-version'', ''2024-11-01'')]) (\<lambda>v.
     bindR (vm_power_state v) (\<lambda>state.
     let healthy = (state = ''powerstate/running'')
     in Inr \<lparr>so_resource_id = canonical, so_workload_role = role, so_healthy = healthy,
          so_observed_at = observed_at, so_evidence = PowerState state,
          so_summary = (if healthy then ''The approved virtual machine is running.''
            else ''The approved virtual machine reports '' @ state @ ''.'')\<rparr>)))"

definition read_load_balancer :: "ports \<Rightarrow> string \<Rightarrow> int \<Rightarrow> int \<Rightarrow> event_error + signal_observation" where
  "read_load_balancer po canonical observed_at minutes =
     bindR (detection_guard (contains ''/providers/microsoft.network/loadbalancers/'' canonical)) (\<lambda>_.
     bindR (po_reader po (canonical @ ''/providers/microsoft.insights/metrics'')
         (metrics_query (po_platform po) observed_at minutes)) (\<lambda>v.
     bindR (load_balancer_availability v) (\<lambda>(vip, dip).
     Inr \<lparr>so_resource_id = canonical, so_workload_role = RoleLoadBalancer, so_healthy = (100 \<le> vip),
          so_observed_at = observed_at, so_evidence = MinimumAvailability vip dip,
          so_summary = (if vip < 100 then ''The approved load balancer VIP availability is degraded.''
            else if dip < 100 then ''The load balancer VIP is available; DipAvailability indicates backend degradation, not a load balancer failure.''
            else ''The approved load balancer VIP and backend availability are healthy.'')\<rparr>)))"

definition read_approved_signal ::
    "ports \<Rightarrow> string \<Rightarrow> workload_role \<Rightarrow> int \<Rightarrow> int \<Rightarrow> event_error + signal_observation" where
  "read_approved_signal po i role observed_at minutes =
     bindR (canonical_resource_id i) (\<lambda>canonical.
     if role = RoleLoadBalancer then read_load_balancer po canonical observed_at minutes
     else read_virtual_machine po canonical role observed_at)"

section \<open>Requests for a change of health\<close>

definition synthetic_monitor_event :: "platform \<Rightarrow> string \<Rightarrow> string \<Rightarrow> event_lifecycle \<Rightarrow> int \<Rightarrow> json" where
  "synthetic_monitor_event pl i rule_name lifecycle observed_at =
     (let ts = zulu pl observed_at;
          source_id = ''scheduled-'' @ take 24 (pl_hexdigest pl
            (join_with (CHR 0x00) [i, rule_name, lifecycle_text lifecycle, ts]))
      in JObject [(''schemaId'', JText ''azureMonitorCommonAlertSchema''),
           (''data'', JObject [(''essentials'', JObject [
              (''alertId'', JText source_id), (''signalType'', JText ''Metric''),
              (''monitorCondition'', JText (if lifecycle = EventResolved then ''Resolved'' else ''Fired'')),
              (''severity'', JText ''Sev1''), (''alertRule'', JText rule_name),
              (''alertTargetIDs'', JList [JText i]), (''firedDateTime'', JText ts),
              (''resolvedDateTime'', JText ts)])])])"

definition build_signal_reassessment_request ::
    "platform \<Rightarrow> signal_observation \<Rightarrow> approved_roles \<Rightarrow> string list \<Rightarrow> event_error + reassessment_request" where
  "build_signal_reassessment_request pl so approved rules =
     bindR (validate_approved_resource_roles approved) (\<lambda>roles.
     let i = casefold (so_resource_id so)
     in bindR (detection_guard (map_of roles i = Some (so_workload_role so))) (\<lambda>_.
     let rule_name = signal_rule_name (so_workload_role so)
     in bindR (detection_guard (casefold rule_name \<in> set (map casefold rules))) (\<lambda>_.
     case bindR (normalize_monitor_event pl (synthetic_monitor_event pl i rule_name
              (if so_healthy so then EventResolved else EventActivated) (so_observed_at so))
              (so_observed_at so) (map casefold rules))
            (\<lambda>e. build_reassessment_request pl e roles) of
         Inl e \<Rightarrow> Inl (if e = EventNormalizationError \<or> e = EventRoutingError then SignalDetectionError else e)
       | Inr r \<Rightarrow> Inr r)))"

section \<open>A run\<close>

text \<open>
  The first loop: pending transitions are checked against the request that would be built now, sent
  again and completed. Requests are compared by their canonical bytes, which differ for requests that
  differ. The accumulator is the dict of the checkpoints without a pending transition,
  and the requests sent.
\<close>

type_synonym run_state = "(string \<times> signal_checkpoint) list \<times> reassessment_request list"

definition send_and_complete :: "ports \<Rightarrow> string \<Rightarrow> reassessment_request \<Rightarrow> (detector_world, unit) action" where
  "send_and_complete po i r =
     bindW (send_request po r) (\<lambda>_.
     update_store (\<lambda>s. complete_transition s i (rr_request_id r)))"

definition resume_pending ::
    "ports \<Rightarrow> approved_roles \<Rightarrow> string \<Rightarrow> string \<Rightarrow> bool \<Rightarrow> reassessment_request \<Rightarrow> (detector_world, unit) action" where
  "resume_pending po roles i rule_name healthy r =
     bindW (liftW (build_reassessment_request (po_platform po) (rr_trigger_event r) roles)) (\<lambda>expected.
     bindW (liftW (detection_guard (healthy = (rr_lifecycle r = EventResolved) \<and> r = expected
         \<and> casefold (me_operation (rr_trigger_event r)) = casefold rule_name))) (\<lambda>_.
     send_and_complete po i r))"

definition resume_step ::
    "ports \<Rightarrow> approved_roles \<Rightarrow> string list \<Rightarrow> run_state \<Rightarrow> string \<times> workload_role
     \<Rightarrow> (detector_world, run_state) action" where
  "resume_step po roles rules = (\<lambda>(checkpoints, sent) (i, role).
     bindW (liftW (detection_guard (casefold (signal_rule_name role) \<in> set rules))) (\<lambda>_.
     bindW (load_action i) (\<lambda>c. case ck_pending c of
         None \<Rightarrow> pureW (checkpoints @ [(i, c)], sent)
       | Some (healthy, r) \<Rightarrow>
           bindW (resume_pending po roles i (signal_rule_name role) healthy r) (\<lambda>_.
           pureW (checkpoints, sent @ [r])))))"

text \<open>The third loop: whether a transition is to be reported, and its staging.\<close>

definition emits :: "bool option \<Rightarrow> bool \<Rightarrow> bool" where
  "emits previous healthy \<longleftrightarrow> (previous = None \<and> \<not> healthy) \<or> (previous \<noteq> None \<and> previous \<noteq> Some healthy)"

type_synonym staging = "string list \<times> (string \<times> reassessment_request) list"

definition stage_step ::
    "ports \<Rightarrow> approved_roles \<Rightarrow> string list \<Rightarrow> (string \<times> signal_checkpoint) list \<Rightarrow> staging
     \<Rightarrow> signal_observation \<Rightarrow> (detector_world, staging) action" where
  "stage_step po roles rules checkpoints = (\<lambda>(initial, pending) so.
     let i = so_resource_id so
     in bindW (liftW (requireR (map_of checkpoints i) EventKeyError)) (\<lambda>c.
     let previous = ck_committed c
     in if \<not> emits previous (so_healthy so)
        then pureW (if previous = None then initial @ [i] else initial, pending)
        else bindW (liftW (build_signal_reassessment_request (po_platform po) so roles rules)) (\<lambda>r.
          bindW (update_store (\<lambda>s. stage_transition s i (so_healthy so) r)) (\<lambda>_.
          pureW (initial, pending @ [(i, r)])))))"

definition send_step :: "ports \<Rightarrow> reassessment_request list \<Rightarrow> string \<times> reassessment_request
    \<Rightarrow> (detector_world, reassessment_request list) action" where
  "send_step po sent = (\<lambda>(i, r). bindW (send_and_complete po i r) (\<lambda>_. pureW (sent @ [r])))"

definition initial_step :: "unit \<Rightarrow> string \<Rightarrow> (detector_world, unit) action" where
  "initial_step u i = update_store (\<lambda>s. Inr (record_initial_health s i))"

definition detect_with_lease ::
    "ports \<Rightarrow> approved_roles \<Rightarrow> string list \<Rightarrow> int \<Rightarrow> int \<Rightarrow> (detector_world, reassessment_request list) action" where
  "detect_with_lease po approved approved_rules observed_at minutes =
     bindW (liftW (validate_approved_resource_roles approved)) (\<lambda>roles.
     let rules = map casefold approved_rules
     in bindW (foldW (resume_step po roles rules) ([], []) roles) (\<lambda>(checkpoints, sent).
     bindW (liftW (mapR (\<lambda>(i, role). read_approved_signal po i role observed_at minutes)
         (filter (\<lambda>(i, _). i \<in> set (map fst checkpoints)) roles))) (\<lambda>observations.
     bindW (foldW (stage_step po roles rules checkpoints) ([], []) observations) (\<lambda>(initial, pending).
     bindW (foldW initial_step () initial) (\<lambda>_.
     foldW (send_step po) sent pending)))))"

definition map_store :: "(signal_store \<Rightarrow> signal_store) \<Rightarrow> detector_world \<Rightarrow> detector_world" where
  "map_store f w = w\<lparr>dw_store := f (dw_store w)\<rparr>"

text \<open>The lease is released whatever the run returns.\<close>

definition detect_signal_requests ::
    "ports \<Rightarrow> approved_roles \<Rightarrow> string list \<Rightarrow> int \<Rightarrow> int \<Rightarrow> (detector_world, reassessment_request list) action" where
  "detect_signal_requests po approved approved_rules observed_at minutes = (\<lambda>w.
     if \<not> (2 \<le> minutes \<and> minutes \<le> 10) then (Inl SignalDetectionError, w)
     else case acquire_run_lease (dw_store w) of
         (False, s) \<Rightarrow> (Inr [], w\<lparr>dw_store := s\<rparr>)
       | (True, s) \<Rightarrow> (case detect_with_lease po approved approved_rules observed_at minutes (w\<lparr>dw_store := s\<rparr>) of
           (result, w') \<Rightarrow> (result, map_store release_run_lease w')))"

end
