(* ===== verification/DetectorFacts.thy ===== *)
theory DetectorFacts
  imports Detector
begin

text \<open>
  What a consumer of the detector's messages can rely on. The interface of the state store is a
  locale; its lemmas keep one predicate on the checkpoints and the delivered requests, which then
  holds at every point where a run can stop.
\<close>

section \<open>Reports of a resource\<close>

definition recovered :: "reassessment_request \<Rightarrow> bool" where
  "recovered r \<longleftrightarrow> rr_lifecycle r = EventResolved"

text \<open>A resource that was never recorded counts as healthy.\<close>

definition assumed_health :: "bool option \<Rightarrow> bool" where
  "assumed_health c = (case c of None \<Rightarrow> True | Some h \<Rightarrow> h)"

definition reported :: "bool \<Rightarrow> reassessment_request list \<Rightarrow> bool" where
  "reported h0 rs = (if rs = [] then h0 else recovered (last rs))"

text \<open>Every report is a repetition of the one before it, or reports the opposite health.\<close>

fun alternates_from :: "reassessment_request \<Rightarrow> reassessment_request list \<Rightarrow> bool" where
  "alternates_from r [] = True"
| "alternates_from r (q # qs) = ((q = r \<or> recovered q \<noteq> recovered r) \<and> alternates_from q qs)"

fun alternates :: "bool \<Rightarrow> reassessment_request list \<Rightarrow> bool" where
  "alternates h0 [] = True"
| "alternates h0 (r # rs) = (recovered r \<noteq> h0 \<and> alternates_from r rs)"

lemma alternates_from_snoc:
  "alternates_from r (rs @ [q]) \<longleftrightarrow> alternates_from r rs \<and> (q = last (r # rs) \<or> recovered q \<noteq> recovered (last (r # rs)))"
  by (induction rs arbitrary: r) auto

lemma alternates_snoc:
  "alternates h0 (rs @ [q]) \<longleftrightarrow> alternates h0 rs \<and> (if rs = [] then recovered q \<noteq> h0
     else q = last rs \<or> recovered q \<noteq> recovered (last rs))"
  by (cases rs) (auto simp: alternates_from_snoc)

definition reports :: "string \<Rightarrow> message list \<Rightarrow> reassessment_request list" where
  "reports i ms = filter (\<lambda>r. rr_target r = i) (map ms_request ms)"

text \<open>The checkpoint of a resource against its reports.\<close>

definition point_ok :: "bool \<Rightarrow> string \<Rightarrow> signal_checkpoint \<Rightarrow> reassessment_request list \<Rightarrow> bool" where
  "point_ok h0 i c rs \<longleftrightarrow> alternates h0 rs \<and> (case ck_pending c of
       None \<Rightarrow> reported h0 rs = assumed_health (ck_committed c)
     | Some (h, r) \<Rightarrow> rr_target r = i \<and> recovered r = h \<and> h \<noteq> assumed_health (ck_committed c)
         \<and> (reported h0 rs = assumed_health (ck_committed c) \<or> (rs \<noteq> [] \<and> last rs = r)))"

definition reports_ok ::
    "(string \<Rightarrow> bool) \<Rightarrow> (string \<Rightarrow> signal_checkpoint) \<Rightarrow> message list \<Rightarrow> bool" where
  "reports_ok h0 load ms \<longleftrightarrow> (\<forall>i. casefold i = i \<longrightarrow> point_ok (h0 i) i (load i) (reports i ms))"

lemma reports_snoc:
  "reports i (ms @ [m]) = (if rr_target (ms_request m) = i then reports i ms @ [ms_request m] else reports i ms)"
  by (simp add: reports_def)

section \<open>The interface of the state store\<close>

locale checkpoint_store =
  fixes load :: "'s \<Rightarrow> string \<Rightarrow> signal_checkpoint"
    and stage :: "'s \<Rightarrow> string \<Rightarrow> bool \<Rightarrow> reassessment_request \<Rightarrow> event_error + 's"
    and complete :: "'s \<Rightarrow> string \<Rightarrow> string \<Rightarrow> event_error + 's"
    and initial :: "'s \<Rightarrow> string \<Rightarrow> 's"
  assumes load_key: "load s (casefold i) = load s i"
    and load_stage: "stage s i h r = Inr s' \<Longrightarrow> ck_pending (load s i) = None
      \<and> load s' j = (if casefold j = casefold i then (load s i)\<lparr>ck_pending := Some (h, r)\<rparr> else load s j)"
    and load_complete: "complete s i q = Inr s' \<Longrightarrow> \<exists>h r. ck_pending (load s i) = Some (h, r) \<and> rr_request_id r = q
      \<and> load s' j = (if casefold j = casefold i then \<lparr>ck_committed = Some h, ck_pending = None\<rparr> else load s j)"
    and load_initial: "load (initial s i) j =
      (if casefold j = casefold i then \<lparr>ck_committed = Some True, ck_pending = None\<rparr> else load s j)"
begin

lemma staged_ok:
  assumes "reports_ok h0 (load s) ms" and "stage s i h r = Inr s'"
    and "rr_target r = casefold i" and "recovered r = h" and "h \<noteq> assumed_health (ck_committed (load s i))"
  shows "reports_ok h0 (load s') ms"
  unfolding reports_ok_def
proof (intro allI impI)
  fix j :: string assume j: "casefold j = j"
  with assms(1) have ok: "point_ok (h0 j) j (load s j) (reports j ms)" by (simp add: reports_ok_def)
  note st = load_stage[OF assms(2), of j]
  show "point_ok (h0 j) j (load s' j) (reports j ms)"
  proof (cases "j = casefold i")
    case True
    then have "load s i = load s j" using load_key[of s i] by simp
    with ok st True j assms(3-5) show ?thesis by (auto simp: point_ok_def)
  qed (use ok st j in simp)
qed

lemma delivered_ok:
  assumes "reports_ok h0 (load s) ms" and "ck_pending (load s i) = Some (h, ms_request m)"
  shows "reports_ok h0 (load s) (ms @ [m])"
  unfolding reports_ok_def
proof (intro allI impI)
  fix j :: string assume j: "casefold j = j"
  with assms(1) have ok: "point_ok (h0 j) j (load s j) (reports j ms)" by (simp add: reports_ok_def)
  have "point_ok (h0 (casefold i)) (casefold i) (load s (casefold i)) (reports (casefold i) ms)"
    using assms(1) by (simp add: reports_ok_def)
  with assms(2) have t: "rr_target (ms_request m) = casefold i" by (simp add: point_ok_def load_key)
  show "point_ok (h0 j) j (load s j) (reports j (ms @ [m]))"
  proof (cases "j = casefold i")
    case True
    then have "ck_pending (load s j) = Some (h, ms_request m)" using assms(2) load_key[of s i] by simp
    with ok t True show ?thesis
      by (auto simp: point_ok_def reports_snoc alternates_snoc reported_def)
  qed (use ok t in \<open>simp add: reports_snoc\<close>)
qed

lemma completed_ok:
  assumes "reports_ok h0 (load s) ms" and "complete s i q = Inr s'"
    and "ck_pending (load s i) = Some (h, r)" and "ms \<noteq> []" and "ms_request (last ms) = r"
  shows "reports_ok h0 (load s') ms"
  unfolding reports_ok_def
proof (intro allI impI)
  fix j :: string assume j: "casefold j = j"
  with assms(1) have ok: "point_ok (h0 j) j (load s j) (reports j ms)" by (simp add: reports_ok_def)
  from load_complete[OF assms(2), of j] assms(3)
  have st: "load s' j = (if casefold j = casefold i then \<lparr>ck_committed = Some h, ck_pending = None\<rparr> else load s j)"
    by auto
  show "point_ok (h0 j) j (load s' j) (reports j ms)"
  proof (cases "j = casefold i")
    case True
    then have p: "ck_pending (load s j) = Some (h, r)" using assms(3) load_key[of s i] by simp
    with ok have "rr_target r = j" "recovered r = h" by (auto simp: point_ok_def)
    moreover from this(1) assms(4,5) have "reports j ms \<noteq> [] \<and> last (reports j ms) = r"
      by (cases ms rule: rev_cases) (auto simp: reports_snoc)
    ultimately show ?thesis using ok st True j by (auto simp: point_ok_def reported_def assumed_health_def)
  qed (use ok st j in simp)
qed

lemma initial_ok:
  assumes "reports_ok h0 (load s) ms" and "load s i = \<lparr>ck_committed = None, ck_pending = None\<rparr>"
  shows "reports_ok h0 (load (initial s i)) ms"
  unfolding reports_ok_def
proof (intro allI impI)
  fix j :: string assume j: "casefold j = j"
  with assms(1) have ok: "point_ok (h0 j) j (load s j) (reports j ms)" by (simp add: reports_ok_def)
  show "point_ok (h0 j) j (load (initial s i) j) (reports j ms)"
  proof (cases "j = casefold i")
    case True
    then have "load s j = \<lparr>ck_committed = None, ck_pending = None\<rparr>" using assms(2) load_key[of s i] by simp
    with ok True j load_initial[of s i j] show ?thesis by (simp add: point_ok_def assumed_health_def)
  qed (use ok load_initial[of s i j] j in simp)
qed

end

text \<open>The in-memory store provides it.\<close>

lemma load_put: "load_checkpoint (put_checkpoint s i c) j = (if casefold j = casefold i then c else load_checkpoint s j)"
  by (simp add: load_checkpoint_def put_checkpoint_def)

lemma stage_transition_Inr:
  "stage_transition s i h r = Inr s' \<longleftrightarrow> ck_pending (load_checkpoint s i) = None
     \<and> s' = put_checkpoint s i ((load_checkpoint s i)\<lparr>ck_pending := Some (h, r)\<rparr>)"
  by (cases "ck_pending (load_checkpoint s i)") (auto simp: stage_transition_def Let_def)

lemma complete_transition_Inr:
  "complete_transition s i q = Inr s' \<longleftrightarrow> (\<exists>h r. ck_pending (load_checkpoint s i) = Some (h, r)
     \<and> rr_request_id r = q \<and> s' = put_checkpoint s i \<lparr>ck_committed = Some h, ck_pending = None\<rparr>)"
  by (cases "ck_pending (load_checkpoint s i)") (auto simp: complete_transition_def split: if_splits)

interpretation mem: checkpoint_store load_checkpoint stage_transition complete_transition record_initial_health
proof
  show "load_checkpoint s (casefold i) = load_checkpoint s i" for s i by (simp add: load_checkpoint_def)
qed (auto simp: stage_transition_Inr complete_transition_Inr record_initial_health_def load_put)

section \<open>Rules for actions\<close>

text \<open>
  From a world with \<open>P\<close>, an action that fails leaves a world with \<open>I\<close>, and one that returns \<open>x\<close> a
  world with \<open>Q x\<close>.
\<close>

definition safeW ::
    "('w \<Rightarrow> bool) \<Rightarrow> ('w \<Rightarrow> bool) \<Rightarrow> ('w, 'a) action \<Rightarrow> ('a \<Rightarrow> 'w \<Rightarrow> bool) \<Rightarrow> bool" where
  "safeW I P m Q \<longleftrightarrow> (\<forall>w. P w \<longrightarrow> (case m w of (Inl _, w') \<Rightarrow> I w' | (Inr x, w') \<Rightarrow> Q x w'))"

lemma safeW_pre: "safeW I P m Q \<Longrightarrow> (\<And>w. P' w \<Longrightarrow> P w) \<Longrightarrow> safeW I P' m Q"
  by (auto simp: safeW_def)

lemma safeW_post: "safeW I P m Q \<Longrightarrow> (\<And>x w. Q x w \<Longrightarrow> Q' x w) \<Longrightarrow> safeW I P m Q'"
  unfolding safeW_def by (auto split: prod.splits sum.splits) blast+

lemma safeW_bind: "safeW I P m Q \<Longrightarrow> (\<And>x. safeW I (Q x) (f x) R) \<Longrightarrow> safeW I P (bindW m f) R"
  unfolding safeW_def bindW_def by (fastforce split: prod.splits sum.splits)

lemma safeW_pure: "(\<And>w. P w \<Longrightarrow> Q x w) \<Longrightarrow> safeW I P (pureW x) Q"
  by (simp add: safeW_def pureW_def)

lemma safeW_lift: "(\<And>w. P w \<Longrightarrow> I w) \<Longrightarrow> safeW I P (liftW r) (\<lambda>x w. P w \<and> r = Inr x)"
  by (auto simp: safeW_def liftW_def split: sum.splits)

lemma safeW_fold:
  assumes "\<And>done' x rest s. xs = done' @ x # rest \<Longrightarrow> safeW I (P done' s) (f s x) (P (done' @ [x]))"
  shows "safeW I (P [] s) (foldW f s xs) (P xs)"
proof -
  have "xs = done' @ rest \<Longrightarrow> safeW I (P done' s) (foldW f s rest) (P xs)" for done' rest s
  proof (induction rest arbitrary: done' s)
    case Nil
    then show ?case by (simp add: safeW_pure)
  next
    case (Cons x rest)
    have tail: "safeW I (P (done' @ [x]) s') (foldW f s' rest) (P xs)" for s'
      using Cons.IH[of "done' @ [x]"] Cons.prems by simp
    show ?case unfolding foldW.simps by (rule safeW_bind[OF assms[OF Cons.prems] tail])
  qed
  from this[of "[]" xs s] show ?thesis by simp
qed

lemma safeW_world: "(\<And>w. P w \<Longrightarrow> safeW I (\<lambda>v. v = w) m Q) \<Longrightarrow> safeW I P m Q"
  by (simp add: safeW_def)

lemma safeW_check: "I w \<Longrightarrow> safeW I (\<lambda>v. v = w) (liftW r) (\<lambda>x v. v = w \<and> r = Inr x)"
  by (auto simp: safeW_def liftW_def split: sum.splits)

section \<open>Effects\<close>

definition checkpoint_of :: "detector_world \<Rightarrow> string \<Rightarrow> signal_checkpoint" where
  "checkpoint_of w i = load_checkpoint (dw_store w) i"

definition requests :: "detector_world \<Rightarrow> reassessment_request set" where
  "requests w = ms_request ` set (dw_delivered w)"

definition world_ok :: "(string \<Rightarrow> bool) \<Rightarrow> detector_world \<Rightarrow> bool" where
  "world_ok h0 w \<longleftrightarrow> reports_ok h0 (checkpoint_of w) (dw_delivered w)"

lemma world_ok_load: "world_ok h0 w \<longleftrightarrow> reports_ok h0 (load_checkpoint (dw_store w)) (dw_delivered w)"
  by (simp add: world_ok_def checkpoint_of_def[abs_def])

definition updated :: "detector_world \<Rightarrow> string \<Rightarrow> signal_checkpoint \<Rightarrow> detector_world \<Rightarrow> bool" where
  "updated w i c w' \<longleftrightarrow> requests w \<subseteq> requests w'
     \<and> (\<forall>j. checkpoint_of w' j = (if casefold j = casefold i then c else checkpoint_of w j))"

lemma send_and_complete_effect:
  assumes "world_ok h0 w" and "ck_pending (checkpoint_of w i) = Some (h, r)"
  shows "safeW (world_ok h0) (\<lambda>v. v = w) (send_and_complete po i r)
    (\<lambda>_ w'. world_ok h0 w' \<and> updated w i \<lparr>ck_committed = Some h, ck_pending = None\<rparr> w' \<and> r \<in> requests w')"
proof -
  let ?m = "\<lparr>ms_request = r, ms_message_id = rr_idempotency_key r, ms_session_id = rr_incident_id r\<rparr>"
  let ?w = "w\<lparr>dw_delivered := dw_delivered w @ [?m]\<rparr>"
  have p: "ck_pending (load_checkpoint (dw_store w) i) = Some (h, ms_request ?m)"
    using assms(2) by (simp add: checkpoint_of_def)
  from mem.delivered_ok[OF _ p] assms(1) have sent: "world_ok h0 ?w" by (simp add: world_ok_load)
  let ?s = "put_checkpoint (dw_store w) i \<lparr>ck_committed = Some h, ck_pending = None\<rparr>"
  have c: "complete_transition (dw_store w) i (rr_request_id r) = Inr ?s"
    using p by (simp add: complete_transition_Inr)
  have "reports_ok h0 (load_checkpoint ?s) (dw_delivered w @ [?m])"
    by (rule mem.completed_ok[OF _ c]) (use sent p in \<open>simp_all add: world_ok_load\<close>)
  then have "world_ok h0 (?w\<lparr>dw_store := ?s\<rparr>)" by (simp add: world_ok_load)
  with assms(1) sent c show ?thesis
    by (auto simp: safeW_def send_and_complete_def bindW_def send_request_def Let_def update_store_def
        updated_def checkpoint_of_def load_put requests_def split: delivery.splits)
qed

lemma stage_effect:
  assumes "world_ok h0 w" and "rr_target r = casefold i" and "recovered r = h"
    and "h \<noteq> assumed_health (ck_committed (checkpoint_of w i))"
  shows "safeW (world_ok h0) (\<lambda>v. v = w) (update_store (\<lambda>s. stage_transition s i h r))
    (\<lambda>_ w'. world_ok h0 w' \<and> updated w i ((checkpoint_of w i)\<lparr>ck_pending := Some (h, r)\<rparr>) w')"
proof (cases "stage_transition (dw_store w) i h r")
  case (Inr s)
  from mem.staged_ok[OF _ Inr assms(2,3)] assms(1,4) have "reports_ok h0 (load_checkpoint s) (dw_delivered w)"
    by (simp add: world_ok_load checkpoint_of_def)
  moreover from Inr have "s = put_checkpoint (dw_store w) i ((load_checkpoint (dw_store w) i)\<lparr>ck_pending := Some (h, r)\<rparr>)"
    by (simp add: stage_transition_Inr)
  ultimately show ?thesis unfolding safeW_def update_store_def
    by (simp add: Inr world_ok_load updated_def checkpoint_of_def load_put requests_def)
qed (use assms(1) in \<open>simp add: safeW_def update_store_def\<close>)

lemma initial_effect:
  assumes "world_ok h0 w" and "checkpoint_of w i = \<lparr>ck_committed = None, ck_pending = None\<rparr>"
  shows "safeW (world_ok h0) (\<lambda>v. v = w) (initial_step u i)
    (\<lambda>_ w'. world_ok h0 w' \<and> updated w i \<lparr>ck_committed = Some True, ck_pending = None\<rparr> w')"
  using mem.initial_ok[of h0 "dw_store w" "dw_delivered w" i] assms
  by (simp add: safeW_def initial_step_def update_store_def world_ok_load updated_def checkpoint_of_def
      load_put requests_def record_initial_health_def)

section \<open>The request for an observation\<close>

lemma lifecycle_texts: "lifecycle_of ''Resolved'' = EventResolved" "lifecycle_of ''Fired'' = EventActivated"
  by code_simp+

lemma canonical_target:
  assumes "canonical_resource_id i = Inr i"
  shows "target_id (JText i) = Inr i" and "casefold i = i"
proof -
  from assms have i: "casefold (rstrip_char CHR ''/'' (strip i)) = i"
    and "prefix ''/subscriptions/'' i" and "length (rstrip_char CHR ''/'' (strip i)) \<le> 2048"
    by (auto simp: canonical_resource_id_def Let_def bindR_eq_Inr detection_guard_def guardR_eq_Inr)
  moreover have "length (rstrip_char CHR ''/'' (strip i)) = length i" using i by (metis length_casefold)
  ultimately show "target_id (JText i) = Inr i" by (simp add: target_id_def Let_def)
  from i show "casefold i = i" by (metis casefold_idem)
qed

lemma bounded_texts:
  "bounded_text (JText ''Metric'') = Inr ''Metric''" "bounded_text (JText ''Resolved'') = Inr ''Resolved''"
  "bounded_text (JText ''Fired'') = Inr ''Fired''"
  by code_simp+

lemma make_event_Inr: "make_event pl e = Inr e' \<Longrightarrow> e' = e\<lparr>me_target := casefold (me_target e)\<rparr>"
  by (auto simp: make_event_def Let_def split: if_splits)

lemma normalized_fields_Inr:
  "normalized_fields pl source sk source_id i type operation lifecycle severity observed received raw = Inr e
   \<Longrightarrow> me_target e = i \<and> me_lifecycle e = lifecycle"
  by (auto simp: normalized_fields_def Let_def bindR_eq_Inr)

lemma rethrow_Inr: "(case m of Inl e \<Rightarrow> Inl (f e) | Inr x \<Rightarrow> Inr x) = Inr r \<longleftrightarrow> m = Inr r"
  by (cases m) auto

text \<open>An alert of the common schema: the event keeps its target and the state of its condition.\<close>

lemma normalize_alert:
  assumes "normalize_monitor_event pl (JObject [(''schemaId'', JText ''azureMonitorCommonAlertSchema''), (''data'', d)])
      received rules = Inr e"
  obtains fs where "from_common_alert pl [(''schemaId'', JText ''azureMonitorCommonAlertSchema''), (''data'', d)]
      received rules = Inr fs" and "make_event pl fs = Inr e"
proof -
  let ?event = "[(''schemaId'', JText ''azureMonitorCommonAlertSchema''), (''data'', d)]"
  have "''eventType'' \<notin> set (map fst ?event)"
    and "jget ?event ''schemaId'' = JText ''azureMonitorCommonAlertSchema''"
    by (simp_all add: jget_def)
  with assms that show ?thesis
    unfolding normalize_monitor_event_def to_record_def json.case bindR_Inr bindR_eq_Inr rethrow_Inr by auto
qed

lemma alert_fields:
  assumes "from_common_alert pl [(a, s), (''data'', JObject [(''essentials'', JObject es)])] received rules = Inr fs"
    and "a \<noteq> ''data''" and "jget es ''alertTargetIDs'' = JList [JText i]" and "target_id (JText i) = Inr i"
    and "jget es ''monitorCondition'' = JText c" and "bounded_text (JText c) = Inr c"
  shows "me_target fs = i" and "me_lifecycle fs = lifecycle_of c"
proof -
  have d: "jget [(a, s), (''data'', JObject [(''essentials'', JObject es)])] ''data'' = JObject [(''essentials'', JObject es)]"
    and e: "jget [(''essentials'', JObject es)] ''essentials'' = JObject es"
    using assms(2) by (simp_all add: jget_def)
  from assms(1) obtain sk source_id type operation sev obs raw where
    "normalized_fields pl AzureMonitorCommonAlert sk source_id i type operation (lifecycle_of c)
       sev obs received raw = Inr fs"
    unfolding from_common_alert_def d e to_record_def json.case bindR_Inr list.case assms(3-6) Let_def bindR_eq_Inr
    by blast
  from normalized_fields_Inr[OF this] show "me_target fs = i" and "me_lifecycle fs = lifecycle_of c" by auto
qed

lemma synthetic_normalized:
  assumes "canonical_resource_id i = Inr i"
    and "normalize_monitor_event pl (synthetic_monitor_event pl i rule_name lifecycle observed) received rules = Inr e"
  shows "me_target e = i" and "me_lifecycle e = (if lifecycle = EventResolved then EventResolved else EventActivated)"
proof -
  let ?c = "if lifecycle = EventResolved then ''Resolved'' else ''Fired''"
  obtain fs where f: "from_common_alert pl [(''schemaId'', JText ''azureMonitorCommonAlertSchema''),
        (''data'', JObject [(''essentials'', JObject [
          (''alertId'', JText (''scheduled-'' @ take 24 (pl_hexdigest pl
              (join_with (CHR 0x00) [i, rule_name, lifecycle_text lifecycle, zulu pl observed])))),
          (''signalType'', JText ''Metric''), (''monitorCondition'', JText ?c),
          (''severity'', JText ''Sev1''), (''alertRule'', JText rule_name),
          (''alertTargetIDs'', JList [JText i]), (''firedDateTime'', JText (zulu pl observed)),
          (''resolvedDateTime'', JText (zulu pl observed))])])] received rules = Inr fs"
    and e: "make_event pl fs = Inr e"
    using normalize_alert[OF assms(2)[unfolded synthetic_monitor_event_def Let_def]] by blast
  have b: "bounded_text (JText ?c) = Inr ?c" by (simp add: bounded_texts)
  have fs: "me_target fs = i" "me_lifecycle fs = lifecycle_of ?c"
    by (rule alert_fields[OF f _ _ canonical_target(1)[OF assms(1)] _ b]; simp add: jget_def)+
  with make_event_Inr[OF e] canonical_target(2)[OF assms(1)]
  show "me_target e = i" and "me_lifecycle e = (if lifecycle = EventResolved then EventResolved else EventActivated)"
    by (auto simp: lifecycle_texts)
qed

lemma build_reassessment_request_Inr:
  assumes "build_reassessment_request pl e roles = Inr r"
  shows "rr_target r = me_target e" and "rr_lifecycle r = me_lifecycle e" and "rr_trigger_event r = e"
  using assms by (auto simp: build_reassessment_request_def make_request_def bindR_eq_Inr Let_def split: if_splits)

lemma built_request:
  assumes "build_signal_reassessment_request pl so approved rules = Inr r"
    and "canonical_resource_id (so_resource_id so) = Inr (so_resource_id so)"
  shows "rr_target r = so_resource_id so" and "recovered r = so_healthy so"
proof -
  let ?i = "so_resource_id so"
  have i: "casefold ?i = ?i" by (rule canonical_target(2)[OF assms(2)])
  from assms(1) obtain roles e where
    n: "normalize_monitor_event pl (synthetic_monitor_event pl ?i (signal_rule_name (so_workload_role so))
        (if so_healthy so then EventResolved else EventActivated) (so_observed_at so)) (so_observed_at so)
        (map casefold rules) = Inr e"
    and r: "build_reassessment_request pl e roles = Inr r"
    unfolding build_signal_reassessment_request_def Let_def bindR_eq_Inr rethrow_Inr i by blast
  from synthetic_normalized[OF assms(2) n] build_reassessment_request_Inr[OF r]
  show "rr_target r = ?i" and "recovered r = so_healthy so" by (auto simp: recovered_def)
qed

section \<open>The loops of a run\<close>

lemma safeW_bind_check:
  "I w \<Longrightarrow> (\<And>x. r = Inr x \<Longrightarrow> safeW I (\<lambda>v. v = w) (f x) R) \<Longrightarrow> safeW I (\<lambda>v. v = w) (bindW (liftW r) f) R"
  by (auto simp: safeW_def bindW_def liftW_def split: sum.splits)

lemma safeW_bind_load:
  "safeW I (\<lambda>v. v = w) (f (checkpoint_of w i)) R \<Longrightarrow> safeW I (\<lambda>v. v = w) (bindW (load_action i) f) R"
  by (simp add: safeW_def bindW_def load_action_def checkpoint_of_def)

definition keys_ok :: "approved_roles \<Rightarrow> bool" where
  "keys_ok roles \<longleftrightarrow> distinct (map fst roles) \<and> (\<forall>i \<in> fst ` set roles. casefold i = i)"

text \<open>What the first loop makes of a checkpoint.\<close>

definition resumed :: "signal_checkpoint \<Rightarrow> signal_checkpoint" where
  "resumed c = (case ck_pending c of None \<Rightarrow> c | Some (h, r) \<Rightarrow> \<lparr>ck_committed = Some h, ck_pending = None\<rparr>)"

definition unstaged :: "detector_world \<Rightarrow> approved_roles \<Rightarrow> approved_roles" where
  "unstaged w roles = filter (\<lambda>(i, _). ck_pending (checkpoint_of w i) = None) roles"

definition resume_inv ::
    "(string \<Rightarrow> bool) \<Rightarrow> detector_world \<Rightarrow> approved_roles \<Rightarrow> run_state \<Rightarrow> detector_world \<Rightarrow> bool" where
  "resume_inv h0 w0 seen = (\<lambda>(checkpoints, sent) w.
     world_ok h0 w \<and> requests w0 \<subseteq> requests w \<and> set sent \<subseteq> requests w
     \<and> checkpoints = map (\<lambda>(i, _). (i, checkpoint_of w0 i)) (unstaged w0 seen)
     \<and> (\<forall>i. casefold i = i \<longrightarrow> checkpoint_of w i =
          (if i \<in> fst ` set seen then resumed (checkpoint_of w0 i) else checkpoint_of w0 i)))"

lemma resume_step_safe:
  assumes "keys_ok roles" and "roles = seen @ (i, role) # rest"
  shows "safeW (world_ok h0) (resume_inv h0 w0 seen s) (resume_step po roles' rules s (i, role))
    (resume_inv h0 w0 (seen @ [(i, role)]))"
proof (rule safeW_world)
  fix w assume inv: "resume_inv h0 w0 seen s w"
  obtain cps sent where s: "s = (cps, sent)" by (cases s)
  have i: "casefold i = i" and new: "i \<notin> fst ` set seen" using assms by (auto simp: keys_ok_def)
  from inv s have ok: "world_ok h0 w" and c: "checkpoint_of w i = checkpoint_of w0 i"
    using i new by (auto simp: resume_inv_def)
  show "safeW (world_ok h0) (\<lambda>v. v = w) (resume_step po roles' rules s (i, role))
      (resume_inv h0 w0 (seen @ [(i, role)]))"
  proof (cases "ck_pending (checkpoint_of w i)")
    case None
    have next': "resume_inv h0 w0 (seen @ [(i, role)]) (cps @ [(i, checkpoint_of w i)], sent) w"
      using inv None c new by (auto simp: resume_inv_def s unstaged_def resumed_def)
    show ?thesis
      unfolding resume_step_def s prod.case
      by (rule safeW_bind_check, rule ok, rule safeW_bind_load) (simp add: None safeW_def pureW_def next')
  next
    case (Some p)
    obtain h r where p: "p = (h, r)" by (cases p)
    have next': "resume_inv h0 w0 (seen @ [(i, role)]) (cps, sent @ [r]) w'"
      if "world_ok h0 w'" "updated w i \<lparr>ck_committed = Some h, ck_pending = None\<rparr> w'" "r \<in> requests w'" for w'
      using inv Some c new that i by (auto simp: resume_inv_def s unstaged_def resumed_def p updated_def)
    have step: "safeW (world_ok h0) (\<lambda>v. v = w)
        (bindW (resume_pending po roles' i (signal_rule_name role) h r) (\<lambda>_. pureW (cps, sent @ [r])))
        (resume_inv h0 w0 (seen @ [(i, role)]))"
      unfolding resume_pending_def
      by (rule safeW_bind, rule safeW_bind_check, rule ok, rule safeW_bind_check, rule ok,
          rule send_and_complete_effect[OF ok Some[unfolded p]], rule safeW_pure) (use next' in blast)
    show ?thesis
      unfolding resume_step_def s prod.case
      by (rule safeW_bind_check, rule ok, rule safeW_bind_load) (simp add: Some p step)
  qed
qed

lemma resume_loop_safe:
  assumes "keys_ok roles" and "world_ok h0 w0"
  shows "safeW (world_ok h0) (\<lambda>v. v = w0) (foldW (resume_step po roles' rules) ([], []) roles) (resume_inv h0 w0 roles)"
proof (rule safeW_pre[OF safeW_fold])
  show "safeW (world_ok h0) (resume_inv h0 w0 seen s) (resume_step po roles' rules s x) (resume_inv h0 w0 (seen @ [x]))"
    if "roles = seen @ x # rest" for seen x rest s
    using resume_step_safe[OF assms(1), of seen "fst x" "snd x"] that by simp
  show "v = w0 \<Longrightarrow> resume_inv h0 w0 [] ([], []) v" for v
    using assms(2) by (simp add: resume_inv_def unstaged_def)
qed

lemma emits_iff: "emits c h \<longleftrightarrow> h \<noteq> assumed_health c"
  by (cases c) (auto simp: emits_def assumed_health_def)

text \<open>The staging loop starts in \<open>w1\<close>; nothing is pending for the observed resources.\<close>

definition observed_ok ::
    "detector_world \<Rightarrow> (string \<times> signal_checkpoint) list \<Rightarrow> signal_observation list \<Rightarrow> bool" where
  "observed_ok w1 checkpoints obs \<longleftrightarrow> distinct (map so_resource_id obs)
     \<and> (\<forall>so \<in> set obs. canonical_resource_id (so_resource_id so) = Inr (so_resource_id so)
          \<and> map_of checkpoints (so_resource_id so) = Some (checkpoint_of w1 (so_resource_id so))
          \<and> ck_pending (checkpoint_of w1 (so_resource_id so)) = None)"

definition stage_inv ::
    "(string \<Rightarrow> bool) \<Rightarrow> detector_world \<Rightarrow> signal_observation list \<Rightarrow> staging \<Rightarrow> detector_world \<Rightarrow> bool" where
  "stage_inv h0 w1 seen = (\<lambda>(initial, pending) w.
     world_ok h0 w \<and> requests w1 \<subseteq> requests w
     \<and> initial = map so_resource_id (filter (\<lambda>so. ck_committed (checkpoint_of w1 (so_resource_id so)) = None
         \<and> so_healthy so) seen)
     \<and> map (\<lambda>(i, r). (i, recovered r)) pending = map (\<lambda>so. (so_resource_id so, so_healthy so))
         (filter (\<lambda>so. emits (ck_committed (checkpoint_of w1 (so_resource_id so))) (so_healthy so)) seen)
     \<and> (\<forall>i. casefold i = i \<longrightarrow> checkpoint_of w i = (case map_of pending i of
          None \<Rightarrow> checkpoint_of w1 i
        | Some r \<Rightarrow> (checkpoint_of w1 i)\<lparr>ck_pending := Some (recovered r, r)\<rparr>)))"

lemma stage_step_safe:
  assumes "observed_ok w1 checkpoints obs" and "obs = seen @ so # rest"
  shows "safeW (world_ok h0) (stage_inv h0 w1 seen s) (stage_step po roles rules checkpoints s so)
    (stage_inv h0 w1 (seen @ [so]))"
proof (rule safeW_world)
  fix w assume inv: "stage_inv h0 w1 seen s w"
  obtain initial pending where s: "s = (initial, pending)" by (cases s)
  let ?i = "so_resource_id so"
  from assms have can: "canonical_resource_id ?i = Inr ?i"
    and c: "map_of checkpoints ?i = Some (checkpoint_of w1 ?i)"
    and new: "?i \<notin> so_resource_id ` set seen" by (auto simp: observed_ok_def)
  have i: "casefold ?i = ?i" by (rule canonical_target(2)[OF can])
  from inv have ok: "world_ok h0 w" and pend: "map (\<lambda>(i, r). (i, recovered r)) pending = map (\<lambda>so. (so_resource_id so, so_healthy so))
         (filter (\<lambda>so. emits (ck_committed (checkpoint_of w1 (so_resource_id so))) (so_healthy so)) seen)"
    by (simp_all add: s stage_inv_def)
  have "fst ` set pending = fst ` set (map (\<lambda>(i, r). (i, recovered r)) pending)" by force
  also have "\<dots> \<subseteq> so_resource_id ` set seen" unfolding pend by auto
  finally have fresh: "?i \<notin> fst ` set pending" using new by blast
  then have p: "map_of pending ?i = None" by (simp add: map_of_eq_None_iff)
  with inv i have cw: "checkpoint_of w ?i = checkpoint_of w1 ?i" by (simp add: s stage_inv_def)
  show "safeW (world_ok h0) (\<lambda>v. v = w) (stage_step po roles rules checkpoints s so) (stage_inv h0 w1 (seen @ [so]))"
  proof (cases "emits (ck_committed (checkpoint_of w1 ?i)) (so_healthy so)")
    case False
    then have next': "stage_inv h0 w1 (seen @ [so])
        (if ck_committed (checkpoint_of w1 ?i) = None then initial @ [?i] else initial, pending) w"
      using inv by (auto simp: s stage_inv_def emits_def)
    show ?thesis
      unfolding stage_step_def s prod.case Let_def
      by (rule safeW_bind_check, rule ok) (use False c next' in \<open>simp add: safeW_def pureW_def requireR_eq_Inr\<close>)
  next
    case True
    have next': "stage_inv h0 w1 (seen @ [so]) (initial, pending @ [(?i, r)]) w'"
      if "build_signal_reassessment_request (po_platform po) so roles rules = Inr r"
        and "world_ok h0 w'" and "updated w ?i ((checkpoint_of w ?i)\<lparr>ck_pending := Some (so_healthy so, r)\<rparr>) w'" for r w'
    proof -
      have "recovered r = so_healthy so" by (rule built_request(2)[OF that(1) can])
      with that True inv fresh p i cw show ?thesis
        by (auto simp: s stage_inv_def updated_def emits_def split: option.splits)
    qed
    have step: "safeW (world_ok h0) (\<lambda>v. v = w)
        (bindW (liftW (build_signal_reassessment_request (po_platform po) so roles rules)) (\<lambda>r.
          bindW (update_store (\<lambda>s. stage_transition s ?i (so_healthy so) r)) (\<lambda>_. pureW (initial, pending @ [(?i, r)]))))
        (stage_inv h0 w1 (seen @ [so]))"
    proof (rule safeW_bind_check, rule ok)
      fix r assume b: "build_signal_reassessment_request (po_platform po) so roles rules = Inr r"
      have h: "so_healthy so \<noteq> assumed_health (ck_committed (checkpoint_of w ?i))" using True cw by (simp add: emits_iff)
      have t: "rr_target r = casefold ?i" using built_request(1)[OF b can] i by simp
      show "safeW (world_ok h0) (\<lambda>v. v = w)
          (bindW (update_store (\<lambda>s. stage_transition s ?i (so_healthy so) r)) (\<lambda>_. pureW (initial, pending @ [(?i, r)])))
          (stage_inv h0 w1 (seen @ [so]))"
        by (rule safeW_bind, rule stage_effect[OF ok t built_request(2)[OF b can] h], rule safeW_pure)
          (use next'[OF b] in blast)
    qed
    show ?thesis
      unfolding stage_step_def s prod.case Let_def
      by (rule safeW_bind_check, rule ok) (use True c step in \<open>simp add: requireR_eq_Inr\<close>)
  qed
qed

lemma stage_loop_safe:
  assumes "observed_ok w1 checkpoints obs" and "world_ok h0 w1"
  shows "safeW (world_ok h0) (\<lambda>v. v = w1) (foldW (stage_step po roles rules checkpoints) ([], []) obs) (stage_inv h0 w1 obs)"
proof (rule safeW_pre[OF safeW_fold])
  show "safeW (world_ok h0) (stage_inv h0 w1 seen s) (stage_step po roles rules checkpoints s so) (stage_inv h0 w1 (seen @ [so]))"
    if "obs = seen @ so # rest" for seen so rest s
    by (rule stage_step_safe[OF assms(1) that])
  show "v = w1 \<Longrightarrow> stage_inv h0 w1 [] ([], []) v" for v
    using assms(2) by (simp add: stage_inv_def)
qed

definition initial_inv ::
    "(string \<Rightarrow> bool) \<Rightarrow> detector_world \<Rightarrow> string list \<Rightarrow> unit \<Rightarrow> detector_world \<Rightarrow> bool" where
  "initial_inv h0 w2 seen = (\<lambda>_ w. world_ok h0 w \<and> requests w2 \<subseteq> requests w
     \<and> (\<forall>i. casefold i = i \<longrightarrow> checkpoint_of w i =
          (if i \<in> set seen then \<lparr>ck_committed = Some True, ck_pending = None\<rparr> else checkpoint_of w2 i)))"

lemma initial_loop_safe:
  assumes "distinct initial" and "world_ok h0 w2"
    and "\<forall>i \<in> set initial. casefold i = i \<and> checkpoint_of w2 i = \<lparr>ck_committed = None, ck_pending = None\<rparr>"
  shows "safeW (world_ok h0) (\<lambda>v. v = w2) (foldW initial_step () initial) (initial_inv h0 w2 initial)"
proof (rule safeW_pre[OF safeW_fold])
  show "safeW (world_ok h0) (initial_inv h0 w2 seen s) (initial_step s i) (initial_inv h0 w2 (seen @ [i]))"
    if "initial = seen @ i # rest" for seen i rest s
  proof (rule safeW_world)
    fix w assume inv: "initial_inv h0 w2 seen s w"
    with that assms have "world_ok h0 w" "checkpoint_of w i = \<lparr>ck_committed = None, ck_pending = None\<rparr>"
      by (auto simp: initial_inv_def)
    then show "safeW (world_ok h0) (\<lambda>v. v = w) (initial_step s i) (initial_inv h0 w2 (seen @ [i]))"
      by (rule safeW_post[OF initial_effect]) (use inv that assms(3) in \<open>auto simp: initial_inv_def updated_def\<close>)
  qed
  show "v = w2 \<Longrightarrow> initial_inv h0 w2 [] () v" for v
    using assms(2) by (simp add: initial_inv_def)
qed

definition send_inv ::
    "(string \<Rightarrow> bool) \<Rightarrow> detector_world \<Rightarrow> (string \<times> reassessment_request) list
     \<Rightarrow> reassessment_request list \<Rightarrow> detector_world \<Rightarrow> bool" where
  "send_inv h0 w3 seen = (\<lambda>sent w. world_ok h0 w \<and> set sent \<subseteq> requests w
     \<and> (\<forall>i. casefold i = i \<longrightarrow> checkpoint_of w i = (case map_of seen i of
          None \<Rightarrow> checkpoint_of w3 i
        | Some r \<Rightarrow> \<lparr>ck_committed = Some (recovered r), ck_pending = None\<rparr>)))"

lemma send_loop_safe:
  assumes "distinct (map fst pending)" and "world_ok h0 w3" and "set sent \<subseteq> requests w3"
    and "\<forall>(i, r) \<in> set pending. casefold i = i \<and> ck_pending (checkpoint_of w3 i) = Some (recovered r, r)"
  shows "safeW (world_ok h0) (\<lambda>v. v = w3) (foldW (send_step po) sent pending) (send_inv h0 w3 pending)"
proof (rule safeW_pre[OF safeW_fold])
  show "safeW (world_ok h0) (send_inv h0 w3 seen s) (send_step po s x) (send_inv h0 w3 (seen @ [x]))"
    if "pending = seen @ x # rest" for seen x rest s
  proof (rule safeW_world)
    fix w assume inv: "send_inv h0 w3 seen s w"
    obtain i r where x: "x = (i, r)" by (cases x)
    from that assms x have new: "map_of seen i = None" and i: "casefold i = i"
      and p3: "ck_pending (checkpoint_of w3 i) = Some (recovered r, r)"
      by (auto simp: map_of_eq_None_iff)
    with inv have ok: "world_ok h0 w" and p: "ck_pending (checkpoint_of w i) = Some (recovered r, r)"
      by (auto simp: send_inv_def)
    show "safeW (world_ok h0) (\<lambda>v. v = w) (send_step po s x) (send_inv h0 w3 (seen @ [x]))"
      unfolding send_step_def x prod.case
      by (rule safeW_bind, rule send_and_complete_effect[OF ok p], rule safeW_pure)
        (use inv new i in \<open>auto simp: send_inv_def updated_def map_add_def split: option.splits\<close>)
  qed
  show "v = w3 \<Longrightarrow> send_inv h0 w3 [] sent v" for v
    using assms(2,3) by (simp add: send_inv_def)
qed

end
