(* ===== verification/DetectorRuns.thy ===== *)
theory DetectorRuns
  imports DetectorFacts
begin

text \<open>
  The loops of a run put together: what a run leaves behind when it fails, what it has settled when
  it returns, and the worlds that any number of runs can reach.
\<close>

section \<open>A whole run\<close>

text \<open>No approved identifier changes when it is brought into canonical form a second time.\<close>

definition stable_ids :: "approved_roles \<Rightarrow> bool" where
  "stable_ids approved \<longleftrightarrow> list_all (\<lambda>(i, _). case canonical_resource_id i of
       Inl _ \<Rightarrow> True | Inr c \<Rightarrow> canonical_resource_id c = Inr c) approved"

lemma role_step_Inr:
  assumes "role_step acc (i, role) = Inr acc'"
  obtains c where "canonical_resource_id i = Inr c" and "c \<notin> fst ` set acc" and "acc' = acc @ [(c, role)]"
  using assms
  by (auto simp: role_step_def bindR_eq_Inr Let_def detection_guard_def guardR_eq_Inr split: if_splits prod.splits)

lemma role_loop:
  assumes "foldR role_step acc approved = Inr roles" and "stable_ids approved"
    and "distinct (map fst acc)" and "\<forall>i \<in> fst ` set acc. canonical_resource_id i = Inr i"
  shows "distinct (map fst roles) \<and> (\<forall>i \<in> fst ` set roles. canonical_resource_id i = Inr i)"
  using assms
proof (induction approved arbitrary: acc)
  case (Cons x approved)
  obtain i role where x: "x = (i, role)" by (cases x)
  from Cons.prems(1) obtain acc' where step: "role_step acc (i, role) = Inr acc'"
    and more: "foldR role_step acc' approved = Inr roles"
    by (auto simp: x bindR_eq_Inr)
  obtain c where c: "canonical_resource_id i = Inr c" and "c \<notin> fst ` set acc"
    and rest: "foldR role_step (acc @ [(c, role)]) approved = Inr roles"
    by (rule role_step_Inr[OF step]) (use more in simp)
  moreover have "canonical_resource_id c = Inr c" using Cons.prems(2) c by (simp add: x stable_ids_def)
  ultimately show ?case
    using Cons.IH[OF rest] Cons.prems(2-4) by (auto simp: stable_ids_def)
qed simp

lemma validated_roles:
  assumes "validate_approved_resource_roles approved = Inr roles" and "stable_ids approved"
  shows "keys_ok roles" and "\<forall>i \<in> fst ` set roles. canonical_resource_id i = Inr i"
proof -
  from assms(1) have "foldR role_step [] approved = Inr roles"
    by (auto simp: validate_approved_resource_roles_def bindR_eq_Inr)
  from role_loop[OF this assms(2)] have r: "distinct (map fst roles)"
    "\<forall>i \<in> fst ` set roles. canonical_resource_id i = Inr i" by auto
  then show "keys_ok roles" by (auto simp: keys_ok_def dest: canonical_target(2))
  show "\<forall>i \<in> fst ` set roles. canonical_resource_id i = Inr i" by (rule r(2))
qed

lemma read_approved_signal_id:
  "read_approved_signal po i role t minutes = Inr so \<Longrightarrow> canonical_resource_id i = Inr (so_resource_id so)"
  by (auto simp: read_approved_signal_def read_virtual_machine_def read_load_balancer_def bindR_eq_Inr Let_def
      split: if_splits)

text \<open>What a run that returns has made of the checkpoint of an approved resource.\<close>

definition settled ::
    "ports \<Rightarrow> int \<Rightarrow> int \<Rightarrow> detector_world \<Rightarrow> detector_world \<Rightarrow> string \<times> workload_role \<Rightarrow> bool" where
  "settled po t minutes w0 w = (\<lambda>(i, role). ck_pending (checkpoint_of w i) = None \<and>
     (case ck_pending (checkpoint_of w0 i) of
        Some (h, _) \<Rightarrow> ck_committed (checkpoint_of w i) = Some h
      | None \<Rightarrow> \<exists>so. read_approved_signal po i role t minutes = Inr so
          \<and> ck_committed (checkpoint_of w i) = Some (so_healthy so)))"

lemma observations_ok:
  assumes keys: "keys_ok roles" and can: "\<forall>i \<in> fst ` set roles. canonical_resource_id i = Inr i"
    and inv: "resume_inv h0 w0 roles (checkpoints, sent) w1"
    and obs: "mapR (\<lambda>(i, role). read_approved_signal po i role t minutes)
         (filter (\<lambda>(i, _). i \<in> set (map fst checkpoints)) roles) = Inr obs"
  shows "observed_ok w1 checkpoints obs"
    and "\<And>i role. (i, role) \<in> set roles \<Longrightarrow> ck_pending (checkpoint_of w0 i) = None
      \<Longrightarrow> \<exists>so \<in> set obs. so_resource_id so = i \<and> read_approved_signal po i role t minutes = Inr so"
    and "\<forall>so \<in> set obs. so_resource_id so \<in> fst ` set (unstaged w0 roles)"
proof -
  have cps: "checkpoints = map (\<lambda>(i, _). (i, checkpoint_of w0 i)) (unstaged w0 roles)"
    using inv by (simp add: resume_inv_def)
  have fst_cps: "map fst checkpoints = map fst (unstaged w0 roles)" by (simp add: cps case_prod_unfold comp_def)
  have fil: "filter (\<lambda>(i, _). i \<in> set (map fst checkpoints)) roles = unstaged w0 roles"
    unfolding fst_cps unstaged_def by (rule filter_cong[OF refl]) force
  from mapR_Inr[OF obs] have l2: "list_all2 (\<lambda>(i, role) so. read_approved_signal po i role t minutes = Inr so)
      (unstaged w0 roles) obs"
    unfolding fil by (simp add: case_prod_unfold)
  have sub: "set (unstaged w0 roles) \<subseteq> set roles" by (auto simp: unstaged_def)
  have "list_all2 (\<lambda>x so. so_resource_id so = fst x) (unstaged w0 roles) obs"
  proof (rule list.rel_mono_strong[OF l2])
    fix x so assume "x \<in> set (unstaged w0 roles)" and "so \<in> set obs" and r: "(\<lambda>(i, role) so. read_approved_signal po i role t minutes = Inr so) x so"
    then have "canonical_resource_id (fst x) = Inr (fst x)" using sub can by blast
    with r read_approved_signal_id show "so_resource_id so = fst x" by (fastforce split: prod.splits)
  qed
  then have ids: "map so_resource_id obs = map fst (unstaged w0 roles)"
    by (auto simp: list_all2_conv_all_nth intro!: nth_equalityI)
  have d: "distinct (map fst (unstaged w0 roles))"
    using keys by (auto simp: keys_ok_def unstaged_def distinct_map_filter)
  show in_ids: "\<forall>so \<in> set obs. so_resource_id so \<in> fst ` set (unstaged w0 roles)"
    using arg_cong[OF ids, of set] by auto
  have w1: "checkpoint_of w1 i = checkpoint_of w0 i" and none: "ck_pending (checkpoint_of w0 i) = None"
    and c: "canonical_resource_id i = Inr i" if "i \<in> fst ` set (unstaged w0 roles)" for i
  proof -
    from that sub have i: "i \<in> fst ` set roles" by auto
    show n: "ck_pending (checkpoint_of w0 i) = None" using that by (auto simp: unstaged_def)
    show c: "canonical_resource_id i = Inr i" using can i by blast
    show "checkpoint_of w1 i = checkpoint_of w0 i"
      using inv i n canonical_target(2)[OF c] by (simp add: resume_inv_def resumed_def)
  qed
  have lookup: "map_of checkpoints i = Some (checkpoint_of w0 i)" if "i \<in> fst ` set (unstaged w0 roles)" for i
    using that d unfolding cps by (auto simp: map_of_eq_Some_iff comp_def case_prod_unfold image_iff)
  show "observed_ok w1 checkpoints obs"
    unfolding observed_ok_def using d ids in_ids w1 none c lookup by simp
  show "\<exists>so \<in> set obs. so_resource_id so = i \<and> read_approved_signal po i role t minutes = Inr so"
    if "(i, role) \<in> set roles" "ck_pending (checkpoint_of w0 i) = None" for i role
  proof -
    have "(i, role) \<in> set (unstaged w0 roles)" using that by (simp add: unstaged_def)
    then obtain so where "so \<in> set obs" and r: "read_approved_signal po i role t minutes = Inr so"
      using l2 by (fastforce simp: list_all2_conv_all_nth in_set_conv_nth)
    moreover have "canonical_resource_id i = Inr i" using can that(1) by force
    with read_approved_signal_id[OF r] have "so_resource_id so = i" by simp
    ultimately show ?thesis by blast
  qed
qed


lemma staged_shape:
  assumes obs: "observed_ok w1 checkpoints obs" and inv: "stage_inv h0 w1 obs (initial, pending) w2"
  shows "distinct initial" and "distinct (map fst pending)"
    and "set initial \<union> fst ` set pending \<subseteq> so_resource_id ` set obs" and "set initial \<inter> fst ` set pending = {}"
    and "\<forall>(i, r) \<in> set pending. casefold i = i \<and> ck_pending (checkpoint_of w2 i) = Some (recovered r, r)"
    and "\<forall>i \<in> set initial. casefold i = i \<and> checkpoint_of w2 i = \<lparr>ck_committed = None, ck_pending = None\<rparr>"
    and "\<forall>so \<in> set obs. case map_of pending (so_resource_id so) of
       Some r \<Rightarrow> recovered r = so_healthy so
     | None \<Rightarrow> (if so_resource_id so \<in> set initial then so_healthy so
         else ck_committed (checkpoint_of w1 (so_resource_id so)) = Some (so_healthy so))"
proof -
  let ?c = "\<lambda>so. ck_committed (checkpoint_of w1 (so_resource_id so))"
  from inv have initial: "initial = map so_resource_id (filter (\<lambda>so. ?c so = None \<and> so_healthy so) obs)"
    and pend: "map (\<lambda>(i, r). (i, recovered r)) pending = map (\<lambda>so. (so_resource_id so, so_healthy so))
         (filter (\<lambda>so. emits (?c so) (so_healthy so)) obs)"
    and cp: "\<forall>i. casefold i = i \<longrightarrow> checkpoint_of w2 i = (case map_of pending i of
          None \<Rightarrow> checkpoint_of w1 i
        | Some r \<Rightarrow> (checkpoint_of w1 i)\<lparr>ck_pending := Some (recovered r, r)\<rparr>)"
    by (simp_all add: stage_inv_def)
  from obs have d: "distinct (map so_resource_id obs)" and inj: "inj_on so_resource_id (set obs)"
    and low: "\<forall>so \<in> set obs. casefold (so_resource_id so) = so_resource_id so"
    and none: "\<forall>so \<in> set obs. ck_pending (checkpoint_of w1 (so_resource_id so)) = None"
    by (auto simp: observed_ok_def distinct_map dest: canonical_target(2))
  show dp: "distinct (map fst pending)"
    using arg_cong[OF pend, of "map fst"] d by (simp add: comp_def case_prod_unfold distinct_map_filter)
  show di: "distinct initial" using d by (simp add: initial distinct_map_filter)
  have from_pending: "\<exists>so \<in> set obs. so_resource_id so = i \<and> recovered r = so_healthy so \<and> emits (?c so) (so_healthy so)"
    if "(i, r) \<in> set pending" for i r
  proof -
    have "(i, recovered r) \<in> set (map (\<lambda>(i, r). (i, recovered r)) pending)" using that by force
    then show ?thesis unfolding pend by auto
  qed
  have to_pending: "\<exists>r. map_of pending (so_resource_id so) = Some r \<and> recovered r = so_healthy so"
    if "so \<in> set obs" "emits (?c so) (so_healthy so)" for so
  proof -
    have "(so_resource_id so, so_healthy so) \<in> set (map (\<lambda>(i, r). (i, recovered r)) pending)"
      unfolding pend using that by auto
    then obtain r where "(so_resource_id so, r) \<in> set pending" "recovered r = so_healthy so" by auto
    with dp show ?thesis by auto
  qed
  have not_pending: "emits (?c so) (so_healthy so)"
    if "so \<in> set obs" and "map_of pending (so_resource_id so) = Some r" for so r
    using from_pending[OF map_of_SomeD[OF that(2)]] inj that(1) by (auto dest: inj_onD)
  show "set initial \<union> fst ` set pending \<subseteq> so_resource_id ` set obs"
    using from_pending by (fastforce simp: initial)
  show dis: "set initial \<inter> fst ` set pending = {}"
  proof -
    have False if "i \<in> set initial" and "(i, r) \<in> set pending" for i r
    proof -
      from that(1) obtain so where so: "so \<in> set obs" "i = so_resource_id so" "?c so = None" "so_healthy so"
        by (auto simp: initial)
      with that(2) dp not_pending[of so r] show False by (simp add: emits_def)
    qed
    then show ?thesis by auto
  qed
  show "\<forall>(i, r) \<in> set pending. casefold i = i \<and> ck_pending (checkpoint_of w2 i) = Some (recovered r, r)"
  proof clarify
    fix i r assume m: "(i, r) \<in> set pending"
    then have "casefold i = i" using from_pending low by fastforce
    moreover have "map_of pending i = Some r" using m dp by simp
    ultimately show "casefold i = i \<and> ck_pending (checkpoint_of w2 i) = Some (recovered r, r)" using cp by simp
  qed
  show "\<forall>i \<in> set initial. casefold i = i \<and> checkpoint_of w2 i = \<lparr>ck_committed = None, ck_pending = None\<rparr>"
  proof
    fix i assume i: "i \<in> set initial"
    then obtain so where so: "so \<in> set obs" "i = so_resource_id so" "?c so = None" by (auto simp: initial)
    then have "casefold i = i" and "ck_pending (checkpoint_of w1 i) = None" using low none by auto
    moreover have "map_of pending i = None" using i dis by (auto simp: map_of_eq_None_iff)
    ultimately show "casefold i = i \<and> checkpoint_of w2 i = \<lparr>ck_committed = None, ck_pending = None\<rparr>"
      using cp so by simp
  qed
  show "\<forall>so \<in> set obs. case map_of pending (so_resource_id so) of
       Some r \<Rightarrow> recovered r = so_healthy so
     | None \<Rightarrow> (if so_resource_id so \<in> set initial then so_healthy so
         else ck_committed (checkpoint_of w1 (so_resource_id so)) = Some (so_healthy so))"
  proof
    fix so assume so: "so \<in> set obs"
    show "case map_of pending (so_resource_id so) of
       Some r \<Rightarrow> recovered r = so_healthy so
     | None \<Rightarrow> (if so_resource_id so \<in> set initial then so_healthy so else ?c so = Some (so_healthy so))"
    proof (cases "emits (?c so) (so_healthy so)")
      case True
      then show ?thesis using to_pending[OF so] by auto
    next
      case False
      then have n: "map_of pending (so_resource_id so) = None" using not_pending[OF so] by (cases "map_of pending (so_resource_id so)") auto
      have "so_resource_id so \<in> set initial" if "?c so = None"
        using so False that by (auto simp: initial emits_def)
      moreover have "so_healthy so" if "so_resource_id so \<in> set initial"
        using that so inj by (auto simp: initial dest: inj_onD)
      ultimately show ?thesis using n False by (auto simp: emits_def)
    qed
  qed
qed

lemma settled_shape:
  assumes keys: "keys_ok roles" and sub: "(i, role) \<in> set roles"
    and inv1: "resume_inv h0 w0 roles (checkpoints, sent) w1"
    and obs: "observed_ok w1 checkpoints obs"
    and ids: "\<forall>so \<in> set obs. so_resource_id so \<in> fst ` set (unstaged w0 roles)"
    and found: "ck_pending (checkpoint_of w0 i) = None
      \<Longrightarrow> \<exists>so \<in> set obs. so_resource_id so = i \<and> read_approved_signal po i role t minutes = Inr so"
    and inv2: "stage_inv h0 w1 obs (initial, pending) w2"
    and inv3: "initial_inv h0 w2 initial u w3" and inv4: "send_inv h0 w3 pending sent' w4"
  shows "settled po t minutes w0 w4 (i, role)"
proof -
  note shape = staged_shape[OF obs inv2]
  have i: "casefold i = i" using keys sub by (force simp: keys_ok_def)
  then have w1: "checkpoint_of w1 i = resumed (checkpoint_of w0 i)"
    using inv1 sub by (force simp: resume_inv_def)
  have w2: "checkpoint_of w2 i = (case map_of pending i of None \<Rightarrow> checkpoint_of w1 i
        | Some r \<Rightarrow> (checkpoint_of w1 i)\<lparr>ck_pending := Some (recovered r, r)\<rparr>)"
    using inv2 i by (simp add: stage_inv_def)
  have w3: "checkpoint_of w3 i = (if i \<in> set initial then \<lparr>ck_committed = Some True, ck_pending = None\<rparr> else checkpoint_of w2 i)"
    using inv3 i by (simp add: initial_inv_def)
  have w4: "checkpoint_of w4 i = (case map_of pending i of None \<Rightarrow> checkpoint_of w3 i
        | Some r \<Rightarrow> \<lparr>ck_committed = Some (recovered r), ck_pending = None\<rparr>)"
    using inv4 i by (simp add: send_inv_def)
  show ?thesis
  proof (cases "ck_pending (checkpoint_of w0 i)")
    case (Some p)
    obtain h r where p: "p = (h, r)" by (cases p)
    have "i \<notin> so_resource_id ` set obs"
    proof
      assume "i \<in> so_resource_id ` set obs"
      with ids have "i \<in> fst ` set (unstaged w0 roles)" by auto
      with Some show False by (auto simp: unstaged_def)
    qed
    with shape(3) have "i \<notin> set initial" "map_of pending i = None" by (auto simp: map_of_eq_None_iff)
    then show ?thesis using w1 w2 w3 w4 Some p by (simp add: settled_def resumed_def)
  next
    case None
    with found obtain so where so: "so \<in> set obs" "so_resource_id so = i"
      "read_approved_signal po i role t minutes = Inr so" by blast
    have n: "ck_pending (checkpoint_of w1 i) = None" using w1 None by (simp add: resumed_def)
    from so(1,2) shape(7) have c: "case map_of pending i of Some r \<Rightarrow> recovered r = so_healthy so
      | None \<Rightarrow> (if i \<in> set initial then so_healthy so else ck_committed (checkpoint_of w1 i) = Some (so_healthy so))"
      by blast
    have "ck_pending (checkpoint_of w4 i) = None \<and> ck_committed (checkpoint_of w4 i) = Some (so_healthy so)"
      using c w2 w3 w4 n by (auto split: option.splits if_splits)
    then show ?thesis using None so(3) by (simp add: settled_def)
  qed
qed

lemma detect_with_lease_safe:
  assumes ok0: "world_ok h0 w0" and stable: "stable_ids approved"
  shows "safeW (world_ok h0) (\<lambda>v. v = w0) (detect_with_lease po approved rules t minutes)
    (\<lambda>sent w. world_ok h0 w \<and> set sent \<subseteq> requests w
       \<and> (\<exists>roles. validate_approved_resource_roles approved = Inr roles
            \<and> (\<forall>x \<in> set roles. settled po t minutes w0 w x)))"
  unfolding detect_with_lease_def Let_def
proof (rule safeW_bind_check, rule ok0)
  let ?rules = "map casefold rules"
  fix roles assume v: "validate_approved_resource_roles approved = Inr roles"
  note keys = validated_roles(1)[OF v stable] and can = validated_roles(2)[OF v stable]
  show "safeW (world_ok h0) (\<lambda>v. v = w0)
     (bindW (foldW (resume_step po roles ?rules) ([], []) roles) (\<lambda>(checkpoints, sent).
      bindW (liftW (mapR (\<lambda>(i, role). read_approved_signal po i role t minutes)
         (filter (\<lambda>(i, _). i \<in> set (map fst checkpoints)) roles))) (\<lambda>observations.
      bindW (foldW (stage_step po roles ?rules checkpoints) ([], []) observations) (\<lambda>(initial, pending).
      bindW (foldW initial_step () initial) (\<lambda>_. foldW (send_step po) sent pending)))))
     (\<lambda>sent w. world_ok h0 w \<and> set sent \<subseteq> requests w
       \<and> (\<exists>roles. validate_approved_resource_roles approved = Inr roles
            \<and> (\<forall>x \<in> set roles. settled po t minutes w0 w x)))"
  proof (rule safeW_bind[OF resume_loop_safe[OF keys ok0]], rule safeW_world, clarify)
    fix checkpoints sent w1 assume inv1: "resume_inv h0 w0 roles (checkpoints, sent) w1"
    then have ok1: "world_ok h0 w1" and sent1: "set sent \<subseteq> requests w1" by (simp_all add: resume_inv_def)
    show "safeW (world_ok h0) (\<lambda>v. v = w1)
       (bindW (liftW (mapR (\<lambda>(i, role). read_approved_signal po i role t minutes)
           (filter (\<lambda>(i, _). i \<in> set (map fst checkpoints)) roles))) (\<lambda>observations.
        bindW (foldW (stage_step po roles ?rules checkpoints) ([], []) observations) (\<lambda>(initial, pending).
        bindW (foldW initial_step () initial) (\<lambda>_. foldW (send_step po) sent pending))))
       (\<lambda>sent w. world_ok h0 w \<and> set sent \<subseteq> requests w
         \<and> (\<exists>roles. validate_approved_resource_roles approved = Inr roles
              \<and> (\<forall>x \<in> set roles. settled po t minutes w0 w x)))"
    proof (rule safeW_bind_check, rule ok1)
      fix obs assume m: "mapR (\<lambda>(i, role). read_approved_signal po i role t minutes)
           (filter (\<lambda>(i, _). i \<in> set (map fst checkpoints)) roles) = Inr obs"
      note obs = observations_ok[OF keys can inv1 m]
      show "safeW (world_ok h0) (\<lambda>v. v = w1)
         (bindW (foldW (stage_step po roles ?rules checkpoints) ([], []) obs) (\<lambda>(initial, pending).
          bindW (foldW initial_step () initial) (\<lambda>_. foldW (send_step po) sent pending)))
         (\<lambda>sent w. world_ok h0 w \<and> set sent \<subseteq> requests w
           \<and> (\<exists>roles. validate_approved_resource_roles approved = Inr roles
                \<and> (\<forall>x \<in> set roles. settled po t minutes w0 w x)))"
      proof (rule safeW_bind[OF stage_loop_safe[OF obs(1) ok1]], rule safeW_world, clarify)
        fix initial pending w2 assume inv2: "stage_inv h0 w1 obs (initial, pending) w2"
        then have ok2: "world_ok h0 w2" and sent2: "set sent \<subseteq> requests w2" using sent1 by (auto simp: stage_inv_def)
        note shape = staged_shape[OF obs(1) inv2]
        show "safeW (world_ok h0) (\<lambda>v. v = w2)
           (bindW (foldW initial_step () initial) (\<lambda>_. foldW (send_step po) sent pending))
           (\<lambda>sent w. world_ok h0 w \<and> set sent \<subseteq> requests w
             \<and> (\<exists>roles. validate_approved_resource_roles approved = Inr roles
                  \<and> (\<forall>x \<in> set roles. settled po t minutes w0 w x)))"
        proof (rule safeW_bind[OF initial_loop_safe[OF shape(1) ok2 shape(6)]], rule safeW_world)
          fix u w3 assume inv3: "initial_inv h0 w2 initial u w3"
          then have ok3: "world_ok h0 w3" and sent3: "set sent \<subseteq> requests w3"
            using sent2 by (auto simp: initial_inv_def)
          have p3: "\<forall>(i, r) \<in> set pending. casefold i = i \<and> ck_pending (checkpoint_of w3 i) = Some (recovered r, r)"
          proof clarify
            fix i r assume m: "(i, r) \<in> set pending"
            with shape(5) have i: "casefold i = i" and c: "ck_pending (checkpoint_of w2 i) = Some (recovered r, r)" by auto
            have "i \<notin> set initial" using m shape(4) by force
            with inv3 i have "checkpoint_of w3 i = checkpoint_of w2 i" by (simp add: initial_inv_def)
            with i c show "casefold i = i \<and> ck_pending (checkpoint_of w3 i) = Some (recovered r, r)" by simp
          qed
          show "safeW (world_ok h0) (\<lambda>v. v = w3) (foldW (send_step po) sent pending)
             (\<lambda>sent w. world_ok h0 w \<and> set sent \<subseteq> requests w
               \<and> (\<exists>roles. validate_approved_resource_roles approved = Inr roles
                    \<and> (\<forall>x \<in> set roles. settled po t minutes w0 w x)))"
          proof (rule safeW_post[OF send_loop_safe[OF shape(2) ok3 sent3 p3]])
            fix sent' w4 assume inv4: "send_inv h0 w3 pending sent' w4"
            have "settled po t minutes w0 w4 x" if "x \<in> set roles" for x
            proof (cases x)
              case (Pair i role)
              with that have m: "(i, role) \<in> set roles" by simp
              show ?thesis unfolding Pair
                by (rule settled_shape[OF keys m inv1 obs(1,3) obs(2)[OF m] inv2 inv3 inv4])
            qed
            with v inv4 show "world_ok h0 w4 \<and> set sent' \<subseteq> requests w4
               \<and> (\<exists>roles. validate_approved_resource_roles approved = Inr roles
                    \<and> (\<forall>x \<in> set roles. settled po t minutes w0 w4 x))"
              by (auto simp: send_inv_def)
          qed
        qed
      qed
    qed
  qed
qed

section \<open>The lease\<close>

lemma checkpoint_of_lease: "checkpoint_of (map_store release_run_lease w) = checkpoint_of w"
  by (rule ext) (simp add: checkpoint_of_def map_store_def release_run_lease_def load_checkpoint_def)

lemma lease_bit:
  "requests (map_store release_run_lease w) = requests w"
  "world_ok h0 (map_store release_run_lease w) = world_ok h0 w"
  "settled po t minutes w0 (map_store release_run_lease w) x = settled po t minutes w0 w x"
proof -
  show "settled po t minutes w0 (map_store release_run_lease w) x = settled po t minutes w0 w x"
    by (simp only: settled_def checkpoint_of_lease)
qed (simp_all add: world_ok_def checkpoint_of_lease, simp_all add: requests_def map_store_def)

text \<open>Every way a run can end.\<close>

lemma run_cases:
  assumes "detect_signal_requests po approved rules t minutes w = (result, w')"
  obtains (refused) "result = Inl SignalDetectionError" and "w' = w"
  | (busy) "w' = w" and "ss_lease_held (dw_store w)"
  | (ran) v where "w' = map_store release_run_lease v" and "\<not> ss_lease_held (dw_store w)"
      and "detect_with_lease po approved rules t minutes (w\<lparr>dw_store := (dw_store w)\<lparr>ss_lease_held := True\<rparr>\<rparr>) = (result, v)"
proof (cases "2 \<le> minutes \<and> minutes \<le> 10")
  case False
  then show ?thesis using assms refused by (simp add: detect_signal_requests_def)
next
  case True
  show ?thesis
  proof (cases "ss_lease_held (dw_store w)")
    case True
    with assms busy \<open>2 \<le> minutes \<and> minutes \<le> 10\<close> show ?thesis
      by (simp add: detect_signal_requests_def acquire_run_lease_def)
  next
    case False
    obtain result' v where v: "detect_with_lease po approved rules t minutes
        (w\<lparr>dw_store := (dw_store w)\<lparr>ss_lease_held := True\<rparr>\<rparr>) = (result', v)" by fastforce
    with assms False True have "result = result'" "w' = map_store release_run_lease v"
      by (simp_all add: detect_signal_requests_def acquire_run_lease_def)
    with ran False v show ?thesis by simp
  qed
qed

lemma detect_signal_requests_safe:
  assumes ok: "world_ok h0 w" and stable: "stable_ids approved"
    and run: "detect_signal_requests po approved rules t minutes w = (result, w')"
  shows "world_ok h0 w'"
    and "\<lbrakk>result = Inr sent; \<not> ss_lease_held (dw_store w)\<rbrakk> \<Longrightarrow> set sent \<subseteq> requests w'
       \<and> (\<exists>roles. validate_approved_resource_roles approved = Inr roles
            \<and> (\<forall>x \<in> set roles. settled po t minutes w w' x))"
proof -
  let ?w = "w\<lparr>dw_store := (dw_store w)\<lparr>ss_lease_held := True\<rparr>\<rparr>"
  have c: "checkpoint_of ?w = checkpoint_of w"
    by (rule ext) (simp add: checkpoint_of_def load_checkpoint_def)
  then have ok': "world_ok h0 ?w" using ok by (simp add: world_ok_def)
  have s: "settled po t minutes ?w v x = settled po t minutes w v x" for v x by (simp only: settled_def c)
  note safe = detect_with_lease_safe[OF ok' stable, of po rules t minutes, unfolded safeW_def, rule_format, OF refl]
  show "world_ok h0 w'"
    using run
  proof (cases rule: run_cases)
    case (ran v)
    with safe show ?thesis by (cases result) (simp_all add: lease_bit)
  qed (use ok in simp_all)
  show "\<lbrakk>result = Inr sent; \<not> ss_lease_held (dw_store w)\<rbrakk> \<Longrightarrow> set sent \<subseteq> requests w'
       \<and> (\<exists>roles. validate_approved_resource_roles approved = Inr roles
            \<and> (\<forall>x \<in> set roles. settled po t minutes w w' x))"
  proof -
    assume res: "result = Inr sent" and free: "\<not> ss_lease_held (dw_store w)"
    from run show ?thesis
    proof (cases rule: run_cases)
      case (ran v)
      with safe res show ?thesis by (simp add: lease_bit s)
    qed (use res free in simp_all)
  qed
qed

section \<open>Reachable worlds\<close>

text \<open>
  Any number of runs after the other, each with ports, approved resources and a time of its own; a
  run may fail.
\<close>

inductive detector_reachable :: "(string \<times> bool) list \<Rightarrow> detector_world \<Rightarrow> bool"
  for initial :: "(string \<times> bool) list" where
  Start: "detector_reachable initial \<lparr>dw_store = initial_store initial, dw_delivered = []\<rparr>"
| Run: "\<lbrakk>detector_reachable initial w; stable_ids approved;
         detect_signal_requests po approved rules t minutes w = (result, w')\<rbrakk> \<Longrightarrow> detector_reachable initial w'"

definition initial_health :: "(string \<times> bool) list \<Rightarrow> string \<Rightarrow> bool" where
  "initial_health initial i = assumed_health (ck_committed (load_checkpoint (initial_store initial) i))"

lemma initial_pending: "ck_pending (load_checkpoint (initial_store initial) i) = None"
proof -
  have "ck_pending c = None" if "c \<in> snd ` set (map (\<lambda>(i, h). (casefold i, \<lparr>ck_committed = Some h, ck_pending = None\<rparr>)) initial)" for c
    using that by auto
  then show ?thesis
    by (auto simp: load_checkpoint_def initial_store_def dict_of_def split: option.splits dest!: map_of_SomeD)
qed

lemma reachable_ok: "detector_reachable initial w \<Longrightarrow> world_ok (initial_health initial) w"
proof (induction rule: detector_reachable.induct)
  case Start
  show ?case
    by (simp add: world_ok_def reports_ok_def point_ok_def checkpoint_of_def initial_pending reports_def
        reported_def initial_health_def)
next
  case (Run w approved po rules t minutes result w')
  from detect_signal_requests_safe(1)[OF Run.IH Run.hyps(2,3)] show ?case .
qed

lemma reachable_free: "detector_reachable initial w \<Longrightarrow> \<not> ss_lease_held (dw_store w)"
proof (induction rule: detector_reachable.induct)
  case (Run w approved po rules t minutes result w')
  from Run.hyps(3) show ?case
    by (cases rule: run_cases) (use Run.IH in \<open>auto simp: map_store_def release_run_lease_def\<close>)
qed (simp add: initial_store_def)

end
