(* ===== verification/EventExample.thy ===== *)
theory EventExample
  imports DetectorRuns "HOL-Library.Code_Target_Nat"
begin

text \<open>
  A small deployment: a database server, a web server and a load balancer, read by a detector whose
  clock stands at one instant.
\<close>

definition demo_hexdigest :: "string \<Rightarrow> string" where
  "demo_hexdigest s = ''aaaaaaaaaaa'' @ [''0123456789abcdef'' ! (length s mod 16)] @ ''bbbbbbbbbbbbbbbbbbbbbbbbbbbbbbbbbbbbbbbbbbbbbbbbbbbb''"

definition demo_platform :: platform where
  "demo_platform = \<lparr>pl_hexdigest = demo_hexdigest,
     pl_canonical = (\<lambda>v. Some ''{}''), pl_isoformat = (\<lambda>t. ''1970-01-01T00:00:00+00:00''),
     pl_fromisoformat = (\<lambda>s. if s = ''1970-01-01T00:00:00+00:00'' then Some (0, True) else None),
     pl_str = (\<lambda>v. [])\<rparr>"

definition demo_scope :: string where
  "demo_scope = ''/subscriptions/11111111-2222-3333-4444-555555555555/resourcegroups/rg/providers/microsoft.''"

definition db_id :: string where
  "db_id = demo_scope @ ''compute/virtualmachines/db''"

definition web_id :: string where
  "web_id = demo_scope @ ''compute/virtualmachines/web''"

definition lb_id :: string where
  "lb_id = demo_scope @ ''network/loadbalancers/lb''"

definition demo_roles :: approved_roles where
  "demo_roles = [(db_id, RoleDatabase), (web_id, RoleWeb), (lb_id, RoleLoadBalancer)]"

definition demo_rules :: "string list" where
  "demo_rules = map signal_rule_name [RoleDatabase, RoleWeb, RoleLoadBalancer]"

definition power :: "string \<Rightarrow> (string \<times> json) list" where
  "power state = [(''statuses'', JList [JObject [(''code'', JText (''PowerState/'' @ state))]])]"

definition metric_sample :: "rat \<Rightarrow> string \<Rightarrow> json" where
  "metric_sample x name = JObject [(''name'', JObject [(''value'', JText name)]),
     (''timeseries'', JList [JObject [(''data'', JList [JObject [(''average'', JFloat (Finite x))]])]])]"

text \<open>The database server reports the given state; the other resources are well.\<close>

definition demo_ports :: "string \<Rightarrow> (message list \<Rightarrow> message \<Rightarrow> delivery) \<Rightarrow> ports" where
  "demo_ports state sender = \<lparr>po_platform = demo_platform,
     po_reader = (\<lambda>path query.
       if path = db_id @ ''/instanceView'' then Inr (power state)
       else if path = web_id @ ''/instanceView'' then Inr (power ''running'')
       else Inr [(''value'', JList [metric_sample 100 ''VipAvailability'', metric_sample 100 ''DipAvailability''])]),
     po_sender = sender\<rparr>"

definition demo_run ::
    "string \<Rightarrow> (message list \<Rightarrow> message \<Rightarrow> delivery) \<Rightarrow> (detector_world, reassessment_request list) action" where
  "demo_run state sender = detect_signal_requests (demo_ports state sender) demo_roles demo_rules 0 5"

definition start_world :: detector_world where
  "start_world = \<lparr>dw_store = initial_store [], dw_delivered = []\<rparr>"

text \<open>The database server stops; the message reaches the broker, but the call fails.\<close>

definition failed_world :: detector_world where
  "failed_world = snd (demo_run ''stopped'' (\<lambda>_ _. DeliveredThenFailed) start_world)"

text \<open>The next run delivers the pending request again; by the one after, the server is running.\<close>

definition resumed_world :: detector_world where
  "resumed_world = snd (demo_run ''running'' (\<lambda>_ _. Delivered) failed_world)"

definition final_world :: detector_world where
  "final_world = snd (demo_run ''running'' (\<lambda>_ _. Delivered) resumed_world)"

lemma demo_stable: "stable_ids demo_roles"
  by code_simp

text \<open>
  The last run returns; the consumer was told of the failure twice and of the recovery once, and the
  server is committed as healthy.
\<close>

lemma demo_history:
  "(case demo_run ''running'' (\<lambda>_ _. Delivered) resumed_world of
      (Inl _, w) \<Rightarrow> False
    | (Inr sent, w) \<Rightarrow> map recovered sent = [True] \<and> map recovered (reports db_id (dw_delivered w)) = [False, False, True]
        \<and> load_checkpoint (dw_store w) db_id = \<lparr>ck_committed = Some True, ck_pending = None\<rparr>) = True"
  by code_simp

lemma demo_returns:
  obtains sent where "demo_run ''running'' (\<lambda>_ _. Delivered) resumed_world = (Inr sent, final_world)"
  using demo_history by (auto simp: final_world_def split: prod.splits sum.splits)

lemma demo_reports: "map recovered (reports db_id (dw_delivered final_world)) = [False, False, True]"
  using demo_history by (auto simp: final_world_def split: prod.splits sum.splits)

lemma demo_worlds_reachable: "detector_reachable [] resumed_world" "detector_reachable [] final_world"
proof -
  have run: "detector_reachable [] (snd (demo_run state sender w))" if "detector_reachable [] w" for state sender w
    using detector_reachable.Run[OF that demo_stable] unfolding demo_run_def
    by (metis prod.collapse)
  have "detector_reachable [] start_world" unfolding start_world_def by (rule detector_reachable.Start)
  then have "detector_reachable [] failed_world" unfolding failed_world_def by (rule run)
  then show r: "detector_reachable [] resumed_world" unfolding resumed_world_def by (rule run)
  then show "detector_reachable [] final_world" unfolding final_world_def by (rule run)
qed

section \<open>An alert\<close>

definition demo_alert :: json where
  "demo_alert = synthetic_monitor_event demo_platform db_id (signal_rule_name RoleDatabase) EventActivated 0"

definition demo_event :: monitor_event where
  "demo_event = projr (normalize_monitor_event demo_platform demo_alert 0 demo_rules)"

lemma demo_accepted:
  "isl (normalize_monitor_event demo_platform demo_alert 0 demo_rules) = False"
  "isl (normalize_monitor_event demo_platform demo_alert 60000000 demo_rules) = False"
  by code_simp+

lemma demo_normalized: "normalize_monitor_event demo_platform demo_alert 0 demo_rules = Inr demo_event"
  unfolding demo_event_def using demo_accepted(1) by (simp add: sum.collapse(2))

section \<open>An identifier that is not stable\<close>

text \<open>
  With a blank before its closing slash, an identifier changes when it is brought into canonical form
  a second time. The run reads the resource and then misses its checkpoint.
\<close>

definition blank_roles :: approved_roles where
  "blank_roles = [(db_id @ '' /'', RoleDatabase), (web_id, RoleWeb), (lb_id, RoleLoadBalancer)]"

lemma blank_before_slash_breaks_run:
  "isl (validate_approved_resource_roles blank_roles) = False
   \<and> fst (detect_signal_requests (demo_ports ''running'' (\<lambda>_ _. Delivered)) blank_roles demo_rules 0 5 start_world)
     = Inl EventKeyError"
  by code_simp

text \<open>
  When the identifier it changes to is approved as well, the run returns, but nothing is ever committed
  for the identifier with the blank.
\<close>

definition twin_roles :: approved_roles where
  "twin_roles = (web_id @ '' /'', RoleWeb) # demo_roles"

lemma blank_before_slash_never_settles:
  "(case detect_signal_requests (demo_ports ''running'' (\<lambda>_ _. Delivered)) twin_roles demo_rules 0 5 start_world of
      (Inl _, w) \<Rightarrow> False
    | (Inr sent, w) \<Rightarrow>
        load_checkpoint (dw_store w) (web_id @ '' '') = \<lparr>ck_committed = None, ck_pending = None\<rparr>
        \<and> load_checkpoint (dw_store w) web_id = \<lparr>ck_committed = Some True, ck_pending = None\<rparr>) = True"
  by code_simp

end
