(* ===== verification/EventProperties.thy ===== *)
theory EventProperties
  imports EventExample
begin

text \<open>The properties of the events, their routing and the scheduled detector.\<close>

section \<open>Events and routing\<close>

lemma rethrow_as_Inr: "(case m of Inl _ \<Rightarrow> Inl e | Inr x \<Rightarrow> Inr x) = Inr r \<longleftrightarrow> m = Inr r"
  by (cases m) auto

lemma normalized_fields_received:
  "normalized_fields pl source sk source_id i type operation lifecycle severity observed t raw = Inr e
   \<Longrightarrow> normalized_fields pl source sk source_id i type operation lifecycle severity observed t' raw
     = Inr (e\<lparr>me_received_at := t'\<rparr>)"
  by (auto simp: normalized_fields_def Let_def bindR_eq_Inr)

text \<open>Two computations with the same first step.\<close>

lemma bindR_map: "bindR m f = Inr y \<Longrightarrow> (\<And>x. f x = Inr y \<Longrightarrow> g x = Inr z) \<Longrightarrow> bindR m g = Inr z"
  by (auto simp: bindR_eq_Inr)

lemma from_event_grid_received:
  "from_event_grid pl event t = Inr e \<Longrightarrow> from_event_grid pl event t' = Inr (e\<lparr>me_received_at := t'\<rparr>)"
  unfolding from_event_grid_def Let_def by ((erule bindR_map)+, erule normalized_fields_received)

lemma from_common_alert_received:
  "from_common_alert pl event t rules = Inr e
   \<Longrightarrow> from_common_alert pl event t' rules = Inr (e\<lparr>me_received_at := t'\<rparr>)"
  unfolding from_common_alert_def Let_def by ((erule bindR_map)+, erule normalized_fields_received)

lemma to_record_eq: "to_record v = Inr event \<longleftrightarrow> v = JObject event"
  by (cases v) (auto simp: to_record_def)

lemma normalize_monitor_event_Inr:
  "normalize_monitor_event pl v t rules = Inr e \<longleftrightarrow> (\<exists>event fs. v = JObject event \<and>
     (if ''eventType'' \<in> set (map fst event) \<and> ''data'' \<in> set (map fst event) then from_event_grid pl event t
      else if jget event ''schemaId'' = JText ''azureMonitorCommonAlertSchema''
      then from_common_alert pl event t rules else Inl EventNormalizationError) = Inr fs \<and> make_event pl fs = Inr e)"
  unfolding normalize_monitor_event_def bindR_eq_Inr rethrow_as_Inr to_record_eq
  by (rule iffI; elim exE conjE; intro exI conjI; assumption)

text \<open>C33. A payload of Azure that is delivered again and accepted again is the same event, but for the
  time it was received: its identifier, its deduplication key and every other field are those of the
  first delivery.\<close>
theorem redelivered_payload_same_event:
  assumes "normalize_monitor_event pl payload t rules = Inr e"
    and "normalize_monitor_event pl payload t' rules = Inr e'"
  shows "e' = e\<lparr>me_received_at := t'\<rparr>"
proof -
  from assms(1) obtain event fs where ev: "payload = JObject event"
    and fs: "(if ''eventType'' \<in> set (map fst event) \<and> ''data'' \<in> set (map fst event) then from_event_grid pl event t
      else if jget event ''schemaId'' = JText ''azureMonitorCommonAlertSchema''
      then from_common_alert pl event t rules else Inl EventNormalizationError) = Inr fs" and e: "make_event pl fs = Inr e"
    unfolding normalize_monitor_event_Inr by blast
  from fs have fs': "(if ''eventType'' \<in> set (map fst event) \<and> ''data'' \<in> set (map fst event) then from_event_grid pl event t'
      else if jget event ''schemaId'' = JText ''azureMonitorCommonAlertSchema''
      then from_common_alert pl event t' rules else Inl EventNormalizationError) = Inr (fs\<lparr>me_received_at := t'\<rparr>)"
    by (auto split: if_splits dest: from_event_grid_received from_common_alert_received)
  from assms(2) fs' ev have "make_event pl (fs\<lparr>me_received_at := t'\<rparr>) = Inr e'"
    unfolding normalize_monitor_event_Inr by auto
  from make_event_Inr[OF this] make_event_Inr[OF e] show ?thesis by simp
qed

theorem redelivered_payload_same_event_witness:
  "projr (normalize_monitor_event demo_platform demo_alert 60000000 demo_rules)
     = demo_event\<lparr>me_received_at := 60000000\<rparr>"
proof (rule redelivered_payload_same_event[OF demo_normalized])
  show "normalize_monitor_event demo_platform demo_alert 60000000 demo_rules
      = Inr (projr (normalize_monitor_event demo_platform demo_alert 60000000 demo_rules))"
    using demo_accepted(2) by (simp add: sum.collapse(2))
qed

definition hex64 :: "string \<Rightarrow> bool" where
  "hex64 s \<longleftrightarrow> length s = 64 \<and> lower_hex s"

lemma lower_hex_take: "lower_hex s \<Longrightarrow> lower_hex (take n s)"
  unfolding lower_hex_def list_all_iff using set_take_subset[of n s] by blast

lemma tagged_hex_take: "hex64 s \<Longrightarrow> tagged_hex p 12 (p @ take 12 s)"
  by (simp add: tagged_hex_def hex64_def lower_hex_take)

lemma tagged_hex_append: "hex64 s \<Longrightarrow> tagged_hex p 64 (p @ s)"
  by (simp add: tagged_hex_def hex64_def)

lemma digest_of_key: "tagged_hex p 64 k \<Longrightarrow> hex64 (remove_prefix p k)"
  by (auto simp: tagged_hex_def hex64_def remove_prefix_def)

text \<open>C34. Routing decides by the approved roles alone. For an event the contract accepts there is a
  request exactly when its target is approved under a role of its type and its lifecycle is activated
  or resolved, and the request is the one the contract binds to the event: no accepted event makes the
  contract of the request fail.\<close>
theorem routing_is_decided_by_roles:
  assumes digest: "\<forall>s. hex64 (pl_hexdigest pl s)" and e: "make_event pl fs = Inr e"
  shows "build_reassessment_request pl e roles = (case map_of roles (me_target e) of
       None \<Rightarrow> Inl EventRoutingError
     | Some role \<Rightarrow>
         if (role = RoleLoadBalancer) = (me_target_type e = LoadBalancer)
            \<and> me_lifecycle e \<in> {EventActivated, EventResolved}
         then Inr \<lparr>rr_request_id = ''reassess-'' @ take 12 (remove_prefix ''sha256:'' (me_deduplication_key e)),
           rr_incident_id = ''inc-'' @ take 12 (pl_hexdigest pl (me_target e)),
           rr_trigger_event_id = me_event_id e, rr_trigger_event = e, rr_scenario = scenario_of role,
           rr_workload_role = role, rr_target = me_target e, rr_lifecycle = me_lifecycle e,
           rr_idempotency_key = ''wc016-'' @ remove_prefix ''sha256:'' (me_deduplication_key e)\<rparr>
         else Inl EventRoutingError)"
proof -
  from e have f: "event_fields_ok fs" and e': "e = fs\<lparr>me_target := casefold (me_target fs)\<rparr>"
    by (auto simp: make_event_def Let_def split: if_splits)
  then have key: "hex64 (remove_prefix ''sha256:'' (me_deduplication_key e))"
    and ev: "tagged_hex ''evt-'' 12 (me_event_id e)"
    and t: "1 \<le> length (me_target e)" "length (me_target e) \<le> 2048"
    by (auto simp: event_fields_ok_def intro: digest_of_key)
  show ?thesis
  proof (cases "map_of roles (me_target e)")
    case (Some role)
    let ?decided = "(role = RoleLoadBalancer) = (me_target_type e = LoadBalancer)
            \<and> me_lifecycle e \<in> {EventActivated, EventResolved}"
    let ?r = "\<lparr>rr_request_id = ''reassess-'' @ take 12 (remove_prefix ''sha256:'' (me_deduplication_key e)),
           rr_incident_id = ''inc-'' @ take 12 (pl_hexdigest pl (me_target e)),
           rr_trigger_event_id = me_event_id e, rr_trigger_event = e, rr_scenario = scenario_of role,
           rr_workload_role = role, rr_target = me_target e, rr_lifecycle = me_lifecycle e,
           rr_idempotency_key = ''wc016-'' @ remove_prefix ''sha256:'' (me_deduplication_key e)\<rparr>"
    have accepted: "make_request pl ?r = Inr ?r" if ?decided
    proof -
      have scenario: "expected_scenario (me_target_type e) role = Some (scenario_of role)"
        using that by (cases role; cases "me_target_type e") simp_all
      have "request_fields_ok ?r"
        unfolding request_fields_ok_def reassessment_request.simps
        by (intro conjI tagged_hex_take tagged_hex_append key digest[rule_format] ev t)
      moreover have "validate_request_binding pl ?r"
        unfolding validate_request_binding_def Let_def reassessment_request.simps
        by (intro conjI refl scenario)
      ultimately show ?thesis by (simp only: make_request_def simp_thms if_True)
    qed
    have "build_reassessment_request pl e roles = (if ?decided then make_request pl ?r else Inl EventRoutingError)"
      unfolding build_reassessment_request_def Let_def Some requireR_simps bindR_Inr
      by (cases role; cases "me_target_type e"; cases "me_lifecycle e") (simp_all add: guardR_def)
    also have "\<dots> = (if ?decided then Inr ?r else Inl EventRoutingError)"
      using accepted by (rule if_cong[OF refl _ refl])
    finally show ?thesis unfolding Some option.case .
  qed (simp add: build_reassessment_request_def)
qed

lemma lower_hex_append: "lower_hex (xs @ ys) \<longleftrightarrow> lower_hex xs \<and> lower_hex ys"
  by (simp only: lower_hex_def list_all_append)

lemma demo_digest: "hex64 (pl_hexdigest demo_platform s)"
proof -
  have "''0123456789abcdef'' ! (length s mod 16) \<in> set ''0123456789abcdef''" by (rule nth_mem) simp
  then have "lower_hex [''0123456789abcdef'' ! (length s mod 16)]" by (simp only: lower_hex_def list_all_iff) simp
  moreover have "lower_hex ''aaaaaaaaaaa''" "lower_hex ''bbbbbbbbbbbbbbbbbbbbbbbbbbbbbbbbbbbbbbbbbbbbbbbbbbbb''" by code_simp+
  ultimately show ?thesis
    unfolding hex64_def demo_platform_def demo_hexdigest_def platform.simps lower_hex_append by simp
qed

theorem routing_is_decided_by_roles_witness:
  "map rr_scenario [projr (build_reassessment_request demo_platform demo_event demo_roles)]
     = [SingletonDatabaseFailure]
   \<and> build_reassessment_request demo_platform demo_event [] = Inl EventRoutingError"
proof -
  obtain fs where made: "make_event demo_platform fs = Inr demo_event"
    using demo_normalized unfolding normalize_monitor_event_Inr by blast
  have target: "me_target demo_event = db_id" and alert: "me_lifecycle demo_event = EventActivated"
    and type: "me_target_type demo_event = VirtualMachine"
    by code_simp+
  have digest: "\<forall>s. hex64 (pl_hexdigest demo_platform s)" using demo_digest by blast
  note decided = routing_is_decided_by_roles[OF digest made]
  have role: "map_of demo_roles db_id = Some RoleDatabase" by (simp add: demo_roles_def)
  show ?thesis unfolding decided target alert type role by simp
qed

section \<open>The detector\<close>

text \<open>C35. In every reachable world the consumer of the messages sees a sound history of each resource:
  its reports alternate between the two states of health, starting with the one opposite to the
  initial state, save that a report may be repeated; and when no transition of the resource is
  pending, the last report is the health the store has committed. Runs may fail anywhere, with a
  message delivered or not; every run is given approved identifiers that do not change when they are
  brought into canonical form a second time.\<close>
theorem reports_alternate:
  assumes "detector_reachable initial w"
  shows "alternates (initial_health initial (casefold i)) (reports (casefold i) (dw_delivered w))
    \<and> (ck_pending (load_checkpoint (dw_store w) i) = None
       \<longrightarrow> reported (initial_health initial (casefold i)) (reports (casefold i) (dw_delivered w))
         = assumed_health (ck_committed (load_checkpoint (dw_store w) i)))"
proof -
  have "point_ok (initial_health initial (casefold i)) (casefold i)
      (load_checkpoint (dw_store w) (casefold i)) (reports (casefold i) (dw_delivered w))"
    using reachable_ok[OF assms] by (simp add: world_ok_load reports_ok_def)
  then show ?thesis by (auto simp: point_ok_def mem.load_key)
qed

theorem reports_alternate_witness:
  "alternates True (reports db_id (dw_delivered final_world))
   \<and> map recovered (reports db_id (dw_delivered final_world)) = [False, False, True]"
proof -
  have "casefold db_id = db_id" and "initial_health [] db_id = True" by code_simp+
  with reports_alternate[OF demo_worlds_reachable(2), of db_id] demo_reports show ?thesis by simp
qed

text \<open>C36. A run that returns in a reachable world, and whose approved identifiers do not change when
  they are brought into canonical form a second time, leaves nothing pending for the approved
  resources: every resource is committed to the health of its pending transition, which was delivered
  again, or else to the health this run has read; and every request it returns has been delivered.
  The detector does not check the condition on the identifiers, and without it the statement fails:
  the lemma \<open>blank_before_slash_never_settles\<close> of theory EventExample evaluates a run that returns
  and leaves an approved resource uncommitted.\<close>
theorem runs_settle_every_resource:
  assumes "detector_reachable initial w" and "stable_ids approved"
    and "detect_signal_requests po approved rules t minutes w = (Inr sent, w')"
  shows "set sent \<subseteq> requests w' \<and> (\<exists>roles. validate_approved_resource_roles approved = Inr roles
    \<and> list_all (settled po t minutes w w') roles)"
  using detect_signal_requests_safe(2)[OF reachable_ok[OF assms(1)] assms(2,3) refl reachable_free[OF assms(1)]]
  by (simp add: list_all_iff)

theorem runs_settle_every_resource_witness:
  "list_all (settled (demo_ports ''running'' (\<lambda>_ _. Delivered)) 0 5 resumed_world final_world) demo_roles"
proof -
  obtain sent where run: "detect_signal_requests (demo_ports ''running'' (\<lambda>_ _. Delivered)) demo_roles demo_rules 0 5
      resumed_world = (Inr sent, final_world)"
    using demo_returns unfolding demo_run_def by blast
  have "validate_approved_resource_roles demo_roles = Inr demo_roles" by code_simp
  with runs_settle_every_resource[OF demo_worlds_reachable(1) demo_stable run] show ?thesis by auto
qed

end
