(* ===== verification/IncidentModel.thy ===== *)
theory IncidentModel
  imports EventModel
begin

text \<open>
  Incidents and their signed feed: the incident classes of \<open>contracts/eventing.py\<close>, the class
  \<open>VersionPinnedBlobReference\<close> of \<open>contracts/operational_phase.py\<close> and the asset classes of
  \<open>presentation_assets.py\<close>, each with its validators. Bytes are text here, which is exact for ASCII;
  the constant fields of a class are left out.
\<close>

section \<open>The environment\<close>

text \<open>\<open>s.removesuffix(e)\<close>\<close>

definition remove_suffix :: "string \<Rightarrow> string \<Rightarrow> string" where
  "remove_suffix e s = (if suffix e s then take (length s - length e) s else s)"

definition incident_guard :: "bool \<Rightarrow> event_error + unit" where
  "incident_guard b = guardR b IncidentValueError"

definition digest_text :: "string \<Rightarrow> bool" where
  "digest_text = tagged_hex ''sha256:'' 64"

section \<open>Incident states\<close>

datatype finding_verdict = VerdictPass | VerdictFail | VerdictResolved | VerdictReview

record incident_finding =
  fi_clause_id :: string
  fi_verdict :: finding_verdict
  fi_summary :: string
  fi_evidence_refs :: "string list"

definition finding_ok :: "incident_finding \<Rightarrow> bool" where
  "finding_ok f \<longleftrightarrow> 1 \<le> length (fi_clause_id f) \<and> length (fi_clause_id f) \<le> 128
     \<and> 1 \<le> length (fi_summary f) \<and> length (fi_summary f) \<le> 512
     \<and> 1 \<le> length (fi_evidence_refs f) \<and> length (fi_evidence_refs f) \<le> 32"

datatype incident_lifecycle =
  IncidentDetected | IncidentQueued | IncidentReassessing | IncidentActive | IncidentRecoveryObserved | IncidentResolved

datatype availability = AvailabilityNormal | AvailabilityWarning | AvailabilityCritical | AvailabilityUnknown

datatype blast_radius = RadiusNone | WebTier | IngressEdge | DataTier | WholeWorkload | RadiusUnknown

datatype operator_attention = AttentionNormal | AttentionRequired | AttentionUrgent

datatype notification_status = NotRequired | PendingDispatch

text \<open>The fields that the digest of a state covers, then the state.\<close>

record unsigned_state =
  is_incident_id :: string
  is_transition_id :: string
  is_scenario :: incident_scenario
  is_lifecycle :: incident_lifecycle
  is_workload_role :: workload_role
  is_detected_at :: int
  is_updated_at :: int
  is_target_binding :: string
  is_availability :: availability
  is_blast_radius :: blast_radius
  is_attention :: operator_attention
  is_findings :: "incident_finding list"
  is_reasoning :: "string list"
  is_notification :: notification_status

record incident_state = unsigned_state +
  is_result_digest :: string

definition state_fields_ok :: "incident_state \<Rightarrow> bool" where
  "state_fields_ok s \<longleftrightarrow> tagged_hex ''inc-'' 12 (is_incident_id s) \<and> tagged_hex ''wc016-'' 64 (is_transition_id s)
     \<and> digest_text (is_target_binding s)
     \<and> 1 \<le> length (is_findings s) \<and> length (is_findings s) \<le> 32
     \<and> 1 \<le> length (is_reasoning s) \<and> length (is_reasoning s) \<le> 16
     \<and> digest_text (is_result_digest s)"

definition validate_lifecycle_claim :: "incident_state \<Rightarrow> bool" where
  "validate_lifecycle_claim s \<longleftrightarrow> is_detected_at s \<le> is_updated_at s
     \<and> (is_lifecycle s = IncidentActive \<longrightarrow> is_availability s \<noteq> AvailabilityNormal)
     \<and> (is_lifecycle s = IncidentResolved \<longrightarrow> is_availability s = AvailabilityNormal)
     \<and> (is_notification s = PendingDispatch \<longleftrightarrow> is_lifecycle s \<in> {IncidentActive, IncidentResolved})"

definition make_state :: "incident_state \<Rightarrow> event_error + incident_state" where
  "make_state s = bindR (incident_guard (state_fields_ok s \<and> validate_lifecycle_claim s)) (\<lambda>_. Inr s)"

text \<open>
  The three attestation classes have the same fields, but for the names in their JSON: a digest, the
  key and the detached signature.
\<close>

record attestation =
  at_digest :: string
  at_key :: string
  at_signature :: string

definition signature_char :: "char \<Rightarrow> bool" where
  "signature_char c \<longleftrightarrow> is_alnum c \<or> c = CHR ''_'' \<or> c = CHR ''-''"

definition make_attestation :: "attestation \<Rightarrow> event_error + attestation" where
  "make_attestation a = bindR (incident_guard (digest_text (at_digest a)
       \<and> 1 \<le> length (at_key a) \<and> length (at_key a) \<le> 512
       \<and> at_signature a \<noteq> [] \<and> list_all signature_char (at_signature a))) (\<lambda>_. Inr a)"

record verified_result =
  vr_request_id :: string
  vr_snapshot_id :: string
  vr_observed_at :: int
  vr_target_binding :: string
  vr_healthy :: bool
  vr_findings :: "incident_finding list"
  vr_reasoning :: "string list"

definition make_result :: "verified_result \<Rightarrow> event_error + verified_result" where
  "make_result r = bindR (incident_guard (tagged_hex ''reassess-'' 12 (vr_request_id r)
       \<and> 1 \<le> length (vr_snapshot_id r) \<and> length (vr_snapshot_id r) \<le> 128 \<and> digest_text (vr_target_binding r)
       \<and> 1 \<le> length (vr_findings r) \<and> length (vr_findings r) \<le> 32
       \<and> 1 \<le> length (vr_reasoning r) \<and> length (vr_reasoning r) \<le> 16)) (\<lambda>_. Inr r)"

definition make_incident_finding :: "incident_finding \<Rightarrow> event_error + incident_finding" where
  "make_incident_finding f = bindR (incident_guard (finding_ok f)) (\<lambda>_. Inr f)"

record notification =
  nt_id :: string
  nt_transition_id :: string
  nt_incident_id :: string
  nt_lifecycle :: incident_lifecycle
  nt_message :: string

definition make_notification :: "notification \<Rightarrow> event_error + notification" where
  "make_notification n = bindR (incident_guard (tagged_hex ''notify-'' 64 (nt_id n)
       \<and> tagged_hex ''wc016-'' 64 (nt_transition_id n) \<and> tagged_hex ''inc-'' 12 (nt_incident_id n)
       \<and> 1 \<le> length (nt_message n) \<and> length (nt_message n) \<le> 4096)) (\<lambda>_. Inr n)"

section \<open>Pointers and the active index\<close>

record feed_pointer =
  fp_incident_id :: string
  fp_state_path :: string
  fp_state_sha :: string
  fp_attestation_path :: string
  fp_attestation_sha :: string
  fp_pointer_attestation_path :: string
  fp_key_id :: string
  fp_key_fingerprint :: string
  fp_published_at :: int

text \<open>The pattern of a path: \<open>./incidents/\<close>, then at least one character of a path, then \<open>.json\<close>.\<close>

definition feed_path :: "string \<Rightarrow> bool" where
  "feed_path p \<longleftrightarrow> prefix ''./incidents/'' p \<and> suffix ''.json'' p \<and> 18 \<le> length p
     \<and> list_all (\<lambda>c. is_digit c \<or> is_lower c \<or> c = CHR ''.'' \<or> c = CHR ''/'' \<or> c = CHR ''-'')
         (drop 12 (take (length p - 5) p))"

definition pointer_fields_ok :: "feed_pointer \<Rightarrow> bool" where
  "pointer_fields_ok p \<longleftrightarrow> tagged_hex ''inc-'' 12 (fp_incident_id p)
     \<and> feed_path (fp_state_path p) \<and> digest_text (fp_state_sha p)
     \<and> feed_path (fp_attestation_path p) \<and> digest_text (fp_attestation_sha p)
     \<and> feed_path (fp_pointer_attestation_path p)
     \<and> 1 \<le> length (fp_key_id p) \<and> length (fp_key_id p) \<le> 512 \<and> digest_text (fp_key_fingerprint p)"

definition validate_incident_paths :: "feed_pointer \<Rightarrow> bool" where
  "validate_incident_paths p \<longleftrightarrow>
     (let pre = ''./incidents/'' @ fp_incident_id p @ ''/versions/'';
          version = drop (length pre) (take (length (fp_state_path p) - length ''/state.json'') (fp_state_path p))
      in prefix pre (fp_state_path p) \<and> suffix ''/state.json'' (fp_state_path p)
         \<and> length version = 64 \<and> lower_hex version
         \<and> fp_attestation_path p = pre @ version @ ''/attestation.json''
         \<and> fp_pointer_attestation_path p = pre @ version @ ''/pointer-attestation.json'')"

definition make_pointer :: "feed_pointer \<Rightarrow> event_error + feed_pointer" where
  "make_pointer p = bindR (incident_guard (pointer_fields_ok p \<and> validate_incident_paths p)) (\<lambda>_. Inr p)"

record active_entry =
  ae_incident_id :: string
  ae_scenario :: incident_scenario
  ae_workload_role :: workload_role
  ae_pointer_path :: string
  ae_pointer_sha :: string
  ae_detected_at :: int
  ae_updated_at :: int

text \<open>
  The pattern of a pointer path is a fixed length: an incident, a version of 64 hexadecimal digits and
  the file.
\<close>

definition pointer_path_ok :: "string \<Rightarrow> bool" where
  "pointer_path_ok p \<longleftrightarrow> length p = 115
     \<and> take 12 p = ''./incidents/'' \<and> tagged_hex ''inc-'' 12 (take 16 (drop 12 p))
     \<and> take 10 (drop 28 p) = ''/versions/'' \<and> lower_hex (take 64 (drop 38 p))
     \<and> drop 102 p = ''/pointer.json''"

definition make_entry :: "active_entry \<Rightarrow> event_error + active_entry" where
  "make_entry e = bindR (incident_guard (tagged_hex ''inc-'' 12 (ae_incident_id e)
       \<and> pointer_path_ok (ae_pointer_path e) \<and> digest_text (ae_pointer_sha e)
       \<and> prefix (''./incidents/'' @ ae_incident_id e @ ''/versions/'') (ae_pointer_path e)
       \<and> ae_detected_at e \<le> ae_updated_at e)) (\<lambda>_. Inr e)"

record active_index =
  ai_incidents :: "active_entry list"
  ai_attestation_path :: string
  ai_key_id :: string
  ai_key_fingerprint :: string
  ai_published_at :: int

definition index_path_ok :: "string \<Rightarrow> bool" where
  "index_path_ok p \<longleftrightarrow> length p = 100
     \<and> take 31 p = ''./incidents/index-attestations/'' \<and> lower_hex (take 64 (drop 31 p)) \<and> drop 95 p = ''.json''"

definition index_ids :: "active_index \<Rightarrow> string list" where
  "index_ids i = map ae_incident_id (ai_incidents i)"

definition make_index :: "active_index \<Rightarrow> event_error + active_index" where
  "make_index i = bindR (incident_guard (length (ai_incidents i) \<le> 64 \<and> index_path_ok (ai_attestation_path i)
       \<and> 1 \<le> length (ai_key_id i) \<and> length (ai_key_id i) \<le> 512 \<and> digest_text (ai_key_fingerprint i)
       \<and> index_ids i = sort (index_ids i) \<and> distinct (index_ids i))) (\<lambda>_. Inr i)"

section \<open>Receipts\<close>

record blob_reference =
  br_name :: string
  br_version :: string
  br_digest :: string

definition relative_name_ok :: "string \<Rightarrow> bool" where
  "relative_name_ok s \<longleftrightarrow> 1 \<le> length s \<and> length s \<le> 512
     \<and> is_alnum (hd s) \<and> is_alnum (last s)
     \<and> list_all (\<lambda>c. is_alnum c \<or> c \<in> {CHR ''.'', CHR ''_'', CHR ''/'', CHR ''-''}) s
     \<and> set (split_on CHR ''/'' s) \<inter> {[], ''.'', ''..''} = {}"

definition make_reference :: "blob_reference \<Rightarrow> event_error + blob_reference" where
  "make_reference r = bindR (incident_guard (relative_name_ok (br_name r)
       \<and> 1 \<le> length (br_version r) \<and> length (br_version r) \<le> 256 \<and> is_alnum (hd (br_version r))
       \<and> list_all (\<lambda>c. is_alnum c \<or> c \<in> {CHR ''.'', CHR ''_'', CHR '':'', CHR ''+'', CHR ''/'', CHR ''-''}) (br_version r)
       \<and> digest_text (br_digest r))) (\<lambda>_. Inr r)"

text \<open>The fields that the digest of an occurrence covers, then the receipt.\<close>

record occurrence_body =
  oc_incident_id :: string
  oc_transition_id :: string
  oc_state_digest :: string
  oc_state :: blob_reference
  oc_state_attestation :: blob_reference
  oc_pointer :: blob_reference
  oc_pointer_attestation :: blob_reference
  oc_published_at :: int

record occurrence = occurrence_body +
  oc_id :: string
  oc_digest :: string

text \<open>
  Canonical bytes and digests, parsing, signatures and base64. \<open>canonicalize_json\<close> refuses instants
  that are not whole milliseconds, and text that only begins like a timestamp, so each of its uses may
  fail. \<open>fc_preimage\<close> is the signed form of a state as it is built, \<open>fc_dumped_preimage\<close> that of a state
  dumped as JSON first.
\<close>

record feed_codec =
  fc_hexdigest :: "string \<Rightarrow> string"
  fc_preimage :: "unsigned_state \<Rightarrow> string option"
  fc_dumped_preimage :: "unsigned_state \<Rightarrow> string option"
  fc_state :: "incident_state \<Rightarrow> string option"
  fc_parse_state :: "string \<Rightarrow> incident_state option"
  fc_state_attestation :: "attestation \<Rightarrow> string option"
  fc_parse_state_attestation :: "string \<Rightarrow> attestation option"
  fc_pointer :: "feed_pointer \<Rightarrow> string option"
  fc_parse_pointer :: "string \<Rightarrow> feed_pointer option"
  fc_pointer_attestation :: "attestation \<Rightarrow> string option"
  fc_parse_pointer_attestation :: "string \<Rightarrow> attestation option"
  fc_index :: "active_index \<Rightarrow> string option"
  fc_parse_index :: "string \<Rightarrow> active_index option"
  fc_index_seed :: "active_entry list \<Rightarrow> string \<Rightarrow> string \<Rightarrow> int \<Rightarrow> string option"
  fc_index_attestation :: "attestation \<Rightarrow> string option"
  fc_parse_index_attestation :: "string \<Rightarrow> attestation option"
  fc_occurrence_digest :: "occurrence_body \<Rightarrow> string option"
  fc_occurrence :: "occurrence \<Rightarrow> string option"
  fc_sign :: "string \<Rightarrow> string option"
  fc_verify :: "string \<Rightarrow> string \<Rightarrow> bool"
  fc_b64decode :: "string \<Rightarrow> string option"
  fc_b64url :: "string \<Rightarrow> string"

definition digest_of :: "feed_codec \<Rightarrow> string \<Rightarrow> string" where
  "digest_of fc s = ''sha256:'' @ fc_hexdigest fc s"

definition canonical :: "('a \<Rightarrow> string option) \<Rightarrow> 'a \<Rightarrow> event_error + string" where
  "canonical f x = requireR (f x) CanonicalJsonError"

text \<open>
  \<open>model_validate_json\<close>: the fields of the text, then the validators of the class and of its parts. A
  \<open>try\<close> that turns an error into another is \<open>otherwise\<close>.
\<close>

definition parsed :: "(string \<Rightarrow> 'a option) \<Rightarrow> ('a \<Rightarrow> event_error + 'b) \<Rightarrow> string \<Rightarrow> event_error + 'b" where
  "parsed f validate s = bindR (requireR (f s) IncidentValueError) validate"

definition parse_state :: "feed_codec \<Rightarrow> string \<Rightarrow> event_error + incident_state" where
  "parse_state fc = parsed (fc_parse_state fc) (\<lambda>s. bindR (mapR make_incident_finding (is_findings s)) (\<lambda>_. make_state s))"

definition parse_state_attestation :: "feed_codec \<Rightarrow> string \<Rightarrow> event_error + attestation" where
  "parse_state_attestation fc = parsed (fc_parse_state_attestation fc) make_attestation"

definition parse_pointer :: "feed_codec \<Rightarrow> string \<Rightarrow> event_error + feed_pointer" where
  "parse_pointer fc = parsed (fc_parse_pointer fc) make_pointer"

definition parse_pointer_attestation :: "feed_codec \<Rightarrow> string \<Rightarrow> event_error + attestation" where
  "parse_pointer_attestation fc = parsed (fc_parse_pointer_attestation fc) make_attestation"

definition parse_index :: "feed_codec \<Rightarrow> string \<Rightarrow> event_error + active_index" where
  "parse_index fc = parsed (fc_parse_index fc) (\<lambda>i. bindR (mapR make_entry (ai_incidents i)) (\<lambda>_. make_index i))"

definition parse_index_attestation :: "feed_codec \<Rightarrow> string \<Rightarrow> event_error + attestation" where
  "parse_index_attestation fc = parsed (fc_parse_index_attestation fc) make_attestation"

definition otherwise :: "event_error \<Rightarrow> event_error + 'a \<Rightarrow> event_error + 'a" where
  "otherwise e m = (case m of Inl _ \<Rightarrow> Inl e | Inr x \<Rightarrow> Inr x)"

definition version_prefix :: "string \<Rightarrow> string \<Rightarrow> string" where
  "version_prefix i version = ''incidents/'' @ i @ ''/versions/'' @ version"

definition make_occurrence :: "feed_codec \<Rightarrow> occurrence \<Rightarrow> event_error + occurrence" where
  "make_occurrence fc oc =
     (let pre = version_prefix (oc_incident_id oc) (remove_prefix ''sha256:'' (oc_state_digest oc))
      in bindR (incident_guard (tagged_hex ''incident-occurrence-'' 32 (oc_id oc) \<and> tagged_hex ''inc-'' 12 (oc_incident_id oc)
             \<and> tagged_hex ''wc016-'' 64 (oc_transition_id oc) \<and> digest_text (oc_state_digest oc) \<and> digest_text (oc_digest oc)
             \<and> br_name (oc_state oc) = pre @ ''/state.json'' \<and> br_name (oc_state_attestation oc) = pre @ ''/attestation.json''
             \<and> br_name (oc_pointer oc) = pre @ ''/pointer.json''
             \<and> br_name (oc_pointer_attestation oc) = pre @ ''/pointer-attestation.json'')) (\<lambda>_.
         bindR (canonical (fc_occurrence_digest fc) (occurrence_body.truncate oc)) (\<lambda>expected.
         bindR (incident_guard (oc_digest oc = expected
             \<and> oc_id oc = ''incident-occurrence-'' @ take 32 (remove_prefix ''sha256:'' expected))) (\<lambda>_.
         bindR (canonical (fc_occurrence fc) oc) (\<lambda>bytes.
         bindR (incident_guard (length bytes \<le> 16 * 1024)) (\<lambda>_. Inr oc))))))"

definition build_incident_occurrence_receipt ::
    "feed_codec \<Rightarrow> incident_state \<Rightarrow> attestation \<Rightarrow> feed_pointer \<Rightarrow> attestation
     \<Rightarrow> blob_reference \<Rightarrow> blob_reference \<Rightarrow> blob_reference \<Rightarrow> blob_reference \<Rightarrow> event_error + occurrence" where
  "build_incident_occurrence_receipt fc s sa p pa state_ref state_att_ref pointer_ref pointer_att_ref =
     bindR (canonical (fc_state fc) s) (\<lambda>state_bytes.
     bindR (canonical (fc_state_attestation fc) sa) (\<lambda>state_att_bytes.
     bindR (canonical (fc_pointer fc) p) (\<lambda>pointer_bytes.
     bindR (canonical (fc_pointer_attestation fc) pa) (\<lambda>pointer_att_bytes.
     bindR (canonical (fc_dumped_preimage fc) (unsigned_state.truncate s)) (\<lambda>preimage.
     bindR (incident_guard (is_result_digest s = digest_of fc preimage \<and> at_digest sa = is_result_digest s
         \<and> at_key sa = at_key pa \<and> fp_incident_id p = is_incident_id s
         \<and> fp_state_sha p = digest_of fc state_bytes \<and> remove_prefix ''./'' (fp_state_path p) = br_name state_ref
         \<and> fp_attestation_sha p = digest_of fc state_att_bytes
         \<and> remove_prefix ''./'' (fp_attestation_path p) = br_name state_att_ref
         \<and> remove_prefix ''./'' (remove_suffix ''/state.json'' (fp_state_path p)) @ ''/pointer.json'' = br_name pointer_ref
         \<and> remove_prefix ''./'' (fp_pointer_attestation_path p) = br_name pointer_att_ref
         \<and> at_digest pa = digest_of fc pointer_bytes
         \<and> br_digest state_ref = digest_of fc state_bytes \<and> br_digest state_att_ref = digest_of fc state_att_bytes
         \<and> br_digest pointer_ref = digest_of fc pointer_bytes
         \<and> br_digest pointer_att_ref = digest_of fc pointer_att_bytes
         \<and> is_updated_at s \<le> fp_published_at p)) (\<lambda>_.
     let body = \<lparr>oc_incident_id = is_incident_id s, oc_transition_id = is_transition_id s,
           oc_state_digest = is_result_digest s, oc_state = state_ref, oc_state_attestation = state_att_ref,
           oc_pointer = pointer_ref, oc_pointer_attestation = pointer_att_ref, oc_published_at = fp_published_at p\<rparr>
     in bindR (canonical (fc_occurrence_digest fc) body) (\<lambda>digest.
        make_occurrence fc (occurrence_body.extend body (occurrence.fields
          (''incident-occurrence-'' @ take 32 (remove_prefix ''sha256:'' digest)) digest)))))))))"

section \<open>Assets and publications\<close>

record asset =
  as_name :: string
  as_payload :: string
  as_sha :: string
  as_maximum :: nat

definition make_asset :: "feed_codec \<Rightarrow> asset \<Rightarrow> event_error + asset" where
  "make_asset fc a = bindR (incident_guard (as_name a \<noteq> [] \<and> \<not> prefix ''/'' (as_name a) \<and> \<not> suffix ''/'' (as_name a)
       \<and> CHR 0x5C \<notin> set (as_name a) \<and> CHR ''%'' \<notin> set (as_name a)
       \<and> set (split_on CHR ''/'' (as_name a)) \<inter> {[], ''.'', ''..''} = {}
       \<and> as_payload a \<noteq> [] \<and> length (as_payload a) \<le> as_maximum a
       \<and> as_sha a = digest_of fc (as_payload a))) (\<lambda>_. Inr a)"

definition asset_of :: "feed_codec \<Rightarrow> string \<Rightarrow> string \<Rightarrow> nat \<Rightarrow> event_error + asset" where
  "asset_of fc name payload maximum =
     make_asset fc \<lparr>as_name = name, as_payload = payload, as_sha = digest_of fc payload, as_maximum = maximum\<rparr>"

record index_publication =
  ip_index :: active_index
  ip_attestation :: attestation
  ip_asset :: asset
  ip_attestation_asset :: asset
  ip_previous_sha :: "string option"

definition validate_active_incident_index_assets ::
    "feed_codec \<Rightarrow> active_index \<Rightarrow> attestation \<Rightarrow> asset \<Rightarrow> asset \<Rightarrow> string option \<Rightarrow> event_error + unit" where
  "validate_active_incident_index_assets fc i a i_asset a_asset previous =
     bindR (canonical (fc_index fc) i) (\<lambda>bytes.
     bindR (canonical (fc_index_attestation fc) a) (\<lambda>attestation_bytes.
     incident_guard (as_name i_asset = ''incidents/active.json'' \<and> as_payload i_asset = bytes
       \<and> as_sha i_asset = digest_of fc bytes \<and> at_digest a = digest_of fc bytes
       \<and> as_name a_asset = remove_prefix ''./'' (ai_attestation_path i) \<and> as_payload a_asset = attestation_bytes
       \<and> (case previous of None \<Rightarrow> True | Some sha \<Rightarrow> prefix ''sha256:'' sha))))"

definition make_index_publication :: "feed_codec \<Rightarrow> index_publication \<Rightarrow> event_error + index_publication" where
  "make_index_publication fc p =
     bindR (validate_active_incident_index_assets fc (ip_index p) (ip_attestation p) (ip_asset p)
       (ip_attestation_asset p) (ip_previous_sha p)) (\<lambda>_. Inr p)"

record incident_publication =
  pb_pointer :: feed_pointer
  pb_pointer_attestation :: attestation
  pb_pointer_asset :: asset
  pb_current_pointer_asset :: asset
  pb_pointer_attestation_asset :: asset
  pb_state :: asset
  pb_attestation :: asset
  pb_index :: index_publication

definition entry_for :: "active_index \<Rightarrow> string \<Rightarrow> active_entry option" where
  "entry_for i incident = find (\<lambda>e. ae_incident_id e = incident) (ai_incidents i)"

definition occurrence_indexed :: "active_index \<Rightarrow> incident_state \<Rightarrow> asset \<Rightarrow> bool" where
  "occurrence_indexed i s pointer_asset =
     (if is_lifecycle s = IncidentActive
      then (case entry_for i (is_incident_id s) of
          None \<Rightarrow> False
        | Some e \<Rightarrow> ae_scenario e = is_scenario s \<and> ae_workload_role e = is_workload_role s
            \<and> ae_pointer_path e = ''./'' @ as_name pointer_asset \<and> ae_pointer_sha e = as_sha pointer_asset
            \<and> ae_detected_at e = is_detected_at s \<and> ae_updated_at e = is_updated_at s)
      else entry_for i (is_incident_id s) = None)"

definition make_incident_publication :: "feed_codec \<Rightarrow> incident_publication \<Rightarrow> event_error + incident_publication" where
  "make_incident_publication fc b =
     (let p = pb_pointer b
      in bindR (canonical (fc_pointer fc) p) (\<lambda>bytes.
         bindR (canonical (fc_pointer_attestation fc) (pb_pointer_attestation b)) (\<lambda>attestation_bytes.
         bindR (incident_guard (at_digest (pb_pointer_attestation b) = digest_of fc bytes
             \<and> as_name (pb_pointer_asset b)
                = remove_prefix ''./'' (remove_suffix ''/state.json'' (fp_state_path p)) @ ''/pointer.json''
             \<and> as_payload (pb_pointer_asset b) = bytes \<and> as_sha (pb_pointer_asset b) = digest_of fc bytes
             \<and> as_name (pb_current_pointer_asset b) = ''incidents/'' @ fp_incident_id p @ ''/current.json''
             \<and> as_payload (pb_current_pointer_asset b) = bytes \<and> as_sha (pb_current_pointer_asset b) = digest_of fc bytes
             \<and> as_name (pb_pointer_attestation_asset b) = remove_prefix ''./'' (fp_pointer_attestation_path p)
             \<and> as_payload (pb_pointer_attestation_asset b) = attestation_bytes
             \<and> as_name (pb_state b) = remove_prefix ''./'' (fp_state_path p) \<and> as_sha (pb_state b) = fp_state_sha p
             \<and> as_name (pb_attestation b) = remove_prefix ''./'' (fp_attestation_path p)
             \<and> as_sha (pb_attestation b) = fp_attestation_sha p)) (\<lambda>_.
         bindR (parse_state fc (as_payload (pb_state b))) (\<lambda>s.
         bindR (incident_guard (occurrence_indexed (ip_index (pb_index b)) s (pb_pointer_asset b))) (\<lambda>_.
         bindR (make_index_publication fc (pb_index b)) (\<lambda>_. Inr b)))))))"

section \<open>Snapshots\<close>

record index_snapshot =
  sn_index :: active_index
  sn_sha :: string

definition make_index_snapshot :: "feed_codec \<Rightarrow> index_snapshot \<Rightarrow> event_error + index_snapshot" where
  "make_index_snapshot fc s = bindR (canonical (fc_index fc) (sn_index s)) (\<lambda>bytes.
     bindR (incident_guard (sn_sha s = digest_of fc bytes)) (\<lambda>_. Inr s))"

record current_state =
  cs_state :: incident_state
  cs_pointer :: feed_pointer
  cs_pointer_sha :: string
  cs_occurrence :: "occurrence option"

definition occurrence_bound :: "string \<Rightarrow> string \<Rightarrow> string \<Rightarrow> occurrence \<Rightarrow> bool" where
  "occurrence_bound incident transition pointer_sha oc \<longleftrightarrow> oc_incident_id oc = incident
     \<and> oc_transition_id oc = transition \<and> br_digest (oc_pointer oc) = pointer_sha"

definition make_current_state :: "feed_codec \<Rightarrow> current_state \<Rightarrow> event_error + current_state" where
  "make_current_state fc c =
     bindR (canonical (fc_state fc) (cs_state c)) (\<lambda>state_bytes.
     bindR (canonical (fc_pointer fc) (cs_pointer c)) (\<lambda>pointer_bytes.
     bindR (incident_guard (fp_incident_id (cs_pointer c) = is_incident_id (cs_state c)
         \<and> fp_state_sha (cs_pointer c) = digest_of fc state_bytes \<and> cs_pointer_sha c = digest_of fc pointer_bytes
         \<and> (case cs_occurrence c of None \<Rightarrow> True
            | Some oc \<Rightarrow> occurrence_bound (is_incident_id (cs_state c)) (is_transition_id (cs_state c)) (cs_pointer_sha c) oc)))
       (\<lambda>_. Inr c)))"

record publication_receipt =
  pr_incident_id :: string
  pr_pointer_sha :: string
  pr_index_sha :: string
  pr_occurrence :: "occurrence option"

definition make_publication_receipt :: "publication_receipt \<Rightarrow> event_error + publication_receipt" where
  "make_publication_receipt r = bindR (incident_guard (case pr_occurrence r of None \<Rightarrow> True
     | Some oc \<Rightarrow> oc_incident_id oc = pr_incident_id r \<and> br_digest (oc_pointer oc) = pr_pointer_sha r)) (\<lambda>_. Inr r)"

end
