(* ===== verification/IncidentFeed.thy ===== *)
theory IncidentFeed
  imports IncidentModel KeyedDict
begin

text \<open>
  What an incident is published as (\<open>eventing/incident_state.py\<close>): the signed state, the pointer to it,
  and the active index with the incident entered or removed. An index that would not change is
  published again as it is; any other index is published later than its predecessor.
\<close>

section \<open>Signatures and keys\<close>

record signing =
  sg_key_id :: string
  sg_vault_key_id :: string
  sg_fingerprint :: string

text \<open>\<open>_base64url_signature(signer.sign_preimage(preimage))\<close>; \<open>sg_vault_key_id\<close> is never empty.\<close>

definition detached_signature :: "feed_codec \<Rightarrow> string \<Rightarrow> event_error + string" where
  "detached_signature fc preimage =
     bindR (requireR (fc_sign fc preimage) IncidentPortError) (\<lambda>value.
     bindR (requireR (fc_b64decode fc value) IncidentValueError) (\<lambda>signature.
     bindR (incident_guard (signature \<noteq> [])) (\<lambda>_. Inr (fc_b64url fc signature))))"

section \<open>The signed state\<close>

fun active_impact :: "incident_scenario \<Rightarrow> availability \<times> blast_radius \<times> operator_attention" where
  "active_impact SingletonDatabaseFailure = (AvailabilityCritical, WholeWorkload, AttentionUrgent)"
| "active_impact WebServerFailure = (AvailabilityWarning, WebTier, AttentionRequired)"
| "active_impact LoadBalancerFailure = (AvailabilityCritical, IngressEdge, AttentionUrgent)"

definition unsigned_state_of :: "reassessment_request \<Rightarrow> int \<Rightarrow> int \<Rightarrow> verified_result \<Rightarrow> unsigned_state" where
  "unsigned_state_of r detected updated result =
     (case (if vr_healthy result then (AvailabilityNormal, RadiusNone, AttentionNormal)
            else active_impact (rr_scenario r)) of (availability, radius, attention) \<Rightarrow>
       \<lparr>is_incident_id = rr_incident_id r, is_transition_id = rr_idempotency_key r, is_scenario = rr_scenario r,
        is_lifecycle = (if vr_healthy result then IncidentResolved else IncidentActive),
        is_workload_role = rr_workload_role r, is_detected_at = detected, is_updated_at = updated,
        is_target_binding = vr_target_binding result, is_availability = availability, is_blast_radius = radius,
        is_attention = attention, is_findings = vr_findings result, is_reasoning = vr_reasoning result,
        is_notification = PendingDispatch\<rparr>)"

definition build_signed_incident_state ::
    "feed_codec \<Rightarrow> signing \<Rightarrow> reassessment_request \<Rightarrow> int \<Rightarrow> int \<Rightarrow> verified_result
     \<Rightarrow> event_error + (incident_state \<times> attestation)" where
  "build_signed_incident_state fc sg r detected updated result =
     bindR (incident_guard (vr_findings result \<noteq> [] \<and> vr_reasoning result \<noteq> [])) (\<lambda>_.
     let u = unsigned_state_of r detected updated result
     in bindR (canonical (fc_preimage fc) u) (\<lambda>preimage.
        let digest = digest_of fc preimage
        in bindR (make_state (unsigned_state.extend u (incident_state.fields digest))) (\<lambda>s.
           bindR (detached_signature fc preimage) (\<lambda>signature.
           bindR (make_attestation \<lparr>at_digest = digest, at_key = sg_vault_key_id sg, at_signature = signature\<rparr>) (\<lambda>a.
           Inr (s, a))))))"

definition scenario_text :: "incident_scenario \<Rightarrow> string" where
  "scenario_text s = (case s of SingletonDatabaseFailure \<Rightarrow> ''singletonDatabaseFailure''
     | WebServerFailure \<Rightarrow> ''webServerFailure'' | LoadBalancerFailure \<Rightarrow> ''loadBalancerFailure'')"

definition role_text :: "workload_role \<Rightarrow> string" where
  "role_text r = (case r of RoleDatabase \<Rightarrow> ''database-primary'' | RoleWeb \<Rightarrow> ''web'' | RoleLoadBalancer \<Rightarrow> ''load-balancer'')"

definition availability_text :: "availability \<Rightarrow> string" where
  "availability_text a = (case a of AvailabilityNormal \<Rightarrow> ''normal'' | AvailabilityWarning \<Rightarrow> ''warning''
     | AvailabilityCritical \<Rightarrow> ''critical'' | AvailabilityUnknown \<Rightarrow> ''unknown'')"

definition radius_text :: "blast_radius \<Rightarrow> string" where
  "radius_text b = (case b of RadiusNone \<Rightarrow> ''none'' | WebTier \<Rightarrow> ''web-tier'' | IngressEdge \<Rightarrow> ''ingress-edge''
     | DataTier \<Rightarrow> ''data-tier'' | WholeWorkload \<Rightarrow> ''whole-workload'' | RadiusUnknown \<Rightarrow> ''unknown'')"

definition attention_text :: "operator_attention \<Rightarrow> string" where
  "attention_text a = (case a of AttentionNormal \<Rightarrow> ''normal'' | AttentionRequired \<Rightarrow> ''required'' | AttentionUrgent \<Rightarrow> ''urgent'')"

text \<open>The closing line ends in a character that is not ASCII, which is left out.\<close>

definition notification_message :: "incident_state \<Rightarrow> string \<Rightarrow> string option" where
  "notification_message s url =
     (if is_lifecycle s \<notin> {IncidentActive, IncidentResolved} then None
      else Some (''Athena incident '' @ (if is_lifecycle s = IncidentActive then ''ACTIVE'' else ''RESOLVED'')
        @ '': '' @ scenario_text (is_scenario s) @ [CHR 0x0A]
        @ ''Role: '' @ role_text (is_workload_role s) @ [CHR 0x0A]
        @ ''Availability: '' @ availability_text (is_availability s) @ [CHR 0x0A]
        @ ''Blast radius: '' @ radius_text (is_blast_radius s) @ [CHR 0x0A]
        @ ''Operator attention: '' @ attention_text (is_attention s) @ [CHR 0x0A]
        @ ''Evidence: '' @ fi_summary (hd (is_findings s)) @ [CHR 0x0A]
        @ ''Presentation: '' @ url @ [CHR 0x0A, CHR 0x0A]
        @ ''Athena did not perform remediation.'' @ [CHR 0x0A, CHR 0x0A]
        @ ''Sent by Kanga, my AI sidekick ''))"

section \<open>The active index\<close>

text \<open>The dict of entries by incident, and its values in the order of the keys.\<close>

definition entries_by_id :: "active_entry list \<Rightarrow> (string \<times> active_entry) list" where
  "entries_by_id es = keyed ae_incident_id es"

definition ordered_entries :: "(string \<times> active_entry) list \<Rightarrow> active_entry list" where
  "ordered_entries d = map (\<lambda>k. the (map_of d k)) (sort (map fst d))"

text \<open>A new index is published at least a millisecond after one that was published at the same instant.\<close>

definition index_time :: "active_index option \<Rightarrow> int \<Rightarrow> int" where
  "index_time previous published = (case previous of
       None \<Rightarrow> published
     | Some i \<Rightarrow> (let t = max published (ai_published_at i)
         in if t = ai_published_at i then t + 1000 else t))"

definition next_index ::
    "feed_codec \<Rightarrow> signing \<Rightarrow> active_entry list \<Rightarrow> int \<Rightarrow> active_index option \<Rightarrow> event_error + active_index" where
  "next_index fc sg ordered published previous =
     (let t = index_time previous published
      in bindR (canonical (\<lambda>es. fc_index_seed fc es (sg_key_id sg) (sg_fingerprint sg) t) ordered) (\<lambda>seed.
         make_index \<lparr>ai_incidents = ordered,
           ai_attestation_path = ''./incidents/index-attestations/'' @ fc_hexdigest fc seed @ ''.json'',
           ai_key_id = sg_key_id sg, ai_key_fingerprint = sg_fingerprint sg, ai_published_at = t\<rparr>))"

definition index_unchanged :: "signing \<Rightarrow> active_entry list \<Rightarrow> active_index \<Rightarrow> bool" where
  "index_unchanged sg ordered i \<longleftrightarrow>
     ordered = ai_incidents i \<and> ai_key_id i = sg_key_id sg \<and> ai_key_fingerprint i = sg_fingerprint sg"

definition build_active_incident_index_publication ::
    "feed_codec \<Rightarrow> signing \<Rightarrow> active_entry list \<Rightarrow> int \<Rightarrow> index_snapshot option \<Rightarrow> bool
     \<Rightarrow> event_error + index_publication" where
  "build_active_incident_index_publication fc sg entries published snapshot reuse =
     (let previous = map_option sn_index snapshot; by_id = entries_by_id entries
      in bindR (incident_guard (length by_id = length entries)) (\<lambda>_.
         let ordered = ordered_entries by_id
         in bindR (case previous of
               Some i \<Rightarrow> if reuse \<and> index_unchanged sg ordered i then Inr i
                 else next_index fc sg ordered published previous
             | None \<Rightarrow> next_index fc sg ordered published previous) (\<lambda>i.
            bindR (canonical (fc_index fc) i) (\<lambda>bytes.
            bindR (detached_signature fc bytes) (\<lambda>signature.
            bindR (make_attestation \<lparr>at_digest = digest_of fc bytes, at_key = sg_vault_key_id sg, at_signature = signature\<rparr>) (\<lambda>a.
            bindR (canonical (fc_index_attestation fc) a) (\<lambda>attestation_bytes.
            bindR (asset_of fc ''incidents/active.json'' bytes (64 * 1024)) (\<lambda>index_asset.
            bindR (asset_of fc (remove_prefix ''./'' (ai_attestation_path i)) attestation_bytes (24 * 1024)) (\<lambda>attestation_asset.
            make_index_publication fc \<lparr>ip_index = i, ip_attestation = a, ip_asset = index_asset,
              ip_attestation_asset = attestation_asset, ip_previous_sha = map_option sn_sha snapshot\<rparr>)))))))))"

definition build_active_incident_index_heartbeat ::
    "feed_codec \<Rightarrow> signing \<Rightarrow> int \<Rightarrow> index_snapshot option \<Rightarrow> event_error + index_publication" where
  "build_active_incident_index_heartbeat fc sg published snapshot =
     build_active_incident_index_publication fc sg
       (case snapshot of None \<Rightarrow> [] | Some s \<Rightarrow> ai_incidents (sn_index s)) published snapshot False"

section \<open>The publication of an incident\<close>

text \<open>\<open>d[k] = v\<close> and \<open>d.pop(k, None)\<close>.\<close>

definition set_entry :: "string \<Rightarrow> active_entry \<Rightarrow> (string \<times> active_entry) list \<Rightarrow> (string \<times> active_entry) list" where
  "set_entry k e d = AList.update k e d"

definition pop_entry :: "string \<Rightarrow> (string \<times> active_entry) list \<Rightarrow> (string \<times> active_entry) list" where
  "pop_entry k d = filter (\<lambda>x. fst x \<noteq> k) d"

definition entries_after ::
    "incident_state \<Rightarrow> asset \<Rightarrow> index_snapshot option \<Rightarrow> event_error + active_entry list" where
  "entries_after s pointer_asset snapshot =
     (let d = entries_by_id (case snapshot of None \<Rightarrow> [] | Some sn \<Rightarrow> ai_incidents (sn_index sn))
      in bindR (if is_lifecycle s = IncidentActive
            then bindR (make_entry \<lparr>ae_incident_id = is_incident_id s, ae_scenario = is_scenario s,
                ae_workload_role = is_workload_role s, ae_pointer_path = ''./'' @ as_name pointer_asset,
                ae_pointer_sha = as_sha pointer_asset, ae_detected_at = is_detected_at s,
                ae_updated_at = is_updated_at s\<rparr>) (\<lambda>e. Inr (set_entry (is_incident_id s) e d))
            else Inr (pop_entry (is_incident_id s) d)) (\<lambda>d'.
         Inr (ordered_entries d')))"

definition build_incident_publication ::
    "feed_codec \<Rightarrow> signing \<Rightarrow> incident_state \<Rightarrow> attestation \<Rightarrow> int \<Rightarrow> index_snapshot option
     \<Rightarrow> event_error + incident_publication" where
  "build_incident_publication fc sg s a published snapshot =
     (let published_at = max published (is_updated_at s);
          pre = version_prefix (is_incident_id s) (remove_prefix ''sha256:'' (is_result_digest s))
      in bindR (canonical (fc_state fc) s) (\<lambda>state_bytes.
         bindR (canonical (fc_state_attestation fc) a) (\<lambda>state_att_bytes.
         bindR (asset_of fc (pre @ ''/state.json'') state_bytes (64 * 1024)) (\<lambda>state_asset.
         bindR (asset_of fc (pre @ ''/attestation.json'') state_att_bytes (24 * 1024)) (\<lambda>attestation_asset.
         bindR (make_pointer \<lparr>fp_incident_id = is_incident_id s, fp_state_path = ''./'' @ as_name state_asset,
             fp_state_sha = as_sha state_asset, fp_attestation_path = ''./'' @ as_name attestation_asset,
             fp_attestation_sha = as_sha attestation_asset,
             fp_pointer_attestation_path = ''./'' @ pre @ ''/pointer-attestation.json'',
             fp_key_id = sg_key_id sg, fp_key_fingerprint = sg_fingerprint sg, fp_published_at = published_at\<rparr>) (\<lambda>p.
         bindR (canonical (fc_pointer fc) p) (\<lambda>pointer_bytes.
         bindR (detached_signature fc pointer_bytes) (\<lambda>signature.
         bindR (make_attestation \<lparr>at_digest = digest_of fc pointer_bytes, at_key = sg_vault_key_id sg,
             at_signature = signature\<rparr>) (\<lambda>pa.
         bindR (canonical (fc_pointer_attestation fc) pa) (\<lambda>pointer_att_bytes.
         bindR (asset_of fc (pre @ ''/pointer.json'') pointer_bytes (16 * 1024)) (\<lambda>pointer_asset.
         bindR (asset_of fc (''incidents/'' @ is_incident_id s @ ''/current.json'') pointer_bytes (16 * 1024)) (\<lambda>current_asset.
         bindR (entries_after s pointer_asset snapshot) (\<lambda>entries.
         bindR (build_active_incident_index_publication fc sg entries published_at snapshot True) (\<lambda>index.
         bindR (asset_of fc (remove_prefix ''./'' (fp_pointer_attestation_path p)) pointer_att_bytes (24 * 1024))
           (\<lambda>pointer_att_asset.
         make_incident_publication fc \<lparr>pb_pointer = p, pb_pointer_attestation = pa, pb_pointer_asset = pointer_asset,
           pb_current_pointer_asset = current_asset, pb_pointer_attestation_asset = pointer_att_asset,
           pb_state = state_asset, pb_attestation = attestation_asset, pb_index = index\<rparr>)))))))))))))))"

end
