(* ===== verification/BlobPublisher.thy ===== *)
theory BlobPublisher
  imports IncidentFeed Detector
begin

text \<open>
  The publisher of signed incident assets (class \<open>AzureBlobIncidentAssetPublisher\<close> of
  \<open>azure_adapters.py\<close>) over a blob container that other writers use at the same time. The container
  is a map; before each call other writers may have changed it, and each call may fail before or after
  its effect. A write gives its blob a fresh entity tag, as the service documents.
\<close>

section \<open>The container\<close>

record blob =
  bl_payload :: string
  bl_content_type :: string
  bl_metadata :: "string option"
  bl_version :: "string option"
  bl_etag :: string

type_synonym container = "string \<Rightarrow> blob option"

datatype blob_error = BlobMissing | BlobExists | BlobModified | HttpFailure | ServiceFailure

datatype fault = NoFault | FailsBefore blob_error | FailsAfter blob_error

text \<open>
  The world: the container, the number of calls so far, a record of the writes of this publisher, each
  with the blob it replaced, and the notifications that were delivered. The service decides the faults, the doings of the others, and the
  tags and versions of its writes.
\<close>

record blob_write =
  wr_name :: string
  wr_before :: "blob option"
  wr_payload :: string

record feed_world =
  fw_blobs :: container
  fw_calls :: nat
  fw_writes :: "blob_write list"
  fw_outbox :: "notification list"

record blob_service =
  bs_fault :: "nat \<Rightarrow> fault"
  bs_others :: "nat \<Rightarrow> container \<Rightarrow> container"
  bs_etag :: "nat \<Rightarrow> string"
  bs_version :: "nat \<Rightarrow> string option"

text \<open>A call of the service; its own errors are values here, since the callers catch them.\<close>

definition blob_call ::
    "blob_service \<Rightarrow> (nat \<Rightarrow> feed_world \<Rightarrow> (blob_error + 'a) \<times> feed_world) \<Rightarrow> (feed_world, blob_error + 'a) action" where
  "blob_call bs f = (\<lambda>w.
     let n = fw_calls w; w1 = w\<lparr>fw_blobs := bs_others bs n (fw_blobs w), fw_calls := n + 1\<rparr>
     in case bs_fault bs n of
          NoFault \<Rightarrow> (case f n w1 of (r, w2) \<Rightarrow> (Inr r, w2))
        | FailsBefore e \<Rightarrow> (Inr (Inl e), w1)
        | FailsAfter e \<Rightarrow> (case f n w1 of (_, w2) \<Rightarrow> (Inr (Inl e), w2)))"

text \<open>\<open>download_blob\<close> with a limit on the bytes it reads.\<close>

definition download_blob :: "blob_service \<Rightarrow> string \<Rightarrow> nat \<Rightarrow> (feed_world, blob_error + blob) action" where
  "download_blob bs name limit = blob_call bs (\<lambda>n w.
     (case fw_blobs w name of None \<Rightarrow> Inl BlobMissing | Some b \<Rightarrow> Inr (b\<lparr>bl_payload := take limit (bl_payload b)\<rparr>), w))"

definition put_blob :: "blob_service \<Rightarrow> nat \<Rightarrow> string \<Rightarrow> asset \<Rightarrow> feed_world \<Rightarrow> feed_world" where
  "put_blob bs n name a w = w\<lparr>
     fw_blobs := (fw_blobs w)(name \<mapsto> \<lparr>bl_payload = as_payload a, bl_content_type = ''application/json'',
        bl_metadata = Some (as_sha a), bl_version = bs_version bs n, bl_etag = bs_etag bs n\<rparr>),
     fw_writes := fw_writes w @ [\<lparr>wr_name = name, wr_before = fw_blobs w name, wr_payload = as_payload a\<rparr>]\<rparr>"

text \<open>\<open>upload_blob\<close> under \<open>IfMissing\<close>, which returns the version, and under \<open>IfNotModified\<close>.\<close>

definition upload_if_missing :: "blob_service \<Rightarrow> asset \<Rightarrow> (feed_world, blob_error + string option) action" where
  "upload_if_missing bs a = blob_call bs (\<lambda>n w.
     if fw_blobs w (as_name a) \<noteq> None then (Inl BlobExists, w)
     else (Inr (bs_version bs n), put_blob bs n (as_name a) a w))"

definition upload_if_match :: "blob_service \<Rightarrow> string \<Rightarrow> asset \<Rightarrow> (feed_world, blob_error + unit) action" where
  "upload_if_match bs tag a = blob_call bs (\<lambda>n w. case fw_blobs w (as_name a) of
       None \<Rightarrow> (Inl BlobModified, w)
     | Some b \<Rightarrow> if bl_etag b = tag then (Inr (), put_blob bs n (as_name a) a w) else (Inl BlobModified, w))"

section \<open>The publisher\<close>

record publisher =
  pu_codec :: feed_codec
  pu_service :: blob_service
  pu_signing :: signing

text \<open>A blob of JSON whose metadata names its digest, within its bound.\<close>

definition json_blob_ok :: "feed_codec \<Rightarrow> nat \<Rightarrow> blob \<Rightarrow> bool" where
  "json_blob_ok fc maximum b \<longleftrightarrow> 1 \<le> length (bl_payload b) \<and> length (bl_payload b) \<le> maximum
     \<and> bl_content_type b = ''application/json'' \<and> bl_metadata b = Some (digest_of fc (bl_payload b))"

definition version_id :: "string option \<Rightarrow> string option" where
  "version_id v = (if v = Some [] then None else v)"

definition fail :: "event_error \<Rightarrow> ('w, 'a) action" where
  "fail e = liftW (Inl e)"

definition checkW :: "bool \<Rightarrow> event_error \<Rightarrow> ('w, unit) action" where
  "checkW b e = liftW (guardR b e)"

definition reference_to :: "asset \<Rightarrow> string \<Rightarrow> event_error + blob_reference" where
  "reference_to a v = make_reference \<lparr>br_name = as_name a, br_version = v, br_digest = as_sha a\<rparr>"

definition recover_immutable_reference :: "publisher \<Rightarrow> asset \<Rightarrow> (feed_world, blob_reference) action" where
  "recover_immutable_reference pu a =
     bindW (download_blob (pu_service pu) (as_name a) (as_maximum a + 1)) (\<lambda>r. case r of
       Inl _ \<Rightarrow> fail AssetAlreadyExists
     | Inr b \<Rightarrow> bindW (checkW (bl_payload b = as_payload a \<and> bl_content_type b = ''application/json''
           \<and> bl_metadata b = Some (as_sha a)) AssetAlreadyExists) (\<lambda>_.
         bindW (liftW (requireR (version_id (bl_version b)) AssetAlreadyExists)) (\<lambda>v.
         liftW (reference_to a v))))"

definition upload_immutable :: "publisher \<Rightarrow> asset \<Rightarrow> (feed_world, blob_reference) action" where
  "upload_immutable pu a =
     bindW (upload_if_missing (pu_service pu) a) (\<lambda>r. case r of
       Inr v \<Rightarrow> (case version_id v of
           None \<Rightarrow> recover_immutable_reference pu a
         | Some v \<Rightarrow> liftW (reference_to a v))
     | Inl e \<Rightarrow> if e \<in> {BlobExists, ServiceFailure} then recover_immutable_reference pu a else fail IncidentPortError)"

definition upload_missing_mutable :: "publisher \<Rightarrow> asset \<Rightarrow> (feed_world, unit) action" where
  "upload_missing_mutable pu a =
     bindW (upload_if_missing (pu_service pu) a) (\<lambda>r. case r of
       Inr _ \<Rightarrow> pureW ()
     | Inl e \<Rightarrow> fail (if e = BlobExists then AssetAlreadyExists else IncidentPortError))"

definition replace_mutable :: "publisher \<Rightarrow> asset \<Rightarrow> blob \<Rightarrow> (feed_world, unit) action" where
  "replace_mutable pu a current =
     bindW (checkW (bl_etag current \<noteq> []) AssetAlreadyExists) (\<lambda>_.
     bindW (upload_if_match (pu_service pu) (bl_etag current) a) (\<lambda>r. case r of
       Inr _ \<Rightarrow> pureW ()
     | Inl e \<Rightarrow> fail (if e = BlobModified then AssetAlreadyExists else IncidentPortError)))"

definition own_key :: "publisher \<Rightarrow> string \<Rightarrow> string \<Rightarrow> bool" where
  "own_key pu key fingerprint \<longleftrightarrow> key = sg_key_id (pu_signing pu) \<and> fingerprint = sg_fingerprint (pu_signing pu)"

text \<open>A pointer replaces only an older pointer of its incident.\<close>

definition check_newer_pointer :: "publisher \<Rightarrow> feed_pointer \<Rightarrow> string \<Rightarrow> event_error + unit" where
  "check_newer_pointer pu p current_bytes =
     bindR (otherwise AssetAlreadyExists (parse_pointer (pu_codec pu) current_bytes)) (\<lambda>q.
     bindR (canonical (fc_pointer (pu_codec pu)) q) (\<lambda>bytes.
     guardR (current_bytes = bytes \<and> fp_incident_id q = fp_incident_id p
       \<and> own_key pu (fp_key_id q) (fp_key_fingerprint q) \<and> fp_published_at q < fp_published_at p) AssetAlreadyExists))"

definition publish_current_pointer :: "publisher \<Rightarrow> incident_publication \<Rightarrow> (feed_world, unit) action" where
  "publish_current_pointer pu b =
     (let a = pb_current_pointer_asset b
      in bindW (download_blob (pu_service pu) (as_name a) (as_maximum a + 1)) (\<lambda>r. case r of
           Inl e \<Rightarrow> if e = BlobMissing then upload_missing_mutable pu a
             else fail (if e = ServiceFailure then IncidentPortError else AssetAlreadyExists)
         | Inr current \<Rightarrow> bindW (checkW (json_blob_ok (pu_codec pu) (as_maximum a) current) AssetAlreadyExists) (\<lambda>_.
             if bl_payload current = as_payload a then pureW ()
             else bindW (liftW (check_newer_pointer pu (pb_pointer b) (bl_payload current))) (\<lambda>_.
               replace_mutable pu a current))))"

text \<open>
  The index is replaced only while it is the one the publication was built from. A current index that
  does not parse is a \<open>ValueError\<close> here, not a conflict.
\<close>

definition publish_active_index :: "publisher \<Rightarrow> index_publication \<Rightarrow> (feed_world, unit) action" where
  "publish_active_index pu ip =
     (let a = ip_asset ip
      in bindW (download_blob (pu_service pu) (as_name a) (as_maximum a + 1)) (\<lambda>r. case r of
           Inl e \<Rightarrow> if e = BlobMissing
             then bindW (checkW (ip_previous_sha ip = None) AssetAlreadyExists) (\<lambda>_. upload_missing_mutable pu a)
             else fail IncidentPortError
         | Inr current \<Rightarrow>
             if bl_payload current = as_payload a then pureW ()
             else bindW (checkW (ip_previous_sha ip = Some (digest_of (pu_codec pu) (bl_payload current))) AssetAlreadyExists) (\<lambda>_.
               bindW (liftW (parse_index (pu_codec pu) (bl_payload current))) (\<lambda>i.
               bindW (liftW (canonical (fc_index (pu_codec pu)) i)) (\<lambda>bytes.
               bindW (checkW (bl_payload current = bytes
                   \<and> own_key pu (ai_key_id i) (ai_key_fingerprint i)
                   \<and> ai_published_at i < ai_published_at (ip_index ip)) AssetAlreadyExists) (\<lambda>_.
               replace_mutable pu a current))))))"

section \<open>Publishing\<close>

definition index_trusted :: "publisher \<Rightarrow> index_publication \<Rightarrow> bool" where
  "index_trusted pu ip \<longleftrightarrow> own_key pu (ai_key_id (ip_index ip)) (ai_key_fingerprint (ip_index ip))
     \<and> at_key (ip_attestation ip) = sg_vault_key_id (pu_signing pu)"

text \<open>The receipt of a publication over the given references to its assets.\<close>

definition occurrence_for ::
    "feed_codec \<Rightarrow> incident_publication \<Rightarrow> blob_reference \<Rightarrow> blob_reference \<Rightarrow> blob_reference \<Rightarrow> blob_reference
     \<Rightarrow> event_error + occurrence" where
  "occurrence_for fc b state_ref state_att_ref pointer_ref pointer_att_ref =
     bindR (parse_state fc (as_payload (pb_state b))) (\<lambda>s.
     bindR (parse_state_attestation fc (as_payload (pb_attestation b))) (\<lambda>sa.
     build_incident_occurrence_receipt fc s sa (pb_pointer b) (pb_pointer_attestation b)
       state_ref state_att_ref pointer_ref pointer_att_ref))"

definition preflight :: "feed_codec \<Rightarrow> incident_publication \<Rightarrow> event_error + occurrence" where
  "preflight fc b =
     bindR (reference_to (pb_state b) ''preflight'') (\<lambda>state_ref.
     bindR (reference_to (pb_attestation b) ''preflight'') (\<lambda>state_att_ref.
     bindR (reference_to (pb_pointer_asset b) ''preflight'') (\<lambda>pointer_ref.
     bindR (reference_to (pb_pointer_attestation_asset b) ''preflight'') (\<lambda>pointer_att_ref.
     occurrence_for fc b state_ref state_att_ref pointer_ref pointer_att_ref))))"

definition publish_incident :: "publisher \<Rightarrow> incident_publication \<Rightarrow> (feed_world, publication_receipt) action" where
  "publish_incident pu b =
     bindW (checkW (own_key pu (fp_key_id (pb_pointer b)) (fp_key_fingerprint (pb_pointer b))
         \<and> at_key (pb_pointer_attestation b) = sg_vault_key_id (pu_signing pu)
         \<and> index_trusted pu (pb_index b)) IncidentValueError) (\<lambda>_.
     bindW (liftW (preflight (pu_codec pu) b)) (\<lambda>_.
     bindW (upload_immutable pu (pb_state b)) (\<lambda>state_ref.
     bindW (upload_immutable pu (pb_attestation b)) (\<lambda>state_att_ref.
     bindW (upload_immutable pu (pb_pointer_asset b)) (\<lambda>pointer_ref.
     bindW (upload_immutable pu (pb_pointer_attestation_asset b)) (\<lambda>pointer_att_ref.
     bindW (upload_immutable pu (ip_attestation_asset (pb_index b))) (\<lambda>_.
     bindW (publish_current_pointer pu b) (\<lambda>_.
     bindW (publish_active_index pu (pb_index b)) (\<lambda>_.
     bindW (liftW (occurrence_for (pu_codec pu) b state_ref state_att_ref pointer_ref pointer_att_ref)) (\<lambda>oc.
     liftW (make_publication_receipt \<lparr>pr_incident_id = fp_incident_id (pb_pointer b),
       pr_pointer_sha = as_sha (pb_pointer_asset b), pr_index_sha = as_sha (ip_asset (pb_index b)),
       pr_occurrence = Some oc\<rparr>)))))))))))"

definition publish_active_incident_index :: "publisher \<Rightarrow> index_publication \<Rightarrow> (feed_world, index_snapshot) action" where
  "publish_active_incident_index pu ip =
     bindW (checkW (index_trusted pu ip) IncidentValueError) (\<lambda>_.
     bindW (upload_immutable pu (ip_attestation_asset ip)) (\<lambda>_.
     bindW (publish_active_index pu ip) (\<lambda>_.
     liftW (make_index_snapshot (pu_codec pu) \<lparr>sn_index = ip_index ip, sn_sha = as_sha (ip_asset ip)\<rparr>))))"

section \<open>Reading\<close>

text \<open>An error of the service while an asset is read makes the asset unavailable, but for a lost connection.\<close>

definition unavailable :: "blob_error \<Rightarrow> event_error" where
  "unavailable e = (if e = ServiceFailure then IncidentPortError else AssetUnavailable)"

definition read_active_incident_index :: "publisher \<Rightarrow> (feed_world, index_snapshot option) action" where
  "read_active_incident_index pu =
     (let fc = pu_codec pu
      in bindW (download_blob (pu_service pu) ''incidents/active.json'' (64 * 1024 + 1)) (\<lambda>r. case r of
           Inl e \<Rightarrow> if e = BlobMissing then pureW None else fail (unavailable e)
         | Inr b \<Rightarrow> let payload = bl_payload b
             in bindW (checkW (1 \<le> length payload \<and> length payload \<le> 64 * 1024) AssetUnavailable) (\<lambda>_.
                bindW (liftW (parse_index fc payload)) (\<lambda>i.
                bindW (liftW (canonical (fc_index fc) i)) (\<lambda>bytes.
                bindW (checkW (payload = bytes \<and> own_key pu (ai_key_id i) (ai_key_fingerprint i))
                   AssetUnavailable) (\<lambda>_.
                bindW (download_blob (pu_service pu) (remove_prefix ''./'' (ai_attestation_path i)) (24 * 1024 + 1)) (\<lambda>r. case r of
                    Inl e \<Rightarrow> fail (unavailable e)
                  | Inr ab \<Rightarrow>
                      bindW (checkW (1 \<le> length (bl_payload ab) \<and> length (bl_payload ab) \<le> 24 * 1024) AssetUnavailable) (\<lambda>_.
                      bindW (liftW (otherwise AssetUnavailable (parse_index_attestation fc (bl_payload ab)))) (\<lambda>a.
                      bindW (liftW (canonical (fc_index_attestation fc) a)) (\<lambda>a_bytes.
                      bindW (checkW (bl_payload ab = a_bytes \<and> at_digest a = digest_of fc payload
                          \<and> at_key a = sg_vault_key_id (pu_signing pu) \<and> fc_verify fc payload (at_signature a))
                          AssetUnavailable) (\<lambda>_.
                      bindW (liftW (make_index_snapshot fc \<lparr>sn_index = i, sn_sha = digest_of fc payload\<rparr>)) (\<lambda>sn.
                      pureW (Some sn)))))))))))))"

definition read_incident_json_blob :: "publisher \<Rightarrow> string \<Rightarrow> nat \<Rightarrow> (feed_world, string option) action" where
  "read_incident_json_blob pu name maximum =
     bindW (download_blob (pu_service pu) name (maximum + 1)) (\<lambda>r. case r of
       Inl e \<Rightarrow> if e = BlobMissing then pureW None else fail (unavailable e)
     | Inr b \<Rightarrow> bindW (checkW (json_blob_ok (pu_codec pu) maximum b) AssetUnavailable) (\<lambda>_.
         pureW (Some (bl_payload b))))"

definition read_immutable_incident_json_blob :: "publisher \<Rightarrow> string \<Rightarrow> nat \<Rightarrow> (feed_world, string \<times> string) action" where
  "read_immutable_incident_json_blob pu name maximum =
     bindW (download_blob (pu_service pu) name (maximum + 1)) (\<lambda>r. case r of
       Inl e \<Rightarrow> fail (unavailable e)
     | Inr b \<Rightarrow> bindW (checkW (json_blob_ok (pu_codec pu) maximum b) AssetUnavailable) (\<lambda>_.
         bindW (liftW (requireR (version_id (bl_version b)) AssetUnavailable)) (\<lambda>v.
         pureW (bl_payload b, v))))"

text \<open>The assets of the current state, once they are parsed, against each other and the trust anchor.\<close>

definition check_current_state ::
    "publisher \<Rightarrow> string \<Rightarrow> string \<Rightarrow> string \<Rightarrow> string \<Rightarrow> string \<Rightarrow> string \<Rightarrow> string
     \<Rightarrow> feed_pointer \<Rightarrow> attestation \<Rightarrow> incident_state \<Rightarrow> attestation \<Rightarrow> event_error + unit" where
  "check_current_state pu incident pointer_bytes immutable_bytes pointer_att_bytes state_bytes state_att_bytes preimage p pa s sa =
     (let fc = pu_codec pu; vault = sg_vault_key_id (pu_signing pu)
      in bindR (guardR (immutable_bytes = pointer_bytes) AssetUnavailable) (\<lambda>_.
         bindR (canonical (fc_pointer_attestation fc) pa) (\<lambda>pa_bytes.
         bindR (guardR (pointer_att_bytes = pa_bytes
             \<and> at_digest pa = digest_of fc pointer_bytes \<and> at_key pa = vault \<and> fc_verify fc pointer_bytes (at_signature pa))
             AssetUnavailable) (\<lambda>_.
         bindR (canonical (fc_state fc) s) (\<lambda>s_bytes.
         bindR (guardR (state_bytes = s_bytes \<and> fp_state_sha p = digest_of fc state_bytes
             \<and> is_incident_id s = incident \<and> is_result_digest s = digest_of fc preimage
             \<and> remove_suffix ''/state.json'' (remove_prefix (''./incidents/'' @ incident @ ''/versions/'') (fp_state_path p))
                = remove_prefix ''sha256:'' (is_result_digest s)) AssetUnavailable) (\<lambda>_.
         bindR (canonical (fc_state_attestation fc) sa) (\<lambda>sa_bytes.
         guardR (state_att_bytes = sa_bytes \<and> fp_attestation_sha p = digest_of fc state_att_bytes
             \<and> at_digest sa = is_result_digest s \<and> at_key sa = vault \<and> fc_verify fc preimage (at_signature sa))
             AssetUnavailable)))))))"

definition reference_at :: "string \<Rightarrow> string \<Rightarrow> string \<Rightarrow> event_error + blob_reference" where
  "reference_at name v digest = make_reference \<lparr>br_name = name, br_version = v, br_digest = digest\<rparr>"

text \<open>The receipt of the current state; none for a pointer that was published before its state.\<close>

definition current_occurrence ::
    "feed_codec \<Rightarrow> string \<Rightarrow> string \<Rightarrow> feed_pointer \<Rightarrow> attestation \<Rightarrow> incident_state \<Rightarrow> attestation
     \<Rightarrow> string \<Rightarrow> string \<Rightarrow> string \<Rightarrow> string \<Rightarrow> event_error + occurrence option" where
  "current_occurrence fc pointer_bytes pointer_att_bytes p pa s sa state_v state_att_v pointer_v pointer_att_v =
     (if fp_published_at p < is_updated_at s then Inr None
      else bindR (reference_at (remove_prefix ''./'' (fp_state_path p)) state_v (fp_state_sha p)) (\<lambda>state_ref.
        bindR (reference_at (remove_prefix ''./'' (fp_attestation_path p)) state_att_v (fp_attestation_sha p)) (\<lambda>state_att_ref.
        bindR (reference_at (remove_prefix ''./'' (remove_suffix ''/state.json'' (fp_state_path p)) @ ''/pointer.json'')
            pointer_v (digest_of fc pointer_bytes)) (\<lambda>pointer_ref.
        bindR (reference_at (remove_prefix ''./'' (fp_pointer_attestation_path p)) pointer_att_v
            (digest_of fc pointer_att_bytes)) (\<lambda>pointer_att_ref.
        bindR (build_incident_occurrence_receipt fc s sa p pa state_ref state_att_ref pointer_ref pointer_att_ref) (\<lambda>oc.
        Inr (Some oc)))))))"

definition read_current_incident_state :: "publisher \<Rightarrow> string \<Rightarrow> (feed_world, current_state option) action" where
  "read_current_incident_state pu incident =
     (let fc = pu_codec pu
      in bindW (checkW (tagged_hex ''inc-'' 12 incident) IncidentValueError) (\<lambda>_.
         bindW (read_incident_json_blob pu (''incidents/'' @ incident @ ''/current.json'') (16 * 1024)) (\<lambda>r. case r of
           None \<Rightarrow> pureW None
         | Some pointer_bytes \<Rightarrow>
             bindW (liftW (otherwise AssetUnavailable (parse_pointer fc pointer_bytes))) (\<lambda>p.
             bindW (liftW (canonical (fc_pointer fc) p)) (\<lambda>bytes.
             bindW (checkW (pointer_bytes = bytes \<and> fp_incident_id p = incident
                 \<and> own_key pu (fp_key_id p) (fp_key_fingerprint p)) AssetUnavailable) (\<lambda>_.
             bindW (read_immutable_incident_json_blob pu
                 (remove_prefix ''./'' (remove_suffix ''/state.json'' (fp_state_path p)) @ ''/pointer.json'')
                 (16 * 1024)) (\<lambda>(immutable_bytes, pointer_v).
             bindW (read_immutable_incident_json_blob pu (remove_prefix ''./'' (fp_pointer_attestation_path p)) (24 * 1024))
               (\<lambda>(pointer_att_bytes, pointer_att_v).
             bindW (read_immutable_incident_json_blob pu (remove_prefix ''./'' (fp_state_path p)) (64 * 1024))
               (\<lambda>(state_bytes, state_v).
             bindW (read_immutable_incident_json_blob pu (remove_prefix ''./'' (fp_attestation_path p)) (24 * 1024))
               (\<lambda>(state_att_bytes, state_att_v).
             bindW (liftW (otherwise AssetUnavailable (parse_pointer_attestation fc pointer_att_bytes))) (\<lambda>pa.
             bindW (liftW (otherwise AssetUnavailable (parse_state fc state_bytes))) (\<lambda>s.
             bindW (liftW (otherwise AssetUnavailable (parse_state_attestation fc state_att_bytes))) (\<lambda>sa.
             bindW (liftW (canonical (fc_dumped_preimage fc) (unsigned_state.truncate s))) (\<lambda>preimage.
             bindW (liftW (check_current_state pu incident pointer_bytes immutable_bytes pointer_att_bytes state_bytes
                 state_att_bytes preimage p pa s sa)) (\<lambda>_.
             bindW (liftW (current_occurrence fc pointer_bytes pointer_att_bytes p pa s sa
                 state_v state_att_v pointer_v pointer_att_v)) (\<lambda>oc.
             bindW (liftW (make_current_state fc \<lparr>cs_state = s, cs_pointer = p, cs_pointer_sha = digest_of fc pointer_bytes,
                 cs_occurrence = oc\<rparr>)) (\<lambda>c.
             pureW (Some c))))))))))))))))))"

end
