(* ===== verification/Reassessment.thy ===== *)
theory Reassessment
  imports BlobPublisher
begin

text \<open>
  What a queued request leads to: \<open>ApprovedLiveReassessmentAdapter\<close> and the outbox of
  \<open>eventing/runtime.py\<close>, and the orchestration of \<open>eventing/orchestrator.py\<close>. The request is a hint;
  the health is read again, and only then the signed incident and the active index are published and a
  notification is sent.
\<close>

section \<open>The live reassessment\<close>

text \<open>
  The ports of the detector, the validated roles, the window of the metrics, and the canonical JSON of
  the evidence a result is bound to.
\<close>

record adapter =
  ad_ports :: ports
  ad_roles :: approved_roles
  ad_minutes :: int
  ad_binding :: "approved_roles \<Rightarrow> signal_evidence \<Rightarrow> int \<Rightarrow> reassessment_request \<Rightarrow> string option"

definition make_adapter ::
    "ports \<Rightarrow> approved_roles \<Rightarrow> int
     \<Rightarrow> (approved_roles \<Rightarrow> signal_evidence \<Rightarrow> int \<Rightarrow> reassessment_request \<Rightarrow> string option) \<Rightarrow> event_error + adapter" where
  "make_adapter po approved minutes binding =
     bindR (validate_approved_resource_roles approved) (\<lambda>roles.
     bindR (incident_guard (2 \<le> minutes \<and> minutes \<le> 10)) (\<lambda>_.
     Inr \<lparr>ad_ports = po, ad_roles = roles, ad_minutes = minutes, ad_binding = binding\<rparr>))"

fun clause_of :: "incident_scenario \<Rightarrow> string" where
  "clause_of SingletonDatabaseFailure = ''wc016-singleton-database-operational-state''"
| "clause_of WebServerFailure = ''wc016-web-server-operational-state''"
| "clause_of LoadBalancerFailure = ''wc016-load-balancer-operational-state''"

definition live_reasoning :: "string list" where
  "live_reasoning =
     [''The queue message was treated only as an untrusted reassessment hint.'',
      ''The exact resource, role, scenario, and transition identifiers were rederived from the deployment-owned allowlist.'',
      ''Current state was independently queried through the bounded approved ARM signal adapter and reconciled against the signed active index.'']"

definition check_hint :: "adapter \<Rightarrow> reassessment_request \<Rightarrow> event_error + unit" where
  "check_hint ad r =
     bindR (build_reassessment_request (po_platform (ad_ports ad)) (rr_trigger_event r) (ad_roles ad)) (\<lambda>expected.
     incident_guard (r = expected \<and> me_source_system (rr_trigger_event r) = AzureMonitorCommonAlert
       \<and> me_signal_kind (rr_trigger_event r) = MetricAlert
       \<and> casefold (me_operation (rr_trigger_event r)) = casefold (signal_rule_name (rr_workload_role r))))"

definition reassess :: "adapter \<Rightarrow> int \<Rightarrow> reassessment_request \<Rightarrow> event_error + verified_result" where
  "reassess ad now r =
     bindR (check_hint ad r) (\<lambda>_.
     bindR (read_approved_signal (ad_ports ad) (rr_target r) (rr_workload_role r) now (ad_minutes ad)) (\<lambda>so.
     bindR (canonical (\<lambda>e. ad_binding ad (ad_roles ad) e now r) (so_evidence so)) (\<lambda>text.
     let binding = sha256_hex (po_platform (ad_ports ad)) text
     in bindR (make_incident_finding \<lparr>fi_clause_id = clause_of (rr_scenario r),
            fi_verdict = (if so_healthy so then VerdictResolved else VerdictFail),
            fi_summary = so_summary so, fi_evidence_refs = [''arm-live:'' @ binding]\<rparr>) (\<lambda>finding.
        make_result \<lparr>vr_request_id = rr_request_id r,
          vr_snapshot_id = ''arm-live-'' @ take 12 (remove_prefix ''sha256:'' binding), vr_observed_at = now,
          vr_target_binding = binding, vr_healthy = so_healthy so, vr_findings = [finding],
          vr_reasoning = live_reasoning\<rparr>))))"

section \<open>Notifications\<close>

definition notification_of :: "platform \<Rightarrow> incident_state \<Rightarrow> string \<Rightarrow> event_error + notification" where
  "notification_of pl s text =
     bindR (case is_lifecycle s of IncidentActive \<Rightarrow> Inr ''active'' | IncidentResolved \<Rightarrow> Inr ''resolved''
       | _ \<Rightarrow> Inl IncidentValueError) (\<lambda>lifecycle.
     make_notification \<lparr>nt_id = ''notify-'' @ pl_hexdigest pl (join_with (CHR 0x00) [is_transition_id s, lifecycle]),
       nt_transition_id = is_transition_id s, nt_incident_id = is_incident_id s, nt_lifecycle = is_lifecycle s,
       nt_message = text\<rparr>)"

text \<open>The queue of notifications, and what it makes of one.\<close>

record outbox =
  ob_platform :: platform
  ob_deliver :: "notification list \<Rightarrow> notification \<Rightarrow> delivery"

definition enqueue :: "outbox \<Rightarrow> incident_state \<Rightarrow> string \<Rightarrow> (feed_world, unit) action" where
  "enqueue ob s text =
     bindW (liftW (notification_of (ob_platform ob) s text)) (\<lambda>n w.
       case ob_deliver ob (fw_outbox w) n of
         Delivered \<Rightarrow> (Inr (), w\<lparr>fw_outbox := fw_outbox w @ [n]\<rparr>)
       | DeliveredThenFailed \<Rightarrow> (Inl SenderError, w\<lparr>fw_outbox := fw_outbox w @ [n]\<rparr>)
       | Refused \<Rightarrow> (Inl SenderError, w))"

definition notify :: "outbox option \<Rightarrow> incident_state \<Rightarrow> string \<Rightarrow> (feed_world, unit) action" where
  "notify ob s url = (case (notification_message s url, ob) of
       (Some text, Some outbox) \<Rightarrow> enqueue outbox s text
     | _ \<Rightarrow> pureW ())"

section \<open>Reconciliation\<close>

text \<open>A request against the index: the entry of its incident must be of its scenario and role.\<close>

definition check_binding :: "reassessment_request \<Rightarrow> active_entry \<Rightarrow> event_error + unit" where
  "check_binding r e = incident_guard (ae_scenario e = rr_scenario r \<and> ae_workload_role e = rr_workload_role r)"

definition snapshot_entry :: "index_snapshot option \<Rightarrow> string \<Rightarrow> active_entry option" where
  "snapshot_entry snapshot incident = (case snapshot of None \<Rightarrow> None | Some sn \<Rightarrow> entry_for (sn_index sn) incident)"

definition expected_lifecycle :: "bool \<Rightarrow> incident_lifecycle" where
  "expected_lifecycle healthy = (if healthy then IncidentResolved else IncidentActive)"

text \<open>Whether the current state is the one this request has already led to.\<close>

definition already_published :: "reassessment_request \<Rightarrow> bool \<Rightarrow> incident_state \<Rightarrow> bool" where
  "already_published r healthy s \<longleftrightarrow> is_transition_id s = rr_idempotency_key r
     \<and> is_lifecycle s = expected_lifecycle healthy \<and> is_scenario s = rr_scenario r
     \<and> is_workload_role s = rr_workload_role r"

definition coherent :: "active_entry option \<Rightarrow> bool \<Rightarrow> current_state \<Rightarrow> bool" where
  "coherent entry healthy c =
     (if healthy then entry = None
      else (case entry of None \<Rightarrow> False | Some e \<Rightarrow> ae_pointer_sha e = cs_pointer_sha c
        \<and> ae_pointer_path e = ''./'' @ remove_prefix ''./'' (remove_suffix ''/state.json'' (fp_state_path (cs_pointer c)))
            @ ''/pointer.json''
        \<and> ae_detected_at e = is_detected_at (cs_state c) \<and> ae_updated_at e = is_updated_at (cs_state c)))"

text \<open>Nothing is to be published; a notification that may have been lost is sent again.\<close>

definition reconcile_noop ::
    "publisher \<Rightarrow> outbox option \<Rightarrow> string \<Rightarrow> reassessment_request \<Rightarrow> bool \<Rightarrow> index_snapshot option \<Rightarrow> active_entry option
     \<Rightarrow> (feed_world, (incident_state \<times> publication_receipt) option) action" where
  "reconcile_noop pu ob url r healthy snapshot entry =
     bindW (read_current_incident_state pu (rr_incident_id r)) (\<lambda>latest. case latest of
       None \<Rightarrow> pureW None
     | Some c \<Rightarrow>
         if \<not> already_published r healthy (cs_state c) then pureW None
         else bindW (checkW (coherent entry healthy c) IncidentRuntimeError) (\<lambda>_.
           bindW (notify ob (cs_state c) url) (\<lambda>_.
           case (cs_occurrence c, snapshot) of
             (Some oc, Some sn) \<Rightarrow>
               bindW (liftW (make_publication_receipt \<lparr>pr_incident_id = is_incident_id (cs_state c),
                   pr_pointer_sha = cs_pointer_sha c, pr_index_sha = sn_sha sn, pr_occurrence = Some oc\<rparr>)) (\<lambda>receipt.
               pureW (Some (cs_state c, receipt)))
           | _ \<Rightarrow> pureW None)))"

definition publish_change ::
    "publisher \<Rightarrow> outbox option \<Rightarrow> string \<Rightarrow> reassessment_request \<Rightarrow> verified_result \<Rightarrow> int \<Rightarrow> int \<Rightarrow> int
     \<Rightarrow> index_snapshot option \<Rightarrow> active_entry option \<Rightarrow> (feed_world, (incident_state \<times> publication_receipt) option) action" where
  "publish_change pu ob url r result detected updated published snapshot entry =
     bindW (liftW (build_signed_incident_state (pu_codec pu) (pu_signing pu) r
         (case entry of None \<Rightarrow> detected | Some e \<Rightarrow> ae_detected_at e) (max updated (vr_observed_at result)) result)) (\<lambda>(s, a).
     bindW (liftW (build_incident_publication (pu_codec pu) (pu_signing pu) s a published snapshot)) (\<lambda>b.
     bindW (publish_incident pu b) (\<lambda>receipt.
     bindW (notify ob s url) (\<lambda>_.
     pureW (Some (s, receipt))))))"

definition run_incident_reassessment ::
    "publisher \<Rightarrow> (reassessment_request \<Rightarrow> event_error + verified_result) \<Rightarrow> outbox option \<Rightarrow> string
     \<Rightarrow> reassessment_request \<Rightarrow> int \<Rightarrow> int \<Rightarrow> int \<Rightarrow> (feed_world, (incident_state \<times> publication_receipt) option) action" where
  "run_incident_reassessment pu verify ob url r detected updated published =
     bindW (liftW (verify r)) (\<lambda>result.
     bindW (checkW (vr_request_id result = rr_request_id r) IncidentValueError) (\<lambda>_.
     bindW (read_active_incident_index pu) (\<lambda>snapshot.
     let entry = snapshot_entry snapshot (rr_incident_id r)
     in bindW (liftW (case entry of None \<Rightarrow> Inr () | Some e \<Rightarrow> check_binding r e)) (\<lambda>_.
        if vr_healthy result = (entry = None)
        then reconcile_noop pu ob url r (vr_healthy result) snapshot entry
        else publish_change pu ob url r result detected updated published snapshot entry))))"

section \<open>The heartbeat of the index\<close>

definition validate_active_index_health ::
    "index_snapshot option \<Rightarrow> reassessment_request list \<Rightarrow> event_error + unit" where
  "validate_active_index_health snapshot observations =
     (let expected = keyed rr_incident_id (filter (\<lambda>r. rr_lifecycle r = EventActivated) observations);
          actual = entries_by_id (case snapshot of None \<Rightarrow> [] | Some sn \<Rightarrow> ai_incidents (sn_index sn))
      in bindR (incident_guard (set (map fst actual) = set (map fst expected))) (\<lambda>_.
         allR (\<lambda>(i, r). case map_of actual i of None \<Rightarrow> Inl EventKeyError | Some e \<Rightarrow> check_binding r e) expected))"

text \<open>\<open>try\<close> around one action: the conflict of a publication is handled, any other error is not.\<close>

definition on_conflict :: "('w, 'a) action \<Rightarrow> ('w, 'a) action \<Rightarrow> ('w, 'a) action" where
  "on_conflict m handler = (\<lambda>w. case m w of
       (Inl e, w') \<Rightarrow> if e = AssetAlreadyExists then handler w' else (Inl e, w')
     | (Inr x, w') \<Rightarrow> (Inr x, w'))"

fun heartbeat_attempts ::
    "publisher \<Rightarrow> int \<Rightarrow> reassessment_request list \<Rightarrow> nat \<Rightarrow> (feed_world, index_snapshot) action" where
  "heartbeat_attempts pu published observations 0 = fail AssetAlreadyExists"
| "heartbeat_attempts pu published observations (Suc n) =
     bindW (read_active_incident_index pu) (\<lambda>snapshot.
     bindW (liftW (validate_active_index_health snapshot observations)) (\<lambda>_.
     bindW (liftW (build_active_incident_index_heartbeat (pu_codec pu) (pu_signing pu) published snapshot)) (\<lambda>ip.
     on_conflict (publish_active_incident_index pu ip)
       (bindW (read_active_incident_index pu) (\<lambda>latest.
        bindW (liftW (validate_active_index_health latest observations)) (\<lambda>_.
        case latest of
          Some sn \<Rightarrow> if ai_published_at (ip_index ip) \<le> ai_published_at (sn_index sn) then pureW sn
            else heartbeat_attempts pu published observations n
        | None \<Rightarrow> heartbeat_attempts pu published observations n))))))"

definition run_active_incident_index_heartbeat ::
    "publisher \<Rightarrow> int \<Rightarrow> reassessment_request list \<Rightarrow> (feed_world, index_snapshot) action" where
  "run_active_incident_index_heartbeat pu published observations =
     bindW (checkW (observations \<noteq> [] \<and> distinct (map rr_target observations)) IncidentValueError) (\<lambda>_.
     heartbeat_attempts pu published observations 3)"

end
