(* ===== verification/IncidentFacts.thy ===== *)
theory IncidentFacts
  imports Reassessment DetectorFacts
begin

text \<open>
  The facts of the incident feed. First the active index as a finite map from incidents to entries,
  then what any call of the publisher keeps true of the container.
\<close>

section \<open>Constructors\<close>

lemma incident_guard_Inr: "incident_guard b = Inr u \<longleftrightarrow> b"
  by (simp add: incident_guard_def guardR_eq_Inr)

lemma canonical_Inr: "canonical f x = Inr y \<longleftrightarrow> f x = Some y"
  by (simp add: canonical_def requireR_eq_Inr)

lemma otherwise_Inr: "otherwise e m = Inr x \<longleftrightarrow> m = Inr x"
  by (cases m) (simp_all add: otherwise_def)

lemma parsed_Inr: "parsed f validate s = Inr y \<longleftrightarrow> (\<exists>x. f s = Some x \<and> validate x = Inr y)"
  by (simp add: parsed_def bindR_eq_Inr requireR_eq_Inr)

lemma make_index_Inr:
  assumes "make_index i = Inr j"
  shows "j = i" and "distinct (index_ids i)" and "sorted (index_ids i)"
proof -
  from assms have "index_ids i = sort (index_ids i)" and d: "distinct (index_ids i)" and j: "j = i"
    by (auto simp: make_index_def bindR_eq_Inr incident_guard_Inr)
  moreover have "sorted (sort (index_ids i))" by simp
  ultimately show "j = i" "distinct (index_ids i)" "sorted (index_ids i)" by metis+
qed

lemma make_state_Inr: "make_state s = Inr t \<Longrightarrow> t = s"
  by (auto simp: make_state_def bindR_eq_Inr)

lemma make_attestation_Inr: "make_attestation a = Inr b \<Longrightarrow> b = a"
  by (auto simp: make_attestation_def bindR_eq_Inr)

lemma make_pointer_Inr: "make_pointer p = Inr q \<Longrightarrow> q = p"
  by (auto simp: make_pointer_def bindR_eq_Inr)

lemma make_entry_Inr: "make_entry e = Inr f \<Longrightarrow> f = e"
  by (auto simp: make_entry_def bindR_eq_Inr)

lemma asset_of_Inr:
  "asset_of fc name payload maximum = Inr a
   \<Longrightarrow> a = \<lparr>as_name = name, as_payload = payload, as_sha = digest_of fc payload, as_maximum = maximum\<rparr>"
  by (auto simp: asset_of_def make_asset_def bindR_eq_Inr)

section \<open>The index as a map\<close>

definition index_valid :: "active_index \<Rightarrow> bool" where
  "index_valid i \<longleftrightarrow> distinct (index_ids i) \<and> sorted (index_ids i)"

lemma keyed_plain: "distinct (map f xs) \<Longrightarrow> keyed f xs = map (\<lambda>x. (f x, x)) xs"
proof -
  have "distinct (map fst acc @ map f xs) \<Longrightarrow> fold (\<lambda>x. AList.update (f x) x) xs acc = acc @ map (\<lambda>x. (f x, x)) xs" for acc
  proof (induction xs arbitrary: acc)
    case (Cons x xs)
    then have "AList.update (f x) x acc = acc @ [(f x, x)]" by (intro update_fresh) auto
    with Cons show ?case by simp
  qed simp
  from this[of "[]"] show "distinct (map f xs) \<Longrightarrow> keyed f xs = map (\<lambda>x. (f x, x)) xs" by (simp add: keyed_def)
qed

lemma find_keyed: "find (\<lambda>x. f x = k) xs = map_of (map (\<lambda>x. (f x, x)) xs) k"
  by (induction xs) auto

text \<open>A dict whose keys are the incidents of its entries.\<close>

definition dict_valid :: "(string \<times> active_entry) list \<Rightarrow> bool" where
  "dict_valid d \<longleftrightarrow> distinct (map fst d) \<and> (\<forall>(k, e) \<in> set d. ae_incident_id e = k)"

lemma dict_valid_keyed: "dict_valid (entries_by_id es)"
  by (auto simp: dict_valid_def entries_by_id_def keyed_distinct dest: keyed_entries)

lemma dict_valid_pop: "dict_valid d \<Longrightarrow> dict_valid (pop_entry k d)"
  by (auto simp: dict_valid_def pop_entry_def distinct_map_filter)

lemma dict_valid_set: "dict_valid d \<Longrightarrow> ae_incident_id e = k \<Longrightarrow> dict_valid (set_entry k e d)"
  using set_update[of k e d] by (auto simp: dict_valid_def set_entry_def AList.distinct_update)

lemma ordered_ids:
  assumes "dict_valid d"
  shows "map ae_incident_id (ordered_entries d) = sort (map fst d)"
proof -
  have "ae_incident_id (the (map_of d k)) = k" if "k \<in> set (sort (map fst d))" for k
  proof -
    from that obtain e where "map_of d k = Some e" by (auto simp: map_of_eq_None_iff dest!: weak_map_of_SomeI)
    with assms show ?thesis by (auto simp: dict_valid_def dest: map_of_SomeD)
  qed
  then show ?thesis unfolding ordered_entries_def map_map comp_def by (rule map_idI)
qed

lemma ordered_find:
  assumes "dict_valid d"
  shows "find (\<lambda>e. ae_incident_id e = k) (ordered_entries d) = map_of d k"
proof (cases "map_of d k")
  case None
  then have "k \<notin> set (map ae_incident_id (ordered_entries d))"
    unfolding ordered_ids[OF assms] by (auto simp: map_of_eq_None_iff)
  with None show ?thesis by (auto simp: find_None_iff)
next
  case (Some e)
  then have k: "k \<in> set (map ae_incident_id (ordered_entries d))"
    unfolding ordered_ids[OF assms] by (force dest: map_of_SomeD)
  then obtain e' where f: "find (\<lambda>e. ae_incident_id e = k) (ordered_entries d) = Some e'"
    by (cases "find (\<lambda>e. ae_incident_id e = k) (ordered_entries d)") (auto simp: find_None_iff)
  then have "e' \<in> set (ordered_entries d)" "ae_incident_id e' = k"
    by (auto simp: find_Some_iff in_set_conv_nth)
  then obtain k' where k': "e' = the (map_of d k')" "k' \<in> set (map fst d)" by (auto simp: ordered_entries_def)
  then obtain e'' where e'': "map_of d k' = Some e''" by (cases "map_of d k'") (auto simp: map_of_eq_None_iff)
  with k' assms \<open>ae_incident_id e' = k\<close> have "k' = k" by (auto simp: dict_valid_def dest!: map_of_SomeD)
  with k' e'' Some f show ?thesis by simp
qed

lemma map_of_pop: "map_of (pop_entry k d) j = (if j = k then None else map_of d j)"
  by (induction d) (auto simp: pop_entry_def)

lemma map_of_set: "map_of (set_entry k e d) j = (if j = k then Some e else map_of d j)"
  by (simp add: set_entry_def AList.update_conv')

text \<open>The entries a snapshot has, by incident.\<close>

lemma entries_map:
  assumes "index_valid i"
  shows "map_of (entries_by_id (ai_incidents i)) k = entry_for i k"
  using assms by (simp add: entries_by_id_def index_valid_def index_ids_def keyed_plain entry_for_def find_keyed)

section \<open>Steps of the index\<close>

text \<open>
  An index that is built from another: it is valid, it differs in the entry of at most one incident,
  and it is the same index or a later one.
\<close>

definition differs_at :: "(string \<Rightarrow> bool) \<Rightarrow> active_index option \<Rightarrow> active_index \<Rightarrow> bool" where
  "differs_at P previous i \<longleftrightarrow> index_valid i
     \<and> (\<forall>j. \<not> P j \<longrightarrow> entry_for i j = (case previous of None \<Rightarrow> None | Some p \<Rightarrow> entry_for p j))
     \<and> (case previous of None \<Rightarrow> True | Some p \<Rightarrow> i = p \<or> ai_published_at p < ai_published_at i)"

definition snapshot_ok :: "feed_codec \<Rightarrow> index_snapshot option \<Rightarrow> bool" where
  "snapshot_ok fc snapshot = (case snapshot of None \<Rightarrow> True
     | Some sn \<Rightarrow> index_valid (sn_index sn) \<and> (\<exists>bytes. fc_index fc (sn_index sn) = Some bytes \<and> sn_sha sn = digest_of fc bytes))"

lemma next_index_Inr:
  assumes "next_index fc sg ordered published previous = Inr i"
  shows "ai_incidents i = ordered" and "index_valid i" and "ai_published_at i = index_time previous published"
    and "ai_key_id i = sg_key_id sg" and "ai_key_fingerprint i = sg_fingerprint sg"
proof -
  from assms obtain seed where m: "make_index \<lparr>ai_incidents = ordered,
      ai_attestation_path = ''./incidents/index-attestations/'' @ fc_hexdigest fc seed @ ''.json'',
      ai_key_id = sg_key_id sg, ai_key_fingerprint = sg_fingerprint sg, ai_published_at = index_time previous published\<rparr> = Inr i"
    by (auto simp: next_index_def Let_def bindR_eq_Inr)
  from make_index_Inr[OF m] show "ai_incidents i = ordered" "index_valid i" "ai_published_at i = index_time previous published"
    "ai_key_id i = sg_key_id sg" "ai_key_fingerprint i = sg_fingerprint sg"
    by (auto simp: index_valid_def)
qed

lemma index_time_later: "ai_published_at p < index_time (Some p) published"
  by (auto simp: index_time_def Let_def)

lemma index_publication_Inr:
  assumes "build_active_incident_index_publication fc sg entries published snapshot reuse = Inr ip"
    and "snapshot_ok fc snapshot"
  shows "ip_previous_sha ip = map_option sn_sha snapshot" and "fc_index fc (ip_index ip) = Some (as_payload (ip_asset ip))"
    and "as_name (ip_asset ip) = ''incidents/active.json''" and "as_maximum (ip_asset ip) = 64 * 1024"
    and "index_valid (ip_index ip)"
    and "ai_incidents (ip_index ip) = ordered_entries (entries_by_id entries)"
    and "case snapshot of None \<Rightarrow> True
      | Some sn \<Rightarrow> ip_index ip = sn_index sn \<or> ai_published_at (sn_index sn) < ai_published_at (ip_index ip)"
proof -
  let ?previous = "map_option sn_index snapshot"
  let ?ordered = "ordered_entries (entries_by_id entries)"
  from assms(1) obtain i bytes a attestation_bytes ia aa where
    i: "(case ?previous of
          Some i \<Rightarrow> if reuse \<and> index_unchanged sg ?ordered i then Inr i else next_index fc sg ?ordered published ?previous
        | None \<Rightarrow> next_index fc sg ?ordered published ?previous) = Inr i"
    and b: "fc_index fc i = Some bytes"
    and ia: "asset_of fc ''incidents/active.json'' bytes (64 * 1024) = Inr ia"
    and ip: "make_index_publication fc \<lparr>ip_index = i, ip_attestation = a, ip_asset = ia,
        ip_attestation_asset = aa, ip_previous_sha = map_option sn_sha snapshot\<rparr> = Inr ip"
    unfolding build_active_incident_index_publication_def Let_def bindR_eq_Inr canonical_Inr by blast
  from ip have eq: "ip = \<lparr>ip_index = i, ip_attestation = a, ip_asset = ia, ip_attestation_asset = aa,
      ip_previous_sha = map_option sn_sha snapshot\<rparr>"
    by (auto simp: make_index_publication_def bindR_eq_Inr)
  then show "ip_previous_sha ip = map_option sn_sha snapshot" "fc_index fc (ip_index ip) = Some (as_payload (ip_asset ip))"
    "as_name (ip_asset ip) = ''incidents/active.json''" "as_maximum (ip_asset ip) = 64 * 1024"
    using b asset_of_Inr[OF ia] by simp_all
  have "index_valid i \<and> ai_incidents i = ?ordered \<and> (case snapshot of None \<Rightarrow> True
      | Some sn \<Rightarrow> i = sn_index sn \<or> ai_published_at (sn_index sn) < ai_published_at i)"
  proof (cases snapshot)
    case None
    with i next_index_Inr show ?thesis by auto
  next
    case (Some sn)
    show ?thesis
    proof (cases "reuse \<and> index_unchanged sg ?ordered (sn_index sn)")
      case True
      with i Some assms(2) show ?thesis by (auto simp: snapshot_ok_def index_unchanged_def)
    next
      case False
      with i Some have "next_index fc sg ?ordered published (Some (sn_index sn)) = Inr i" by auto
      from next_index_Inr[OF this] index_time_later[of "sn_index sn" published] Some show ?thesis by simp
    qed
  qed
  with eq show "index_valid (ip_index ip)" "ai_incidents (ip_index ip) = ?ordered"
    "case snapshot of None \<Rightarrow> True
      | Some sn \<Rightarrow> ip_index ip = sn_index sn \<or> ai_published_at (sn_index sn) < ai_published_at (ip_index ip)"
    by (cases snapshot; simp)+
qed

lemma snapshot_entries:
  "snapshot_ok fc snapshot \<Longrightarrow> map_of (entries_by_id (case snapshot of None \<Rightarrow> [] | Some sn \<Rightarrow> ai_incidents (sn_index sn))) j
     = snapshot_entry snapshot j"
  by (cases snapshot) (auto simp: entries_map snapshot_ok_def snapshot_entry_def, simp add: entries_by_id_def keyed_def)

text \<open>The heartbeat changes no entry.\<close>

lemma heartbeat_Inr:
  assumes "build_active_incident_index_heartbeat fc sg published snapshot = Inr ip" and "snapshot_ok fc snapshot"
  shows "differs_at (\<lambda>_. False) (map_option sn_index snapshot) (ip_index ip)"
proof -
  let ?es = "case snapshot of None \<Rightarrow> [] | Some s \<Rightarrow> ai_incidents (sn_index s)"
  note ip = index_publication_Inr[OF assms(1)[unfolded build_active_incident_index_heartbeat_def] assms(2)]
  have "entry_for (ip_index ip) j = (case map_option sn_index snapshot of None \<Rightarrow> None | Some p \<Rightarrow> entry_for p j)" for j
  proof -
    have "entry_for (ip_index ip) j = map_of (entries_by_id ?es) j"
      unfolding entry_for_def ip(6) by (rule ordered_find[OF dict_valid_keyed])
    also have "\<dots> = (case map_option sn_index snapshot of None \<Rightarrow> None | Some p \<Rightarrow> entry_for p j)"
      unfolding snapshot_entries[OF assms(2)] by (cases snapshot) (simp_all add: snapshot_entry_def)
    finally show ?thesis .
  qed
  with ip(5,7) show ?thesis by (cases snapshot) (auto simp: differs_at_def)
qed

section \<open>The publication of an incident\<close>

lemma entries_after_Inr:
  assumes "entries_after s a snapshot = Inr es" and "snapshot_ok fc snapshot"
  shows "distinct (map ae_incident_id es)"
    and "find (\<lambda>e. ae_incident_id e = j) es = (if j = is_incident_id s
      then (if is_lifecycle s = IncidentActive
        then Some \<lparr>ae_incident_id = is_incident_id s, ae_scenario = is_scenario s, ae_workload_role = is_workload_role s,
          ae_pointer_path = ''./'' @ as_name a, ae_pointer_sha = as_sha a, ae_detected_at = is_detected_at s,
          ae_updated_at = is_updated_at s\<rparr> else None)
      else snapshot_entry snapshot j)"
proof -
  let ?d = "entries_by_id (case snapshot of None \<Rightarrow> [] | Some sn \<Rightarrow> ai_incidents (sn_index sn))"
  let ?e = "\<lparr>ae_incident_id = is_incident_id s, ae_scenario = is_scenario s, ae_workload_role = is_workload_role s,
          ae_pointer_path = ''./'' @ as_name a, ae_pointer_sha = as_sha a, ae_detected_at = is_detected_at s,
          ae_updated_at = is_updated_at s\<rparr>"
  have d: "map_of ?d j = snapshot_entry snapshot j"
    by (rule snapshot_entries[OF assms(2)])
  let ?d' = "if is_lifecycle s = IncidentActive then set_entry (is_incident_id s) ?e ?d else pop_entry (is_incident_id s) ?d"
  have es: "es = ordered_entries ?d'"
    using assms(1) by (auto simp: entries_after_def Let_def bindR_eq_Inr split: if_splits dest: make_entry_Inr)
  have v: "dict_valid ?d'" using dict_valid_keyed by (simp add: dict_valid_set dict_valid_pop)
  show "distinct (map ae_incident_id es)"
    unfolding es ordered_ids[OF v] using v by (simp add: dict_valid_def)
  show "find (\<lambda>e. ae_incident_id e = j) es = (if j = is_incident_id s
      then (if is_lifecycle s = IncidentActive then Some ?e else None) else snapshot_entry snapshot j)"
    unfolding es ordered_find[OF v] using d by (simp add: map_of_set map_of_pop)
qed

lemma reordered_entries:
  assumes "distinct (map ae_incident_id es)"
  shows "find (\<lambda>e. ae_incident_id e = j) (ordered_entries (entries_by_id es)) = find (\<lambda>e. ae_incident_id e = j) es"
  using assms by (simp add: ordered_find[OF dict_valid_keyed]) (simp add: entries_by_id_def keyed_plain find_keyed)

lemma incident_publication_Inr:
  assumes "build_incident_publication fc sg s a published snapshot = Inr b" and "snapshot_ok fc snapshot"
  shows "ip_previous_sha (pb_index b) = map_option sn_sha snapshot"
    and "fc_index fc (ip_index (pb_index b)) = Some (as_payload (ip_asset (pb_index b)))"
    and "as_name (ip_asset (pb_index b)) = ''incidents/active.json''" and "as_maximum (ip_asset (pb_index b)) = 64 * 1024"
    and "differs_at (\<lambda>j. j = is_incident_id s) (map_option sn_index snapshot) (ip_index (pb_index b))"
    and "fc_pointer fc (pb_pointer b) = Some (as_payload (pb_current_pointer_asset b))"
    and "as_name (pb_current_pointer_asset b) = ''incidents/'' @ is_incident_id s @ ''/current.json''"
    and "fp_incident_id (pb_pointer b) = is_incident_id s" and "as_maximum (pb_current_pointer_asset b) = 16 * 1024"
    and "entry_for (ip_index (pb_index b)) (is_incident_id s) = (if is_lifecycle s = IncidentActive
      then Some \<lparr>ae_incident_id = is_incident_id s, ae_scenario = is_scenario s, ae_workload_role = is_workload_role s,
          ae_pointer_path = ''./'' @ as_name (pb_pointer_asset b), ae_pointer_sha = as_sha (pb_pointer_asset b),
          ae_detected_at = is_detected_at s, ae_updated_at = is_updated_at s\<rparr> else None)"
    and "is_updated_at s \<le> fp_published_at (pb_pointer b)"
proof -
  let ?pre = "version_prefix (is_incident_id s) (remove_prefix ''sha256:'' (is_result_digest s))"
  from assms(1) obtain state_asset attestation_asset p pointer_bytes pa pointer_asset current_asset es ip pointer_att_asset where
    p: "make_pointer \<lparr>fp_incident_id = is_incident_id s, fp_state_path = ''./'' @ as_name state_asset,
             fp_state_sha = as_sha state_asset, fp_attestation_path = ''./'' @ as_name attestation_asset,
             fp_attestation_sha = as_sha attestation_asset,
             fp_pointer_attestation_path = ''./'' @ ?pre @ ''/pointer-attestation.json'',
             fp_key_id = sg_key_id sg, fp_key_fingerprint = sg_fingerprint sg,
             fp_published_at = max published (is_updated_at s)\<rparr> = Inr p"
    and pb: "fc_pointer fc p = Some pointer_bytes"
    and ca: "asset_of fc (''incidents/'' @ is_incident_id s @ ''/current.json'') pointer_bytes (16 * 1024) = Inr current_asset"
    and es: "entries_after s pointer_asset snapshot = Inr es"
    and ip: "build_active_incident_index_publication fc sg es (max published (is_updated_at s)) snapshot True = Inr ip"
    and b: "make_incident_publication fc \<lparr>pb_pointer = p, pb_pointer_attestation = pa, pb_pointer_asset = pointer_asset,
           pb_current_pointer_asset = current_asset, pb_pointer_attestation_asset = pointer_att_asset,
           pb_state = state_asset, pb_attestation = attestation_asset, pb_index = ip\<rparr> = Inr b"
    unfolding build_incident_publication_def Let_def bindR_eq_Inr canonical_Inr by blast
  from b have eq: "b = \<lparr>pb_pointer = p, pb_pointer_attestation = pa, pb_pointer_asset = pointer_asset,
           pb_current_pointer_asset = current_asset, pb_pointer_attestation_asset = pointer_att_asset,
           pb_state = state_asset, pb_attestation = attestation_asset, pb_index = ip\<rparr>"
    unfolding make_incident_publication_def Let_def bindR_eq_Inr by blast
  note i = index_publication_Inr[OF ip assms(2)]
  note after = entries_after_Inr[OF es assms(2)]
  have entries: "entry_for (ip_index ip) j = find (\<lambda>e. ae_incident_id e = j) es" for j
    unfolding entry_for_def i(6) by (rule reordered_entries[OF after(1)])
  show "ip_previous_sha (pb_index b) = map_option sn_sha snapshot"
    "fc_index fc (ip_index (pb_index b)) = Some (as_payload (ip_asset (pb_index b)))"
    "as_name (ip_asset (pb_index b)) = ''incidents/active.json''" "as_maximum (ip_asset (pb_index b)) = 64 * 1024"
    using i eq by simp_all
  show "differs_at (\<lambda>j. j = is_incident_id s) (map_option sn_index snapshot) (ip_index (pb_index b))"
    using i(5,7) eq by (cases snapshot) (auto simp: differs_at_def entries after(2) snapshot_entry_def)
  show "fc_pointer fc (pb_pointer b) = Some (as_payload (pb_current_pointer_asset b))"
    "as_name (pb_current_pointer_asset b) = ''incidents/'' @ is_incident_id s @ ''/current.json''"
    "as_maximum (pb_current_pointer_asset b) = 16 * 1024"
    using asset_of_Inr[OF ca] pb eq by simp_all
  show "fp_incident_id (pb_pointer b) = is_incident_id s" "is_updated_at s \<le> fp_published_at (pb_pointer b)"
    using make_pointer_Inr[OF p] eq by simp_all
  show "entry_for (ip_index (pb_index b)) (is_incident_id s) = (if is_lifecycle s = IncidentActive
      then Some \<lparr>ae_incident_id = is_incident_id s, ae_scenario = is_scenario s, ae_workload_role = is_workload_role s,
          ae_pointer_path = ''./'' @ as_name (pb_pointer_asset b), ae_pointer_sha = as_sha (pb_pointer_asset b),
          ae_detected_at = is_detected_at s, ae_updated_at = is_updated_at s\<rparr> else None)"
    using eq by (simp add: entries after(2))
qed

end
