(* ===== verification/FeedSafety.thy ===== *)
theory FeedSafety
  imports IncidentFacts
begin

text \<open>
  What the publisher never does to the container, whatever other writers do at the same time: it
  creates blobs, and it replaces only the active index and the current pointers, each by a later one
  that was made from what it replaces.
\<close>

section \<open>Rules for actions that keep a predicate\<close>

text \<open>The action keeps \<open>I\<close>, also when it fails, and a value it returns satisfies \<open>\<phi>\<close>.\<close>

definition keeps :: "('w \<Rightarrow> bool) \<Rightarrow> ('w, 'a) action \<Rightarrow> ('a \<Rightarrow> bool) \<Rightarrow> bool" where
  "keeps I m \<phi> \<longleftrightarrow> safeW I I m (\<lambda>x w. I w \<and> \<phi> x)"

lemma keeps_bind: "keeps I m \<phi> \<Longrightarrow> (\<And>x. \<phi> x \<Longrightarrow> keeps I (f x) \<psi>) \<Longrightarrow> keeps I (bindW m f) \<psi>"
proof -
  assume m: "keeps I m \<phi>" and f: "\<And>x. \<phi> x \<Longrightarrow> keeps I (f x) \<psi>"
  have "safeW I (\<lambda>w. I w \<and> \<phi> x) (f x) (\<lambda>y w. I w \<and> \<psi> y)" for x
    using f[of x] by (cases "\<phi> x") (simp_all add: keeps_def safeW_def)
  with m show ?thesis unfolding keeps_def by (rule safeW_bind)
qed

lemma keeps_lift: "keeps I (liftW r) (\<lambda>x. r = Inr x)"
  by (auto simp: keeps_def safeW_def liftW_def split: sum.splits)

lemma keeps_check: "keeps I (checkW b e) (\<lambda>_. b)"
  by (auto simp: keeps_def safeW_def checkW_def liftW_def guardR_def)

lemma keeps_pure: "\<phi> x \<Longrightarrow> keeps I (pureW x) \<phi>"
  by (simp add: keeps_def safeW_def pureW_def)

lemma keeps_fail: "keeps I (fail e) \<phi>"
  by (simp add: keeps_def safeW_def fail_def liftW_def)

lemma safeW_fail: "I w \<Longrightarrow> safeW I (\<lambda>v. v = w) (fail e) Q"
  by (simp add: safeW_def fail_def liftW_def)

lemma safeW_return: "Q x w \<Longrightarrow> safeW I (\<lambda>v. v = w) (pureW x) Q"
  by (simp add: safeW_def pureW_def)

lemma keeps_weaken: "keeps I m \<phi> \<Longrightarrow> (\<And>x. \<phi> x \<Longrightarrow> \<psi> x) \<Longrightarrow> keeps I m \<psi>"
  unfolding keeps_def by (erule safeW_post) auto

lemma keeps_lift_any: "keeps I (liftW r) (\<lambda>_. True)"
  by (rule keeps_weaken[OF keeps_lift]) simp

lemma keeps_on_conflict: "keeps I m \<phi> \<Longrightarrow> keeps I h \<phi> \<Longrightarrow> keeps I (on_conflict m h) \<phi>"
proof -
  assume m: "keeps I m \<phi>" and h: "keeps I h \<phi>"
  have "case on_conflict m h w of (Inl _, w') \<Rightarrow> I w' | (Inr x, w') \<Rightarrow> I w' \<and> \<phi> x" if w: "I w" for w
  proof -
    obtain r w' where r: "m w = (r, w')" by fastforce
    have "case m w of (Inl _, w') \<Rightarrow> I w' | (Inr x, w') \<Rightarrow> I w' \<and> \<phi> x"
      using m w by (simp add: keeps_def safeW_def)
    moreover have "case h w' of (Inl _, w') \<Rightarrow> I w' | (Inr x, w') \<Rightarrow> I w' \<and> \<phi> x" if "I w'"
      using h that by (simp add: keeps_def safeW_def)
    ultimately show ?thesis by (cases r) (simp_all add: on_conflict_def r)
  qed
  then show ?thesis by (simp add: keeps_def safeW_def)
qed

lemma keeps_world: "(\<And>w. I w \<Longrightarrow> safeW I (\<lambda>v. v = w) m (\<lambda>x v. I v \<and> \<phi> x)) \<Longrightarrow> keeps I m \<phi>"
  by (simp add: keeps_def safeW_def)

lemma keeps_at: "keeps I m \<phi> \<Longrightarrow> I w \<Longrightarrow> safeW I (\<lambda>v. v = w) m (\<lambda>x v. I v \<and> \<phi> x)"
  by (simp add: keeps_def safeW_def)

lemmas keeps_rules = keeps_pure keeps_fail keeps_lift_any keeps_check

section \<open>Writes\<close>

text \<open>
  The index is replaced by one that differs in at most one incident from an index with the digest of
  the replaced bytes, and that is later than the replaced one.
\<close>

definition index_write :: "feed_codec \<Rightarrow> string \<Rightarrow> string \<Rightarrow> bool" where
  "index_write fc before after \<longleftrightarrow> (\<exists>p i current bytes incident.
     fc_index fc p = Some bytes \<and> digest_of fc bytes = digest_of fc before
     \<and> fc_index fc i = Some after \<and> differs_at (\<lambda>j. j = incident) (Some p) i
     \<and> parse_index fc before = Inr current \<and> ai_published_at current < ai_published_at i)"

definition pointer_write :: "feed_codec \<Rightarrow> string \<Rightarrow> string \<Rightarrow> string \<Rightarrow> bool" where
  "pointer_write fc incident before after \<longleftrightarrow> (\<exists>p q.
     parse_pointer fc before = Inr q \<and> fc_pointer fc p = Some after
     \<and> fp_incident_id q = incident \<and> fp_incident_id p = incident \<and> fp_published_at q < fp_published_at p)"

definition write_ok :: "feed_codec \<Rightarrow> blob_write \<Rightarrow> bool" where
  "write_ok fc wr = (case wr_before wr of None \<Rightarrow> True | Some b \<Rightarrow>
     (wr_name wr = ''incidents/active.json'' \<and> index_write fc (take (64 * 1024 + 1) (bl_payload b)) (wr_payload wr))
     \<or> (\<exists>incident. wr_name wr = ''incidents/'' @ incident @ ''/current.json''
          \<and> pointer_write fc incident (bl_payload b) (wr_payload wr)))"

text \<open>
  Entity tags are never used twice: the tags of the own writes and of those of the others grow with the
  number of calls.
\<close>

definition fresh_tags :: "(string \<Rightarrow> nat) \<Rightarrow> blob_service \<Rightarrow> bool" where
  "fresh_tags age bs \<longleftrightarrow> (\<forall>n. age (bs_etag bs n) = 2 * n + 1)
     \<and> (\<forall>n c name b. bs_others bs n c name = Some b \<longrightarrow> c name = Some b \<or> age (bl_etag b) = 2 * n)"

definition feed_ok :: "(string \<Rightarrow> nat) \<Rightarrow> feed_codec \<Rightarrow> feed_world \<Rightarrow> bool" where
  "feed_ok age fc w \<longleftrightarrow> list_all (write_ok fc) (fw_writes w)
     \<and> (\<forall>name b. fw_blobs w name = Some b \<longrightarrow> age (bl_etag b) < 2 * fw_calls w)"

text \<open>The world that a call acts on, once the others had their turn.\<close>

definition called :: "(string \<Rightarrow> nat) \<Rightarrow> feed_codec \<Rightarrow> nat \<Rightarrow> feed_world \<Rightarrow> bool" where
  "called age fc n w \<longleftrightarrow> fw_calls w = n + 1 \<and> list_all (write_ok fc) (fw_writes w)
     \<and> (\<forall>name b. fw_blobs w name = Some b \<longrightarrow> age (bl_etag b) \<le> 2 * n)"

definition turn :: "blob_service \<Rightarrow> feed_world \<Rightarrow> feed_world" where
  "turn bs w = w\<lparr>fw_blobs := bs_others bs (fw_calls w) (fw_blobs w), fw_calls := fw_calls w + 1\<rparr>"

lemma turn_called: "fresh_tags age bs \<Longrightarrow> feed_ok age fc w \<Longrightarrow> called age fc (fw_calls w) (turn bs w)"
proof -
  assume tags: "fresh_tags age bs" and ok: "feed_ok age fc w"
  have "age (bl_etag b) \<le> 2 * fw_calls w" if "bs_others bs (fw_calls w) (fw_blobs w) name = Some b" for name b
  proof -
    from tags that have "fw_blobs w name = Some b \<or> age (bl_etag b) = 2 * fw_calls w" unfolding fresh_tags_def by blast
    with ok show ?thesis by (auto simp: feed_ok_def dest: less_imp_le)
  qed
  with ok show ?thesis by (simp add: called_def turn_def feed_ok_def)
qed

lemma called_ok: "called age fc n w \<Longrightarrow> feed_ok age fc w"
  by (force simp: called_def feed_ok_def)

lemma put_ok:
  assumes "called age fc n w" and "fresh_tags age bs"
    and "write_ok fc \<lparr>wr_name = name, wr_before = fw_blobs w name, wr_payload = as_payload a\<rparr>"
  shows "feed_ok age fc (put_blob bs n name a w)"
  using assms by (force simp: called_def feed_ok_def put_blob_def fresh_tags_def)

lemma blob_call_eq:
  "blob_call bs f w = (case bs_fault bs (fw_calls w) of
       NoFault \<Rightarrow> (case f (fw_calls w) (turn bs w) of (r, w2) \<Rightarrow> (Inr r, w2))
     | FailsBefore e \<Rightarrow> (Inr (Inl e), turn bs w)
     | FailsAfter e \<Rightarrow> (case f (fw_calls w) (turn bs w) of (_, w2) \<Rightarrow> (Inr (Inl e), w2)))"
  unfolding blob_call_def turn_def Let_def by (rule refl)

lemma blob_call_safe:
  assumes "fresh_tags age bs" and "feed_ok age fc w"
    and "\<And>r w2. f (fw_calls w) (turn bs w) = (r, w2) \<Longrightarrow> feed_ok age fc w2 \<and> Q r w2"
    and "\<And>e w2. feed_ok age fc w2 \<Longrightarrow> Q (Inl e) w2"
  shows "safeW (feed_ok age fc) (\<lambda>v. v = w) (blob_call bs f) (\<lambda>r v. feed_ok age fc v \<and> Q r v)"
proof -
  obtain r w2 where f: "f (fw_calls w) (turn bs w) = (r, w2)" by fastforce
  have t: "feed_ok age fc (turn bs w)" using called_ok[OF turn_called[OF assms(1,2)]] .
  show ?thesis
    using assms(3)[OF f] assms(4) t
    by (auto simp: safeW_def blob_call_eq f split: fault.splits)
qed

lemma download_safe:
  assumes "fresh_tags age bs" and "feed_ok age fc w"
  shows "safeW (feed_ok age fc) (\<lambda>v. v = w) (download_blob bs name limit) (\<lambda>r v. feed_ok age fc v
    \<and> (case r of Inl _ \<Rightarrow> True | Inr b \<Rightarrow> \<exists>b0. fw_blobs v name = Some b0 \<and> b = b0\<lparr>bl_payload := take limit (bl_payload b0)\<rparr>))"
  unfolding download_blob_def
  by (rule blob_call_safe[OF assms])
    (use called_ok[OF turn_called[OF assms]] in \<open>auto split: option.splits\<close>)

lemma upload_if_missing_keeps:
  assumes "fresh_tags age bs"
  shows "keeps (feed_ok age fc) (upload_if_missing bs a) (\<lambda>_. True)"
proof (rule keeps_world)
  fix w assume ok: "feed_ok age fc w"
  note c = turn_called[OF assms ok]
  have "feed_ok age fc (put_blob bs (fw_calls w) (as_name a) a (turn bs w))"
    if "fw_blobs (turn bs w) (as_name a) = None"
    by (rule put_ok[OF c assms]) (simp add: write_ok_def that)
  then show "safeW (feed_ok age fc) (\<lambda>v. v = w) (upload_if_missing bs a) (\<lambda>x v. feed_ok age fc v \<and> True)"
    unfolding upload_if_missing_def
    by (intro blob_call_safe[OF assms ok]) (use called_ok[OF c] in \<open>auto split: if_splits\<close>)
qed

lemma upload_if_match_safe:
  assumes "fresh_tags age bs" and "feed_ok age fc w" and "fw_blobs w (as_name a) = Some b0" and "bl_etag b0 = tag"
    and "write_ok fc \<lparr>wr_name = as_name a, wr_before = Some b0, wr_payload = as_payload a\<rparr>"
  shows "safeW (feed_ok age fc) (\<lambda>v. v = w) (upload_if_match bs tag a) (\<lambda>x v. feed_ok age fc v \<and> True)"
proof -
  note c = turn_called[OF assms(1,2)]
  have put: "feed_ok age fc (put_blob bs (fw_calls w) (as_name a) a (turn bs w))"
    if b: "fw_blobs (turn bs w) (as_name a) = Some b" "bl_etag b = tag" for b
  proof -
    have "age tag < 2 * fw_calls w" using assms(2-4) by (auto simp: feed_ok_def)
    moreover have "fw_blobs w (as_name a) = Some b \<or> age (bl_etag b) = 2 * fw_calls w"
      using b(1) assms(1) unfolding fresh_tags_def turn_def by simp
    ultimately have "b = b0" using b(2) assms(3) by auto
    with b assms(5) show ?thesis by (intro put_ok[OF c assms(1)]) simp
  qed
  show ?thesis
    unfolding upload_if_match_def
    by (rule blob_call_safe[OF assms(1,2)])
      (use called_ok[OF c] put in \<open>auto split: option.splits if_splits\<close>)
qed

section \<open>The publisher\<close>

lemma replace_mutable_safe:
  assumes "fresh_tags age (pu_service pu)" and "feed_ok age fc w" and "fw_blobs w (as_name a) = Some b0"
    and "bl_etag current = bl_etag b0"
    and "write_ok fc \<lparr>wr_name = as_name a, wr_before = Some b0, wr_payload = as_payload a\<rparr>"
  shows "safeW (feed_ok age fc) (\<lambda>v. v = w) (replace_mutable pu a current) (\<lambda>x v. feed_ok age fc v \<and> True)"
  unfolding replace_mutable_def checkW_def
proof (rule safeW_bind_check, rule assms(2), rule safeW_bind[OF upload_if_match_safe[OF assms(1-3) _ assms(5)]])
  show "bl_etag b0 = bl_etag current" using assms(4) by simp
  show "safeW (feed_ok age fc) (\<lambda>w. feed_ok age fc w \<and> True)
      (case r of Inr x \<Rightarrow> pureW () | Inl e \<Rightarrow> fail (if e = BlobModified then AssetAlreadyExists else IncidentPortError))
      (\<lambda>x v. feed_ok age fc v \<and> True)" for r :: "blob_error + unit"
    by (cases r) (simp_all add: safeW_def pureW_def fail_def liftW_def)
qed

lemma upload_missing_mutable_keeps:
  "fresh_tags age (pu_service pu) \<Longrightarrow> keeps (feed_ok age fc) (upload_missing_mutable pu a) (\<lambda>_. True)"
  unfolding upload_missing_mutable_def
  by (rule keeps_bind[OF upload_if_missing_keeps]) (auto split: sum.splits intro: keeps_rules)

lemma download_keeps: "fresh_tags age bs \<Longrightarrow> keeps (feed_ok age fc) (download_blob bs name limit) (\<lambda>_. True)"
  by (rule keeps_world, rule safeW_post[OF download_safe]) auto

lemma upload_immutable_keeps:
  assumes "fresh_tags age (pu_service pu)"
  shows "keeps (feed_ok age fc) (upload_immutable pu a) (\<lambda>_. True)"
proof -
  have r: "keeps (feed_ok age fc) (recover_immutable_reference pu a) (\<lambda>_. True)"
    unfolding recover_immutable_reference_def
    by (rule keeps_bind[OF download_keeps[OF assms]])
      (auto split: sum.splits intro!: keeps_rules keeps_bind[OF keeps_check] keeps_bind[OF keeps_lift])
  show ?thesis
    unfolding upload_immutable_def
    by (rule keeps_bind[OF upload_if_missing_keeps[OF assms]])
      (auto split: sum.splits option.splits intro: keeps_rules r)
qed

lemma publish_current_pointer_keeps:
  assumes tags: "fresh_tags age (pu_service pu)" and fc: "fc = pu_codec pu"
    and p: "fc_pointer fc (pb_pointer b) = Some (as_payload (pb_current_pointer_asset b))"
    and name: "as_name (pb_current_pointer_asset b) = ''incidents/'' @ fp_incident_id (pb_pointer b) @ ''/current.json''"
  shows "keeps (feed_ok age fc) (publish_current_pointer pu b) (\<lambda>_. True)"
  unfolding publish_current_pointer_def Let_def
proof (rule keeps_world, rule safeW_bind[OF download_safe[OF tags]], assumption, rule safeW_world)
  let ?a = "pb_current_pointer_asset b"
  fix r :: "blob_error + blob" and w assume "feed_ok age fc w \<and> (case r of Inl _ \<Rightarrow> True | Inr current \<Rightarrow>
    \<exists>b0. fw_blobs w (as_name ?a) = Some b0 \<and> current = b0\<lparr>bl_payload := take (as_maximum ?a + 1) (bl_payload b0)\<rparr>)"
  then have ok: "feed_ok age fc w" and r: "case r of Inl _ \<Rightarrow> True | Inr current \<Rightarrow>
    \<exists>b0. fw_blobs w (as_name ?a) = Some b0 \<and> current = b0\<lparr>bl_payload := take (as_maximum ?a + 1) (bl_payload b0)\<rparr>" by auto
  show "safeW (feed_ok age fc) (\<lambda>v. v = w)
      (case r of Inl e \<Rightarrow> if e = BlobMissing then upload_missing_mutable pu ?a
          else fail (if e = ServiceFailure then IncidentPortError else AssetAlreadyExists)
       | Inr current \<Rightarrow> bindW (checkW (json_blob_ok (pu_codec pu) (as_maximum ?a) current) AssetAlreadyExists) (\<lambda>_.
           if bl_payload current = as_payload ?a then pureW ()
           else bindW (liftW (check_newer_pointer pu (pb_pointer b) (bl_payload current))) (\<lambda>_.
             replace_mutable pu ?a current)))
      (\<lambda>x v. feed_ok age fc v \<and> True)"
  proof (cases r)
    case (Inl e)
    then show ?thesis
      using keeps_at[OF upload_missing_mutable_keeps[OF tags] ok, of ?a]
      by (cases "e = BlobMissing") (simp_all add: safeW_fail ok)
  next
    case (Inr current)
    with r obtain b0 where b0: "fw_blobs w (as_name ?a) = Some b0"
      and cur: "current = b0\<lparr>bl_payload := take (as_maximum ?a + 1) (bl_payload b0)\<rparr>" by auto
    have replace: "safeW (feed_ok age fc) (\<lambda>v. v = w) (replace_mutable pu ?a current) (\<lambda>x v. feed_ok age fc v \<and> True)"
      if "json_blob_ok (pu_codec pu) (as_maximum ?a) current"
        and newer: "check_newer_pointer pu (pb_pointer b) (bl_payload current) = Inr ()"
    proof (rule replace_mutable_safe[OF tags ok b0])
      from that(1) cur have "length (take (as_maximum ?a + 1) (bl_payload b0)) \<le> as_maximum ?a"
        by (simp add: json_blob_ok_def)
      then have full: "bl_payload current = bl_payload b0" using cur by (simp add: min_def split: if_splits)
      from newer obtain q where "parse_pointer fc (bl_payload b0) = Inr q"
        and "fp_incident_id q = fp_incident_id (pb_pointer b)" and "fp_published_at q < fp_published_at (pb_pointer b)"
        by (auto simp: check_newer_pointer_def bindR_eq_Inr otherwise_Inr guardR_eq_Inr full fc)
      with p have "pointer_write fc (fp_incident_id (pb_pointer b)) (bl_payload b0) (as_payload ?a)"
        by (auto simp: pointer_write_def)
      then show "write_ok fc \<lparr>wr_name = as_name ?a, wr_before = Some b0, wr_payload = as_payload ?a\<rparr>"
        using name by (auto simp: write_ok_def)
    qed (simp add: cur)
    show ?thesis
      unfolding Inr sum.case checkW_def
    proof (rule safeW_bind_check, rule ok)
      fix u :: unit assume "guardR (json_blob_ok (pu_codec pu) (as_maximum ?a) current) AssetAlreadyExists = Inr u"
      then have j: "json_blob_ok (pu_codec pu) (as_maximum ?a) current" by (simp add: guardR_eq_Inr)
      have "safeW (feed_ok age fc) (\<lambda>v. v = w)
          (bindW (liftW (check_newer_pointer pu (pb_pointer b) (bl_payload current))) (\<lambda>_. replace_mutable pu ?a current))
          (\<lambda>x v. feed_ok age fc v \<and> True)"
        by (rule safeW_bind_check, rule ok, rule replace[OF j]) simp
      then show "safeW (feed_ok age fc) (\<lambda>v. v = w)
          (if bl_payload current = as_payload ?a then pureW ()
           else bindW (liftW (check_newer_pointer pu (pb_pointer b) (bl_payload current))) (\<lambda>_. replace_mutable pu ?a current))
          (\<lambda>x v. feed_ok age fc v \<and> True)"
        by (cases "bl_payload current = as_payload ?a") (simp_all add: safeW_return ok)
    qed
  qed
qed

text \<open>What a publication must be for the index to be replaced by it.\<close>

definition index_sound :: "feed_codec \<Rightarrow> index_publication \<Rightarrow> bool" where
  "index_sound fc ip \<longleftrightarrow> fc_index fc (ip_index ip) = Some (as_payload (ip_asset ip))
     \<and> as_name (ip_asset ip) = ''incidents/active.json'' \<and> as_maximum (ip_asset ip) = 64 * 1024
     \<and> (\<exists>snapshot incident. snapshot_ok fc snapshot \<and> ip_previous_sha ip = map_option sn_sha snapshot
          \<and> differs_at (\<lambda>j. j = incident) (map_option sn_index snapshot) (ip_index ip))"

definition publication_sound :: "feed_codec \<Rightarrow> incident_publication \<Rightarrow> bool" where
  "publication_sound fc b \<longleftrightarrow> index_sound fc (pb_index b)
     \<and> fc_pointer fc (pb_pointer b) = Some (as_payload (pb_current_pointer_asset b))
     \<and> as_name (pb_current_pointer_asset b) = ''incidents/'' @ fp_incident_id (pb_pointer b) @ ''/current.json''"

lemma built_index_sound:
  "build_active_incident_index_heartbeat fc sg published snapshot = Inr ip \<Longrightarrow> snapshot_ok fc snapshot \<Longrightarrow> index_sound fc ip"
  using index_publication_Inr[of fc sg _ published snapshot False ip] heartbeat_Inr[of fc sg published snapshot ip]
  unfolding build_active_incident_index_heartbeat_def index_sound_def differs_at_def by blast

lemma built_publication_sound:
  "build_incident_publication fc sg s a published snapshot = Inr b \<Longrightarrow> snapshot_ok fc snapshot \<Longrightarrow> publication_sound fc b"
  using incident_publication_Inr[of fc sg s a published snapshot b]
  unfolding publication_sound_def index_sound_def by metis

lemma publish_active_index_keeps:
  assumes tags: "fresh_tags age (pu_service pu)" and fc: "fc = pu_codec pu" and sound: "index_sound fc ip"
  shows "keeps (feed_ok age fc) (publish_active_index pu ip) (\<lambda>_. True)"
  unfolding publish_active_index_def Let_def
proof (rule keeps_world, rule safeW_bind[OF download_safe[OF tags]], assumption, rule safeW_world)
  let ?a = "ip_asset ip"
  let ?R = "\<lambda>x v. feed_ok age fc v \<and> True"
  fix r :: "blob_error + blob" and w assume "feed_ok age fc w \<and> (case r of Inl _ \<Rightarrow> True | Inr current \<Rightarrow>
    \<exists>b0. fw_blobs w (as_name ?a) = Some b0 \<and> current = b0\<lparr>bl_payload := take (as_maximum ?a + 1) (bl_payload b0)\<rparr>)"
  then have ok: "feed_ok age fc w" and r: "case r of Inl _ \<Rightarrow> True | Inr current \<Rightarrow>
    \<exists>b0. fw_blobs w (as_name ?a) = Some b0 \<and> current = b0\<lparr>bl_payload := take (as_maximum ?a + 1) (bl_payload b0)\<rparr>" by auto
  have max: "as_maximum ?a = 64 * 1024" and name: "as_name ?a = ''incidents/active.json''"
    and payload: "fc_index fc (ip_index ip) = Some (as_payload ?a)"
    using sound by (simp_all add: index_sound_def)
  show "safeW (feed_ok age fc) (\<lambda>v. v = w)
      (case r of Inl e \<Rightarrow> if e = BlobMissing
          then bindW (checkW (ip_previous_sha ip = None) AssetAlreadyExists) (\<lambda>_. upload_missing_mutable pu ?a)
          else fail IncidentPortError
       | Inr current \<Rightarrow> if bl_payload current = as_payload ?a then pureW ()
           else bindW (checkW (ip_previous_sha ip = Some (digest_of (pu_codec pu) (bl_payload current))) AssetAlreadyExists) (\<lambda>_.
             bindW (liftW (parse_index (pu_codec pu) (bl_payload current))) (\<lambda>i.
             bindW (liftW (canonical (fc_index (pu_codec pu)) i)) (\<lambda>bytes.
             bindW (checkW (bl_payload current = bytes \<and> own_key pu (ai_key_id i) (ai_key_fingerprint i)
                 \<and> ai_published_at i < ai_published_at (ip_index ip)) AssetAlreadyExists) (\<lambda>_.
             replace_mutable pu ?a current))))) ?R"
  proof (cases r)
    case (Inl e)
    have "keeps (feed_ok age fc) (bindW (checkW (ip_previous_sha ip = None) AssetAlreadyExists)
        (\<lambda>_. upload_missing_mutable pu ?a)) (\<lambda>_. True)"
      by (rule keeps_bind[OF keeps_check upload_missing_mutable_keeps[OF tags]])
    from keeps_at[OF this ok] Inl show ?thesis by (cases "e = BlobMissing") (simp_all add: safeW_fail ok)
  next
    case (Inr current)
    with r max obtain b0 where b0: "fw_blobs w (as_name ?a) = Some b0"
      and cur: "current = b0\<lparr>bl_payload := take (64 * 1024 + 1) (bl_payload b0)\<rparr>" by auto
    have replace: "safeW (feed_ok age fc) (\<lambda>v. v = w) (replace_mutable pu ?a current) ?R"
      if sha: "ip_previous_sha ip = Some (digest_of (pu_codec pu) (bl_payload current))"
        and i: "parse_index (pu_codec pu) (bl_payload current) = Inr i" "ai_published_at i < ai_published_at (ip_index ip)" for i
    proof (rule replace_mutable_safe[OF tags ok b0])
      from sound obtain snapshot incident where sn: "snapshot_ok fc snapshot" "ip_previous_sha ip = map_option sn_sha snapshot"
        and d: "differs_at (\<lambda>j. j = incident) (map_option sn_index snapshot) (ip_index ip)"
        by (auto simp: index_sound_def)
      from sn(2) sha obtain s where s: "snapshot = Some s" "sn_sha s = digest_of fc (bl_payload current)"
        by (cases snapshot) (auto simp: fc)
      with sn(1) obtain bytes where "fc_index fc (sn_index s) = Some bytes" "digest_of fc bytes = digest_of fc (bl_payload current)"
        by (auto simp: snapshot_ok_def)
      moreover have "differs_at (\<lambda>j. j = incident) (Some (sn_index s)) (ip_index ip)" using d s by simp
      ultimately have "index_write fc (bl_payload current) (as_payload ?a)"
        using payload i unfolding index_write_def fc by blast
      then show "write_ok fc \<lparr>wr_name = as_name ?a, wr_before = Some b0, wr_payload = as_payload ?a\<rparr>"
        using name cur by (simp add: write_ok_def)
    qed (simp add: cur)
    have "safeW (feed_ok age fc) (\<lambda>v. v = w)
        (bindW (checkW (ip_previous_sha ip = Some (digest_of (pu_codec pu) (bl_payload current))) AssetAlreadyExists) (\<lambda>_.
             bindW (liftW (parse_index (pu_codec pu) (bl_payload current))) (\<lambda>i.
             bindW (liftW (canonical (fc_index (pu_codec pu)) i)) (\<lambda>bytes.
             bindW (checkW (bl_payload current = bytes \<and> own_key pu (ai_key_id i) (ai_key_fingerprint i)
                 \<and> ai_published_at i < ai_published_at (ip_index ip)) AssetAlreadyExists) (\<lambda>_.
             replace_mutable pu ?a current))))) ?R"
      unfolding checkW_def
    proof (rule safeW_bind_check, rule ok, rule safeW_bind_check, rule ok, rule safeW_bind_check, rule ok,
        rule safeW_bind_check, rule ok)
      fix u i bytes v
      assume sha: "guardR (ip_previous_sha ip = Some (digest_of (pu_codec pu) (bl_payload current))) AssetAlreadyExists = Inr u"
        and i: "parse_index (pu_codec pu) (bl_payload current) = Inr i"
        and later: "guardR (bl_payload current = bytes \<and> own_key pu (ai_key_id i) (ai_key_fingerprint i)
                 \<and> ai_published_at i < ai_published_at (ip_index ip)) AssetAlreadyExists = Inr v"
      show "safeW (feed_ok age fc) (\<lambda>v. v = w) (replace_mutable pu ?a current) ?R"
        by (rule replace[OF _ i]) (use sha later in \<open>simp_all add: guardR_eq_Inr\<close>)
    qed
    then show ?thesis
      by (cases "bl_payload current = as_payload ?a") (simp_all add: Inr safeW_return ok)
  qed
qed

lemma publish_incident_keeps:
  assumes tags: "fresh_tags age (pu_service pu)" and fc: "fc = pu_codec pu" and sound: "publication_sound fc b"
  shows "keeps (feed_ok age fc) (publish_incident pu b) (\<lambda>_. True)"
proof -
  have i: "index_sound fc (pb_index b)" and p: "fc_pointer fc (pb_pointer b) = Some (as_payload (pb_current_pointer_asset b))"
    and n: "as_name (pb_current_pointer_asset b) = ''incidents/'' @ fp_incident_id (pb_pointer b) @ ''/current.json''"
    using sound by (simp_all add: publication_sound_def)
  note up = upload_immutable_keeps[OF tags]
  show ?thesis
    unfolding publish_incident_def
    by (rule keeps_bind[OF keeps_check], rule keeps_bind[OF keeps_lift], rule keeps_bind[OF up], rule keeps_bind[OF up],
        rule keeps_bind[OF up], rule keeps_bind[OF up], rule keeps_bind[OF up],
        rule keeps_bind[OF publish_current_pointer_keeps[OF tags fc p n]],
        rule keeps_bind[OF publish_active_index_keeps[OF tags fc i]], rule keeps_bind[OF keeps_lift], rule keeps_lift_any)
qed

lemma publish_active_incident_index_keeps:
  assumes tags: "fresh_tags age (pu_service pu)" and fc: "fc = pu_codec pu" and sound: "index_sound fc ip"
  shows "keeps (feed_ok age fc) (publish_active_incident_index pu ip) (\<lambda>_. True)"
  unfolding publish_active_incident_index_def
  by (rule keeps_bind[OF keeps_check], rule keeps_bind[OF upload_immutable_keeps[OF tags]],
      rule keeps_bind[OF publish_active_index_keeps[OF tags fc sound]], rule keeps_lift_any)

end
