(* ===== verification/FeedRuns.thy ===== *)
theory FeedRuns
  imports FeedSafety
begin

text \<open>
  Runs over the feed: the readers give well-formed indexes and change nothing, so every reassessment and
  every heartbeat keeps what the publisher keeps, and so does any sequence of them.
\<close>

section \<open>Rules by the shape of an action\<close>

lemma keeps_bind_any: "keeps I m (\<lambda>_. True) \<Longrightarrow> (\<And>x. keeps I (f x) \<psi>) \<Longrightarrow> keeps I (bindW m f) \<psi>"
  by (rule keeps_bind)

lemma keeps_prod: "(\<And>a b. keeps I (f a b) \<phi>) \<Longrightarrow> keeps I (case x of (a, b) \<Rightarrow> f a b) \<phi>"
  by (cases x) simp

lemma keeps_prod_eq: "(\<And>a b. x = (a, b) \<Longrightarrow> keeps I (f a b) \<phi>) \<Longrightarrow> keeps I (case x of (a, b) \<Rightarrow> f a b) \<phi>"
  by (cases x) simp

lemma keeps_option: "keeps I m \<phi> \<Longrightarrow> (\<And>a. keeps I (f a) \<phi>) \<Longrightarrow> keeps I (case x of None \<Rightarrow> m | Some a \<Rightarrow> f a) \<phi>"
  by (cases x) simp_all

lemma keeps_sum: "(\<And>e. keeps I (g e) \<phi>) \<Longrightarrow> (\<And>a. keeps I (f a) \<phi>) \<Longrightarrow> keeps I (case x of Inl e \<Rightarrow> g e | Inr a \<Rightarrow> f a) \<phi>"
  by (cases x) simp_all

lemma keeps_if: "keeps I m \<phi> \<Longrightarrow> keeps I m' \<phi> \<Longrightarrow> keeps I (if b then m else m') \<phi>"
  by (cases b) simp_all

lemma keeps_pure_any: "keeps I (pureW x) (\<lambda>_. True)"
  by (simp add: keeps_pure)

lemma keeps_check_any: "keeps I (checkW b e) (\<lambda>_. True)"
  by (rule keeps_weaken[OF keeps_check]) simp

lemmas keeps_walk =
  keeps_bind_any keeps_prod keeps_option keeps_sum keeps_if keeps_pure_any keeps_check_any keeps_lift_any keeps_fail

section \<open>What an action returns\<close>


text \<open>Only the value matters from here on.\<close>

abbreviation returns :: "('w, 'a) action \<Rightarrow> ('a \<Rightarrow> bool) \<Rightarrow> bool" where
  "returns \<equiv> keeps (\<lambda>_. True)"

lemma returns_any: "returns m (\<lambda>_. True)"
  by (auto simp: keeps_def safeW_def split: sum.splits prod.splits)

lemmas returns_step = keeps_bind_any[OF returns_any]

lemma returns_run: "returns m \<phi> \<Longrightarrow> m w = (Inr x, w') \<Longrightarrow> \<phi> x"
  unfolding keeps_def safeW_def by (drule spec[of _ w]) simp

lemma keeps_also: "keeps I m (\<lambda>_. True) \<Longrightarrow> returns m \<phi> \<Longrightarrow> keeps I m \<phi>"
  by (auto simp: keeps_def safeW_def split: prod.splits sum.splits)

lemma keeps_guarded: "(P \<Longrightarrow> keeps I m (\<lambda>_. True)) \<Longrightarrow> returns m \<phi> \<Longrightarrow> keeps (\<lambda>w. P \<longrightarrow> I w) m \<phi>"
  by (cases P) (simp_all add: keeps_also)

section \<open>Readers\<close>

lemma parse_index_Inr: "parse_index fc s = Inr i \<Longrightarrow> index_valid i"
  by (auto simp: parse_index_def parsed_Inr bindR_eq_Inr index_valid_def dest: make_index_Inr)

lemma make_index_snapshot_Inr:
  "make_index_snapshot fc s = Inr sn \<Longrightarrow> sn = s \<and> (\<exists>bytes. fc_index fc (sn_index s) = Some bytes \<and> sn_sha s = digest_of fc bytes)"
  by (auto simp: make_index_snapshot_def bindR_eq_Inr incident_guard_Inr canonical_Inr)

lemma read_active_incident_index_snapshot:
  assumes "\<And>name limit. keeps I (download_blob (pu_service pu) name limit) (\<lambda>_. True)"
  shows "keeps I (read_active_incident_index pu) (snapshot_ok (pu_codec pu))"
  unfolding read_active_incident_index_def Let_def
proof (rule keeps_bind_any[OF assms], rule keeps_sum)
  show "keeps I (if e = BlobMissing then pureW None else fail (unavailable e)) (snapshot_ok (pu_codec pu))" for e
    by (intro keeps_if keeps_pure keeps_fail) (simp add: snapshot_ok_def)
next
  fix b
  have made: "snapshot_ok (pu_codec pu) (Some sn)"
    if "parse_index (pu_codec pu) (bl_payload b) = Inr i"
      and "make_index_snapshot (pu_codec pu) \<lparr>sn_index = i, sn_sha = sha\<rparr> = Inr sn" for i sha sn
    using parse_index_Inr[OF that(1)] make_index_snapshot_Inr[OF that(2)] by (auto simp: snapshot_ok_def)
  show "keeps I (bindW (checkW (1 \<le> length (bl_payload b) \<and> length (bl_payload b) \<le> 64 * 1024) AssetUnavailable) (\<lambda>_.
      bindW (liftW (parse_index (pu_codec pu) (bl_payload b))) (\<lambda>i.
      bindW (liftW (canonical (fc_index (pu_codec pu)) i)) (\<lambda>bytes.
      bindW (checkW (bl_payload b = bytes \<and> own_key pu (ai_key_id i) (ai_key_fingerprint i)) AssetUnavailable) (\<lambda>_.
      bindW (download_blob (pu_service pu) (remove_prefix ''./'' (ai_attestation_path i)) (24 * 1024 + 1)) (\<lambda>r. case r of
          Inl e \<Rightarrow> fail (unavailable e)
        | Inr ab \<Rightarrow>
            bindW (checkW (1 \<le> length (bl_payload ab) \<and> length (bl_payload ab) \<le> 24 * 1024) AssetUnavailable) (\<lambda>_.
            bindW (liftW (otherwise AssetUnavailable (parse_index_attestation (pu_codec pu) (bl_payload ab)))) (\<lambda>a.
            bindW (liftW (canonical (fc_index_attestation (pu_codec pu)) a)) (\<lambda>a_bytes.
            bindW (checkW (bl_payload ab = a_bytes \<and> at_digest a = digest_of (pu_codec pu) (bl_payload b)
                \<and> at_key a = sg_vault_key_id (pu_signing pu) \<and> fc_verify (pu_codec pu) (bl_payload b) (at_signature a))
                AssetUnavailable) (\<lambda>_.
            bindW (liftW (make_index_snapshot (pu_codec pu) \<lparr>sn_index = i, sn_sha = digest_of (pu_codec pu) (bl_payload b)\<rparr>)) (\<lambda>sn.
            pureW (Some sn)))))))))))) (snapshot_ok (pu_codec pu))"
    by (rule keeps_bind_any[OF keeps_check_any], rule keeps_bind[OF keeps_lift], rule keeps_bind_any[OF keeps_lift_any],
        rule keeps_bind_any[OF keeps_check_any], rule keeps_bind_any[OF assms], rule keeps_sum,
        rule keeps_fail, rule keeps_bind_any[OF keeps_check_any], rule keeps_bind_any[OF keeps_lift_any],
        rule keeps_bind_any[OF keeps_lift_any], rule keeps_bind_any[OF keeps_check_any], rule keeps_bind[OF keeps_lift],
        rule keeps_pure, erule made)
qed

lemma read_active_incident_index_keeps:
  "fresh_tags age (pu_service pu) \<Longrightarrow> keeps (feed_ok age fc) (read_active_incident_index pu) (snapshot_ok (pu_codec pu))"
  by (rule read_active_incident_index_snapshot) (rule download_keeps)

lemma read_incident_json_blob_keeps:
  "fresh_tags age (pu_service pu) \<Longrightarrow> keeps (feed_ok age fc) (read_incident_json_blob pu name m) (\<lambda>_. True)"
  unfolding read_incident_json_blob_def by (intro keeps_walk download_keeps)

lemma read_immutable_incident_json_blob_keeps:
  "fresh_tags age (pu_service pu) \<Longrightarrow> keeps (feed_ok age fc) (read_immutable_incident_json_blob pu name m) (\<lambda>_. True)"
  unfolding read_immutable_incident_json_blob_def by (intro keeps_walk download_keeps)

lemma read_current_incident_state_keeps:
  "fresh_tags age (pu_service pu) \<Longrightarrow> keeps (feed_ok age fc) (read_current_incident_state pu incident) (\<lambda>_. True)"
  unfolding read_current_incident_state_def Let_def
  by (intro keeps_walk read_incident_json_blob_keeps read_immutable_incident_json_blob_keeps)

lemma read_index_returns: "returns (read_active_incident_index pu) (snapshot_ok (pu_codec pu))"
  by (rule read_active_incident_index_snapshot) (rule returns_any)

lemma check_current_state_Inr:
  "check_current_state pu incident a b c d e f p pa s sa = Inr u \<Longrightarrow> is_incident_id s = incident"
  by (auto simp: check_current_state_def Let_def bindR_eq_Inr guardR_eq_Inr)

lemma make_current_state_Inr: "make_current_state fc c = Inr d \<Longrightarrow> d = c"
  by (auto simp: make_current_state_def bindR_eq_Inr)

lemma read_current_incident_state_returns:
  "returns (read_current_incident_state pu incident) (\<lambda>r. case r of None \<Rightarrow> True | Some c \<Rightarrow> is_incident_id (cs_state c) = incident)"
  unfolding read_current_incident_state_def Let_def
  by (rule returns_step, rule returns_step, rule keeps_option, rule keeps_pure, simp,
      rule returns_step, rule returns_step, rule returns_step,
      rule returns_step, rule keeps_prod, rule returns_step, rule keeps_prod, rule returns_step, rule keeps_prod,
      rule returns_step, rule keeps_prod, rule returns_step, rule returns_step, rule returns_step, rule returns_step,
      rule keeps_bind[OF keeps_lift], drule check_current_state_Inr, rule returns_step,
      rule keeps_bind[OF keeps_lift], drule make_current_state_Inr, rule keeps_pure, simp)

lemma make_publication_receipt_Inr: "make_publication_receipt r = Inr q \<Longrightarrow> q = r"
  by (auto simp: make_publication_receipt_def bindR_eq_Inr)

lemma publish_incident_returns:
  "returns (publish_incident pu b) (\<lambda>receipt. pr_incident_id receipt = fp_incident_id (pb_pointer b))"
  unfolding publish_incident_def
  by ((rule returns_step)+, rule keeps_weaken[OF keeps_lift]) (drule make_publication_receipt_Inr, simp)

lemma publish_active_incident_index_returns:
  "returns (publish_active_incident_index pu ip) (\<lambda>sn. sn_index sn = ip_index ip)"
  unfolding publish_active_incident_index_def
  by ((rule returns_step)+, rule keeps_weaken[OF keeps_lift]) (drule make_index_snapshot_Inr, simp)

section \<open>Lemmas on the steps of a run\<close>

text \<open>The state and the receipt that a run for a request returns, given what its verification returned.\<close>

definition answers_request :: "reassessment_request \<Rightarrow> bool \<Rightarrow> incident_state \<times> publication_receipt \<Rightarrow> bool" where
  "answers_request r healthy x \<longleftrightarrow> (case x of (s, receipt) \<Rightarrow>
     is_incident_id s = rr_incident_id r \<and> is_transition_id s = rr_idempotency_key r \<and> is_scenario s = rr_scenario r
     \<and> is_workload_role s = rr_workload_role r \<and> is_lifecycle s = expected_lifecycle healthy
     \<and> pr_incident_id receipt = rr_incident_id r)"

lemma build_signed_incident_state_Inr:
  "build_signed_incident_state fc sg r found changed result = Inr (s, a)
   \<Longrightarrow> is_incident_id s = rr_incident_id r \<and> is_transition_id s = rr_idempotency_key r \<and> is_scenario s = rr_scenario r
     \<and> is_workload_role s = rr_workload_role r \<and> is_lifecycle s = expected_lifecycle (vr_healthy result)"
  by (auto simp: build_signed_incident_state_def Let_def bindR_eq_Inr unsigned_state_of_def unsigned_state.extend_def
      incident_state.fields_def expected_lifecycle_def split: prod.splits dest!: make_state_Inr)

lemma reassess_Inr:
  "reassess ad t r = Inr result \<Longrightarrow> build_reassessment_request (po_platform (ad_ports ad)) (rr_trigger_event r) (ad_roles ad) = Inr r
    \<and> (\<exists>so. read_approved_signal (ad_ports ad) (rr_target r) (rr_workload_role r) t (ad_minutes ad) = Inr so
          \<and> vr_healthy result = so_healthy so)"
  by (auto simp: reassess_def check_hint_def make_result_def Let_def bindR_eq_Inr incident_guard_Inr)

text \<open>The index against the observations: its incidents are those of the activated requests.\<close>

definition matches :: "reassessment_request list \<Rightarrow> (string \<Rightarrow> active_entry option) \<Rightarrow> bool" where
  "matches observations entries \<longleftrightarrow>
     (\<forall>r \<in> set observations. rr_lifecycle r = EventActivated \<longrightarrow> entries (rr_incident_id r) \<noteq> None)
     \<and> (\<forall>j e. entries j = Some e \<longrightarrow> (\<exists>r \<in> set observations. rr_lifecycle r = EventActivated \<and> rr_incident_id r = j
          \<and> ae_scenario e = rr_scenario r \<and> ae_workload_role e = rr_workload_role r))"

lemma validated_matches:
  assumes "validate_active_index_health snapshot observations = Inr u" and "snapshot_ok fc snapshot"
  shows "matches observations (snapshot_entry snapshot)"
proof -
  let ?expected = "keyed rr_incident_id (filter (\<lambda>r. rr_lifecycle r = EventActivated) observations)"
  let ?actual = "entries_by_id (case snapshot of None \<Rightarrow> [] | Some sn \<Rightarrow> ai_incidents (sn_index sn))"
  have d: "map_of ?actual j = snapshot_entry snapshot j" for j by (rule snapshot_entries[OF assms(2)])
  have same: "set (map fst ?actual) = set (map fst ?expected)"
    and each: "\<And>i r. (i, r) \<in> set ?expected \<Longrightarrow> (case map_of ?actual i of None \<Rightarrow> Inl EventKeyError | Some e \<Rightarrow> check_binding r e) = Inr ()"
    using assms(1) by (auto simp: validate_active_index_health_def Let_def bindR_eq_Inr incident_guard_Inr allR_Inr simp del: set_map)
  have keys: "set (map fst ?expected) = {rr_incident_id r |r. r \<in> set observations \<and> rr_lifecycle r = EventActivated}"
    by (auto simp: keyed_keys)
  have entered: "(snapshot_entry snapshot j \<noteq> None) = (j \<in> set (map fst ?expected))" for j
    unfolding d[symmetric] map_of_eq_None_iff same[symmetric] by simp
  have "\<exists>r \<in> set observations. rr_lifecycle r = EventActivated \<and> rr_incident_id r = j
      \<and> ae_scenario e = rr_scenario r \<and> ae_workload_role e = rr_workload_role r" if e: "snapshot_entry snapshot j = Some e" for j e
  proof -
    from e entered[of j] obtain r where r: "(j, r) \<in> set ?expected" by auto
    from keyed_entries[OF r] each[OF r] e show ?thesis
      unfolding d by (auto simp: check_binding_def incident_guard_Inr)
  qed
  then show ?thesis unfolding matches_def entered keys by auto
qed

lemma heartbeat_published:
  assumes "build_active_incident_index_heartbeat fc sg published snapshot = Inr ip"
  shows "published \<le> ai_published_at (ip_index ip)"
proof -
  from assms obtain ordered previous i where "next_index fc sg ordered published previous = Inr i" and "ip_index ip = i"
    unfolding build_active_incident_index_heartbeat_def build_active_incident_index_publication_def Let_def bindR_eq_Inr
    by (cases snapshot) (auto simp: make_index_publication_def bindR_eq_Inr)
  then show ?thesis
    using next_index_Inr(3)[of fc sg ordered published previous i]
    by (cases previous) (auto simp: index_time_def Let_def)
qed

definition beat_ok :: "int \<Rightarrow> reassessment_request list \<Rightarrow> active_index \<Rightarrow> bool" where
  "beat_ok published observations i \<longleftrightarrow> index_valid i \<and> published \<le> ai_published_at i \<and> matches observations (entry_for i)"

lemma heartbeat_beat_ok:
  assumes "build_active_incident_index_heartbeat fc sg published snapshot = Inr ip" and "snapshot_ok fc snapshot"
    and "validate_active_index_health snapshot observations = Inr u"
  shows "beat_ok published observations (ip_index ip)"
proof -
  have "entry_for (ip_index ip) = snapshot_entry snapshot" and "index_valid (ip_index ip)"
    using heartbeat_Inr[OF assms(1,2)] by (auto simp: differs_at_def snapshot_entry_def fun_eq_iff split: option.splits)
  with validated_matches[OF assms(3,2)] heartbeat_published[OF assms(1)] show ?thesis by (simp add: beat_ok_def)
qed

section \<open>The contract of the publisher\<close>

text \<open>
  What the orchestration needs of its publisher (\<open>IncidentAssetPublisherPort\<close>): all operations keep one
  predicate on the world, reading gives a valid index or the state of the incident that was asked for,
  and what is published is what was given.
\<close>

locale incident_publisher =
  fixes I :: "feed_world \<Rightarrow> bool" and pu :: publisher
  assumes index: "keeps I (read_active_incident_index pu) (snapshot_ok (pu_codec pu))"
    and current: "keeps I (read_current_incident_state pu incident)
      (\<lambda>r. case r of None \<Rightarrow> True | Some c \<Rightarrow> is_incident_id (cs_state c) = incident)"
    and publish: "publication_sound (pu_codec pu) b
      \<Longrightarrow> keeps I (publish_incident pu b) (\<lambda>receipt. pr_incident_id receipt = fp_incident_id (pb_pointer b))"
    and beat: "index_sound (pu_codec pu) ip
      \<Longrightarrow> keeps I (publish_active_incident_index pu ip) (\<lambda>sn. sn_index sn = ip_index ip)"
    and outbox: "I (w\<lparr>fw_outbox := ns\<rparr>) = I w"
begin

lemma enqueue_keeps: "keeps I (enqueue ob s text) (\<lambda>_. True)"
proof -
  have "keeps I (\<lambda>w. case ob_deliver ob (fw_outbox w) n of
         Delivered \<Rightarrow> (Inr (), w\<lparr>fw_outbox := fw_outbox w @ [n]\<rparr>)
       | DeliveredThenFailed \<Rightarrow> (Inl SenderError, w\<lparr>fw_outbox := fw_outbox w @ [n]\<rparr>)
       | Refused \<Rightarrow> (Inl SenderError, w)) (\<lambda>_. True)" for n
    by (auto simp: keeps_def safeW_def outbox split: delivery.splits)
  then show ?thesis unfolding enqueue_def by (intro keeps_bind_any keeps_lift_any)
qed

lemma notify_keeps: "keeps I (notify ob s url) (\<lambda>_. True)"
  unfolding notify_def by (intro keeps_walk enqueue_keeps)

lemma reconcile_keeps:
  "keeps I (reconcile_noop pu ob url r healthy snapshot entry) (\<lambda>x. case x of None \<Rightarrow> True | Some y \<Rightarrow> answers_request r healthy y)"
  unfolding reconcile_noop_def
proof (rule keeps_bind[OF current])
  let ?A = "\<lambda>x. case x of None \<Rightarrow> True | Some y \<Rightarrow> answers_request r healthy y"
  fix latest :: "current_state option" assume latest: "case latest of None \<Rightarrow> True | Some c \<Rightarrow> is_incident_id (cs_state c) = rr_incident_id r"
  have none: "keeps I (pureW None) ?A" by (rule keeps_pure) simp
  have receipt: "keeps I (bindW (liftW (make_publication_receipt \<lparr>pr_incident_id = is_incident_id (cs_state c),
        pr_pointer_sha = p, pr_index_sha = i, pr_occurrence = Some oc\<rparr>)) (\<lambda>receipt. pureW (Some (cs_state c, receipt)))) ?A"
    if "latest = Some c" and "already_published r healthy (cs_state c)" for c p i oc
    using that latest
    by (intro keeps_bind[OF keeps_lift] keeps_pure)
      (auto simp: answers_request_def already_published_def dest: make_publication_receipt_Inr)
  show "keeps I (case latest of None \<Rightarrow> pureW None | Some c \<Rightarrow>
      if \<not> already_published r healthy (cs_state c) then pureW None
      else bindW (checkW (coherent entry healthy c) IncidentRuntimeError) (\<lambda>_.
        bindW (notify ob (cs_state c) url) (\<lambda>_. case (cs_occurrence c, snapshot) of
          (Some oc, Some sn) \<Rightarrow> bindW (liftW (make_publication_receipt \<lparr>pr_incident_id = is_incident_id (cs_state c),
              pr_pointer_sha = cs_pointer_sha c, pr_index_sha = sn_sha sn, pr_occurrence = Some oc\<rparr>)) (\<lambda>receipt.
            pureW (Some (cs_state c, receipt)))
        | _ \<Rightarrow> pureW None))) ?A"
  proof (cases latest)
    case (Some c)
    show ?thesis
    proof (cases "already_published r healthy (cs_state c)")
      case True
      from receipt[OF Some True] Some True show ?thesis
        by (simp only: option.case if_False not_True_eq_False)
          (rule keeps_bind_any[OF keeps_check_any], rule keeps_bind_any[OF notify_keeps], rule keeps_prod, rule keeps_option, rule none, rule keeps_option, rule none)
    qed (simp add: Some none)
  qed (simp add: none)
qed

lemma change_keeps:
  assumes sn: "snapshot_ok (pu_codec pu) snapshot"
  shows "keeps I (publish_change pu ob url r result found changed published snapshot entry)
    (\<lambda>x. case x of None \<Rightarrow> True | Some y \<Rightarrow> answers_request r (vr_healthy result) y)"
  unfolding publish_change_def
proof (rule keeps_bind[OF keeps_lift], rule keeps_prod_eq, rule keeps_bind[OF keeps_lift],
    rule keeps_bind[OF publish], erule built_publication_sound[OF _ sn], rule keeps_bind_any[OF notify_keeps], rule keeps_pure)
  fix x s a b and receipt :: publication_receipt
  assume "build_signed_incident_state (pu_codec pu) (pu_signing pu) r
      (case entry of None \<Rightarrow> found | Some e \<Rightarrow> ae_detected_at e) (max changed (vr_observed_at result)) result = Inr x"
    and x: "x = (s, a)" and b: "build_incident_publication (pu_codec pu) (pu_signing pu) s a published snapshot = Inr b"
    and receipt: "pr_incident_id receipt = fp_incident_id (pb_pointer b)"
  then have "build_signed_incident_state (pu_codec pu) (pu_signing pu) r
      (case entry of None \<Rightarrow> found | Some e \<Rightarrow> ae_detected_at e) (max changed (vr_observed_at result)) result = Inr (s, a)"
    by simp
  from build_signed_incident_state_Inr[OF this] incident_publication_Inr(8)[OF b sn] receipt
  show "case Some (s, receipt) of None \<Rightarrow> True | Some y \<Rightarrow> answers_request r (vr_healthy result) y"
    by (simp add: answers_request_def)
qed

lemma reassessment_keeps:
  "keeps I (run_incident_reassessment pu verify ob url r found changed published)
    (\<lambda>x. case x of None \<Rightarrow> True | Some y \<Rightarrow> \<exists>result. verify r = Inr result \<and> answers_request r (vr_healthy result) y)"
  unfolding run_incident_reassessment_def Let_def
proof (rule keeps_bind[OF keeps_lift], rule keeps_bind_any[OF keeps_check_any], rule keeps_bind[OF index], rule keeps_bind_any[OF keeps_lift_any], rule keeps_if)
  fix result snapshot assume v: "verify r = Inr result" and sn: "snapshot_ok (pu_codec pu) snapshot"
  let ?\<phi> = "\<lambda>x. case x of None \<Rightarrow> True | Some y \<Rightarrow> \<exists>result. verify r = Inr result \<and> answers_request r (vr_healthy result) y"
  let ?e = "snapshot_entry snapshot (rr_incident_id r)"
  show "keeps I (reconcile_noop pu ob url r (vr_healthy result) snapshot ?e) ?\<phi>"
    using v by (intro keeps_weaken[OF reconcile_keeps]) (auto split: option.splits)
  show "keeps I (publish_change pu ob url r result found changed published snapshot ?e) ?\<phi>"
    using v by (intro keeps_weaken[OF change_keeps[OF sn]]) (auto split: option.splits)
qed

lemma attempts_keep:
  "keeps I (heartbeat_attempts pu published observations n) (\<lambda>sn. beat_ok published observations (sn_index sn))"
proof (induction n)
  case 0
  show ?case by (simp add: keeps_fail)
next
  case (Suc n)
  let ?\<phi> = "\<lambda>sn. beat_ok published observations (sn_index sn)"
  have conflict: "keeps I (bindW (read_active_incident_index pu) (\<lambda>latest.
        bindW (liftW (validate_active_index_health latest observations)) (\<lambda>_.
        case latest of
          Some sn \<Rightarrow> if ai_published_at (ip_index ip) \<le> ai_published_at (sn_index sn) then pureW sn
            else heartbeat_attempts pu published observations n
        | None \<Rightarrow> heartbeat_attempts pu published observations n))) ?\<phi>"
    if p: "published \<le> ai_published_at (ip_index ip)" for ip
  proof (rule keeps_bind[OF index], rule keeps_bind[OF keeps_lift])
    fix latest u assume l: "snapshot_ok (pu_codec pu) latest" "validate_active_index_health latest observations = Inr u"
    note m = validated_matches[OF l(2,1)]
    show "keeps I (case latest of
          Some sn \<Rightarrow> if ai_published_at (ip_index ip) \<le> ai_published_at (sn_index sn) then pureW sn
            else heartbeat_attempts pu published observations n
        | None \<Rightarrow> heartbeat_attempts pu published observations n) ?\<phi>"
    proof (cases latest)
      case (Some sn)
      have "index_valid (sn_index sn)" using l(1) Some by (simp add: snapshot_ok_def)
      moreover have "matches observations (entry_for (sn_index sn))" using m Some by (simp add: snapshot_entry_def[abs_def])
      ultimately show ?thesis using p Suc Some by (auto simp: beat_ok_def intro: keeps_pure)
    qed (simp add: Suc)
  qed
  show ?case
    unfolding heartbeat_attempts.simps
  proof (rule keeps_bind[OF index], rule keeps_bind[OF keeps_lift], rule keeps_bind[OF keeps_lift],
      rule keeps_on_conflict)
    fix snapshot u ip
    assume sn: "snapshot_ok (pu_codec pu) snapshot" and health: "validate_active_index_health snapshot observations = Inr u"
      and ip: "build_active_incident_index_heartbeat (pu_codec pu) (pu_signing pu) published snapshot = Inr ip"
    from heartbeat_beat_ok[OF ip sn health] show "keeps I (publish_active_incident_index pu ip) ?\<phi>"
      by (intro keeps_weaken[OF beat] built_index_sound[OF ip sn]) simp
    show "keeps I (bindW (read_active_incident_index pu) (\<lambda>latest.
        bindW (liftW (validate_active_index_health latest observations)) (\<lambda>_.
        case latest of
          Some sn \<Rightarrow> if ai_published_at (ip_index ip) \<le> ai_published_at (sn_index sn) then pureW sn
            else heartbeat_attempts pu published observations n
        | None \<Rightarrow> heartbeat_attempts pu published observations n))) ?\<phi>"
      by (rule conflict[OF heartbeat_published[OF ip]])
  qed
qed

lemma heartbeat_keeps:
  "keeps I (run_active_incident_index_heartbeat pu published observations) (\<lambda>sn. beat_ok published observations (sn_index sn))"
  unfolding run_active_incident_index_heartbeat_def by (rule keeps_bind_any[OF keeps_check_any]) (rule attempts_keep)

end

text \<open>The publisher over the container meets it for the trivial predicate, and for \<open>feed_ok\<close> if tags are fresh.\<close>

interpretation plain: incident_publisher "\<lambda>_. True" pu for pu
  by unfold_locales
    (simp_all only: read_index_returns read_current_incident_state_returns publish_incident_returns
      publish_active_incident_index_returns)

definition guarded :: "(string \<Rightarrow> nat) \<Rightarrow> publisher \<Rightarrow> feed_world \<Rightarrow> bool" where
  "guarded age pu w \<longleftrightarrow> (fresh_tags age (pu_service pu) \<longrightarrow> feed_ok age (pu_codec pu) w)"

lemma keeps_feed:
  "(fresh_tags age (pu_service pu) \<Longrightarrow> keeps (feed_ok age (pu_codec pu)) m (\<lambda>_. True)) \<Longrightarrow> returns m \<phi> \<Longrightarrow> keeps (guarded age pu) m \<phi>"
  unfolding guarded_def[abs_def] by (rule keeps_guarded)

interpretation feed: incident_publisher "guarded age pu" pu for age pu
proof
  show "keeps (guarded age pu) (read_active_incident_index pu) (snapshot_ok (pu_codec pu))"
    by (rule keeps_feed) (rule keeps_weaken[OF read_active_incident_index_keeps], simp_all add: read_index_returns)
  show "keeps (guarded age pu) (read_current_incident_state pu incident)
      (\<lambda>r. case r of None \<Rightarrow> True | Some c \<Rightarrow> is_incident_id (cs_state c) = incident)" for incident
    by (rule keeps_feed[OF read_current_incident_state_keeps read_current_incident_state_returns])
  show "keeps (guarded age pu) (publish_incident pu b) (\<lambda>receipt. pr_incident_id receipt = fp_incident_id (pb_pointer b))"
    if "publication_sound (pu_codec pu) b" for b
    by (rule keeps_feed[OF publish_incident_keeps[OF _ refl that] publish_incident_returns])
  show "keeps (guarded age pu) (publish_active_incident_index pu ip) (\<lambda>sn. sn_index sn = ip_index ip)"
    if "index_sound (pu_codec pu) ip" for ip
    by (rule keeps_feed[OF publish_active_incident_index_keeps[OF _ refl that] publish_active_incident_index_returns])
  show "guarded age pu (w\<lparr>fw_outbox := ns\<rparr>) = guarded age pu w" for w ns
    by (simp add: guarded_def feed_ok_def)
qed

section \<open>Reachable worlds\<close>

text \<open>
  A world of the feed: at first this process has written nothing, and what others left has tags from before
  the first call. Then any reassessments and heartbeats, each with any result.
\<close>

inductive feed_reachable :: "(string \<Rightarrow> nat) \<Rightarrow> publisher \<Rightarrow> feed_world \<Rightarrow> bool" for age pu where
  Start: "fw_writes w = [] \<Longrightarrow> (\<And>name b. fw_blobs w name = Some b \<Longrightarrow> age (bl_etag b) < 2 * fw_calls w)
    \<Longrightarrow> feed_reachable age pu w"
| Reassess: "feed_reachable age pu w
    \<Longrightarrow> run_incident_reassessment pu verify ob url r found changed published w = (result, w')
    \<Longrightarrow> feed_reachable age pu w'"
| Beat: "feed_reachable age pu w \<Longrightarrow> run_active_incident_index_heartbeat pu published observations w = (beat, w')
    \<Longrightarrow> feed_reachable age pu w'"

lemma keeps_run: "keeps I m \<phi> \<Longrightarrow> I w \<Longrightarrow> m w = (r, w') \<Longrightarrow> I w'"
  by (cases r) (fastforce simp: keeps_def safeW_def)+

lemma reachable_feed_ok:
  "feed_reachable age pu w \<Longrightarrow> guarded age pu w"
proof (induction rule: feed_reachable.induct)
  case (Start w)
  then show ?case by (simp add: guarded_def feed_ok_def)
next
  case (Reassess w verify ob url r found changed published result w')
  with keeps_run[OF feed.reassessment_keeps] show ?case by blast
next
  case (Beat w published observations beat w')
  with keeps_run[OF feed.heartbeat_keeps] show ?case by blast
qed

end
