(* ===== verification/IncidentExample.thy ===== *)
theory IncidentExample
  imports FeedRuns EventExample
begin

text \<open>
  The deployment of \<open>EventExample\<close> with its incident feed: the database server stops, and the feed enters
  the incident. The codec writes what tells the few values apart, and parses by looking among them.
\<close>

section \<open>A codec\<close>

fun hex_of :: "char \<Rightarrow> char" where
  "hex_of (Char b0 b1 b2 b3 b4 b5 b6 b7) = (if b3 then (if b2 then (if b1 then CHR ''f'' else CHR ''d'') else (if b0 then CHR ''b'' else CHR ''a''))
     else (if b2 then (if b1 then CHR ''7'' else CHR ''5'') else (if b1 then (if b0 then CHR ''3'' else CHR ''2'') else (if b0 then CHR ''1'' else CHR ''0''))))"

fun overwrite :: "string \<Rightarrow> string \<Rightarrow> string" where
  "overwrite (c # cs) (z # zs) = hex_of c # overwrite cs zs"
| "overwrite [] zs = zs"
| "overwrite cs [] = []"

definition demo_hex :: "string \<Rightarrow> string" where
  "demo_hex s = overwrite s ''0000000000000000000000000000000000000000000000000000000000000000''"

definition time_text :: "int \<Rightarrow> string" where
  "time_text t = (if t = 1 then ''1'' else ''11'')"

definition lifecycle_letter :: "unsigned_state \<Rightarrow> string" where
  "lifecycle_letter u = (if is_lifecycle u = IncidentActive then ''a'' else ''r'')"

definition state_text :: "incident_state \<Rightarrow> string option" where
  "state_text s = Some (''s'' @ lifecycle_letter (unsigned_state.truncate s))"

definition attestation_text :: "attestation \<Rightarrow> string option" where
  "attestation_text a = Some (''t'' @ take 2 (remove_prefix ''sha256:'' (at_digest a)))"

definition pointer_text :: "feed_pointer \<Rightarrow> string option" where
  "pointer_text p = Some (''p'' @ time_text (fp_published_at p))"

definition index_text :: "active_index \<Rightarrow> string option" where
  "index_text i = Some ((if ai_incidents i = [] then ''i'' else ''j'') @ time_text (ai_published_at i))"

definition demo_state :: incident_state where
  "demo_state = \<lparr>is_incident_id = ''inc-aaaaaaaaaaa4'', is_transition_id = ''wc016-aaaaaaaaaaa3bbbbbbbbbbbbbbbbbbbbbbbbbbbbbbbbbbbbbbbbbbbbbbbbbbbb'',
     is_scenario = SingletonDatabaseFailure, is_lifecycle = IncidentActive, is_workload_role = RoleDatabase,
     is_detected_at = 1, is_updated_at = 1, is_target_binding = ''sha256:aaaaaaaaaaa7bbbbbbbbbbbbbbbbbbbbbbbbbbbbbbbbbbbbbbbbbbbbbbbbbbbb'',
     is_availability = AvailabilityCritical, is_blast_radius = WholeWorkload, is_attention = AttentionUrgent,
     is_findings = [\<lparr>fi_clause_id = clause_of SingletonDatabaseFailure, fi_verdict = VerdictFail,
       fi_summary = ''The approved virtual machine reports powerstate/stopped.'',
       fi_evidence_refs = [''arm-live:sha256:aaaaaaaaaaa7bbbbbbbbbbbbbbbbbbbbbbbbbbbbbbbbbbbbbbbbbbbbbbbbbbbb'']\<rparr>],
     is_reasoning = live_reasoning, is_notification = PendingDispatch,
     is_result_digest = ''sha256:5100000000000000000000000000000000000000000000000000000000000000''\<rparr>"

definition demo_attestation :: attestation where
  "demo_attestation = \<lparr>at_digest = is_result_digest demo_state, at_key = ''vault'', at_signature = ''5100000000000000000000000000000000000000000000000000000000000000''\<rparr>"

text \<open>An index without incidents, as an earlier heartbeat may have left it.\<close>

definition quiet_index :: active_index where
  "quiet_index = \<lparr>ai_incidents = [], ai_attestation_path = ''./incidents/index-attestations/0000000000000000000000000000000000000000000000000000000000000000.json'',
     ai_key_id = ''key'', ai_key_fingerprint = ''sha256:ffffffffffffffffffffffffffffffffffffffffffffffffffffffffffffffff'', ai_published_at = 1\<rparr>"

definition quiet_attestation :: attestation where
  "quiet_attestation = \<lparr>at_digest = ''sha256:'' @ demo_hex ''i1'', at_key = ''vault'', at_signature = demo_hex ''i1''\<rparr>"

text \<open>The functions are constants, so that evaluation does not enter them before they are applied.\<close>

definition demo_preimage :: "unsigned_state \<Rightarrow> string option" where
  "demo_preimage u = Some (''u'' @ lifecycle_letter u)"

definition demo_parse_state :: "string \<Rightarrow> incident_state option" where
  "demo_parse_state text = find (\<lambda>x. state_text x = Some text) [demo_state]"

definition demo_parse_attestation :: "string \<Rightarrow> attestation option" where
  "demo_parse_attestation text = find (\<lambda>x. attestation_text x = Some text) [demo_attestation, quiet_attestation]"

definition demo_parse_pointer :: "string \<Rightarrow> feed_pointer option" where
  "demo_parse_pointer text = None"

definition demo_parse_index :: "string \<Rightarrow> active_index option" where
  "demo_parse_index text = find (\<lambda>x. index_text x = Some text) [quiet_index]"

definition demo_seed :: "active_entry list \<Rightarrow> string \<Rightarrow> string \<Rightarrow> int \<Rightarrow> string option" where
  "demo_seed es key fingerprint t = Some (''x'' @ time_text t)"

definition demo_occurrence_digest :: "occurrence_body \<Rightarrow> string option" where
  "demo_occurrence_digest oc = Some (''sha256:'' @ demo_hex [])"

definition demo_occurrence :: "occurrence \<Rightarrow> string option" where
  "demo_occurrence oc = Some ''o''"

definition demo_sign :: "string \<Rightarrow> string option" where
  "demo_sign text = Some (demo_hex text)"

definition demo_verify :: "string \<Rightarrow> string \<Rightarrow> bool" where
  "demo_verify text signature \<longleftrightarrow> signature = demo_hex text"

definition demo_codec :: feed_codec where
  "demo_codec = \<lparr>fc_hexdigest = demo_hex, fc_preimage = demo_preimage, fc_dumped_preimage = demo_preimage,
     fc_state = state_text, fc_parse_state = demo_parse_state,
     fc_state_attestation = attestation_text, fc_parse_state_attestation = demo_parse_attestation,
     fc_pointer = pointer_text, fc_parse_pointer = demo_parse_pointer,
     fc_pointer_attestation = attestation_text, fc_parse_pointer_attestation = demo_parse_attestation,
     fc_index = index_text, fc_parse_index = demo_parse_index, fc_index_seed = demo_seed,
     fc_index_attestation = attestation_text, fc_parse_index_attestation = demo_parse_attestation,
     fc_occurrence_digest = demo_occurrence_digest, fc_occurrence = demo_occurrence,
     fc_sign = demo_sign, fc_verify = demo_verify, fc_b64decode = Some, fc_b64url = id\<rparr>"

section \<open>The feed\<close>

definition demo_service :: blob_service where
  "demo_service = \<lparr>bs_fault = (\<lambda>n. NoFault), bs_others = (\<lambda>n c. c),
     bs_etag = (\<lambda>n. replicate (2 * n + 1) CHR ''e''), bs_version = (\<lambda>n. Some ''v1'')\<rparr>"

definition demo_publisher :: publisher where
  "demo_publisher = \<lparr>pu_codec = demo_codec, pu_service = demo_service,
     pu_signing = \<lparr>sg_key_id = ''key'', sg_vault_key_id = ''vault'', sg_fingerprint = ''sha256:ffffffffffffffffffffffffffffffffffffffffffffffffffffffffffffffff''\<rparr>\<rparr>"

definition demo_outbox :: outbox where
  "demo_outbox = \<lparr>ob_platform = demo_platform, ob_deliver = (\<lambda>_ _. Delivered)\<rparr>"

definition demo_adapter :: "string \<Rightarrow> adapter" where
  "demo_adapter state = \<lparr>ad_ports = demo_ports state (\<lambda>_ _. Delivered), ad_roles = demo_roles, ad_minutes = 5,
     ad_binding = (\<lambda>_ _ _ _. Some state)\<rparr>"

definition demo_request :: reassessment_request where
  "demo_request = projr (build_reassessment_request demo_platform demo_event demo_roles)"

definition feed_run :: "string \<Rightarrow> int \<Rightarrow> (feed_world, (incident_state \<times> publication_receipt) option) action" where
  "feed_run state t = run_incident_reassessment demo_publisher (reassess (demo_adapter state) t) (Some demo_outbox)
     ''https://athena'' demo_request t t t"

definition empty_feed :: feed_world where
  "empty_feed = \<lparr>fw_blobs = (\<lambda>_. None), fw_calls = 0, fw_writes = [], fw_outbox = []\<rparr>"

text \<open>A container with an index and its attestation, and nothing else.\<close>

definition json_blob :: "string \<Rightarrow> blob" where
  "json_blob text = \<lparr>bl_payload = text, bl_content_type = ''application/json'',
     bl_metadata = Some (''sha256:'' @ demo_hex text), bl_version = Some ''v0'', bl_etag = ''e''\<rparr>"

definition quiet_feed :: feed_world where
  "quiet_feed = empty_feed\<lparr>fw_blobs := [''incidents/active.json'' \<mapsto> json_blob ''i1'',
     remove_prefix ''./'' (ai_attestation_path quiet_index) \<mapsto> json_blob ''tb1''], fw_calls := 1\<rparr>"

definition beat :: "(feed_world, index_snapshot) action" where
  "beat = run_active_incident_index_heartbeat demo_publisher 2 [demo_request\<lparr>rr_lifecycle := EventResolved\<rparr>]"

text \<open>The heartbeat replaces the index; the reassessment publishes the incident.\<close>

lemma beat_history:
  "(case beat quiet_feed of
      (Inl _, w) \<Rightarrow> False
    | (Inr sn, w) \<Rightarrow> ai_published_at (sn_index sn) = 2
        \<and> map wr_name (filter (\<lambda>x. wr_before x \<noteq> None) (fw_writes w)) = [''incidents/active.json'']) = True"
  by code_simp

lemma run_history:
  "(case feed_run ''stopped'' 1 empty_feed of
      (Inr (Some (s, receipt)), w) \<Rightarrow> is_lifecycle s = IncidentActive | _ \<Rightarrow> False) = True"
  by code_simp

lemma beat_returns:
  obtains sn w where "beat quiet_feed = (Inr sn, w)" and "ai_published_at (sn_index sn) = 2"
    and "map wr_name (filter (\<lambda>x. wr_before x \<noteq> None) (fw_writes w)) = [''incidents/active.json'']"
  using beat_history by (auto split: prod.splits sum.splits)

lemma run_returns:
  obtains s receipt w where "feed_run ''stopped'' 1 empty_feed = (Inr (Some (s, receipt)), w)" and "is_lifecycle s = IncidentActive"
  using run_history by (auto split: prod.splits sum.splits option.splits)

lemma demo_tags: "fresh_tags length (pu_service demo_publisher)"
  by (simp add: fresh_tags_def demo_publisher_def demo_service_def)

lemma quiet_reachable: "feed_reachable length demo_publisher quiet_feed"
  by (rule feed_reachable.Start) (auto simp: quiet_feed_def empty_feed_def json_blob_def split: if_splits)

definition quiet_snapshot :: index_snapshot where
  "quiet_snapshot = \<lparr>sn_index = quiet_index, sn_sha = ''sha256:'' @ demo_hex ''i1''\<rparr>"

lemma quiet_snapshot_ok: "snapshot_ok demo_codec (Some quiet_snapshot)"
  by (simp add: snapshot_ok_def quiet_snapshot_def quiet_index_def index_valid_def index_ids_def demo_codec_def
      index_text_def time_text_def digest_of_def)

definition demo_publication :: "event_error + incident_publication" where
  "demo_publication = build_incident_publication demo_codec (pu_signing demo_publisher) demo_state demo_attestation 2
     (Some quiet_snapshot)"

lemma demo_publication_made: "isl demo_publication = False"
  by code_simp

end
