(* ===== verification/IncidentProperties.thy ===== *)
theory IncidentProperties
  imports IncidentExample
begin

text \<open>The properties of the incident feed.\<close>

text \<open>C37. Nothing is lost in the container, whatever other writers do between the calls: in every world
  that reassessments and heartbeats can reach, failing anywhere, every write of the publisher either
  created its blob, or replaced the current pointer of an incident by a later pointer of that incident,
  or replaced the active index by a later one that was made from an index with the digest of the bytes
  it replaced and differs from that one in the entry of at most one incident.\<close>
theorem writes_lose_nothing:
  assumes "feed_reachable age pu w" and "fresh_tags age (pu_service pu)" and "wr \<in> set (fw_writes w)"
  shows "case wr_before wr of None \<Rightarrow> True | Some b \<Rightarrow>
     (wr_name wr = ''incidents/active.json''
        \<and> index_write (pu_codec pu) (take (64 * 1024 + 1) (bl_payload b)) (wr_payload wr))
     \<or> (\<exists>incident. wr_name wr = ''incidents/'' @ incident @ ''/current.json''
          \<and> pointer_write (pu_codec pu) incident (bl_payload b) (wr_payload wr))"
  using reachable_feed_ok[OF assms(1)] assms(2,3) by (simp add: guarded_def feed_ok_def list_all_iff write_ok_def)

theorem writes_lose_nothing_witness:
  "list_ex (\<lambda>wr. wr_name wr = ''incidents/active.json'' \<and> (case wr_before wr of None \<Rightarrow> False
     | Some b \<Rightarrow> index_write demo_codec (take (64 * 1024 + 1) (bl_payload b)) (wr_payload wr)))
   (fw_writes (snd (beat quiet_feed)))"
proof -
  obtain sn w where run: "beat quiet_feed = (Inr sn, w)" and "ai_published_at (sn_index sn) = 2"
    and names: "map wr_name (filter (\<lambda>x. wr_before x \<noteq> None) (fw_writes w)) = [''incidents/active.json'']"
    by (rule beat_returns)
  have "''incidents/active.json'' \<in> wr_name ` set (filter (\<lambda>x. wr_before x \<noteq> None) (fw_writes w))"
    unfolding set_map[symmetric] names by (rule list.set_intros)
  then obtain wr where name: "''incidents/active.json'' = wr_name wr"
    and f: "wr \<in> set (filter (\<lambda>x. wr_before x \<noteq> None) (fw_writes w))" by (rule imageE)
  from f obtain b where wr: "wr \<in> set (fw_writes w)" and b: "wr_before wr = Some b" by auto
  have reach: "feed_reachable length demo_publisher w"
    using feed_reachable.Beat[OF quiet_reachable run[unfolded beat_def]] .
  have codec: "pu_codec demo_publisher = demo_codec" by (simp add: demo_publisher_def)
  have other: "wr_name wr \<noteq> ''incidents/'' @ i @ ''/current.json''" for i
    unfolding name[symmetric] by (rule notI, drule arg_cong[of _ _ length]) simp
  have "index_write demo_codec (take (64 * 1024 + 1) (bl_payload b)) (wr_payload wr)"
    using writes_lose_nothing[OF reach demo_tags wr] other unfolding b option.case codec by blast
  then show ?thesis
    unfolding run snd_conv list_ex_iff by (intro bexI[OF _ wr] conjI) (simp_all only: name b option.case)
qed

text \<open>C38. What is published is what was read: when a reassessment over the live adapter returns a state,
  the adapter read the health of the target of the request at that time, the state is active or
  resolved as that health says, the state and its receipt are those of the incident, transition,
  scenario and role of the request, and the request is the one the approved roles give for its event.
  A request is never more than a hint.\<close>
theorem published_state_is_live:
  assumes "run_incident_reassessment pu (reassess ad now) ob url r found changed published w = (Inr (Some (s, receipt)), w')"
  shows "\<exists>so. read_approved_signal (ad_ports ad) (rr_target r) (rr_workload_role r) now (ad_minutes ad) = Inr so
     \<and> is_lifecycle s = (if so_healthy so then IncidentResolved else IncidentActive)
     \<and> build_reassessment_request (po_platform (ad_ports ad)) (rr_trigger_event r) (ad_roles ad) = Inr r
     \<and> is_incident_id s = rr_incident_id r \<and> is_transition_id s = rr_idempotency_key r
     \<and> is_scenario s = rr_scenario r \<and> is_workload_role s = rr_workload_role r
     \<and> pr_incident_id receipt = rr_incident_id r"
proof -
  obtain result where v: "reassess ad now r = Inr result" and a: "answers_request r (vr_healthy result) (s, receipt)"
    using returns_run[OF plain.reassessment_keeps assms] by auto
  from reassess_Inr[OF v] a show ?thesis by (auto simp: answers_request_def expected_lifecycle_def)
qed

theorem published_state_is_live_witness:
  "map_option so_healthy (case read_approved_signal (demo_ports ''stopped'' (\<lambda>_ _. Delivered)) (rr_target demo_request)
     (rr_workload_role demo_request) 1 5 of Inl _ \<Rightarrow> None | Inr so \<Rightarrow> Some so) = Some False"
proof -
  obtain s receipt w where run: "feed_run ''stopped'' 1 empty_feed = (Inr (Some (s, receipt)), w)"
    and active: "is_lifecycle s = IncidentActive"
    by (rule run_returns)
  from published_state_is_live[OF run[unfolded feed_run_def]] active show ?thesis
    by (auto simp: demo_adapter_def split: if_splits)
qed

text \<open>C39. The publication of an incident is one update of the active index: the index it publishes has the
  entries of the index it was built from, but for its own incident, which is entered with exactly the
  fields of the state and its pointer if the state is active and removed if it is not; the entries are
  ordered and each incident has at most one, and the index is the one it was built from or a later one.\<close>
theorem publication_updates_one_entry:
  assumes "build_incident_publication fc sg s a published snapshot = Inr b" and "snapshot_ok fc snapshot"
  shows "entry_for (ip_index (pb_index b)) = (snapshot_entry snapshot)(is_incident_id s :=
      (if is_lifecycle s = IncidentActive
       then Some \<lparr>ae_incident_id = is_incident_id s, ae_scenario = is_scenario s, ae_workload_role = is_workload_role s,
          ae_pointer_path = ''./'' @ as_name (pb_pointer_asset b), ae_pointer_sha = as_sha (pb_pointer_asset b),
          ae_detected_at = is_detected_at s, ae_updated_at = is_updated_at s\<rparr>
       else None))
    \<and> index_valid (ip_index (pb_index b))
    \<and> (case snapshot of None \<Rightarrow> True | Some sn \<Rightarrow>
        ip_index (pb_index b) = sn_index sn \<or> ai_published_at (sn_index sn) < ai_published_at (ip_index (pb_index b)))"
  using incident_publication_Inr(5,10)[OF assms]
  by (cases snapshot) (auto simp: differs_at_def snapshot_entry_def fun_eq_iff)

theorem publication_updates_one_entry_witness:
  "map_option ae_scenario (entry_for (ip_index (pb_index (projr demo_publication))) ''inc-aaaaaaaaaaa4'')
     = Some SingletonDatabaseFailure"
proof -
  have built: "build_incident_publication demo_codec (pu_signing demo_publisher) demo_state demo_attestation 2
      (Some quiet_snapshot) = Inr (projr demo_publication)"
    using demo_publication_made by (simp add: demo_publication_def sum.collapse(2))
  have "is_incident_id demo_state = ''inc-aaaaaaaaaaa4''" "is_lifecycle demo_state = IncidentActive"
    "is_scenario demo_state = SingletonDatabaseFailure"
    by (simp_all add: demo_state_def)
  with publication_updates_one_entry[OF built quiet_snapshot_ok] show ?thesis by simp
qed

text \<open>C40. A heartbeat that returns leaves an index that agrees with what was observed: the index it
  returns is not older than the heartbeat, is ordered with at most one entry for each incident, has
  an entry for every activated observation, and every entry is that of an activated observation, with
  its scenario and role. This holds also when another writer publishes in between and when the
  heartbeat tries again.\<close>
theorem heartbeat_matches_observations:
  assumes "run_active_incident_index_heartbeat pu published observations w = (Inr sn, w')"
  shows "published \<le> ai_published_at (sn_index sn) \<and> index_valid (sn_index sn)
     \<and> (\<forall>r \<in> set observations. rr_lifecycle r = EventActivated \<longrightarrow> entry_for (sn_index sn) (rr_incident_id r) \<noteq> None)
     \<and> (\<forall>i e. entry_for (sn_index sn) i = Some e \<longrightarrow> (\<exists>r \<in> set observations. rr_lifecycle r = EventActivated
          \<and> rr_incident_id r = i \<and> ae_scenario e = rr_scenario r \<and> ae_workload_role e = rr_workload_role r))"
  using returns_run[OF plain.heartbeat_keeps assms] unfolding beat_ok_def matches_def by blast

theorem heartbeat_matches_observations_witness:
  "list_all (\<lambda>i. 2 \<le> ai_published_at i \<and> entry_for i ''inc-aaaaaaaaaaa4'' = None)
     (map sn_index [projr (fst (beat quiet_feed))])"
proof -
  obtain sn w where run: "beat quiet_feed = (Inr sn, w)" by (rule beat_returns)
  note ok = heartbeat_matches_observations[OF run[unfolded beat_def]]
  have "entry_for (sn_index sn) ''inc-aaaaaaaaaaa4'' = None"
    using ok by (cases "entry_for (sn_index sn) ''inc-aaaaaaaaaaa4''") auto
  with ok run show ?thesis by simp
qed

end
