(* ===== verification/Spec2Isabelle.thy ===== *)
theory Spec2Isabelle
  imports ApiProperties PolicyProperties EventProperties IncidentProperties
begin

text \<open>
  A verification of the core of the Athena workload context (\<open>src/src/athena_context\<close>). The
  program keeps reviewed manifests of Azure workloads, resolves them into profiles per environment,
  evaluates the constraints of a profile against collected evidence, watches the approved resources of
  a workload for changes of health, and publishes the incidents it verifies as a signed feed. Five parts
  are modelled: the lifecycle of manifests, the resolution of profiles, the policy engine, the events
  from Azure with the scheduled detector, and the incident feed, which reads health with the detector's
  functions and receives the detector's requests. All stand on the shared text and list theories.

  \<^bold>\<open>Theories and code.\<close>
  \<^item> \<open>Prelude\<close>, \<open>PyText\<close>, \<open>KeyedDict\<close>: results as \<open>error + 'a\<close> with \<open>bindR\<close>, \<open>guardR\<close>, \<open>mapR\<close>,
    \<open>allR\<close>, \<open>foldR\<close>; Python text and decimal numbers over ASCII; dicts as association lists.
  \<^item> \<open>ApiDomain\<close>, \<open>Commands\<close> (\<open>api/domain.py\<close>, \<open>api/errors.py\<close>, \<open>api/operational_context.py\<close>):
    records, enums, validators and commands.
  \<^item> \<open>Authorization\<close> (\<open>api/authorization.py\<close>): the permission table and \<open>RoleBasedAuthorization\<close>.
  \<^item> \<open>AuditChain\<close> (\<open>api/audit.py\<close>): the hash-chained history; \<open>Store\<close> (\<open>api/memory.py\<close>): the
    in-memory store and its transactions.
  \<^item> \<open>Service\<close>, \<open>Lifecycle\<close> (\<open>api/service.py\<close>): the handlers inside a transaction, then the public
    methods with authorization, idempotency keys and commit or rollback. \<open>service_call\<close> is one call.
  \<^item> \<open>DraftMachine\<close>, \<open>StoreMachine\<close>, \<open>Invariants\<close>, \<open>Publication\<close>, \<open>Growth\<close>: the abstract draft
    state machine, reachable stores, the invariants of reachable stores and how stores grow.
  \<^item> \<open>ResourceId\<close> (\<open>binding/normalization.py\<close>), \<open>Selectors\<close> (\<open>binding/selectors.py\<close> and the
    selector functions of \<open>contracts/manifest.py\<close>): resource identifiers, the evaluation of selectors
    over an inventory, and the static analyses of narrowing and overlap.
  \<^item> \<open>PolicyModel\<close> (\<open>contracts/manifest.py\<close>), \<open>PolicyEval\<close> (\<open>policy/domain.py\<close>), \<open>Evaluator\<close>
    (\<open>policy/evaluator.py\<close>): resolved profiles and evidence, one constraint, the whole profile.
  \<^item> \<open>ProfileChecks\<close> (\<open>contracts/manifest.py\<close>, \<open>validate_resolved_manifest_profile\<close>): digests,
    compatibility, the reference graph, contradictory requirements, protected constraints.
  \<^item> \<open>ManifestModel\<close>, \<open>Inheritance\<close>, \<open>Weakening\<close>, \<open>Resolution\<close> (\<open>contracts/manifest.py\<close>): manifests and
    their profiles, the walk up a lineage and the roles a profile inherits, the checks that a child
    weakens an inherited item only under an override, and the assembly of the resolved profile.
  \<^item> \<open>EventModel\<close> (\<open>contracts/eventing.py\<close>, \<open>eventing/normalization.py\<close>, \<open>eventing/routing.py\<close>): the
    payloads of Azure, their normalized events and the requests they are routed to.
  \<^item> \<open>Detector\<close> (\<open>eventing/detector.py\<close>): signals, checkpoints, and a run as a sequence of effects on the
    state store and the broker.
  \<^item> \<open>IncidentModel\<close> (\<open>contracts/eventing.py\<close>, \<open>presentation_assets.py\<close>), \<open>IncidentFeed\<close>
    (\<open>eventing/incident_state.py\<close>): incident states, pointers, the active index, and what is built to be
    published; \<open>BlobPublisher\<close> (\<open>azure_adapters.py\<close>): the class \<open>AzureBlobIncidentAssetPublisher\<close> over a
    container that others write to as well; \<open>Reassessment\<close> (\<open>eventing/runtime.py\<close>,
    \<open>eventing/orchestrator.py\<close>): the live reassessment, the run for one request, the heartbeat.
  \<^item> \<open>SelectorFacts\<close>, \<open>ProfileFacts\<close>, \<open>PolicyFacts\<close>, \<open>InheritanceFacts\<close>, \<open>ResolutionFacts\<close>,
    \<open>DetectorFacts\<close>, \<open>DetectorRuns\<close>, \<open>IncidentFacts\<close>, \<open>FeedSafety\<close>, \<open>FeedRuns\<close>: the lemmas of these
    components; \<open>Example\<close>, \<open>PolicyExample\<close>, \<open>EventExample\<close>, \<open>IncidentExample\<close>: a worked lifecycle,
    profile, deployment and feed for the witnesses.
  \<^item> \<open>ApiProperties\<close> (C1 to C15), \<open>PolicyProperties\<close> (C16 to C32), \<open>EventProperties\<close> (C33 to C36),
    \<open>IncidentProperties\<close> (C37 to C40): the properties.

  \<^bold>\<open>State and effects.\<close> A handler takes the store and returns an error or a
  response with the next store. A transaction works on a copy that replaces the store on commit. Every
  exception the modelled code can raise is a value of \<open>api_error\<close>,
  \<open>athena_error\<close> or \<open>event_error\<close>, including Python's own
  \<open>KeyError\<close> and \<open>StopIteration\<close>. The policy engine and the resolution are
  pure. A run of the detector or of the feed can fail between any two effects, so it is an action: it
  returns the error or the value together with the world it leaves. The world of the feed is the blob
  container, with the writes of this process recorded; before each of its calls others may have
  changed the container. Loops that the source does not bound by a list are \<open>function\<close>s
  with a measure, or \<open>partial_function (option)\<close> where \<open>None\<close> is not
  returning (\<open>lineage_loop\<close>, \<open>roles_for\<close>); that they return is proved (C30).
  No fuel is used; the three attempts of \<open>heartbeat_attempts\<close> are those of the source.

  \<^bold>\<open>What the lemmas show.\<close> For the lifecycle: nothing is published without a
  human review, a human approval and a human publisher, a publication goes through exactly when
  nothing it rests on is stale, published versions form one chain per manifest, histories are
  immutable, hash-chained and cover every revision, calls are atomic, no call runs twice under
  one idempotency key, and every successful call was authorized. For the policy engine: verdicts fail
  closed, accepted risks are justified and nothing else is accepted, findings are bounded, ordered and independent of the order
  of the evidence, and a successful evaluation covers every constraint. For profiles: the check for
  contradictions is exact against a specification by satisfiability, validation raises only its own
  error, roles that pass select disjoint resources of any inventory, inherited selectors only narrow,
  and the resolution returns valid profiles in which every requirement is at least the inherited one
  or was weakened by an override. Selector semantics is stated by \<open>selector_selects\<close>, a
  predicate on one resource, and the locale \<open>selection\<close> carries what narrowing and
  overlap need of it; it is interpreted for criteria and for whole selectors. For events: routing is
  decided by the approved roles, and a payload that is delivered again is the same event. For the
  detector, the locale \<open>checkpoint_store\<close> carries the contract of its state store: in
  every world that any runs reach, failed ones included, the reports of a resource alternate, and a
  run that returns has settled every approved resource, provided that no approved identifier changes
  when it is brought into canonical form a second time (\<open>stable_ids\<close>, which the detector
  does not check). For the feed, the locale
  \<open>incident_publisher\<close> carries the contract of its publisher, and it is interpreted for
  every predicate that is needed: no write loses what others wrote, a published state is the health
  that was read for the resource of the request, a publication updates one entry of the index, and a
  heartbeat that returns agrees with what was observed.

  \<^bold>\<open>Parameters.\<close> SHA-256 digests and RFC 8785 canonical JSON are functions
  (\<open>env\<close>, \<open>digests\<close>, \<open>cj\<close>, \<open>platform\<close>); a theorem
  that needs them to separate its inputs says so. The clock is an argument. The JSON text in which a receipt keeps a
  response, and what pydantic reads back from it, are the fields \<open>env_response_json\<close> and
  \<open>env_parse_response\<close> of \<open>env\<close>; nothing is assumed of them, so a replay
  may fail or differ from the first response (C5 says when it does not). The profile resolution and
  selector provenance checks that the lifecycle handlers call are fields of \<open>env\<close>. The
  verifier of an evidence context and the capability that permits new selector identities are
  callbacks of the callers, and arguments here. Evidence references are a type parameter. The Azure
  reader and the broker of the detector are \<open>ports\<close>; a message may be refused, delivered,
  or delivered although the call fails. The blob service decides the failures of its calls, the
  versions and the entity tags of blobs, which are never used twice (\<open>fresh_tags\<close>), and
  what other writers do. Canonical bytes of the feed, their parsing, signatures and base64 are a
  \<open>feed_codec\<close>; no theorem needs more of it than that it is a function. Python's time
  formats and \<open>str\<close> of values are fields of \<open>platform\<close>.

  \<^bold>\<open>Bounds.\<close> 128 characters of an identifier, 1000 references of a finding, 30000
  identifiers of a selector evaluation, 20 selectors of a role, 10000 replicas, ten minutes of
  freshness, 18 approved resources, 64 active incidents and the byte limits of the feed (64, 24 and 16
  KiB) are the source's own constants. Text is ASCII, so NFC is the identity; instants are integers
  (microseconds), always with a time zone; floats are rationals, two infinities and NaN, which is
  exact for comparison; that a bound is satisfiable means by such a number, be it a double or not.

  \<^bold>\<open>Not modelled.\<close> Of the service: \<open>compare_versions\<close> and the
  evaluation methods. Of manifests: the audit block, the digests and the check against a predecessor.
  Of the store: the evaluation and cohort collections. Of eventing: change ingestion, the queue loops
  of \<open>runtime.py\<close> with their delivery store, the second version of the notifications, and
  the detector's Azure table store. Of the adapters: all but the incident publisher. The constant
  fields of classes, the closing character of a notification (it is not ASCII) and the checks of
  Python types are left out. The binding, correlation, enrichment and guidance engines and the cohort
  services are pure in large part; no part of them is modelled. Token authentication, the other Azure
  adapters, collectors, the durable store, HTTP, command line, agent and presentation are I/O or glue
  over third-party packages.
\<close>

end
